(* ===== verification/Prelude.thy ===== *)
theory Prelude
  imports Main
begin

section \<open>Programs that pass a state and may fail\<close>

text \<open>
  What every component of the development shares. A Go function that talks to the API server,
  the clock or the package variables is a function from the state to an outcome and the next
  state. The outcome separates the four ways in which such a function can end:
  \<^item> \<open>Ok a\<close>: it returned \<open>a\<close> and a nil error;
  \<^item> \<open>Err e\<close>: it returned the error \<open>e\<close>;
  \<^item> \<open>Panic\<close>: it panicked (nil map assignment, nil dereference, slice bounds);
  \<^item> \<open>Hang\<close>: it never returns (a busy-wait on a flag that nobody raises).
  \<open>bindM\<close> is the statement sequence with the usual \<open>if err != nil { return err }\<close>;
  \<open>attempt\<close> gives the error to the caller as a value, for the places where the code
  inspects it, logs it or goes on.
\<close>

named_theorems prog_simps "evaluation of the program combinators on a state"
named_theorems preserves_intros "introduction rules for preserved state predicates"
named_theorems returned_intros "rules for returned"

subsection \<open>Errors and outcomes\<close>

text \<open>
  An error value, as far as the code looks at it: the answer of apimachinery's
  \<open>errors.IsNotFound\<close> for it and its text.
\<close>

record error =
  isNotFound :: bool
  errorText :: string

definition plain_error :: "string \<Rightarrow> error" where
  "plain_error t = \<lparr>isNotFound = False, errorText = t\<rparr>"

lemma plain_error_sel [simp]:
  "isNotFound (plain_error t) = False"
  "errorText (plain_error t) = t"
  by (simp_all add: plain_error_def)

datatype 'a outcome = Ok 'a | Err error | Panic | Hang

type_synonym ('s, 'a) prog = "'s \<Rightarrow> 'a outcome \<times> 's"

definition returned :: "'a outcome \<Rightarrow> bool" where
  "returned r \<longleftrightarrow> (case r of Ok _ \<Rightarrow> True | Err _ \<Rightarrow> True | Panic \<Rightarrow> False | Hang \<Rightarrow> False)"

lemma returned_simps [simp]:
  "returned (Ok a)" "returned (Err e)" "\<not> returned Panic" "\<not> returned Hang"
  by (simp_all add: returned_def)

subsection \<open>Combinators\<close>

definition ret :: "'a \<Rightarrow> ('s, 'a) prog" where
  "ret a = (\<lambda>s. (Ok a, s))"

definition throw :: "error \<Rightarrow> ('s, 'a) prog" where
  "throw e = (\<lambda>s. (Err e, s))"

definition crash :: "('s, 'a) prog" where
  "crash = (\<lambda>s. (Panic, s))"

definition bindM :: "('s, 'a) prog \<Rightarrow> ('a \<Rightarrow> ('s, 'b) prog) \<Rightarrow> ('s, 'b) prog" where
  "bindM m f = (\<lambda>s. case m s of
      (Ok a, t) \<Rightarrow> f a t
    | (Err e, t) \<Rightarrow> (Err e, t)
    | (Panic, t) \<Rightarrow> (Panic, t)
    | (Hang, t) \<Rightarrow> (Hang, t))"

definition attempt :: "('s, 'a) prog \<Rightarrow> ('s, error + 'a) prog" where
  "attempt m = (\<lambda>s. case m s of
      (Ok a, t) \<Rightarrow> (Ok (Inr a), t)
    | (Err e, t) \<Rightarrow> (Ok (Inl e), t)
    | (Panic, t) \<Rightarrow> (Panic, t)
    | (Hang, t) \<Rightarrow> (Hang, t))"

definition thenM :: "('s, 'a) prog \<Rightarrow> ('s, 'b) prog \<Rightarrow> ('s, 'b) prog" where
  "thenM m k = bindM m (\<lambda>_. k)"

text \<open>A \<open>range\<close> loop that stops at the first error.\<close>

primrec forEach :: "'a list \<Rightarrow> ('a \<Rightarrow> ('s, unit) prog) \<Rightarrow> ('s, unit) prog" where
  "forEach [] f = ret ()"
| "forEach (x # xs) f = bindM (f x) (\<lambda>_. forEach xs f)"

text \<open>A call whose error is only logged.\<close>

definition logged :: "('s, 'a) prog \<Rightarrow> ('s, unit) prog" where
  "logged m = bindM (attempt m) (\<lambda>_. ret ())"

lemma ret_eval [prog_simps]: "ret a s = (Ok a, s)"
  by (simp add: ret_def)

lemma throw_eval [prog_simps]: "throw e s = (Err e, s)"
  by (simp add: throw_def)

lemma crash_eval [prog_simps]: "crash s = (Panic, s)"
  by (simp add: crash_def)

lemma bindM_eval [prog_simps]:
  "m s = (Ok a, t) \<Longrightarrow> bindM m f s = f a t"
  "m s = (Err e, t) \<Longrightarrow> bindM m f s = (Err e, t)"
  "m s = (Panic, t) \<Longrightarrow> bindM m f s = (Panic, t)"
  "m s = (Hang, t) \<Longrightarrow> bindM m f s = (Hang, t)"
  by (simp_all add: bindM_def)

lemma bindM_at: "m s = m' t \<Longrightarrow> bindM m f s = bindM m' f t"
  by (simp add: bindM_def)

lemma attempt_eval [prog_simps]:
  "m s = (Ok a, t) \<Longrightarrow> attempt m s = (Ok (Inr a), t)"
  "m s = (Err e, t) \<Longrightarrow> attempt m s = (Ok (Inl e), t)"
  "m s = (Panic, t) \<Longrightarrow> attempt m s = (Panic, t)"
  "m s = (Hang, t) \<Longrightarrow> attempt m s = (Hang, t)"
  by (simp_all add: attempt_def)

lemma thenM_eval [prog_simps]:
  "m s = (Ok a, t) \<Longrightarrow> thenM m k s = k t"
  "m s = (Err e, t) \<Longrightarrow> thenM m k s = (Err e, t)"
  "m s = (Panic, t) \<Longrightarrow> thenM m k s = (Panic, t)"
  "m s = (Hang, t) \<Longrightarrow> thenM m k s = (Hang, t)"
  by (simp_all add: thenM_def bindM_def)

lemma logged_eval [prog_simps]:
  "m s = (Ok a, t) \<Longrightarrow> logged m s = (Ok (), t)"
  "m s = (Err e, t) \<Longrightarrow> logged m s = (Ok (), t)"
  "m s = (Panic, t) \<Longrightarrow> logged m s = (Panic, t)"
  "m s = (Hang, t) \<Longrightarrow> logged m s = (Hang, t)"
  by (simp_all add: logged_def bindM_def attempt_def ret_def)

lemma bindM_ret_left [simp]: "bindM (ret a) f = f a"
  by (simp add: bindM_def ret_def)

lemma bindM_throw [simp]: "bindM (throw e) f = throw e"
  by (simp add: bindM_def throw_def)

lemma bindM_crash [simp]: "bindM crash f = crash"
  by (simp add: bindM_def crash_def)

lemma attempt_ret [simp]: "attempt (ret a) = ret (Inr a)"
  by (simp add: attempt_def ret_def)

lemma attempt_throw [simp]: "attempt (throw e) = ret (Inl e)"
  by (simp add: attempt_def ret_def throw_def)

lemma bindM_assoc: "bindM (bindM m f) g = bindM m (\<lambda>a. bindM (f a) g)"
  by (rule ext) (simp add: bindM_def split: prod.splits outcome.splits)

lemma bindM_if: "bindM (if b then m else n) f = (if b then bindM m f else bindM n f)"
  by simp

lemma bindM_cases:
  assumes "bindM m f s = (r, t)"
  obtains (ok) a u where "m s = (Ok a, u)" "f a u = (r, t)"
  | (err) e where "m s = (Err e, t)" "r = Err e"
  | (panic) "m s = (Panic, t)" "r = Panic"
  | (hang) "m s = (Hang, t)" "r = Hang"
  using assms by (auto simp: bindM_def split: prod.splits outcome.splits)

lemma bindM_OkE:
  assumes "bindM m f s = (Ok b, t)"
  obtains a u where "m s = (Ok a, u)" "f a u = (Ok b, t)"
  using assms by (auto simp: bindM_def split: prod.splits outcome.splits)

lemma attempt_OkE:
  assumes "attempt m s = (Ok r, t)"
  obtains (inr) a where "m s = (Ok a, t)" "r = Inr a"
  | (inl) e where "m s = (Err e, t)" "r = Inl e"
  using assms by (auto simp: attempt_def split: prod.splits outcome.splits)

lemma forEach_append:
  "forEach (xs @ ys) f = bindM (forEach xs f) (\<lambda>_. forEach ys f)"
  by (induction xs) (simp_all add: bindM_assoc)

text \<open>\<open>yields m a\<close>: \<open>a\<close> is a value that \<open>m\<close> can return.\<close>

definition yields :: "('s, 'a) prog \<Rightarrow> 'a \<Rightarrow> bool" where
  "yields m a \<longleftrightarrow> (\<exists>s t. m s = (Ok a, t))"

lemma yieldsI: "m s = (Ok a, t) \<Longrightarrow> yields m a"
  by (auto simp: yields_def)

lemma yields_simps [simp]:
  "yields (ret a) b \<longleftrightarrow> b = a"
  "\<not> yields (throw e) b"
  "\<not> yields crash b"
  by (auto simp: yields_def ret_def throw_def crash_def)

lemma yields_bindM: "yields (bindM m f) b \<Longrightarrow> \<exists>a. yields m a \<and> yields (f a) b"
  by (auto simp: yields_def elim!: bindM_OkE)

subsection \<open>Programs that return\<close>

lemma returned_bindM [returned_intros]:
  assumes "returned (fst (m s))" and "\<And>a t. m s = (Ok a, t) \<Longrightarrow> returned (fst (f a t))"
  shows "returned (fst (bindM m f s))"
  using assms by (auto simp: bindM_def split: prod.split outcome.split)

lemma returned_attempt [returned_intros]: "returned (fst (m s)) \<Longrightarrow> returned (fst (attempt m s))"
  by (auto simp: attempt_def returned_def split: prod.splits outcome.splits)

lemma returned_ret [returned_intros]: "returned (fst (ret a s))"
  by (simp add: ret_def)

subsection \<open>Preserved predicates\<close>

text \<open>
  \<open>preserves P m\<close>: whatever way \<open>m\<close> ends, the state predicate \<open>P\<close> holds after
  it when it held before. The rules follow the combinators, so the proof for a whole handler
  is a sequence of rule applications down to its API calls.
\<close>

definition preserves :: "('s \<Rightarrow> bool) \<Rightarrow> ('s, 'a) prog \<Rightarrow> bool" where
  "preserves P m \<longleftrightarrow> (\<forall>s. P s \<longrightarrow> P (snd (m s)))"

lemma preservesI: "(\<And>s. P s \<Longrightarrow> P (snd (m s))) \<Longrightarrow> preserves P m"
  by (simp add: preserves_def)

lemma preservesD: "preserves P m \<Longrightarrow> P s \<Longrightarrow> P (snd (m s))"
  by (simp add: preserves_def)

lemma preserves_run: "preserves P m \<Longrightarrow> P s \<Longrightarrow> m s = (r, t) \<Longrightarrow> P t"
  using preservesD [of P m s] by simp

lemma preserves_ret [preserves_intros]: "preserves P (ret a)"
  by (simp add: preserves_def ret_def)

lemma preserves_throw [preserves_intros]: "preserves P (throw e)"
  by (simp add: preserves_def throw_def)

lemma preserves_crash [preserves_intros]: "preserves P crash"
  by (simp add: preserves_def crash_def)

lemma preserves_bindM [preserves_intros]:
  assumes "preserves P m" and "\<And>a. preserves P (f a)"
  shows "preserves P (bindM m f)"
proof (rule preservesI)
  fix s assume "P s"
  then have "P (snd (m s))" by (rule preservesD [OF assms(1)])
  then show "P (snd (bindM m f s))"
    using assms(2) by (auto simp: bindM_def preserves_def split: prod.splits outcome.splits)
qed

lemma preserves_attempt [preserves_intros]:
  assumes "preserves P m"
  shows "preserves P (attempt m)"
proof (rule preservesI)
  fix s assume "P s"
  then have "P (snd (m s))" by (rule preservesD [OF assms])
  then show "P (snd (attempt m s))"
    by (auto simp: attempt_def split: prod.splits outcome.splits)
qed

lemma preserves_thenM [preserves_intros]:
  "preserves P m \<Longrightarrow> preserves P k \<Longrightarrow> preserves P (thenM m k)"
  unfolding thenM_def by (intro preserves_intros)

lemma preserves_logged [preserves_intros]: "preserves P m \<Longrightarrow> preserves P (logged m)"
  unfolding logged_def by (intro preserves_intros)

lemma preserves_forEach [preserves_intros]:
  "(\<And>x. x \<in> set xs \<Longrightarrow> preserves P (f x)) \<Longrightarrow> preserves P (forEach xs f)"
  by (induction xs) (auto intro!: preserves_intros)

lemma preserves_if [preserves_intros]:
  "(b \<Longrightarrow> preserves P m) \<Longrightarrow> (\<not> b \<Longrightarrow> preserves P n) \<Longrightarrow> preserves P (if b then m else n)"
  by simp

lemma preserves_case_sum [preserves_intros]:
  "(\<And>e. r = Inl e \<Longrightarrow> preserves P (f e)) \<Longrightarrow> (\<And>a. r = Inr a \<Longrightarrow> preserves P (g a)) \<Longrightarrow>
    preserves P (case r of Inl e \<Rightarrow> f e | Inr a \<Rightarrow> g a)"
  by (cases r) simp_all

lemma preserves_case_option [preserves_intros]:
  "(r = None \<Longrightarrow> preserves P m) \<Longrightarrow> (\<And>a. r = Some a \<Longrightarrow> preserves P (g a)) \<Longrightarrow>
    preserves P (case r of None \<Rightarrow> m | Some a \<Rightarrow> g a)"
  by (cases r) simp_all

lemma preserves_case_prod [preserves_intros]:
  "(\<And>a b. r = (a, b) \<Longrightarrow> preserves P (f a b)) \<Longrightarrow> preserves P (case r of (a, b) \<Rightarrow> f a b)"
  by (cases r) simp_all

subsection \<open>Total correctness\<close>

text \<open>From every state with \<open>P\<close> the program succeeds, with a result and state in \<open>Q\<close>.\<close>

definition runs :: "('s \<Rightarrow> bool) \<Rightarrow> ('s, 'a) prog \<Rightarrow> ('a \<Rightarrow> 's \<Rightarrow> bool) \<Rightarrow> bool" where
  "runs P m Q \<longleftrightarrow> (\<forall>s. P s \<longrightarrow> (\<exists>a t. m s = (Ok a, t) \<and> Q a t))"

lemma runsI: "(\<And>s. P s \<Longrightarrow> \<exists>a t. m s = (Ok a, t) \<and> Q a t) \<Longrightarrow> runs P m Q"
  by (simp add: runs_def)

lemma runsE:
  assumes "runs P m Q" "P s"
  obtains a t where "m s = (Ok a, t)" "Q a t"
  using assms unfolding runs_def by blast

lemma runs_conseq:
  "runs P m Q \<Longrightarrow> (\<And>s. P' s \<Longrightarrow> P s) \<Longrightarrow> (\<And>a t. Q a t \<Longrightarrow> Q' a t) \<Longrightarrow> runs P' m Q'"
  unfolding runs_def by blast

lemma runs_ret: "(\<And>s. P s \<Longrightarrow> Q a s) \<Longrightarrow> runs P (ret a) Q"
  by (simp add: runs_def ret_def)

lemma runs_bindM:
  assumes "runs P m R" "\<And>a. runs (R a) (f a) Q"
  shows "runs P (bindM m f) Q"
proof (rule runsI)
  fix s
  assume "P s"
  then obtain a t where m: "m s = (Ok a, t)" "R a t" by (rule runsE [OF assms(1)])
  show "\<exists>b u. bindM m f s = (Ok b, u) \<and> Q b u"
    using assms(2) [of a] m(2) unfolding bindM_eval(1) [where m = m, OF m(1)] runs_def by blast
qed

lemma runs_thenM: "runs P m (\<lambda>_. R) \<Longrightarrow> runs R k Q \<Longrightarrow> runs P (thenM m k) Q"
  unfolding thenM_def by (rule runs_bindM)

lemma runs_forEach_Cons:
  "runs P (f x) (\<lambda>_. R) \<Longrightarrow> runs R (forEach xs f) Q \<Longrightarrow> runs P (forEach (x # xs) f) Q"
  by (simp add: runs_bindM)

lemma runs_forEach:
  assumes "\<And>x. x \<in> set xs \<Longrightarrow> runs P (f x) (\<lambda>_. P)"
  shows "runs P (forEach xs f) (\<lambda>_. P)"
  using assms by (induction xs) (auto intro: runs_ret runs_bindM)

subsection \<open>Evolution of the state\<close>

text \<open>
  \<open>triple E P m Q\<close>: from a state with \<open>P\<close>, every run of \<open>m\<close>, however it
  ends, changes the state only as \<open>E\<close> allows, and a value it returns satisfies \<open>Q\<close>.
  \<open>E\<close> is a preorder on states: what this component and the others acting at the same
  time may do. A precondition is \<open>stable\<close> when no such change invalidates it.
\<close>

definition triple ::
  "('s \<Rightarrow> 's \<Rightarrow> bool) \<Rightarrow> ('s \<Rightarrow> bool) \<Rightarrow> ('s, 'a) prog \<Rightarrow> ('a \<Rightarrow> 's \<Rightarrow> bool) \<Rightarrow> bool" where
  "triple E P m Q \<longleftrightarrow>
     (\<forall>s. P s \<longrightarrow> E s (snd (m s)) \<and> (\<forall>a. fst (m s) = Ok a \<longrightarrow> Q a (snd (m s))))"

definition stable :: "('s \<Rightarrow> 's \<Rightarrow> bool) \<Rightarrow> ('s \<Rightarrow> bool) \<Rightarrow> bool" where
  "stable E P \<longleftrightarrow> (\<forall>s t. E s t \<longrightarrow> P s \<longrightarrow> P t)"

lemma tripleI:
  "(\<And>s r t. P s \<Longrightarrow> m s = (r, t) \<Longrightarrow> E s t \<and> (\<forall>a. r = Ok a \<longrightarrow> Q a t)) \<Longrightarrow> triple E P m Q"
  unfolding triple_def by (metis prod.collapse)

lemma tripleD:
  "triple E P m Q \<Longrightarrow> P s \<Longrightarrow> E s (snd (m s))"
  "triple E P m Q \<Longrightarrow> P s \<Longrightarrow> fst (m s) = Ok a \<Longrightarrow> Q a (snd (m s))"
  by (auto simp: triple_def)

lemma triple_weaken:
  assumes "triple E P m Q" "\<And>s. P' s \<Longrightarrow> P s" "\<And>a s. Q a s \<Longrightarrow> Q' a s"
  shows "triple E P' m Q'"
  using assms by (auto simp: triple_def)

lemma triple_pre: "triple E P m Q \<Longrightarrow> (\<And>s. P' s \<Longrightarrow> P s) \<Longrightarrow> triple E P' m Q"
  by (rule triple_weaken)

lemma triple_post: "triple E P m Q \<Longrightarrow> (\<And>a s. Q a s \<Longrightarrow> Q' a s) \<Longrightarrow> triple E P m Q'"
  by (rule triple_weaken)

lemma triple_pre_fact: "(A \<Longrightarrow> triple E P m Q) \<Longrightarrow> triple E (\<lambda>s. A \<and> P s) m Q"
  by (auto simp: triple_def)

lemma triple_frame:
  assumes "triple E P m Q" "stable E F"
  shows "triple E (\<lambda>s. P s \<and> F s) m (\<lambda>a s. Q a s \<and> F s)"
  using assms by (auto simp: triple_def stable_def)

lemma triple_if:
  "(b \<Longrightarrow> triple E P m Q) \<Longrightarrow> (\<not> b \<Longrightarrow> triple E P n Q) \<Longrightarrow> triple E P (if b then m else n) Q"
  by simp

lemma triple_case_sum:
  "(\<And>e. r = Inl e \<Longrightarrow> triple E P (f e) Q) \<Longrightarrow> (\<And>a. r = Inr a \<Longrightarrow> triple E P (g a) Q) \<Longrightarrow>
    triple E P (case r of Inl e \<Rightarrow> f e | Inr a \<Rightarrow> g a) Q"
  by (cases r) simp_all

lemma triple_case_option:
  "(r = None \<Longrightarrow> triple E P m Q) \<Longrightarrow> (\<And>a. r = Some a \<Longrightarrow> triple E P (g a) Q) \<Longrightarrow>
    triple E P (case r of None \<Rightarrow> m | Some a \<Rightarrow> g a) Q"
  by (cases r) simp_all

locale evolution =
  fixes E :: "'s \<Rightarrow> 's \<Rightarrow> bool"
  assumes E_refl: "E s s"
    and E_trans: "E s t \<Longrightarrow> E t u \<Longrightarrow> E s u"
begin

lemma triple_ret: "(\<And>s. P s \<Longrightarrow> Q a s) \<Longrightarrow> triple E P (ret a) Q"
  by (simp add: triple_def ret_def E_refl)

lemma triple_throw: "triple E P (throw e) Q"
  by (simp add: triple_def throw_def E_refl)

lemma triple_crash: "triple E P crash Q"
  by (simp add: triple_def crash_def E_refl)

lemma triple_bindM:
  assumes "triple E P m R" and "\<And>a. triple E (R a) (f a) Q"
  shows "triple E P (bindM m f) Q"
proof (rule tripleI)
  fix s r t
  assume P: "P s" and run: "bindM m f s = (r, t)"
  from run show "E s t \<and> (\<forall>a. r = Ok a \<longrightarrow> Q a t)"
  proof (cases rule: bindM_cases)
    case (ok a u)
    then have "E s u" "R a u"
      using tripleD [OF assms(1) P] by auto
    moreover have "E u t \<and> (\<forall>b. r = Ok b \<longrightarrow> Q b t)"
      using tripleD [OF assms(2) \<open>R a u\<close>] ok by auto
    ultimately show ?thesis by (blast intro: E_trans)
  qed (use tripleD(1) [OF assms(1) P] in auto)
qed

lemma triple_thenM:
  "triple E P m (\<lambda>_. R) \<Longrightarrow> triple E R k Q \<Longrightarrow> triple E P (thenM m k) Q"
  unfolding thenM_def by (rule triple_bindM)

lemma triple_attempt:
  assumes "triple E P m R" "stable E S" "\<And>s. P s \<Longrightarrow> S s"
    and "\<And>a s. R a s \<Longrightarrow> Q (Inr a) s" "\<And>e s. S s \<Longrightarrow> Q (Inl e) s"
  shows "triple E P (attempt m) Q"
proof (rule tripleI)
  fix s r t
  assume P: "P s" and run: "attempt m s = (r, t)"
  have E: "E s (snd (m s))" by (rule tripleD(1) [OF assms(1) P])
  then have S: "S (snd (m s))"
    using assms(2) assms(3) [OF P] by (auto simp: stable_def)
  show "E s t \<and> (\<forall>a. r = Ok a \<longrightarrow> Q a t)"
    using run E S tripleD(2) [OF assms(1) P] assms(4,5)
    by (auto simp: attempt_def split: prod.splits outcome.splits)
qed

lemma triple_logged:
  assumes "triple E P m (\<lambda>_. R)" "stable E R" "\<And>s. P s \<Longrightarrow> R s"
  shows "triple E P (logged m) (\<lambda>_. R)"
  unfolding logged_def
  by (rule triple_bindM [where R = "\<lambda>_. R"], rule triple_attempt [OF assms(1,2,3)])
    (auto intro: triple_ret)

lemma triple_forEach:
  assumes "\<And>x. x \<in> set xs \<Longrightarrow> triple E P (f x) (\<lambda>_. P)"
  shows "triple E P (forEach xs f) (\<lambda>_. P)"
  using assms by (induction xs) (auto intro: triple_ret triple_bindM)

end

end
