(* ===== verification/Go_Std.thy ===== *)
theory Go_Std
  imports Prelude "HOL-Library.Signed_Division"
begin

section \<open>The Go standard library, as far as the operator uses it\<close>

text \<open>
  Strings are byte sequences (\<open>string\<close>, one \<open>char\<close> per byte), as in Go. The
  section holds \<open>strings.Split\<close>, \<open>strings.Join\<close>, \<open>strings.Contains\<close>,
  \<open>strconv.Itoa\<close>, \<open>strconv.Atoi\<close>, 64-bit integer arithmetic, the layout
  \<open>2006-01-02 15:04:05\<close> of \<open>time.Format\<close> and the JSON encoder for the values the
  code encodes.
\<close>

subsection \<open>64-bit integers\<close>

text \<open>Go's \<open>int\<close> and \<open>int64\<close> on a 64-bit target: two's complement, wrapping.\<close>

definition wrap64 :: "int \<Rightarrow> int" where
  "wrap64 x = (x + 2 ^ 63) mod 2 ^ 64 - 2 ^ 63"

definition int64 :: "int \<Rightarrow> bool" where
  "int64 x \<longleftrightarrow> - (2 ^ 63) \<le> x \<and> x < 2 ^ 63"

definition int32 :: "int \<Rightarrow> bool" where
  "int32 x \<longleftrightarrow> - (2 ^ 31) \<le> x \<and> x < 2 ^ 31"

lemma wrap64_id: "int64 x \<Longrightarrow> wrap64 x = x"
  by (simp add: wrap64_def int64_def)

lemma wrap64_range: "int64 (wrap64 x)"
  by (simp add: wrap64_def int64_def)

definition mul64 :: "int \<Rightarrow> int \<Rightarrow> int" where
  "mul64 a b = wrap64 (a * b)"

definition sub64 :: "int \<Rightarrow> int \<Rightarrow> int" where
  "sub64 a b = wrap64 (a - b)"

text \<open>Integer division truncates towards zero.\<close>

definition quot64 :: "int \<Rightarrow> int \<Rightarrow> int" where
  "quot64 a b = wrap64 (a sdiv b)"

lemma int32_int64: "int32 x \<Longrightarrow> int64 x"
  by (simp add: int32_def int64_def)

lemma quot64_nonneg: "0 \<le> a \<Longrightarrow> 0 < b \<Longrightarrow> int64 a \<Longrightarrow> quot64 a b = a div b"
proof -
  assume a: "0 \<le> a" "0 < b" "int64 a"
  have eq: "a sdiv b = a div b"
    using a by (simp add: signed_divide_int_def sgn_if)
  have "0 \<le> a div b" "a div b \<le> a"
    using a by (simp_all add: pos_imp_zdiv_nonneg_iff int_div_less_self zdiv_mono2 [of a 1 b, simplified])
  then have "int64 (a div b)"
    using a by (simp add: int64_def)
  then show ?thesis
    by (simp add: quot64_def eq wrap64_id)
qed

subsection \<open>strings\<close>

fun strip_prefix :: "string \<Rightarrow> string \<Rightarrow> string option" where
  "strip_prefix [] s = Some s"
| "strip_prefix (p # ps) [] = None"
| "strip_prefix (p # ps) (c # cs) = (if p = c then strip_prefix ps cs else None)"

lemma strip_prefix_Some: "strip_prefix p s = Some r \<longleftrightarrow> s = p @ r"
  by (induction p s rule: strip_prefix.induct) auto

lemma strip_prefix_append [simp]: "strip_prefix p (p @ r) = Some r"
  by (simp add: strip_prefix_Some)

text \<open>\<open>strings.Cut\<close>: the text before and after the first occurrence of a separator.\<close>

fun cut :: "string \<Rightarrow> string \<Rightarrow> (string \<times> string) option" where
  "cut sep [] = (if sep = [] then Some ([], []) else None)"
| "cut sep (c # cs) = (case strip_prefix sep (c # cs) of
      Some r \<Rightarrow> Some ([], r)
    | None \<Rightarrow> (case cut sep cs of
          None \<Rightarrow> None
        | Some (before, after) \<Rightarrow> Some (c # before, after)))"

lemma cut_Some: "cut sep s = Some (b, a) \<Longrightarrow> s = b @ sep @ a"
proof (induction sep s arbitrary: b rule: cut.induct)
  case (1 sep)
  then show ?case by (simp split: if_splits)
next
  case (2 sep c cs)
  then show ?case
    by (auto split: option.splits simp: strip_prefix_Some simp del: strip_prefix.simps)
qed

lemma cut_append:
  assumes "CHR ''-'' \<notin> set p"
  shows "cut (CHR ''-'' # sep) (p @ (CHR ''-'' # sep) @ s) = Some (p, s)"
  using assms
proof (induction p)
  case Nil
  have "cut (CHR ''-'' # sep) (CHR ''-'' # (sep @ s)) = Some ([], s)"
    by (simp only: cut.simps) simp
  then show ?case by simp
next
  case (Cons c p)
  then show ?case by auto
qed

definition contains :: "string \<Rightarrow> string \<Rightarrow> bool" where
  "contains s sub \<longleftrightarrow> cut sub s \<noteq> None"

text \<open>
  \<open>strings.Split\<close> for a separator that is not empty (the code splits at a constant
  only); an empty separator is outside the uses and returns the whole string.
\<close>

function go_split :: "string \<Rightarrow> string \<Rightarrow> string list" where
  "go_split sep s = (if sep = [] then [s] else (case cut sep s of
      None \<Rightarrow> [s]
    | Some (before, after) \<Rightarrow> before # go_split sep after))"
  by pat_completeness auto
termination
proof (relation "measure (\<lambda>(sep, s). length s)", goal_cases)
  case 1
  show ?case by simp
next
  case (2 sep s x before after)
  then have "s = before @ sep @ after" by (auto dest: cut_Some)
  with 2 show ?case by simp
qed

declare go_split.simps [simp del]

fun go_join :: "string \<Rightarrow> string list \<Rightarrow> string" where
  "go_join sep [] = []"
| "go_join sep [x] = x"
| "go_join sep (x # y # ys) = x @ sep @ go_join sep (y # ys)"

lemma go_split_not_empty: "go_split sep s \<noteq> []"
  by (subst go_split.simps) (simp split: option.split)

lemma go_join_Cons: "ys \<noteq> [] \<Longrightarrow> go_join sep (x # ys) = x @ sep @ go_join sep ys"
  by (cases ys) simp_all

text \<open>Joining the parts of a split gives the string back.\<close>

lemma go_join_split: "go_join sep (go_split sep s) = s"
proof (induction sep s rule: go_split.induct)
  case (1 sep s)
  show ?case
  proof (cases "sep = [] \<or> cut sep s = None")
    case True
    then show ?thesis by (subst go_split.simps) auto
  next
    case False
    then obtain b a where c: "sep \<noteq> []" "cut sep s = Some (b, a)" by auto
    have "go_join sep (go_split sep a) = a"
      using c by (intro "1.IH") auto
    then show ?thesis
      using c by (subst go_split.simps)
        (simp add: go_join_Cons go_split_not_empty cut_Some [symmetric])
  qed
qed

subsection \<open>strconv\<close>

definition digit :: "nat \<Rightarrow> char" where
  "digit d = char_of (48 + d)"

fun nat_digits :: "nat \<Rightarrow> string" where
  "nat_digits n = (if n < 10 then [digit n] else nat_digits (n div 10) @ [digit (n mod 10)])"

declare nat_digits.simps [simp del]

definition itoa :: "int \<Rightarrow> string" where
  "itoa i = (if i < 0 then CHR ''-'' # nat_digits (nat (- i)) else nat_digits (nat i))"

definition is_digit :: "char \<Rightarrow> bool" where
  "is_digit c \<longleftrightarrow> 48 \<le> (of_char c :: nat) \<and> (of_char c :: nat) \<le> 57"

definition digits_value :: "string \<Rightarrow> nat" where
  "digits_value s = foldl (\<lambda>n c. 10 * n + (of_char c - 48)) 0 s"

definition parse_digits :: "string \<Rightarrow> nat option" where
  "parse_digits s = (if s \<noteq> [] \<and> list_all is_digit s then Some (digits_value s) else None)"

text \<open>\<open>strconv.Atoi\<close>: an optional sign, decimal digits, the result within 64 bits.\<close>

definition atoi :: "string \<Rightarrow> int option" where
  "atoi s =
     (case (case s of
         [] \<Rightarrow> None
       | c # cs \<Rightarrow>
           if c = CHR ''-'' then map_option (\<lambda>n. - int n) (parse_digits cs)
           else if c = CHR ''+'' then map_option int (parse_digits cs)
           else map_option int (parse_digits s)) of
        None \<Rightarrow> None
      | Some i \<Rightarrow> if int64 i then Some i else None)"

lemma of_char_digit: "d < 10 \<Longrightarrow> (of_char (digit d) :: nat) = 48 + d"
  by (simp add: digit_def)

lemma is_digit_digit: "d < 10 \<Longrightarrow> is_digit (digit d)"
  by (simp add: is_digit_def of_char_digit)

lemma nat_digits_nonempty: "nat_digits n \<noteq> []"
  by (subst nat_digits.simps) simp

lemma nat_digits_all: "list_all is_digit (nat_digits n)"
proof (induction n rule: nat_digits.induct)
  case (1 n)
  then show ?case
    by (subst nat_digits.simps) (simp add: is_digit_digit)
qed

lemma digits_value_nat_digits: "digits_value (nat_digits n) = n"
proof (induction n rule: nat_digits.induct)
  case (1 n)
  then show ?case
    by (subst nat_digits.simps)
      (simp add: digits_value_def of_char_digit)
qed

lemma parse_nat_digits: "parse_digits (nat_digits n) = Some n"
  by (simp add: parse_digits_def nat_digits_nonempty nat_digits_all digits_value_nat_digits)

lemma nat_digits_hd: "nat_digits n = c # cs \<Longrightarrow> is_digit c"
  using nat_digits_all [of n] by simp

lemma nat_digits_inject: "nat_digits m = nat_digits n \<longleftrightarrow> m = n"
  using digits_value_nat_digits by metis

lemma sign_not_digit: "\<not> is_digit CHR ''-''" "\<not> is_digit CHR ''+''"
  by (simp_all add: is_digit_def)

lemma atoi_itoa:
  assumes "int64 i"
  shows "atoi (itoa i) = Some i"
proof (cases "i < 0")
  case True
  then show ?thesis
    using assms by (simp add: atoi_def itoa_def parse_nat_digits)
next
  case False
  obtain c cs where cs: "nat_digits (nat i) = c # cs"
    using nat_digits_nonempty by (meson neq_Nil_conv)
  then have "is_digit c" by (rule nat_digits_hd)
  then have "c \<noteq> CHR ''-''" "c \<noteq> CHR ''+''"
    using sign_not_digit by auto
  moreover have "parse_digits (c # cs) = Some (nat i)"
    using parse_nat_digits [of "nat i"] by (simp add: cs)
  ultimately show ?thesis
    using assms False by (simp add: atoi_def itoa_def cs)
qed

lemma itoa_inject: "itoa i = itoa j \<longleftrightarrow> i = j"
proof
  assume eq: "itoa i = itoa j"
  have sign: "CHR ''-'' # ds \<noteq> nat_digits n" for ds n
    using nat_digits_hd [of n "CHR ''-''" ds] sign_not_digit by metis
  show "i = j"
  proof (cases "i < 0"; cases "j < 0")
    assume "i < 0" "j < 0"
    with eq show ?thesis by (simp add: itoa_def nat_digits_inject)
  next
    assume "i < 0" "\<not> j < 0"
    with eq sign show ?thesis by (simp add: itoa_def)
  next
    assume "\<not> i < 0" "j < 0"
    with eq sign show ?thesis by (simp add: itoa_def) metis
  next
    assume "\<not> i < 0" "\<not> j < 0"
    with eq show ?thesis by (simp add: itoa_def nat_digits_inject)
  qed
qed simp

subsection \<open>time.Format\<close>

text \<open>
  Instants are nanoseconds since the Unix epoch, as \<open>time.Now\<close> reads them.
  \<open>time_unix\<close> is \<open>Time.Unix\<close>. The date of a day number is computed over
  400-year eras, with the year starting in March.
\<close>

definition second :: int where
  "second = 1000000000"

definition time_unix :: "int \<Rightarrow> int" where
  "time_unix ns = ns div second"

definition civil_date :: "int \<Rightarrow> int \<times> int \<times> int" where
  "civil_date days =
     (let z = days + 719468;
          era = z div 146097;
          doe = z mod 146097;
          yoe = (doe - doe div 1460 + doe div 36524 - doe div 146096) div 365;
          doy = doe - (365 * yoe + yoe div 4 - yoe div 100);
          mp = (5 * doy + 2) div 153;
          d = doy - (153 * mp + 2) div 5 + 1;
          m = (if mp < 10 then mp + 3 else mp - 9);
          y = yoe + era * 400 + (if m \<le> 2 then 1 else 0)
      in (y, m, d))"

definition pad :: "nat \<Rightarrow> int \<Rightarrow> string" where
  "pad n i = (let ds = itoa i in replicate (n - length ds) CHR ''0'' @ ds)"

definition format_datetime :: "int \<Rightarrow> string" where
  "format_datetime secs =
     (let (y, m, d) = civil_date (secs div 86400);
          t = secs mod 86400
      in pad 4 y @ ''-'' @ pad 2 m @ ''-'' @ pad 2 d @ '' '' @
         pad 2 (t div 3600) @ '':'' @ pad 2 (t div 60 mod 60) @ '':'' @ pad 2 (t mod 60))"

subsection \<open>encoding/json\<close>

datatype json =
    JNull
  | JBool bool
  | JInt int
  | JString string
  | JArray "json list"
  | JObject "(string \<times> json) list"

definition hex_digit :: "nat \<Rightarrow> char" where
  "hex_digit d = (if d < 10 then char_of (48 + d) else char_of (87 + d))"

definition backslash :: char where
  "backslash = CHR 0x5C"

definition unicode_escape :: "nat \<Rightarrow> string" where
  "unicode_escape n = [backslash, CHR ''u'', hex_digit (n div 4096 mod 16), hex_digit (n div 256 mod 16),
     hex_digit (n div 16 mod 16), hex_digit (n mod 16)]"

definition json_ascii :: "char \<Rightarrow> string" where
  "json_ascii c =
     (let b = (of_char c :: nat)
      in if b = 0x22 \<or> b = 0x5C then [backslash, c]
         else if b = 0x0A then [backslash, CHR ''n'']
         else if b = 0x0D then [backslash, CHR ''r'']
         else if b = 0x09 then [backslash, CHR ''t'']
         else if b < 0x20 \<or> b = 0x3C \<or> b = 0x3E \<or> b = 0x26 then unicode_escape b
         else [c])"

definition continuation :: "nat \<Rightarrow> bool" where
  "continuation b \<longleftrightarrow> 0x80 \<le> b \<and> b \<le> 0xBF"

text \<open>The length of the UTF-8 sequence at the head of a byte list, if there is a valid one.\<close>

definition rune_size :: "nat list \<Rightarrow> nat option" where
  "rune_size bs = (case bs of
      [] \<Rightarrow> None
    | b0 # r0 \<Rightarrow>
        if b0 < 0x80 then Some 1
        else if 0xC2 \<le> b0 \<and> b0 \<le> 0xDF then (case r0 of
            b1 # _ \<Rightarrow> if continuation b1 then Some 2 else None
          | _ \<Rightarrow> None)
        else if 0xE0 \<le> b0 \<and> b0 \<le> 0xEF then (case r0 of
            b1 # b2 # _ \<Rightarrow>
              if (if b0 = 0xE0 then 0xA0 else 0x80) \<le> b1 \<and> b1 \<le> (if b0 = 0xED then 0x9F else 0xBF)
                \<and> continuation b2 then Some 3 else None
          | _ \<Rightarrow> None)
        else if 0xF0 \<le> b0 \<and> b0 \<le> 0xF4 then (case r0 of
            b1 # b2 # b3 # _ \<Rightarrow>
              if (if b0 = 0xF0 then 0x90 else 0x80) \<le> b1 \<and> b1 \<le> (if b0 = 0xF4 then 0x8F else 0xBF)
                \<and> continuation b2 \<and> continuation b3 then Some 4 else None
          | _ \<Rightarrow> None)
        else None)"

text \<open>The body of a JSON string; invalid bytes become the replacement character.\<close>

function json_chars :: "string \<Rightarrow> string" where
  "json_chars s = (case s of
      [] \<Rightarrow> []
    | c # cs \<Rightarrow>
        if (of_char c :: nat) < 0x80 then json_ascii c @ json_chars cs
        else (case rune_size (map of_char s) of
            None \<Rightarrow> unicode_escape 0xFFFD @ json_chars cs
          | Some n \<Rightarrow>
              (if map of_char (take n s) = [0xE2, 0x80, 0xA8 :: nat] then unicode_escape 0x2028
               else if map of_char (take n s) = [0xE2, 0x80, 0xA9 :: nat] then unicode_escape 0x2029
               else take n s)
              @ json_chars (drop (n - 1) cs)))"
  by pat_completeness auto
termination
  by (relation "measure length") auto

declare json_chars.simps [simp del]

definition quote :: char where
  "quote = CHR 0x22"

definition json_quote :: "string \<Rightarrow> string" where
  "json_quote s = quote # json_chars s @ [quote]"

fun json_encode :: "json \<Rightarrow> string" where
  "json_encode JNull = ''null''"
| "json_encode (JBool b) = (if b then ''true'' else ''false'')"
| "json_encode (JInt i) = itoa i"
| "json_encode (JString s) = json_quote s"
| "json_encode (JArray xs) = ''['' @ go_join '','' (map json_encode xs) @ '']''"
| "json_encode (JObject fs) =
     ''{'' @ go_join '','' (map (\<lambda>(k, v). json_quote k @ '':'' @ json_encode v) fs) @ ''}''"

text \<open>A struct field whose tag says \<open>omitempty\<close>.\<close>

definition omit_empty :: "string \<Rightarrow> string \<Rightarrow> (string \<times> json) list" where
  "omit_empty k v = (if v = [] then [] else [(k, JString v)])"

end
