(* ===== verification/Constants.thy ===== *)
theory Constants
  imports Go_Std
begin

section \<open>Constants\<close>

text \<open>
  The string and number constants of \<open>controllers/utils/string_constant.go\<close>,
  \<open>controllers/utils/number_constant.go\<close>, \<open>controllers/utils/native/native_utils.go\<close>
  and of the two CRD type files, under their Go names. The status strings of a ChangePod and
  of a ChangeWorkload stay strings, as in the API objects.
\<close>

subsection \<open>utils\<close>

definition True_str :: string where "True_str = ''true''"
definition Enabled :: string where "Enabled = ''enabled''"
definition MetaMark :: string where "MetaMark = ''--x--''"
definition ResourceTypePod :: string where "ResourceTypePod = ''[**pod**]''"
definition ResourceTypeChangePod :: string where "ResourceTypeChangePod = ''[**changepod**]''"

definition AlterShieldOperatorNamespace :: string where
  "AlterShieldOperatorNamespace = ''altershieldoperator-system''"
definition ChangePodVerdictPass :: string where "ChangePodVerdictPass = ''pass''"
definition DefenseStatusLabelProcessed :: string where "DefenseStatusLabelProcessed = ''processed''"
definition ConfigTypeIsBranch :: string where "ConfigTypeIsBranch = ''isBranch''"
definition ConfigNameIsBranch :: string where "ConfigNameIsBranch = ''branch''"
definition ConfigTypeIsBlockingUp :: string where "ConfigTypeIsBlockingUp = ''isBlockingUp''"
definition ConfigNameIsBlockingUp :: string where "ConfigNameIsBlockingUp = ''blocking''"
definition ChangePodFieldStatus :: string where "ChangePodFieldStatus = ''changePod.status''"
definition ChangePodFieldChangePodId :: string where
  "ChangePodFieldChangePodId = ''changePod.changePodId''"
definition ChangePodFieldChangeWorkloadId :: string where
  "ChangePodFieldChangeWorkloadId = ''changePod.changeWorkloadId''"
definition ChangeWorkloadFieldStatus :: string where
  "ChangeWorkloadFieldStatus = ''changeWorkload.status''"
definition StringRecordSpecEffectiveTargetType :: string where
  "StringRecordSpecEffectiveTargetType = ''paas.pod''"
definition ChangePhase :: string where "ChangePhase = ''prod_phase''"
definition ChangeSceneKeyRollingUpdate :: string where
  "ChangeSceneKeyRollingUpdate = ''com.alipay.cafed.cloudrun.rollingupdate''"
definition DefaultTldcTenantCode :: string where "DefaultTldcTenantCode = ''MAYITNSC''"
definition DefaultCreator :: string where "DefaultCreator = ''altershieldoperator''"

definition OperateFinishedLabel :: string where
  "OperateFinishedLabel = ''altershield.defense.antgroup.com/operate-finished''"
definition DefenseStatusLabel :: string where
  "DefenseStatusLabel = ''altershield.defense.antgroup.com/defense-status''"
definition SuspendLabel :: string where
  "SuspendLabel = ''altershield.defense.antgroup.com/suspend''"
definition IgnoredSuspendLabel :: string where
  "IgnoredSuspendLabel = ''altershield.defense.antgroup.com/ignored-suspend''"

definition NumberZero :: int where "NumberZero = 0"
definition NumberOne :: int where "NumberOne = 1"
definition NumberTen :: int where "NumberTen = 10"
definition NumberOneHundred :: int where "NumberOneHundred = 100"
definition ChangeWorkloadWaitTimeThreshold :: int where "ChangeWorkloadWaitTimeThreshold = 60"
definition ChangePodPreTimeoutThreshold :: int where "ChangePodPreTimeoutThreshold = 120"
definition ChangePodPostTimeoutThreshold :: int where "ChangePodPostTimeoutThreshold = 120"

subsection \<open>native\<close>

definition AdmissionWebhookVersionLabel :: string where
  "AdmissionWebhookVersionLabel = ''admission-webhook-altershield.antgroup.com/version''"
definition DeploymentNameLabel :: string where
  "DeploymentNameLabel = ''app.kubernetes.io/deployment-name''"
definition AdmissionWebhookNamespaceLabel :: string where
  "AdmissionWebhookNamespaceLabel = ''admission-webhook-altershield''"
definition DeploymentKind :: string where "DeploymentKind = ''Deployment''"
definition ReplicaSetKind :: string where "ReplicaSetKind = ''ReplicaSet''"
definition PodStatusRunning :: string where "PodStatusRunning = ''Running''"
definition PodStatusTerminating :: string where "PodStatusTerminating = ''Terminating''"

lemmas label_defs = OperateFinishedLabel_def DefenseStatusLabel_def SuspendLabel_def
  IgnoredSuspendLabel_def AdmissionWebhookVersionLabel_def DeploymentNameLabel_def
  AdmissionWebhookNamespaceLabel_def

lemma labels_distinct [simp]:
  "distinct [OperateFinishedLabel, DefenseStatusLabel, SuspendLabel, IgnoredSuspendLabel,
     AdmissionWebhookVersionLabel, DeploymentNameLabel]"
  by (simp add: label_defs)

lemma labels_neq [simp]:
  "DefenseStatusLabel \<noteq> OperateFinishedLabel" "OperateFinishedLabel \<noteq> DefenseStatusLabel"
  "DefenseStatusLabel \<noteq> SuspendLabel" "SuspendLabel \<noteq> DefenseStatusLabel"
  "DefenseStatusLabel \<noteq> IgnoredSuspendLabel" "IgnoredSuspendLabel \<noteq> DefenseStatusLabel"
  "DefenseStatusLabel \<noteq> AdmissionWebhookVersionLabel"
  "AdmissionWebhookVersionLabel \<noteq> DefenseStatusLabel"
  "SuspendLabel \<noteq> IgnoredSuspendLabel" "IgnoredSuspendLabel \<noteq> SuspendLabel"
  "SuspendLabel \<noteq> AdmissionWebhookVersionLabel" "AdmissionWebhookVersionLabel \<noteq> SuspendLabel"
  "IgnoredSuspendLabel \<noteq> AdmissionWebhookVersionLabel"
  "AdmissionWebhookVersionLabel \<noteq> IgnoredSuspendLabel"
  "DeploymentNameLabel \<noteq> AdmissionWebhookVersionLabel"
  "AdmissionWebhookVersionLabel \<noteq> DeploymentNameLabel"
  "DeploymentNameLabel \<noteq> SuspendLabel" "SuspendLabel \<noteq> DeploymentNameLabel"
  "DeploymentNameLabel \<noteq> IgnoredSuspendLabel" "IgnoredSuspendLabel \<noteq> DeploymentNameLabel"
  "DeploymentNameLabel \<noteq> DefenseStatusLabel" "DefenseStatusLabel \<noteq> DeploymentNameLabel"
  "DeploymentNameLabel \<noteq> OperateFinishedLabel" "OperateFinishedLabel \<noteq> DeploymentNameLabel"
  "OperateFinishedLabel \<noteq> AdmissionWebhookVersionLabel"
  "AdmissionWebhookVersionLabel \<noteq> OperateFinishedLabel"
  by (simp_all add: label_defs)

subsection \<open>Status strings of a ChangePod\<close>

definition ExecuteInit :: string where "ExecuteInit = ''''"
definition PreWait :: string where "PreWait = ''PreWait''"
definition PreSubmitted :: string where "PreSubmitted = ''PreSubmitted''"
definition PreTimeout :: string where "PreTimeout = ''PreTimeout''"
definition PreFailed :: string where "PreFailed = ''PreFailed''"
definition PostWait :: string where "PostWait = ''PostWait''"
definition PostSubmitted :: string where "PostSubmitted = ''PostSubmitted''"
definition PostFinish :: string where "PostFinish = ''PostFinish''"
definition PostTimeout :: string where "PostTimeout = ''PostTimeout''"
definition PostFailed :: string where "PostFailed = ''PostFailed''"
definition ExecuteDone :: string where "ExecuteDone = ''ExecuteDone''"

lemmas changePod_status_defs = ExecuteInit_def PreWait_def PreSubmitted_def PreTimeout_def
  PreFailed_def PostWait_def PostSubmitted_def PostFinish_def PostTimeout_def PostFailed_def
  ExecuteDone_def

subsection \<open>Status strings of a ChangeWorkload\<close>

definition Init :: string where "Init = ''''"
definition Running :: string where "Running = ''Running''"
definition Success :: string where "Success = ''Success''"
definition Failed :: string where "Failed = ''Failed''"
definition Suspend :: string where "Suspend = ''Suspend''"
definition TimeOutPreThreshold :: string where "TimeOutPreThreshold = ''TimeOutPreThreshold''"

lemmas changeWorkload_status_defs = Init_def Running_def Success_def Failed_def Suspend_def
  TimeOutPreThreshold_def

end
