(* ===== verification/Api_Types.thy ===== *)
theory Api_Types
  imports Constants
begin

section \<open>API objects\<close>

text \<open>
  The objects the operator reads and writes. \<open>objectMeta\<close> is the embedded
  \<open>metav1.ObjectMeta\<close>, so the objects are record extensions of it and \<open>Name\<close>,
  \<open>Labels\<close> and the others read any of them. For the Kubernetes types (Pod, Deployment,
  ReplicaSet, Namespace) the records hold the fields the code reads or writes; what a pod
  template holds besides its labels is opaque. ChangePod, ChangeWorkload and OpsConfigInfo are
  the three CRDs of \<open>apis/app.ops.cloud.alipay.com/v1alpha1\<close>, with all their fields.
\<close>

subsection \<open>Go maps of labels\<close>

text \<open>
  A Go map is nil (\<open>None\<close>) or allocated. Reading a nil map finds nothing and deleting from
  it does nothing, but writing to it panics.
\<close>

type_synonym labels = "(string \<rightharpoonup> string) option"

definition lookup_label :: "labels \<Rightarrow> string \<Rightarrow> string option" where
  "lookup_label l k = (case l of None \<Rightarrow> None | Some m \<Rightarrow> m k)"

definition has_label :: "labels \<Rightarrow> string \<Rightarrow> bool" where
  "has_label l k \<longleftrightarrow> lookup_label l k \<noteq> None"

definition get_label :: "labels \<Rightarrow> string \<Rightarrow> string" where
  "get_label l k = (case lookup_label l k of None \<Rightarrow> '''' | Some v \<Rightarrow> v)"

definition delete_label :: "string \<Rightarrow> labels \<Rightarrow> labels" where
  "delete_label k l = map_option (\<lambda>m. m(k := None)) l"

definition put_label :: "string \<Rightarrow> string \<Rightarrow> labels \<Rightarrow> labels" where
  "put_label k v l = map_option (\<lambda>m. m(k \<mapsto> v)) l"

lemma lookup_label_simps [simp]:
  "lookup_label None k = None"
  "lookup_label (Some m) k = m k"
  by (simp_all add: lookup_label_def)

lemma lookup_put_label [simp]:
  "l \<noteq> None \<Longrightarrow> lookup_label (put_label k v l) k' = (if k' = k then Some v else lookup_label l k')"
  by (auto simp: put_label_def)

lemma lookup_delete_label [simp]:
  "lookup_label (delete_label k l) k' = (if k' = k then None else lookup_label l k')"
  by (cases l) (auto simp: delete_label_def)

lemma put_label_eq_None [simp]: "put_label k v l = None \<longleftrightarrow> l = None"
  by (simp add: put_label_def)

lemma delete_label_eq_None [simp]: "delete_label k l = None \<longleftrightarrow> l = None"
  by (simp add: delete_label_def)

lemma has_label_None [simp]: "\<not> has_label None k"
  by (simp add: has_label_def)

subsection \<open>metav1\<close>

record namespacedName =
  nnNamespace :: string
  nnName :: string

record ownerReference =
  refKind :: string
  refName :: string

record objectMeta =
  Namespace :: string
  Name :: string
  Labels :: labels
  OwnerReferences :: "ownerReference list"
  ResourceVersion :: nat

definition obj_key :: "'a objectMeta_scheme \<Rightarrow> namespacedName" where
  "obj_key obj = \<lparr>nnNamespace = Namespace obj, nnName = Name obj\<rparr>"

lemma obj_key_updates [simp]:
  "obj_key (obj\<lparr>Labels := l\<rparr>) = obj_key obj"
  "obj_key (obj\<lparr>OwnerReferences := os\<rparr>) = obj_key obj"
  "obj_key (obj\<lparr>ResourceVersion := v\<rparr>) = obj_key obj"
  by (simp_all add: obj_key_def)

text \<open>\<open>obj.Labels[k] = v\<close>\<close>

definition set_label :: "string \<Rightarrow> string \<Rightarrow> 'a objectMeta_scheme \<Rightarrow> ('s, 'a objectMeta_scheme) prog" where
  "set_label k v obj =
     (if Labels obj = None then crash else ret (obj\<lparr>Labels := put_label k v (Labels obj)\<rparr>))"

subsection \<open>core/v1 and apps/v1\<close>

record pod = objectMeta +
  podPhase :: string
  podIP :: string
  podStartTime :: "int option"

record podTemplate =
  tmplLabels :: labels
  tmplBody :: string

record deployment = objectMeta +
  depReplicas :: "int option"
  depMatchLabels :: "(string \<times> string) list option"
  depTemplate :: podTemplate
  depPaused :: bool
  depStatusReplicas :: int
  depStatusReady :: int
  depStatusAvailable :: int
  depStatusUpdated :: int

record replicaSet = objectMeta +
  rsTemplate :: podTemplate
  rsStatusReplicas :: int
  rsStatusReady :: int
  rsStatusAvailable :: int

type_synonym namespaceObj = objectMeta

subsection \<open>v1alpha1\<close>

record podSummary =
  psApp :: string
  psHostname :: string
  psWorkspace :: string
  psPod :: string
  psIp :: string
  psNamespace :: string
  psVerdict :: string
  psMessage :: string

record changePodSpec =
  cpPodInfos :: "podSummary list"
  cpCreateTime :: string
  cpCreateTimeUnix :: int
  cpChangeWorkloadId :: string

record changePodStatus =
  cpStatusStatus :: string
  cpUpdateTime :: string
  cpUpdateTimeUnix :: int
  cpPodResults :: "podSummary list"
  cpMessage :: string
  cpChangePodId :: string
  cpPreSubmitTime :: string
  cpPreSubmitTimeUnix :: int
  cpPostSubmitTime :: string
  cpPostSubmitTimeUnix :: int
  cpPreTimeoutThreshold :: int
  cpPostTimeoutThreshold :: int

record changePod = objectMeta +
  cpSpec :: changePodSpec
  cpStatus :: changePodStatus

record changeWorkloadSpec =
  cwChangeWorkloadId :: string
  cwServiceName :: string
  cwReversion :: string
  cwPolicies :: nat
  cwCountThreshold :: int
  cwWaitTimeThreshold :: int
  cwCreateTime :: string
  cwCreateTimeUnix :: int
  cwAppName :: string

record changeWorkloadStatus =
  cwDefensePreparingPods :: "podSummary list"
  cwDefenseCheckingPods :: "podSummary list"
  cwDefenseCheckPassPods :: "podSummary list"
  cwDefenseCheckFailPods :: "podSummary list"
  cwStatusStatus :: string
  cwEntryTime :: string
  cwEntryTimeUnix :: int
  cwUpdateTime :: string
  cwUpdateTimeUnix :: int

record changeWorkload = objectMeta +
  cwSpec :: changeWorkloadSpec
  cwStatus :: changeWorkloadStatus

record opsConfigInfo = objectMeta +
  ociType :: string
  ociContent :: string
  ociRemark :: string
  ociEnable :: bool

text \<open>
  \<open>Policies\<close> is a slice of the empty struct \<open>DefensePolicy\<close>, so its length is all
  it holds. \<open>obj.Status.Status\<close> under its two names:
\<close>

abbreviation changePodState :: "changePod \<Rightarrow> string" where
  "changePodState cp \<equiv> cpStatusStatus (cpStatus cp)"

abbreviation changeWorkloadState :: "changeWorkload \<Rightarrow> string" where
  "changeWorkloadState cw \<equiv> cwStatusStatus (cwStatus cw)"

subsection \<open>Zero values\<close>

definition zeroMeta :: objectMeta where
  "zeroMeta = \<lparr>Namespace = '''', Name = '''', Labels = None, OwnerReferences = [], ResourceVersion = 0\<rparr>"

definition zeroTemplate :: podTemplate where
  "zeroTemplate = \<lparr>tmplLabels = None, tmplBody = ''''\<rparr>"

definition zeroDeployment :: deployment where
  "zeroDeployment = objectMeta.extend zeroMeta
     \<lparr>depReplicas = None, depMatchLabels = None, depTemplate = zeroTemplate, depPaused = False,
      depStatusReplicas = 0, depStatusReady = 0, depStatusAvailable = 0, depStatusUpdated = 0\<rparr>"

definition zeroReplicaSet :: replicaSet where
  "zeroReplicaSet = objectMeta.extend zeroMeta
     \<lparr>rsTemplate = zeroTemplate, rsStatusReplicas = 0, rsStatusReady = 0, rsStatusAvailable = 0\<rparr>"

definition zeroChangePodStatus :: changePodStatus where
  "zeroChangePodStatus = \<lparr>cpStatusStatus = '''', cpUpdateTime = '''', cpUpdateTimeUnix = 0,
     cpPodResults = [], cpMessage = '''', cpChangePodId = '''', cpPreSubmitTime = '''',
     cpPreSubmitTimeUnix = 0, cpPostSubmitTime = '''', cpPostSubmitTimeUnix = 0,
     cpPreTimeoutThreshold = 0, cpPostTimeoutThreshold = 0\<rparr>"

definition zeroChangePod :: changePod where
  "zeroChangePod = objectMeta.extend zeroMeta
     \<lparr>cpSpec = \<lparr>cpPodInfos = [], cpCreateTime = '''', cpCreateTimeUnix = 0, cpChangeWorkloadId = ''''\<rparr>,
      cpStatus = zeroChangePodStatus\<rparr>"

definition zeroChangeWorkloadStatus :: changeWorkloadStatus where
  "zeroChangeWorkloadStatus = \<lparr>cwDefensePreparingPods = [], cwDefenseCheckingPods = [],
     cwDefenseCheckPassPods = [], cwDefenseCheckFailPods = [], cwStatusStatus = '''',
     cwEntryTime = '''', cwEntryTimeUnix = 0, cwUpdateTime = '''', cwUpdateTimeUnix = 0\<rparr>"

definition zeroChangeWorkload :: changeWorkload where
  "zeroChangeWorkload = objectMeta.extend zeroMeta
     \<lparr>cwSpec = \<lparr>cwChangeWorkloadId = '''', cwServiceName = '''', cwReversion = '''', cwPolicies = 0,
        cwCountThreshold = 0, cwWaitTimeThreshold = 0, cwCreateTime = '''', cwCreateTimeUnix = 0,
        cwAppName = ''''\<rparr>,
      cwStatus = zeroChangeWorkloadStatus\<rparr>"

definition zeroOpsConfigInfo :: opsConfigInfo where
  "zeroOpsConfigInfo = objectMeta.extend zeroMeta
     \<lparr>ociType = '''', ociContent = '''', ociRemark = '''', ociEnable = False\<rparr>"

lemmas zero_defs = zeroMeta_def zeroTemplate_def zeroDeployment_def zeroReplicaSet_def
  zeroChangePodStatus_def zeroChangePod_def zeroChangeWorkloadStatus_def zeroChangeWorkload_def
  zeroOpsConfigInfo_def objectMeta.extend_def

subsection \<open>Merge patches\<close>

text \<open>
  What \<open>client.MergeFrom\<close> makes of a status: a JSON merge patch carries the fields that
  differ between base and argument, and the server sets exactly these; a list is one field.
\<close>

definition merged :: "'a \<Rightarrow> 'a \<Rightarrow> 'a \<Rightarrow> 'a" where
  "merged base new cur = (if new = base then cur else new)"

definition mergeChangePodStatus :: "changePodStatus \<Rightarrow> changePodStatus \<Rightarrow> changePodStatus \<Rightarrow> changePodStatus" where
  "mergeChangePodStatus b n c =
     \<lparr>cpStatusStatus = merged (cpStatusStatus b) (cpStatusStatus n) (cpStatusStatus c),
      cpUpdateTime = merged (cpUpdateTime b) (cpUpdateTime n) (cpUpdateTime c),
      cpUpdateTimeUnix = merged (cpUpdateTimeUnix b) (cpUpdateTimeUnix n) (cpUpdateTimeUnix c),
      cpPodResults = merged (cpPodResults b) (cpPodResults n) (cpPodResults c),
      cpMessage = merged (cpMessage b) (cpMessage n) (cpMessage c),
      cpChangePodId = merged (cpChangePodId b) (cpChangePodId n) (cpChangePodId c),
      cpPreSubmitTime = merged (cpPreSubmitTime b) (cpPreSubmitTime n) (cpPreSubmitTime c),
      cpPreSubmitTimeUnix = merged (cpPreSubmitTimeUnix b) (cpPreSubmitTimeUnix n) (cpPreSubmitTimeUnix c),
      cpPostSubmitTime = merged (cpPostSubmitTime b) (cpPostSubmitTime n) (cpPostSubmitTime c),
      cpPostSubmitTimeUnix = merged (cpPostSubmitTimeUnix b) (cpPostSubmitTimeUnix n) (cpPostSubmitTimeUnix c),
      cpPreTimeoutThreshold = merged (cpPreTimeoutThreshold b) (cpPreTimeoutThreshold n) (cpPreTimeoutThreshold c),
      cpPostTimeoutThreshold = merged (cpPostTimeoutThreshold b) (cpPostTimeoutThreshold n) (cpPostTimeoutThreshold c)\<rparr>"

definition mergeChangeWorkloadStatus ::
  "changeWorkloadStatus \<Rightarrow> changeWorkloadStatus \<Rightarrow> changeWorkloadStatus \<Rightarrow> changeWorkloadStatus" where
  "mergeChangeWorkloadStatus b n c =
     \<lparr>cwDefensePreparingPods = merged (cwDefensePreparingPods b) (cwDefensePreparingPods n) (cwDefensePreparingPods c),
      cwDefenseCheckingPods = merged (cwDefenseCheckingPods b) (cwDefenseCheckingPods n) (cwDefenseCheckingPods c),
      cwDefenseCheckPassPods = merged (cwDefenseCheckPassPods b) (cwDefenseCheckPassPods n) (cwDefenseCheckPassPods c),
      cwDefenseCheckFailPods = merged (cwDefenseCheckFailPods b) (cwDefenseCheckFailPods n) (cwDefenseCheckFailPods c),
      cwStatusStatus = merged (cwStatusStatus b) (cwStatusStatus n) (cwStatusStatus c),
      cwEntryTime = merged (cwEntryTime b) (cwEntryTime n) (cwEntryTime c),
      cwEntryTimeUnix = merged (cwEntryTimeUnix b) (cwEntryTimeUnix n) (cwEntryTimeUnix c),
      cwUpdateTime = merged (cwUpdateTime b) (cwUpdateTime n) (cwUpdateTime c),
      cwUpdateTimeUnix = merged (cwUpdateTimeUnix b) (cwUpdateTimeUnix n) (cwUpdateTimeUnix c)\<rparr>"

lemma merged_simps [simp]:
  "merged b b c = c"
  "merged b n b = n"
  "n \<noteq> b \<Longrightarrow> merged b n c = n"
  by (simp_all add: merged_def)

text \<open>On an unchanged object a patch is an update.\<close>

lemma merge_current:
  "mergeChangePodStatus b n b = n"
  "mergeChangeWorkloadStatus d m d = m"
  by (simp_all add: mergeChangePodStatus_def mergeChangeWorkloadStatus_def)

end
