(* ===== verification/Config_State.thy ===== *)
theory Config_State
  imports Constants
begin

section \<open>The package variables of config.go\<close>

text \<open>
  The operator's dynamic configuration (\<open>controllers/utils/config.go\<close>): three values and,
  for each, whether it was ever received. They are written by one goroutine only, the
  \<open>select\<close> loop of \<open>ConfigRun\<close>, which receives from three unbuffered channels;
  \<open>configStep\<close> is one turn of that loop.
\<close>

record configState =
  configIsBatch :: bool
  configBatchCount :: int
  configIsBlockingUp :: bool
  configIsBatchIsReady :: bool
  configBatchCountReady :: bool
  configIsBlockingUpIsReady :: bool

definition initialConfig :: configState where
  "initialConfig = \<lparr>configIsBatch = False, configBatchCount = 1, configIsBlockingUp = True,
     configIsBatchIsReady = False, configBatchCountReady = False, configIsBlockingUpIsReady = False\<rparr>"

datatype configMsg =
    IsBatchMsg bool
  | BatchCountMsg int
  | IsBlockingUpMsg bool

fun configStep :: "configMsg \<Rightarrow> configState \<Rightarrow> configState" where
  "configStep (IsBatchMsg b) c =
     (let c = c\<lparr>configIsBatch := b\<rparr>
      in if \<not> configIsBatchIsReady c then c\<lparr>configIsBatchIsReady := True\<rparr> else c)"
| "configStep (BatchCountMsg n) c =
     (let c = c\<lparr>configBatchCount := n\<rparr>
      in if \<not> configBatchCountReady c then c\<lparr>configBatchCountReady := True\<rparr> else c)"
| "configStep (IsBlockingUpMsg b) c =
     (let c = c\<lparr>configIsBlockingUp := b\<rparr>
      in if \<not> configIsBlockingUpIsReady c then c\<lparr>configIsBlockingUpIsReady := True\<rparr> else c)"

definition configRun :: "configMsg list \<Rightarrow> configState \<Rightarrow> configState" where
  "configRun ms c = foldl (\<lambda>c m. configStep m c) c ms"

text \<open>The value of each variable after a run is the last one sent on its channel.\<close>

fun lastIsBatch :: "bool \<Rightarrow> configMsg list \<Rightarrow> bool" where
  "lastIsBatch d [] = d"
| "lastIsBatch d (IsBatchMsg b # ms) = lastIsBatch b ms"
| "lastIsBatch d (BatchCountMsg n # ms) = lastIsBatch d ms"
| "lastIsBatch d (IsBlockingUpMsg b # ms) = lastIsBatch d ms"

lemma configStep_config_id:
  "configIsBatchIsReady c \<Longrightarrow> configIsBatchIsReady (configStep m c)"
  "configBatchCountReady c \<Longrightarrow> configBatchCountReady (configStep m c)"
  "configIsBlockingUpIsReady c \<Longrightarrow> configIsBlockingUpIsReady (configStep m c)"
  by (cases m; simp add: Let_def)+

lemma configRun_simps [simp]:
  "configRun [] c = c"
  "configRun (m # ms) c = configRun ms (configStep m c)"
  by (simp_all add: configRun_def)

lemma configRun_append: "configRun (ms @ ns) c = configRun ns (configRun ms c)"
  by (simp add: configRun_def)

lemma configRun_ready:
  "configIsBatchIsReady (configRun ms c) \<longleftrightarrow>
     configIsBatchIsReady c \<or> (\<exists>b. IsBatchMsg b \<in> set ms)"
  "configBatchCountReady (configRun ms c) \<longleftrightarrow>
     configBatchCountReady c \<or> (\<exists>n. BatchCountMsg n \<in> set ms)"
  "configIsBlockingUpIsReady (configRun ms c) \<longleftrightarrow>
     configIsBlockingUpIsReady c \<or> (\<exists>b. IsBlockingUpMsg b \<in> set ms)"
proof (induction ms arbitrary: c)
  case (Cons m ms)
  {
    case 1
    then show ?case by (cases m) (auto simp: Cons.IH Let_def)
  next
    case 2
    then show ?case by (cases m) (auto simp: Cons.IH Let_def)
  next
    case 3
    then show ?case by (cases m) (auto simp: Cons.IH Let_def)
  }
qed simp_all

lemma configRun_isBatch: "configIsBatch (configRun ms c) = lastIsBatch (configIsBatch c) ms"
  by (induction "configIsBatch c" ms arbitrary: c rule: lastIsBatch.induct) (auto simp: Let_def)

end
