(* ===== verification/Client.thy ===== *)
theory Client
  imports Api_Types Config_State "HOL-Library.List_Lexorder" "HOL-Library.Char_ord"
begin

section \<open>The environment: API server, clock, HTTP\<close>

text \<open>
  What lies outside the repository is a parameter: the API server behind
  controller-runtime's \<open>client.Client\<close>, the wall clock, the other goroutines during a
  \<open>time.Sleep\<close>, the HTTP transport, and the encoders of foreign types. \<open>env\<close> is
  that parameter; its operations act on an abstract external state \<open>'e\<close>. The state of a
  program is the pair of the package variables of the operator and the external state.
\<close>

subsection \<open>List options\<close>

record listOpts =
  inNamespace :: "string option"
  matchingLabels :: "(string \<times> string) list"
  hasLabels :: "string list"
  matchingFields :: "(string \<times> string) list"

definition anyOpts :: listOpts where
  "anyOpts = \<lparr>inNamespace = None, matchingLabels = [], hasLabels = [], matchingFields = []\<rparr>"

text \<open>Which objects a list call selects; \<open>index\<close> holds the registered field indexers.\<close>

definition selected ::
  "(string \<Rightarrow> 'a objectMeta_scheme \<Rightarrow> string list) \<Rightarrow> listOpts \<Rightarrow> 'a objectMeta_scheme \<Rightarrow> bool" where
  "selected index opts obj \<longleftrightarrow>
     (case inNamespace opts of None \<Rightarrow> True | Some ns \<Rightarrow> ns = '''' \<or> Namespace obj = ns) \<and>
     list_all (\<lambda>(k, v). lookup_label (Labels obj) k = Some v) (matchingLabels opts) \<and>
     list_all (\<lambda>k. has_label (Labels obj) k) (hasLabels opts) \<and>
     list_all (\<lambda>(f, v). v \<in> set (index f obj)) (matchingFields opts)"

subsection \<open>The client of one kind of object\<close>

text \<open>
  \<open>Get\<close>, \<open>List\<close>, \<open>Create\<close>, \<open>Update\<close>, \<open>Delete\<close>,
  \<open>Patch(obj, MergeFrom(base))\<close>, and \<open>Update\<close> and \<open>Patch\<close> of
  \<open>client.Status()\<close>. A write that succeeds decodes the server's object into the
  argument, which the operation returns.
\<close>

record ('e, 'o) kindApi =
  apiGet :: "namespacedName \<Rightarrow> 'e \<Rightarrow> (error + 'o) \<times> 'e"
  apiList :: "listOpts \<Rightarrow> 'e \<Rightarrow> (error + 'o list) \<times> 'e"
  apiCreate :: "'o \<Rightarrow> 'e \<Rightarrow> (error + 'o) \<times> 'e"
  apiUpdate :: "'o \<Rightarrow> 'e \<Rightarrow> (error + 'o) \<times> 'e"
  apiDelete :: "'o \<Rightarrow> 'e \<Rightarrow> (error + unit) \<times> 'e"
  apiPatch :: "'o \<Rightarrow> 'o \<Rightarrow> 'e \<Rightarrow> (error + 'o) \<times> 'e"
  apiStatusUpdate :: "'o \<Rightarrow> 'e \<Rightarrow> (error + 'o) \<times> 'e"
  apiStatusPatch :: "'o \<Rightarrow> 'o \<Rightarrow> 'e \<Rightarrow> (error + 'o) \<times> 'e"

subsection \<open>Dynamic values and the ops-cloud result\<close>

text \<open>
  A value of Go type \<open>interface{}\<close>, as a JSON decoder makes it; \<open>GOther\<close> carries
  what \<open>fmt.Sprint\<close> prints for the value.
\<close>

datatype goValue =
    GNil
  | GString string
  | GMap "(string \<times> goValue) list"
  | GOther string

text \<open>\<open>fmt.Sprint\<close>; a map prints with its keys in byte order.\<close>

fun goSprint :: "goValue \<Rightarrow> string" where
  "goSprint GNil = ''<nil>''"
| "goSprint (GString s) = s"
| "goSprint (GMap m) = ''map['' @
     go_join '' '' (map (\<lambda>(k, v). k @ '':'' @ goSprint v) (sort_key fst m)) @ '']''"
| "goSprint (GOther s) = s"

record opsCloudResult =
  resSuccess :: bool
  resResultCode :: string
  resMsg :: string
  resDomain :: goValue

definition zeroResult :: opsCloudResult where
  "zeroResult = \<lparr>resSuccess = False, resResultCode = '''', resMsg = '''', resDomain = GNil\<rparr>"

record httpRequest =
  reqMethod :: string
  reqUri :: string
  reqHeaders :: "(string \<times> string) list"
  reqBody :: string

subsection \<open>The environment and the state\<close>

record 'e world =
  wConfig :: configState
  wExt :: 'e

record 'e env =
  podApi :: "('e, pod) kindApi"
  deploymentApi :: "('e, deployment) kindApi"
  replicaSetApi :: "('e, replicaSet) kindApi"
  namespaceApi :: "('e, namespaceObj) kindApi"
  changeWorkloadApi :: "('e, changeWorkload) kindApi"
  changePodApi :: "('e, changePod) kindApi"
  opsConfigInfoApi :: "('e, opsConfigInfo) kindApi"
  nowNs :: "'e \<Rightarrow> int \<times> 'e"
  tzOffset :: int
  sleepFor :: "int \<Rightarrow> 'e world \<Rightarrow> 'e world"
  refChangeWorkload :: "deployment \<Rightarrow> changeWorkload \<Rightarrow> error + changeWorkload"
  refChangePod :: "changeWorkload \<Rightarrow> changePod \<Rightarrow> error + changePod"
  httpDo :: "httpRequest \<Rightarrow> 'e \<Rightarrow> (error + (error + string)) \<times> 'e"
  unmarshalResult :: "string \<Rightarrow> opsCloudResult \<times> error option"
  marshalTemplate :: "podTemplate \<Rightarrow> error + string"
  marshalDeployment :: "deployment \<Rightarrow> error option"
  mapOrder :: "string list \<Rightarrow> string list"

text \<open>
  \<open>sleepFor\<close> is what happens during \<open>time.Sleep\<close>, the other goroutines included;
  \<open>refChangeWorkload\<close> and \<open>refChangePod\<close> are \<open>controllerutil.SetControllerReference\<close>;
  the inner sum of \<open>httpDo\<close> is the result of reading the response body;
  \<open>mapOrder\<close> is the order in which \<open>range\<close> visits the keys of a map.
\<close>

subsection \<open>Calls\<close>

definition call :: "('e \<Rightarrow> (error + 'a) \<times> 'e) \<Rightarrow> ('e world, 'a) prog" where
  "call op = (\<lambda>w. case op (wExt w) of (r, e) \<Rightarrow>
     (case r of Inl er \<Rightarrow> Err er | Inr a \<Rightarrow> Ok a, w\<lparr>wExt := e\<rparr>))"

text \<open>\<open>time.Now()\<close>, and \<open>time.Now().Unix()\<close>\<close>

definition timeNow :: "'e env \<Rightarrow> ('e world, int) prog" where
  "timeNow env = (\<lambda>w. case nowNs env (wExt w) of (t, e) \<Rightarrow> (Ok t, w\<lparr>wExt := e\<rparr>))"

definition nowUnix :: "'e env \<Rightarrow> ('e world, int) prog" where
  "nowUnix env = bindM (timeNow env) (\<lambda>t. ret (time_unix t))"

definition goSleep :: "'e env \<Rightarrow> int \<Rightarrow> ('e world, unit) prog" where
  "goSleep env d = (\<lambda>w. (Ok (), sleepFor env d w))"

text \<open>
  A send on one of the three configuration channels. The channels are unbuffered and the
  receiver is the \<open>select\<close> loop, so the send returns when the loop has taken the value.
\<close>

definition sendConfig :: "configMsg \<Rightarrow> ('e world, unit) prog" where
  "sendConfig m = (\<lambda>w. (Ok (), w\<lparr>wConfig := configStep m (wConfig w)\<rparr>))"

text \<open>\<open>client.IgnoreNotFound\<close>: a not-found error becomes a nil error.\<close>

definition ignoreNotFound :: "error \<Rightarrow> ('s, 'a) prog \<Rightarrow> ('s, 'a) prog" where
  "ignoreNotFound e m = (if isNotFound e then m else throw e)"

lemma call_eval [prog_simps]:
  "op (wExt w) = (Inr a, e) \<Longrightarrow> call op w = (Ok a, w\<lparr>wExt := e\<rparr>)"
  "op (wExt w) = (Inl er, e) \<Longrightarrow> call op w = (Err er, w\<lparr>wExt := e\<rparr>)"
  by (simp_all add: call_def)

lemma timeNow_eval [prog_simps]:
  "nowNs env (wExt w) = (t, e) \<Longrightarrow> timeNow env w = (Ok t, w\<lparr>wExt := e\<rparr>)"
  by (simp add: timeNow_def)

lemma nowUnix_eval [prog_simps]:
  "nowNs env (wExt w) = (t, e) \<Longrightarrow> nowUnix env w = (Ok (time_unix t), w\<lparr>wExt := e\<rparr>)"
  by (simp add: nowUnix_def bindM_def timeNow_def ret_def)

lemma goSleep_eval [prog_simps]: "goSleep env d w = (Ok (), sleepFor env d w)"
  by (simp add: goSleep_def)

lemma sendConfig_eval [prog_simps]:
  "sendConfig m w = (Ok (), w\<lparr>wConfig := configStep m (wConfig w)\<rparr>)"
  by (simp add: sendConfig_def)

lemma call_cases:
  obtains (inr) a e where "op (wExt w) = (Inr a, e)" "call op w = (Ok a, w\<lparr>wExt := e\<rparr>)"
  | (inl) er e where "op (wExt w) = (Inl er, e)" "call op w = (Err er, w\<lparr>wExt := e\<rparr>)"
  by (cases "op (wExt w)"; cases "fst (op (wExt w))") (auto simp: call_def)

text \<open>The clock never fails.\<close>

lemma nowUnix_Ok: obtains t e where "nowUnix env w = (Ok t, w\<lparr>wExt := e\<rparr>)"
  by (cases "nowNs env (wExt w)") (auto simp: prog_simps)

lemma preserves_call:
  "(\<And>w. P w \<Longrightarrow> P (w\<lparr>wExt := snd (op (wExt w))\<rparr>)) \<Longrightarrow> preserves P (call op)"
  by (simp add: preserves_def call_def case_prod_beta)

lemma preserves_timeNow:
  "(\<And>w. P w \<Longrightarrow> P (w\<lparr>wExt := snd (nowNs env (wExt w))\<rparr>)) \<Longrightarrow> preserves P (timeNow env)"
  by (simp add: preserves_def timeNow_def case_prod_beta)

lemma preserves_ignoreNotFound [preserves_intros]:
  "preserves P m \<Longrightarrow> preserves P (ignoreNotFound e m)"
  unfolding ignoreNotFound_def by (intro preserves_intros)

subsection \<open>An environment that refuses every call\<close>

text \<open>
  The environment of a cluster that answers every request with an error and whose clock stands
  still. Concrete environments override the operations they need.
\<close>

definition refusedError :: error where
  "refusedError = plain_error ''connection refused''"

definition refusingApi :: "('e, 'o) kindApi" where
  "refusingApi = \<lparr>apiGet = \<lambda>k e. (Inl refusedError, e), apiList = \<lambda>l e. (Inl refusedError, e),
     apiCreate = \<lambda>x e. (Inl refusedError, e), apiUpdate = \<lambda>x e. (Inl refusedError, e),
     apiDelete = \<lambda>x e. (Inl refusedError, e), apiPatch = \<lambda>b x e. (Inl refusedError, e),
     apiStatusUpdate = \<lambda>x e. (Inl refusedError, e), apiStatusPatch = \<lambda>b x e. (Inl refusedError, e)\<rparr>"

definition refusingEnv :: "'e env" where
  "refusingEnv = \<lparr>podApi = refusingApi, deploymentApi = refusingApi, replicaSetApi = refusingApi,
     namespaceApi = refusingApi, changeWorkloadApi = refusingApi, changePodApi = refusingApi,
     opsConfigInfoApi = refusingApi, nowNs = (\<lambda>e. (0, e)), tzOffset = 0, sleepFor = (\<lambda>d w. w),
     refChangeWorkload = (\<lambda>d cw. Inr cw), refChangePod = (\<lambda>cw cp. Inr cp),
     httpDo = (\<lambda>r e. (Inl refusedError, e)), unmarshalResult = (\<lambda>s. (zeroResult, Some refusedError)),
     marshalTemplate = (\<lambda>t. Inr (tmplBody t)), marshalDeployment = (\<lambda>d. None),
     mapOrder = (\<lambda>ks. ks)\<rparr>"

end
