(* ===== verification/Process_Utils.thy ===== *)
theory Process_Utils
  imports Client
begin

section \<open>Process-level helpers: EnvCache, log flags, routes\<close>

text \<open>
  The cache of environment variables (\<open>controllers/utils/env_cache.go\<close>), the log
  set-up (\<open>controllers/utils/log.go\<close>) and the route table of \<open>routers/router.go\<close>.
  \<open>os.Getenv\<close> and \<open>user.Current\<close> are arguments.
\<close>

subsection \<open>EnvCache\<close>

text \<open>The cache is a Go map, nil (\<open>None\<close>) in a zero \<open>EnvCache\<close>.\<close>

definition EnvCache_Get :: "(string \<Rightarrow> string) \<Rightarrow> string \<Rightarrow> (labels, string) prog" where
  "EnvCache_Get getenv key = (\<lambda>cache.
     case lookup_label cache key of
       Some value \<Rightarrow> (Ok value, cache)
     | None \<Rightarrow>
         (let value = getenv key
          in if value \<noteq> '''' then
               (case cache of
                  None \<Rightarrow> (Panic, cache)
                | Some m \<Rightarrow> (Ok value, Some (m(key \<mapsto> value))))
             else (Ok value, cache)))"

subsection \<open>Log set-up\<close>

record logFlags =
  logDir :: string
  logFile :: string
  logLevel :: string
  maxSize :: int
  maxBackups :: int
  maxAge :: int

text \<open>
  The package's \<open>init\<close>: the current user (name and home directory), when it is known, gives
  the log directory; a backslash in the name becomes an underscore.
\<close>

definition log_init :: "error + string \<times> string \<Rightarrow> string \<times> logFlags" where
  "log_init current =
     (let (userName, dir) = (case current of
            Inl err \<Rightarrow> (''unknown-user'', ''/tmp/logs/appname'')
          | Inr (name, home) \<Rightarrow> (name, home @ ''/logs/appname''))
      in (map (\<lambda>c. if c = CHR 0x5C then CHR ''_'' else c) userName,
          \<lparr>logDir = dir, logFile = ''altershield-operator.log'', logLevel = ''info'',
           maxSize = 200, maxBackups = 10, maxAge = 7\<rparr>))"

datatype levelEnabler = InfoLevel | DebugLevel

definition levelMap :: "string \<rightharpoonup> levelEnabler" where
  "levelMap = [''info'' \<mapsto> InfoLevel, ''INFO'' \<mapsto> InfoLevel, ''debug'' \<mapsto> DebugLevel, ''DEBUG'' \<mapsto> DebugLevel]"

datatype flagError = BadLevel string | BadSize int | BadBackups int | BadAge int

definition validate :: "logFlags \<Rightarrow> flagError option" where
  "validate f =
     (if levelMap (logLevel f) = None then Some (BadLevel (logLevel f))
      else if maxSize f < 0 then Some (BadSize (maxSize f))
      else if maxBackups f < 0 then Some (BadBackups (maxBackups f))
      else if maxAge f < 0 then Some (BadAge (maxAge f))
      else None)"

text \<open>
  \<open>flag.Var\<close> panics on a name that is registered already. Registration stores the current
  value of the variable as its default, which changes nothing, and nobody parses a command line.
\<close>

definition registerFlag :: "string \<Rightarrow> (string list, unit) prog" where
  "registerFlag name = (\<lambda>flags. if name \<in> set flags then (Panic, flags) else (Ok (), flags @ [name]))"

definition logFlagNames :: "string list" where
  "logFlagNames = [''zap-log-dir'', ''zap-log-file'', ''zap-log-level'', ''zap-max-size'',
     ''zap-max-backups'', ''zap-max-age'']"

definition initFlags :: "(string list, unit) prog" where
  "initFlags = forEach logFlagNames registerFlag"

text \<open>\<open>filepath.Clean\<close> and \<open>filepath.Join\<close> of two elements, with the separator \<open>/\<close>.\<close>

definition cleanStep :: "bool \<Rightarrow> string list \<Rightarrow> string \<Rightarrow> string list" where
  "cleanStep rooted stack c =
     (if c = '''' \<or> c = ''.'' then stack
      else if c = ''..'' then
        (case stack of
           [] \<Rightarrow> if rooted then [] else [''..'']
         | parent # below \<Rightarrow> if parent = ''..'' then ''..'' # stack else below)
      else c # stack)"

definition cleanPath :: "string \<Rightarrow> string" where
  "cleanPath p =
     (let rooted = (strip_prefix ''/'' p \<noteq> None);
          body = go_join ''/'' (rev (foldl (cleanStep rooted) [] (go_split ''/'' p)))
      in if rooted then ''/'' @ body else if body = '''' then ''.'' else body)"

definition joinPath :: "string \<Rightarrow> string \<Rightarrow> string" where
  "joinPath a b =
     (if a = '''' \<and> b = '''' then ''''
      else cleanPath (if a = '''' then b else if b = '''' then a else a @ ''/'' @ b))"

text \<open>What \<open>LogInit\<close> configures: the rotated file, the level and the encoder.\<close>

record loggerSpec =
  lsFilename :: string
  lsMaxSize :: int
  lsMaxBackups :: int
  lsMaxAge :: int
  lsLevel :: levelEnabler
  lsDevelopment :: bool

definition LogInit :: "logFlags \<Rightarrow> (string list, flagError + loggerSpec) prog" where
  "LogInit f =
     bindM initFlags (\<lambda>_.
       case validate f of
         Some err \<Rightarrow> ret (Inl err)
       | None \<Rightarrow>
           let level = (case levelMap (logLevel f) of Some l \<Rightarrow> l | None \<Rightarrow> InfoLevel)
           in ret (Inr \<lparr>lsFilename = joinPath (logDir f) (logFile f), lsMaxSize = maxSize f,
                lsMaxBackups = maxBackups f, lsMaxAge = maxAge f, lsLevel = level,
                lsDevelopment = (level = DebugLevel)\<rparr>))"

subsection \<open>Routes\<close>

datatype route =
    CallbackRoute | LiveTestRoute | SuspendDeploymentRoute | RollbackRoute
  | ExecOrderWebRoute | StartNotifyWebRoute | FinishNotifyWebRoute

definition routeTable :: "((string \<times> string) \<times> route) list" where
  "routeTable =
     [((''POST'', ''/openapi/altershield/callback''), CallbackRoute),
      ((''POST'', ''/openapi/altershield/liveTest''), LiveTestRoute),
      ((''GET'', ''/openapi/altershield/suspend/deployment''), SuspendDeploymentRoute),
      ((''PUT'', ''/openapi/altershield/deployment/rollback''), RollbackRoute),
      ((''POST'', ''/altershield/client/submitChangeExecOrderWeb''), ExecOrderWebRoute),
      ((''POST'', ''/altershield/client/submitChangeStartNotifyWeb''), StartNotifyWebRoute),
      ((''POST'', ''/altershield/client/submitChangeFinishNotifyWeb''), FinishNotifyWebRoute)]"

definition SetupRouter :: "string \<Rightarrow> string \<Rightarrow> route option" where
  "SetupRouter requestMethod path = map_of routeTable (requestMethod, path)"

subsection \<open>The log file\<close>

text \<open>
  With the values the package starts with, \<open>LogInit\<close> succeeds and logs at level info below
  the home directory; a second call panics, because the flags exist already.
\<close>

lemma registerFlags_fresh:
  "distinct names \<Longrightarrow> set names \<inter> set flags = {} \<Longrightarrow> forEach names registerFlag flags = (Ok (), flags @ names)"
  by (induction names arbitrary: flags) (auto simp: registerFlag_def bindM_def ret_def)

lemma distinct_logFlagNames: "distinct logFlagNames"
  by (simp add: logFlagNames_def)

lemma LogInit_fresh:
  assumes "set logFlagNames \<inter> set flags = {}" "validate f = None"
  shows "\<exists>spec. LogInit f flags = (Ok (Inr spec), flags @ logFlagNames)"
  using assms by (simp add: LogInit_def initFlags_def registerFlags_fresh distinct_logFlagNames bindM_def ret_def Let_def)

lemma LogInit_again: "''zap-log-dir'' \<in> set flags \<Longrightarrow> LogInit f flags = (Panic, flags)"
  by (simp add: LogInit_def initFlags_def logFlagNames_def registerFlag_def bindM_def)

lemma LogInit_default:
  "fst (LogInit (snd (log_init (Inr (''op'', ''/root'')))) []) =
     Ok (Inr \<lparr>lsFilename = ''/root/logs/appname/altershield-operator.log'', lsMaxSize = 200,
       lsMaxBackups = 10, lsMaxAge = 7, lsLevel = InfoLevel, lsDevelopment = False\<rparr>)"
  by (simp add: LogInit_def log_init_def bindM_def initFlags_def registerFlags_fresh distinct_logFlagNames validate_def levelMap_def ret_def Let_def
      joinPath_def cleanPath_def cleanStep_def go_split.simps)

end
