(* ===== verification/Common_Utils.thy ===== *)
theory Common_Utils
  imports Client "HOL-Library.Multiset"
begin

section \<open>controllers/utils/common_utils.go\<close>

text \<open>
  The helper functions every controller uses, in the order of the file, then the name of a
  ChangeWorkload (\<open>native_utils.go\<close>), and their properties: \<open>RemoveDuplicatePod\<close>
  keeps the first summary of every live pod, \<open>IsPodSummarySliceEqual\<close> decides equality
  up to order on such lists, the resource names that carry a type prefix decode to what was
  encoded, and \<open>Percent\<close> stays within its bounds.
\<close>

subsection \<open>The functions\<close>

definition GetNowTime :: "'e env \<Rightarrow> ('e world, string) prog" where
  "GetNowTime env = bindM (nowUnix env) (\<lambda>t. ret (format_datetime (t + tzOffset env)))"

definition CombineString :: "string \<Rightarrow> string \<Rightarrow> string" where
  "CombineString s1 s2 = s1 @ MetaMark @ s2"

text \<open>
  The loop body of \<open>RemoveDuplicatePod\<close>; \<open>podMap\<close> is the map from names to pods,
  of which only the key set matters.
\<close>

definition removeDuplicateStep ::
  "(string \<rightharpoonup> pod) \<Rightarrow> podSummary list \<Rightarrow> podSummary \<Rightarrow> podSummary list" where
  "removeDuplicateStep podMap uniqueArr v =
     (if podMap (psPod v) = None then uniqueArr
      else let needAppend = \<not> list_ex (\<lambda>u. psPod v = psPod u) uniqueArr
           in if needAppend then uniqueArr @ [v] else uniqueArr)"

definition RemoveDuplicatePod :: "podSummary list \<Rightarrow> (string \<rightharpoonup> pod) \<Rightarrow> podSummary list" where
  "RemoveDuplicatePod arr podMap = foldl (removeDuplicateStep podMap) [] arr"

definition GetPodNameSpaceNameFromPod :: "pod \<Rightarrow> namespacedName" where
  "GetPodNameSpaceNameFromPod p =
     \<lparr>nnNamespace = Namespace p, nnName = ResourceTypePod @ MetaMark @ Name p\<rparr>"

definition GetChangePodNameSpaceNameFromChangePod :: "changePod \<Rightarrow> namespacedName" where
  "GetChangePodNameSpaceNameFromChangePod cp =
     \<lparr>nnNamespace = Namespace cp, nnName = ResourceTypeChangePod @ MetaMark @ Name cp\<rparr>"

definition GetPodRequestFromPodNameSpaceName :: "namespacedName \<Rightarrow> namespacedName" where
  "GetPodRequestFromPodNameSpaceName nn =
     (let nameParts = go_split MetaMark (nnName nn);
          podName = go_join MetaMark (drop 1 nameParts)
      in \<lparr>nnNamespace = nnNamespace nn, nnName = podName\<rparr>)"

definition GetResourceTypeFromNamespaceName :: "namespacedName \<Rightarrow> string" where
  "GetResourceTypeFromNamespaceName nn = hd (go_split MetaMark (nnName nn))"

definition IsPodResourceType :: "string \<Rightarrow> bool" where
  "IsPodResourceType resourceType \<longleftrightarrow> resourceType = ResourceTypePod"

definition IsChangePodResourceType :: "string \<Rightarrow> bool" where
  "IsChangePodResourceType resourceType \<longleftrightarrow> resourceType = ResourceTypeChangePod"

definition Percent :: "int \<Rightarrow> int \<Rightarrow> int" where
  "Percent value percent =
     (if percent = NumberZero \<or> value = NumberZero then NumberOne
      else if percent > NumberOneHundred then value
      else let result = quot64 (mul64 value percent) NumberOneHundred
           in if result < NumberZero then NumberOne else result)"

text \<open>\<open>gin.H\<close> values; the two Chinese messages are their UTF-8 bytes.\<close>

definition internalErrorMessage :: string where
  "internalErrorMessage = map char_of [0xE6, 0x9C, 0x8D, 0xE5, 0x8A, 0xA1, 0xE5, 0x99, 0xA8,
     0xE5, 0x86, 0x85, 0xE9, 0x83, 0xA8, 0xE9, 0x94, 0x99, 0xE8, 0xAF, 0xAF :: nat]"

definition contactAdminMessage :: string where
  "contactAdminMessage = map char_of [0xE8, 0xAF, 0xB7, 0xE8, 0x81, 0x94, 0xE7, 0xB3, 0xBB,
     0xE7, 0xB3, 0xBB, 0xE7, 0xBB, 0x9F, 0xE7, 0xAE, 0xA1, 0xE7, 0x90, 0x86, 0xE5, 0x91, 0x98,
     0xE8, 0xA7, 0xA3, 0xE5, 0x86, 0xB3, 0xE9, 0x97, 0xAE, 0xE9, 0xA2, 0x98 :: nat]"

definition requestSuccessMessage :: string where
  "requestSuccessMessage = map char_of [0xE6, 0x9C, 0x8D, 0xE5, 0x8A, 0xA1, 0xE8, 0xAF, 0xB7,
     0xE6, 0xB1, 0x82, 0xE6, 0x88, 0x90, 0xE5, 0x8A, 0x9F :: nat]"

definition GetCommonCallbackErr :: "error \<Rightarrow> (string \<times> json) list" where
  "GetCommonCallbackErr e =
     [(''code'', JInt 50001), (''message'', JString internalErrorMessage),
      (''detail'', JString (''err:'' @ errorText e)), (''solution'', JString contactAdminMessage)]"

definition GetCommonCallbackSuccess :: "(string \<times> json) list" where
  "GetCommonCallbackSuccess = [(''code'', JInt 200), (''message'', JString requestSuccessMessage)]"

text \<open>The dynamic kinds \<open>reflect\<close> tells apart in \<open>IsEmpty\<close> and \<open>IsNotEmpty\<close>.\<close>

datatype 'a anyValue = NilValue | SliceValue "'a list" | OtherValue

fun IsEmpty :: "'a anyValue \<Rightarrow> bool" where
  "IsEmpty NilValue = True"
| "IsEmpty (SliceValue xs) = (length xs = 0)"
| "IsEmpty OtherValue = True"

fun IsNotEmpty :: "'a anyValue \<Rightarrow> bool" where
  "IsNotEmpty NilValue = False"
| "IsNotEmpty (SliceValue xs) = (length xs \<noteq> 0)"
| "IsNotEmpty OtherValue = False"

text \<open>The runtime objects that the event handlers and \<open>GetResource\<close> tell apart.\<close>

datatype runtimeObject =
    PodObject pod
  | DeploymentObject deployment
  | ReplicaSetObject replicaSet
  | ChangeWorkloadObject changeWorkload
  | ChangePodObject changePod
  | OpsConfigInfoObject opsConfigInfo
  | OtherObject

definition namespaceSlashName :: "'a objectMeta_scheme \<Rightarrow> string" where
  "namespaceSlashName obj = Namespace obj @ ''/'' @ Name obj"

fun GetResource :: "runtimeObject \<Rightarrow> string" where
  "GetResource (PodObject p) = namespaceSlashName p"
| "GetResource (DeploymentObject d) = namespaceSlashName d"
| "GetResource (ReplicaSetObject r) = namespaceSlashName r"
| "GetResource (ChangeWorkloadObject cw) = namespaceSlashName cw"
| "GetResource (ChangePodObject cp) = namespaceSlashName cp"
| "GetResource (OpsConfigInfoObject oci) = ''''"
| "GetResource OtherObject = ''''"

definition summaryMap :: "podSummary list \<Rightarrow> (string \<rightharpoonup> podSummary)" where
  "summaryMap ps = foldl (\<lambda>m p. m(psPod p \<mapsto> p)) Map.empty ps"

text \<open>The keys of \<open>aMap\<close> are the pod names in \<open>a\<close>.\<close>

definition IsPodSummarySliceEqual :: "podSummary list \<Rightarrow> podSummary list \<Rightarrow> bool" where
  "IsPodSummarySliceEqual a b =
     (if length a \<noteq> length b then False
      else if length a = 0 then True
      else let aMap = summaryMap a; bMap = summaryMap b
           in list_all (\<lambda>k. bMap k \<noteq> None \<and> bMap k = aMap k) (map psPod a))"

definition IsObjectModifiedErr :: "error \<Rightarrow> bool" where
  "IsObjectModifiedErr e = contains (errorText e)
     ''the object has been modified; please apply your changes to the latest version and try again''"

definition GetChangeWorkloadNameByDeployment :: "deployment \<Rightarrow> string" where
  "GetChangeWorkloadNameByDeployment d =
     CombineString (Name d) (get_label (Labels d) AdmissionWebhookVersionLabel)"

subsection \<open>RemoveDuplicatePod\<close>

lemma removeDuplicate_foldl:
  "distinct (map psPod acc) \<Longrightarrow>
   (let res = foldl (removeDuplicateStep podMap) acc arr
    in distinct (map psPod res) \<and>
       psPod ` set res = psPod ` set acc \<union> {psPod v |v. v \<in> set arr \<and> podMap (psPod v) \<noteq> None} \<and>
       set res \<subseteq> set acc \<union> set arr)"
proof (induction arr arbitrary: acc)
  case Nil
  then show ?case by simp
next
  case (Cons v arr)
  have "distinct (map psPod (removeDuplicateStep podMap acc v))"
    using Cons.prems by (auto simp: removeDuplicateStep_def list_ex_iff)
  note IH = Cons.IH [OF this]
  have "psPod ` set (removeDuplicateStep podMap acc v) =
      psPod ` set acc \<union> {psPod u |u. u = v \<and> podMap (psPod u) \<noteq> None}"
    by (auto simp: removeDuplicateStep_def list_ex_iff)
  moreover have "set (removeDuplicateStep podMap acc v) \<subseteq> insert v (set acc)"
    by (auto simp: removeDuplicateStep_def)
  ultimately show ?case
    using IH by (auto simp: Let_def)
qed

lemma RemoveDuplicatePod_distinct: "distinct (map psPod (RemoveDuplicatePod arr podMap))"
  using removeDuplicate_foldl [of "[]" podMap arr] by (simp add: RemoveDuplicatePod_def Let_def)

lemma RemoveDuplicatePod_pods:
  "psPod ` set (RemoveDuplicatePod arr podMap) = {psPod v |v. v \<in> set arr \<and> podMap (psPod v) \<noteq> None}"
  using removeDuplicate_foldl [of "[]" podMap arr] by (simp add: RemoveDuplicatePod_def Let_def)

lemma RemoveDuplicatePod_subset: "set (RemoveDuplicatePod arr podMap) \<subseteq> set arr"
  using removeDuplicate_foldl [of "[]" podMap arr] by (simp add: RemoveDuplicatePod_def Let_def)

text \<open>Of several summaries of a pod the first one stays.\<close>

lemma removeDuplicate_first:
  assumes "\<forall>v\<in>set acc. List.find (\<lambda>u. psPod u = psPod v) pre = Some v"
    and "\<forall>v\<in>set pre. podMap (psPod v) \<noteq> None \<longrightarrow> psPod v \<in> psPod ` set acc"
  shows "\<forall>v\<in>set (foldl (removeDuplicateStep podMap) acc arr).
    List.find (\<lambda>u. psPod u = psPod v) (pre @ arr) = Some v"
  using assms
proof (induction arr arbitrary: acc pre)
  case (Cons v arr)
  have find_app: "List.find P (xs @ ys) = (case List.find P xs of None \<Rightarrow> List.find P ys | Some x \<Rightarrow> Some x)"
    for P and xs ys :: "podSummary list"
    by (induction xs) auto
  have find_none: "List.find P xs = None \<longleftrightarrow> \<not> (\<exists>x\<in>set xs. P x)" for P and xs :: "podSummary list"
    by (auto simp: find_None_iff)
  let ?acc = "removeDuplicateStep podMap acc v"
  have 1: "\<forall>u\<in>set ?acc. List.find (\<lambda>x. psPod x = psPod u) (pre @ [v]) = Some u"
  proof
    fix u assume u: "u \<in> set ?acc"
    show "List.find (\<lambda>x. psPod x = psPod u) (pre @ [v]) = Some u"
    proof (cases "u \<in> set acc")
      case True
      then show ?thesis using Cons.prems(1) by (simp add: find_app)
    next
      case False
      then have "u = v" "podMap (psPod v) \<noteq> None" "psPod v \<notin> psPod ` set acc"
        using u by (auto simp: removeDuplicateStep_def list_ex_iff split: if_splits)
      then have "\<not> (\<exists>x\<in>set pre. psPod x = psPod v)"
        using Cons.prems(2) by (metis image_iff)
      then have "List.find (\<lambda>x. psPod x = psPod v) pre = None"
        unfolding find_none .
      then show ?thesis using \<open>u = v\<close> by (simp add: find_app)
    qed
  qed
  have 2: "\<forall>u\<in>set (pre @ [v]). podMap (psPod u) \<noteq> None \<longrightarrow> psPod u \<in> psPod ` set ?acc"
    using Cons.prems(2) by (auto simp: removeDuplicateStep_def list_ex_iff image_iff)
  show ?case using Cons.IH [OF 1 2] by simp
qed simp

lemma RemoveDuplicatePod_first:
  "v \<in> set (RemoveDuplicatePod arr podMap) \<Longrightarrow> List.find (\<lambda>u. psPod u = psPod v) arr = Some v"
  using removeDuplicate_first [of "[]" "[]" podMap arr] by (simp add: RemoveDuplicatePod_def)

lemma RemoveDuplicatePod_length:
  "length (RemoveDuplicatePod arr podMap) = card {psPod v |v. v \<in> set arr \<and> podMap (psPod v) \<noteq> None}"
proof -
  have "length (RemoveDuplicatePod arr podMap) = card (set (map psPod (RemoveDuplicatePod arr podMap)))"
    using distinct_card [OF RemoveDuplicatePod_distinct] by simp
  then show ?thesis by (simp add: RemoveDuplicatePod_pods)
qed

subsection \<open>IsPodSummarySliceEqual\<close>

lemma summaryMap_foldl:
  "foldl (\<lambda>m p. m(psPod p \<mapsto> p)) m ps = m ++ map_of (rev (map (\<lambda>p. (psPod p, p)) ps))"
  by (induction ps arbitrary: m) (simp_all add: map_add_upd_left fun_eq_iff map_add_def split: option.split)

lemma summaryMap_eq: "summaryMap ps = map_of (rev (map (\<lambda>p. (psPod p, p)) ps))"
  by (simp add: summaryMap_def summaryMap_foldl)

lemma summaryMap_distinct:
  assumes "distinct (map psPod ps)"
  shows "summaryMap ps k = Some p \<longleftrightarrow> p \<in> set ps \<and> psPod p = k"
proof -
  have "distinct (map fst (rev (map (\<lambda>p. (psPod p, p)) ps)))"
    using assms by (simp add: o_def rev_map distinct_map)
  then have "summaryMap ps k = Some p \<longleftrightarrow> (k, p) \<in> set (map (\<lambda>p. (psPod p, p)) ps)"
    unfolding summaryMap_eq by (subst map_of_eq_Some_iff) simp_all
  then show ?thesis by auto
qed

lemma summaryMap_None: "summaryMap ps k = None \<longleftrightarrow> k \<notin> psPod ` set ps"
  by (simp add: summaryMap_eq map_of_eq_None_iff image_image)

lemma IsPodSummarySliceEqual_mset:
  assumes a: "distinct (map psPod a)" and b: "distinct (map psPod b)"
  shows "IsPodSummarySliceEqual a b \<longleftrightarrow> mset a = mset b"
proof -
  have da: "distinct a" and db: "distinct b"
    using a b by (simp_all add: distinct_map)
  have key: "list_all (\<lambda>k. summaryMap b k \<noteq> None \<and> summaryMap b k = summaryMap a k) (map psPod a)
      \<longleftrightarrow> set a \<subseteq> set b"
  proof -
    have "(summaryMap b (psPod p) \<noteq> None \<and> summaryMap b (psPod p) = summaryMap a (psPod p)) \<longleftrightarrow> p \<in> set b"
      if "p \<in> set a" for p
    proof -
      have "summaryMap a (psPod p) = Some p"
        using that by (simp add: summaryMap_distinct [OF a])
      then show ?thesis
        by (auto simp: summaryMap_distinct [OF b])
    qed
    then show ?thesis by (auto simp: list_all_iff)
  qed
  have "mset a = mset b \<longleftrightarrow> length a = length b \<and> set a \<subseteq> set b"
  proof
    assume "mset a = mset b"
    then show "length a = length b \<and> set a \<subseteq> set b"
      by (metis mset_eq_length set_mset_mset subset_refl)
  next
    assume len: "length a = length b \<and> set a \<subseteq> set b"
    then have "card (set b) \<le> card (set a)"
      using distinct_card [OF da] distinct_card [OF db] by simp
    then have "set a = set b"
      using len by (intro card_seteq) auto
    then show "mset a = mset b"
      using da db by (simp add: set_eq_iff_mset_eq_distinct)
  qed
  then show ?thesis
    unfolding IsPodSummarySliceEqual_def Let_def key by auto
qed

lemma same_summaries:
  assumes "IsPodSummarySliceEqual a b" "distinct (map psPod a)"
  shows "length a = length b" "psPod ` set a = psPod ` set b"
proof -
  show len: "length a = length b"
    using assms(1) by (simp add: IsPodSummarySliceEqual_def split: if_splits)
  have "psPod ` set a \<subseteq> psPod ` set b"
    using assms(1) map_of_SomeD [of "rev (map (\<lambda>p. (psPod p, p)) b)"]
    by (fastforce simp: IsPodSummarySliceEqual_def Let_def list_all_iff summaryMap_eq split: if_splits)
  moreover have "card (psPod ` set b) \<le> card (psPod ` set a)"
    using card_length [of "map psPod b"] distinct_card [OF assms(2)] len by simp
  ultimately show "psPod ` set a = psPod ` set b"
    by (intro card_seteq) auto
qed

text \<open>One of the two lists being without duplicates is enough.\<close>

lemma IsPodSummarySliceEqual_iff:
  assumes "distinct (map psPod a)"
  shows "IsPodSummarySliceEqual a b \<longleftrightarrow> mset a = mset b"
proof
  assume equal: "IsPodSummarySliceEqual a b"
  then have "card (set (map psPod b)) = length (map psPod b)"
    using same_summaries [OF equal assms] distinct_card [OF assms] by simp
  then have "distinct (map psPod b)" by (rule card_distinct)
  then show "mset a = mset b"
    using equal IsPodSummarySliceEqual_mset [OF assms] by simp
next
  assume equal: "mset a = mset b"
  then have "mset (map psPod a) = mset (map psPod b)" by simp
  then have "distinct (map psPod b)"
    using assms mset_eq_imp_distinct_iff by blast
  then show "IsPodSummarySliceEqual a b"
    using equal IsPodSummarySliceEqual_mset [OF assms] by simp
qed

subsection \<open>Names with a type prefix\<close>

lemma MetaMark_Cons: "MetaMark = CHR ''-'' # ''-x--''"
  by (simp add: MetaMark_def)

lemma go_split_MetaMark:
  assumes "CHR ''-'' \<notin> set p"
  shows "go_split MetaMark (p @ MetaMark @ s) = p # go_split MetaMark s"
  using cut_append [OF assms, of "''-x--''" s]
  by (subst go_split.simps) (simp add: MetaMark_Cons)

lemma go_split_no_minus:
  assumes "CHR ''-'' \<notin> set s"
  shows "go_split MetaMark s = [s]"
proof -
  have "cut MetaMark s = None"
  proof (rule ccontr)
    assume "cut MetaMark s \<noteq> None"
    then obtain b a where "cut MetaMark s = Some (b, a)" by auto
    then have "s = b @ MetaMark @ a" by (rule cut_Some)
    with assms show False by (simp add: MetaMark_def)
  qed
  then show ?thesis by (subst go_split.simps) simp
qed

lemma prefixes_no_minus:
  "CHR ''-'' \<notin> set ResourceTypePod" "CHR ''-'' \<notin> set ResourceTypeChangePod"
  by (simp_all add: ResourceTypePod_def ResourceTypeChangePod_def)

lemma resourceType_of_pod:
  "GetResourceTypeFromNamespaceName (GetPodNameSpaceNameFromPod p) = ResourceTypePod"
  by (simp add: GetResourceTypeFromNamespaceName_def GetPodNameSpaceNameFromPod_def
      go_split_MetaMark prefixes_no_minus)

lemma resourceType_of_changePod:
  "GetResourceTypeFromNamespaceName (GetChangePodNameSpaceNameFromChangePod cp) = ResourceTypeChangePod"
  by (simp add: GetResourceTypeFromNamespaceName_def GetChangePodNameSpaceNameFromChangePod_def
      go_split_MetaMark prefixes_no_minus)

lemma podRequest_of_pod:
  "GetPodRequestFromPodNameSpaceName (GetPodNameSpaceNameFromPod p) = obj_key p"
  by (simp add: GetPodRequestFromPodNameSpaceName_def GetPodNameSpaceNameFromPod_def obj_key_def
      go_split_MetaMark prefixes_no_minus go_join_split Let_def)

lemma podRequest_of_changePod:
  "GetPodRequestFromPodNameSpaceName (GetChangePodNameSpaceNameFromChangePod cp) = obj_key cp"
  by (simp add: GetPodRequestFromPodNameSpaceName_def GetChangePodNameSpaceNameFromChangePod_def
      obj_key_def go_split_MetaMark prefixes_no_minus go_join_split Let_def)

lemma resourceTypes_differ: "ResourceTypePod \<noteq> ResourceTypeChangePod"
  by (simp add: ResourceTypePod_def ResourceTypeChangePod_def)

text \<open>A name without a square bracket is neither a pod's nor a change pod's.\<close>

lemma resourceType_plain:
  assumes "CHR ''['' \<notin> set (nnName nn)"
  shows "\<not> IsPodResourceType (GetResourceTypeFromNamespaceName nn)"
    and "\<not> IsChangePodResourceType (GetResourceTypeFromNamespaceName nn)"
proof -
  have "set (hd (go_split MetaMark s)) \<subseteq> set s" for s
  proof (cases "cut MetaMark s")
    case None
    then show ?thesis by (subst go_split.simps) simp
  next
    case (Some ba)
    then obtain b a where "cut MetaMark s = Some (b, a)" by (cases ba) auto
    then show ?thesis
      using cut_Some by (subst go_split.simps) (fastforce simp: MetaMark_def)
  qed
  then have "CHR ''['' \<notin> set (GetResourceTypeFromNamespaceName nn)"
    using assms by (auto simp: GetResourceTypeFromNamespaceName_def)
  then show "\<not> IsPodResourceType (GetResourceTypeFromNamespaceName nn)"
    and "\<not> IsChangePodResourceType (GetResourceTypeFromNamespaceName nn)"
    by (auto simp: IsPodResourceType_def IsChangePodResourceType_def ResourceTypePod_def
        ResourceTypeChangePod_def)
qed

subsection \<open>Names of ChangeWorkloads\<close>

lemma CombineString_inject:
  assumes "CHR ''-'' \<notin> set v" and "CHR ''-'' \<notin> set v'"
  shows "CombineString n v = CombineString n' v' \<longleftrightarrow> n = n' \<and> v = v'"
proof
  have drop: "takeWhile (\<lambda>c. c \<noteq> CHR ''-'') (rev (CombineString n v)) = rev v"
    if "CHR ''-'' \<notin> set v" for n v
    using that by (auto simp: CombineString_def MetaMark_def takeWhile_tail takeWhile_eq_all_conv)
  assume eq: "CombineString n v = CombineString n' v'"
  then have "rev v = rev v'"
    using drop [OF assms(1)] drop [OF assms(2)] by metis
  with eq show "n = n' \<and> v = v'"
    by (simp add: CombineString_def)
qed simp

subsection \<open>Percent\<close>

lemma Percent_exact:
  assumes "int32 v" "0 < v" "0 < p" "p \<le> 100"
  shows "Percent v p = v * p div 100"
proof -
  have "0 \<le> v * p" "v * p \<le> v * 100"
    using assms by (simp_all add: mult_left_mono)
  moreover have "v * 100 < 2 ^ 63"
    using assms by (simp add: int32_def)
  ultimately have i: "int64 (v * p)"
    by (simp add: int64_def)
  then have "quot64 (mul64 v p) 100 = v * p div 100"
    using assms by (simp add: mul64_def wrap64_id quot64_nonneg)
  moreover have "0 \<le> v * p div 100"
    using assms by (simp add: pos_imp_zdiv_nonneg_iff)
  ultimately show ?thesis
    using assms by (simp add: Percent_def NumberZero_def NumberOneHundred_def Let_def)
qed

lemma Percent_bounds:
  assumes "int32 v" "0 < v" "0 < p"
  shows "0 \<le> Percent v p \<and> Percent v p \<le> v"
proof (cases "p \<le> 100")
  case True
  have "v * p div 100 \<le> v * 100 div 100"
    using assms True by (intro zdiv_mono1 mult_left_mono) auto
  then show ?thesis
    using assms True by (simp add: Percent_exact pos_imp_zdiv_nonneg_iff)
next
  case False
  then show ?thesis
    using assms by (simp add: Percent_def NumberZero_def NumberOneHundred_def)
qed

end
