(* ===== verification/Config.thy ===== *)
theory Config
  imports Common_Utils
begin

section \<open>Dynamic configuration\<close>

text \<open>
  \<open>controllers/utils/config.go\<close> (the readers of the package variables and the loop that
  creates the two default OpsConfigInfo objects), \<open>controllers/utils/recource_create.go\<close>
  and the OpsConfigInfo reconciler (\<open>controllers/opsconfiginfo_controller.go\<close>), which turns
  an object into messages on the configuration channels.

  \<open>ConfigIsBatch\<close> and its siblings poll until the variable was received once. The poll is
  \<open>partial_function\<close>: it has no result (\<open>None\<close>, outcome \<open>Hang\<close>) when no sleep
  ever raises the flag.
\<close>

subsection \<open>Readers\<close>

partial_function (option) pollReady ::
  "'e env \<Rightarrow> (configState \<Rightarrow> bool) \<Rightarrow> (configState \<Rightarrow> 'a) \<Rightarrow> 'e world \<Rightarrow> ('a \<times> 'e world) option" where
  "pollReady env ready val w =
     (if ready (wConfig w) then Some (val (wConfig w), w)
      else pollReady env ready val (sleepFor env second w))"

definition polled :: "('s \<Rightarrow> ('a \<times> 's) option) \<Rightarrow> ('s, 'a) prog" where
  "polled f = (\<lambda>s. case f s of None \<Rightarrow> (Hang, s) | Some (a, t) \<Rightarrow> (Ok a, t))"

definition ConfigIsBatch :: "'e env \<Rightarrow> ('e world, bool) prog" where
  "ConfigIsBatch env = polled (pollReady env configIsBatchIsReady configIsBatch)"

definition ConfigBatchCount :: "'e env \<Rightarrow> ('e world, int) prog" where
  "ConfigBatchCount env = polled (pollReady env configBatchCountReady configBatchCount)"

definition ConfigIsBlockingUp :: "'e env \<Rightarrow> ('e world, bool) prog" where
  "ConfigIsBlockingUp env = polled (pollReady env configIsBlockingUpIsReady configIsBlockingUp)"

lemma ConfigIsBatch_ready [prog_simps]:
  "configIsBatchIsReady (wConfig w) \<Longrightarrow> ConfigIsBatch env w = (Ok (configIsBatch (wConfig w)), w)"
  by (simp add: ConfigIsBatch_def polled_def pollReady.simps)

lemma ConfigBatchCount_ready [prog_simps]:
  "configBatchCountReady (wConfig w) \<Longrightarrow> ConfigBatchCount env w = (Ok (configBatchCount (wConfig w)), w)"
  by (simp add: ConfigBatchCount_def polled_def pollReady.simps)

lemma ConfigIsBlockingUp_ready [prog_simps]:
  "configIsBlockingUpIsReady (wConfig w) \<Longrightarrow>
    ConfigIsBlockingUp env w = (Ok (configIsBlockingUp (wConfig w)), w)"
  by (simp add: ConfigIsBlockingUp_def polled_def pollReady.simps)

text \<open>
  Polling returns exactly when some number of one-second sleeps raises the flag, and then with
  the value at the first such moment.
\<close>

lemma pollReady_after:
  assumes "ready (wConfig ((sleepFor env second ^^ n) w))"
    and "\<And>m. m < n \<Longrightarrow> \<not> ready (wConfig ((sleepFor env second ^^ m) w))"
  shows "pollReady env ready val w =
    (let v = (sleepFor env second ^^ n) w in Some (val (wConfig v), v))"
  using assms
proof (induction n arbitrary: w)
  case 0
  then show ?case by (simp add: pollReady.simps)
next
  case (Suc n)
  have not: "\<not> ready (wConfig w)"
    using Suc.prems(2) [of 0] by simp
  have "pollReady env ready val (sleepFor env second w) =
      (let v = (sleepFor env second ^^ n) (sleepFor env second w) in Some (val (wConfig v), v))"
  proof (rule Suc.IH)
    show "ready (wConfig ((sleepFor env second ^^ n) (sleepFor env second w)))"
      using Suc.prems(1) by (simp add: funpow_swap1)
    show "\<not> ready (wConfig ((sleepFor env second ^^ m) (sleepFor env second w)))" if "m < n" for m
      using Suc.prems(2) [of "Suc m"] that by (simp add: funpow_swap1)
  qed
  then show ?case
    using not by (subst pollReady.simps) (simp add: funpow_swap1 Let_def)
qed

lemma pollReady_Some:
  fixes env :: "'e env" and val :: "configState \<Rightarrow> 'b"
  assumes "pollReady env ready val w = Some (a, t)"
  shows "\<exists>n. t = (sleepFor env second ^^ n) w \<and> ready (wConfig t) \<and> a = val (wConfig t)"
proof -
  let ?P = "\<lambda>(env :: 'e env) (ready :: configState \<Rightarrow> bool) (val :: configState \<Rightarrow> 'b) w (r :: 'b \<times> 'e world).
    \<exists>n. snd r = (sleepFor env second ^^ n) w \<and> ready (wConfig (snd r)) \<and> fst r = val (wConfig (snd r))"
  have "?P env ready val w (a, t)"
  proof (rule pollReady.raw_induct [where P = ?P, OF _ assms])
    fix f :: "'e env \<Rightarrow> (configState \<Rightarrow> bool) \<Rightarrow> (configState \<Rightarrow> 'b) \<Rightarrow> 'e world \<Rightarrow> ('b \<times> 'e world) option"
    fix env :: "'e env" and ready and val :: "configState \<Rightarrow> 'b" and w r
    assume IH: "\<And>env ready val w r. f env ready val w = Some r \<Longrightarrow> ?P env ready val w r"
      and eq: "(if ready (wConfig w) then Some (val (wConfig w), w)
        else f env ready val (sleepFor env second w)) = Some r"
    show "?P env ready val w r"
    proof (cases "ready (wConfig w)")
      case True
      then show ?thesis using eq by (intro exI [of _ 0]) auto
    next
      case False
      then obtain n where "snd r = (sleepFor env second ^^ n) (sleepFor env second w)"
        "ready (wConfig (snd r))" "fst r = val (wConfig (snd r))"
        using IH [of env ready val "sleepFor env second w" r] eq by auto
      then show ?thesis by (intro exI [of _ "Suc n"]) (simp add: funpow_swap1)
    qed
  qed
  then show ?thesis by simp
qed

lemma ConfigIsBatch_after:
  assumes "configIsBatchIsReady (wConfig ((sleepFor env second ^^ n) w))"
    and "\<And>m. m < n \<Longrightarrow> \<not> configIsBatchIsReady (wConfig ((sleepFor env second ^^ m) w))"
  shows "ConfigIsBatch env w =
    (let v = (sleepFor env second ^^ n) w in (Ok (configIsBatch (wConfig v)), v))"
  using pollReady_after [where ready = configIsBatchIsReady and val = configIsBatch, OF assms]
  by (simp add: ConfigIsBatch_def polled_def Let_def)

subsection \<open>The default objects\<close>

definition NewOpsConfigInfoBatchFunc :: opsConfigInfo where
  "NewOpsConfigInfoBatchFunc = zeroOpsConfigInfo
     \<lparr>Name := ConfigNameIsBranch, Namespace := AlterShieldOperatorNamespace,
      ociType := ConfigTypeIsBranch, ociContent := itoa NumberTen,
      ociRemark := ''Enabling Batch Protection'', ociEnable := False\<rparr>"

definition NewOpsConfigInfoBlockFunc :: opsConfigInfo where
  "NewOpsConfigInfoBlockFunc = zeroOpsConfigInfo
     \<lparr>Name := ConfigNameIsBlockingUp, Namespace := AlterShieldOperatorNamespace,
      ociType := ConfigTypeIsBlockingUp,
      ociRemark := ''Enabling Blockade'', ociEnable := True\<rparr>"

definition newBatchConfig :: "'e env \<Rightarrow> ('e world, unit) prog" where
  "newBatchConfig env =
     bindM (attempt (call (apiGet (opsConfigInfoApi env)
         \<lparr>nnNamespace = AlterShieldOperatorNamespace, nnName = ConfigNameIsBranch\<rparr>)))
       (\<lambda>r. case r of
          Inr _ \<Rightarrow> ret ()
        | Inl err \<Rightarrow>
            if isNotFound err
            then logged (call (apiCreate (opsConfigInfoApi env) NewOpsConfigInfoBatchFunc))
            else ret ())"

definition newBlockUpConfig :: "'e env \<Rightarrow> ('e world, unit) prog" where
  "newBlockUpConfig env =
     bindM (attempt (call (apiGet (opsConfigInfoApi env)
         \<lparr>nnNamespace = AlterShieldOperatorNamespace, nnName = ConfigNameIsBlockingUp\<rparr>)))
       (\<lambda>r. case r of
          Inr _ \<Rightarrow> ret ()
        | Inl err \<Rightarrow>
            if isNotFound err
            then logged (call (apiCreate (opsConfigInfoApi env) NewOpsConfigInfoBlockFunc))
            else ret ())"

text \<open>One turn of the endless loop of \<open>configInit\<close>.\<close>

definition configInit_turn :: "'e env \<Rightarrow> ('e world, unit) prog" where
  "configInit_turn env =
     thenM (newBatchConfig env) (thenM (newBlockUpConfig env) (goSleep env second))"

subsection \<open>The OpsConfigInfo reconciler\<close>

definition configTypeIsBranchHandel :: "'e env \<Rightarrow> opsConfigInfo \<Rightarrow> ('e world, unit) prog" where
  "configTypeIsBranchHandel env oci =
     (if Name oci \<noteq> ConfigNameIsBranch then call (apiDelete (opsConfigInfoApi env) oci)
      else let enable = ociEnable oci in
        bindM (sendConfig (IsBatchMsg enable)) (\<lambda>_.
          if enable then
            (case atoi (ociContent oci) of
               None \<Rightarrow> sendConfig (BatchCountMsg NumberOne)
             | Some n \<Rightarrow> sendConfig (BatchCountMsg n))
          else sendConfig (BatchCountMsg NumberOne)))"

definition configTypeIsBlockingUpHandel :: "'e env \<Rightarrow> opsConfigInfo \<Rightarrow> ('e world, unit) prog" where
  "configTypeIsBlockingUpHandel env oci =
     (if Name oci \<noteq> ConfigNameIsBlockingUp then call (apiDelete (opsConfigInfoApi env) oci)
      else let enable = ociEnable oci in sendConfig (IsBlockingUpMsg enable))"

definition OpsConfigInfo_Reconcile :: "'e env \<Rightarrow> namespacedName \<Rightarrow> ('e world, unit) prog" where
  "OpsConfigInfo_Reconcile env req =
     bindM (attempt (call (apiGet (opsConfigInfoApi env) req))) (\<lambda>r. case r of
       Inl err \<Rightarrow> ignoreNotFound err (ret ())
     | Inr oci \<Rightarrow>
         if Namespace oci \<noteq> AlterShieldOperatorNamespace
         then call (apiDelete (opsConfigInfoApi env) oci)
         else if ociType oci = ConfigTypeIsBranch then configTypeIsBranchHandel env oci
         else if ociType oci = ConfigTypeIsBlockingUp then configTypeIsBlockingUpHandel env oci
         else ret ())"

subsection \<open>What a configuration object does\<close>

text \<open>The messages an OpsConfigInfo stands for; none for an object that is deleted or ignored.\<close>

definition configMessages :: "opsConfigInfo \<Rightarrow> configMsg list" where
  "configMessages oci =
     (if Namespace oci \<noteq> AlterShieldOperatorNamespace then []
      else if ociType oci = ConfigTypeIsBranch \<and> Name oci = ConfigNameIsBranch then
        [IsBatchMsg (ociEnable oci),
         BatchCountMsg (if ociEnable oci then (case atoi (ociContent oci) of None \<Rightarrow> 1 | Some n \<Rightarrow> n) else 1)]
      else if ociType oci = ConfigTypeIsBlockingUp \<and> Name oci = ConfigNameIsBlockingUp then
        [IsBlockingUpMsg (ociEnable oci)]
      else [])"

lemma config_types_differ [simp]:
  "ConfigTypeIsBranch \<noteq> ConfigTypeIsBlockingUp" "ConfigTypeIsBlockingUp \<noteq> ConfigTypeIsBranch"
  by (simp_all add: ConfigTypeIsBranch_def ConfigTypeIsBlockingUp_def)

lemma branchHandel_config:
  "wConfig (snd (configTypeIsBranchHandel env oci w)) =
     (if Name oci = ConfigNameIsBranch
      then configRun [IsBatchMsg (ociEnable oci),
             BatchCountMsg (if ociEnable oci then (case atoi (ociContent oci) of None \<Rightarrow> 1 | Some n \<Rightarrow> n) else 1)]
             (wConfig w)
      else wConfig w)"
  by (simp add: configTypeIsBranchHandel_def bindM_def sendConfig_def call_def NumberOne_def
      split: prod.split option.split)

lemma blockingHandel_config:
  "wConfig (snd (configTypeIsBlockingUpHandel env oci w)) =
     (if Name oci = ConfigNameIsBlockingUp then configRun [IsBlockingUpMsg (ociEnable oci)] (wConfig w)
      else wConfig w)"
  by (simp add: configTypeIsBlockingUpHandel_def sendConfig_def call_def split: prod.split)

lemma OpsConfigInfo_Reconcile_config:
  "wConfig (snd (OpsConfigInfo_Reconcile env req w)) =
     (case fst (apiGet (opsConfigInfoApi env) req (wExt w)) of
        Inl err \<Rightarrow> wConfig w
      | Inr oci \<Rightarrow> configRun (configMessages oci) (wConfig w))"
proof (cases "apiGet (opsConfigInfoApi env) req (wExt w)")
  case (Pair r e)
  show ?thesis
  proof (cases r)
    case (Inl err)
    with Pair show ?thesis
      by (simp add: OpsConfigInfo_Reconcile_def bindM_def attempt_def call_def ignoreNotFound_def
          ret_def throw_def)
  next
    case (Inr oci)
    with Pair show ?thesis
      by (simp add: OpsConfigInfo_Reconcile_def bindM_def attempt_def call_def ret_def
          branchHandel_config blockingHandel_config configMessages_def case_prod_beta)
  qed
qed

end
