(* ===== verification/Factories.thy ===== *)
theory Factories
  imports Config
begin

section \<open>controllers/resource: the object factories\<close>

text \<open>
  \<open>NativeChangeWorkloadFactory.NewInstance\<close> makes the ChangeWorkload of a Deployment version,
  \<open>NativeChangePodFactory.NewInstance\<close> the next ChangePod of a ChangeWorkload. Both
  implement \<open>IFactory\<close>; the locale \<open>labelled_factory\<close> states what the controllers
  rely on in either of them.
\<close>

record nativeChangeWorkloadFactory =
  facDeployment :: deployment
  facReplicas :: "int option"

record nativeChangePodFactory =
  facChangeWorkload :: changeWorkload
  facChangePodNum :: int

text \<open>The threshold; \<open>*factory.Replicas\<close> panics on a nil pointer.\<close>

definition countThreshold :: "'e env \<Rightarrow> int option \<Rightarrow> ('e world, int) prog" where
  "countThreshold env replicas =
     bindM (ConfigIsBatch env) (\<lambda>isBatch.
       if isBatch then
         (case replicas of
            None \<Rightarrow> crash
          | Some n \<Rightarrow> bindM (ConfigBatchCount env) (\<lambda>count. ret (Percent n count)))
       else ret NumberOne)"

definition ChangeWorkloadFactory_NewInstance ::
  "'e env \<Rightarrow> nativeChangeWorkloadFactory \<Rightarrow> ('e world, changeWorkload) prog" where
  "ChangeWorkloadFactory_NewInstance env fac =
     (let d = facDeployment fac;
          name = GetChangeWorkloadNameByDeployment d;
          version = get_label (Labels d) AdmissionWebhookVersionLabel
      in bindM (countThreshold env (facReplicas fac)) (\<lambda>threshold.
         bindM (GetNowTime env) (\<lambda>createTime.
         bindM (nowUnix env) (\<lambda>createTimeUnix.
           ret (zeroChangeWorkload
             \<lparr>Name := name, Namespace := Namespace d,
              cwSpec := (cwSpec zeroChangeWorkload)
                \<lparr>cwChangeWorkloadId := name, cwServiceName := Name d, cwReversion := version,
                 cwCountThreshold := threshold, cwWaitTimeThreshold := ChangeWorkloadWaitTimeThreshold,
                 cwCreateTime := createTime, cwCreateTimeUnix := createTimeUnix, cwAppName := Name d\<rparr>,
              Labels := Some [DeploymentNameLabel \<mapsto> Name d, AdmissionWebhookVersionLabel \<mapsto> version]\<rparr>)))))"

definition ChangePodFactory_NewInstance ::
  "'e env \<Rightarrow> nativeChangePodFactory \<Rightarrow> ('e world, changePod) prog" where
  "ChangePodFactory_NewInstance env fac =
     (let cw = facChangeWorkload fac
      in bindM (GetNowTime env) (\<lambda>createTime.
         bindM (nowUnix env) (\<lambda>createTimeUnix.
           ret (zeroChangePod
             \<lparr>Name := Name cw @ MetaMark @ itoa (facChangePodNum fac + NumberOne),
              Namespace := Namespace cw,
              cpSpec := (cpSpec zeroChangePod)
                \<lparr>cpPodInfos := [], cpChangeWorkloadId := Name cw,
                 cpCreateTime := createTime, cpCreateTimeUnix := createTimeUnix\<rparr>,
              Labels := Some [DeploymentNameLabel \<mapsto> get_label (Labels cw) DeploymentNameLabel,
                AdmissionWebhookVersionLabel \<mapsto> get_label (Labels cw) AdmissionWebhookVersionLabel]\<rparr>))))"

subsection \<open>The IFactory contract\<close>

text \<open>
  An object a factory makes is new (no resource version, no owner), lives in the namespace of
  its origin and carries the deployment name and the version of its origin as labels.
\<close>

locale labelled_factory =
  fixes newInstance :: "'f \<Rightarrow> ('s, 'o objectMeta_scheme) prog"
    and originNamespace :: "'f \<Rightarrow> string"
    and originDeployment :: "'f \<Rightarrow> string"
    and originVersion :: "'f \<Rightarrow> string"
  assumes made_meta: "newInstance fac s = (Ok obj, t) \<Longrightarrow>
    Namespace obj = originNamespace fac \<and> OwnerReferences obj = [] \<and> ResourceVersion obj = 0 \<and>
    Labels obj = Some [DeploymentNameLabel \<mapsto> originDeployment fac,
      AdmissionWebhookVersionLabel \<mapsto> originVersion fac]"
begin

lemma made_version:
  assumes "newInstance fac s = (Ok obj, t)"
  shows "get_label (Labels obj) AdmissionWebhookVersionLabel = originVersion fac"
  using made_meta [OF assms] by (simp add: get_label_def)

lemma made_deployment:
  assumes "newInstance fac s = (Ok obj, t)"
  shows "get_label (Labels obj) DeploymentNameLabel = originDeployment fac"
  using made_meta [OF assms] by (simp add: get_label_def)

lemma made_unmarked:
  assumes "newInstance fac s = (Ok obj, t)"
  shows "\<not> has_label (Labels obj) DefenseStatusLabel" "\<not> has_label (Labels obj) SuspendLabel"
  using made_meta [OF assms] by (simp_all add: has_label_def label_defs)

end

lemma GetNowTime_Ok: obtains s e where "GetNowTime env w = (Ok s, w\<lparr>wExt := e\<rparr>)"
  by (cases "nowNs env (wExt w)") (auto simp: GetNowTime_def prog_simps bindM_def)

lemma ChangeWorkloadFactory_result:
  assumes "ChangeWorkloadFactory_NewInstance env fac w = (Ok cw, t)"
  obtains threshold w1 createTime createTimeUnix where
    "countThreshold env (facReplicas fac) w = (Ok threshold, w1)"
    "cw = zeroChangeWorkload
      \<lparr>Name := GetChangeWorkloadNameByDeployment (facDeployment fac),
       Namespace := Namespace (facDeployment fac),
       cwSpec := (cwSpec zeroChangeWorkload)
         \<lparr>cwChangeWorkloadId := GetChangeWorkloadNameByDeployment (facDeployment fac),
          cwServiceName := Name (facDeployment fac),
          cwReversion := get_label (Labels (facDeployment fac)) AdmissionWebhookVersionLabel,
          cwCountThreshold := threshold, cwWaitTimeThreshold := ChangeWorkloadWaitTimeThreshold,
          cwCreateTime := createTime, cwCreateTimeUnix := createTimeUnix,
          cwAppName := Name (facDeployment fac)\<rparr>,
       Labels := Some [DeploymentNameLabel \<mapsto> Name (facDeployment fac),
         AdmissionWebhookVersionLabel \<mapsto> get_label (Labels (facDeployment fac)) AdmissionWebhookVersionLabel]\<rparr>"
  using assms by (auto simp: ChangeWorkloadFactory_NewInstance_def Let_def ret_def elim!: bindM_OkE)

lemma ChangePodFactory_result:
  assumes "ChangePodFactory_NewInstance env fac w = (Ok cp, t)"
  obtains createTime createTimeUnix where
    "cp = zeroChangePod
      \<lparr>Name := Name (facChangeWorkload fac) @ MetaMark @ itoa (facChangePodNum fac + 1),
       Namespace := Namespace (facChangeWorkload fac),
       cpSpec := (cpSpec zeroChangePod)
         \<lparr>cpPodInfos := [], cpChangeWorkloadId := Name (facChangeWorkload fac),
          cpCreateTime := createTime, cpCreateTimeUnix := createTimeUnix\<rparr>,
       Labels := Some [DeploymentNameLabel \<mapsto> get_label (Labels (facChangeWorkload fac)) DeploymentNameLabel,
         AdmissionWebhookVersionLabel \<mapsto> get_label (Labels (facChangeWorkload fac)) AdmissionWebhookVersionLabel]\<rparr>"
  using assms
  by (auto simp: ChangePodFactory_NewInstance_def Let_def ret_def NumberOne_def elim!: bindM_OkE)

lemma ChangePodFactory_returns:
  obtains cp e where "ChangePodFactory_NewInstance env fac w = (Ok cp, w\<lparr>wExt := e\<rparr>)"
proof -
  obtain s e where s: "GetNowTime env w = (Ok s, w\<lparr>wExt := e\<rparr>)"
    by (rule GetNowTime_Ok)
  obtain n e' where n: "nowUnix env (w\<lparr>wExt := e\<rparr>) = (Ok n, w\<lparr>wExt := e\<rparr>\<lparr>wExt := e'\<rparr>)"
    by (rule nowUnix_Ok)
  show ?thesis
    by (rule that) (simp add: ChangePodFactory_NewInstance_def Let_def bindM_def s n ret_def)
qed

interpretation workloadFactory: labelled_factory
  "ChangeWorkloadFactory_NewInstance env" "\<lambda>fac. Namespace (facDeployment fac)"
  "\<lambda>fac. Name (facDeployment fac)"
  "\<lambda>fac. get_label (Labels (facDeployment fac)) AdmissionWebhookVersionLabel"
  by unfold_locales
    (erule ChangeWorkloadFactory_result, simp add: zero_defs)

interpretation podFactory: labelled_factory
  "ChangePodFactory_NewInstance env" "\<lambda>fac. Namespace (facChangeWorkload fac)"
  "\<lambda>fac. get_label (Labels (facChangeWorkload fac)) DeploymentNameLabel"
  "\<lambda>fac. get_label (Labels (facChangeWorkload fac)) AdmissionWebhookVersionLabel"
  by unfold_locales
    (erule ChangePodFactory_result, simp add: zero_defs)

text \<open>The two factories agree on how a ChangePod finds its way back.\<close>

lemma changePod_names_inject:
  "Name cw @ MetaMark @ itoa i = Name cw @ MetaMark @ itoa j \<longleftrightarrow> i = j"
  by (simp add: itoa_inject)

subsection \<open>Threshold\<close>

lemma countThreshold_single:
  assumes "configIsBatchIsReady (wConfig w)" "\<not> configIsBatch (wConfig w)"
  shows "countThreshold env replicas w = (Ok 1, w)"
  using assms by (simp add: countThreshold_def bindM_def prog_simps NumberOne_def)

lemma countThreshold_batch:
  assumes "configIsBatchIsReady (wConfig w)" "configBatchCountReady (wConfig w)"
    and "configIsBatch (wConfig w)"
  shows "countThreshold env (Some n) w = (Ok (Percent n (configBatchCount (wConfig w))), w)"
  using assms by (simp add: countThreshold_def bindM_def prog_simps)

end
