(* ===== verification/Pod_Controller.thy ===== *)
theory Pod_Controller
  imports Common_Utils
begin

section \<open>Pods and their labels\<close>

text \<open>
  The label predicates of \<open>controllers/pod_controller.go\<close> and
  \<open>controllers/deployment_controller.go\<close>, the two pod filters of
  \<open>changeworkload_controller.go\<close>, and the PodReconciler, which marks a versioned pod as
  finished once it runs.
\<close>

subsection \<open>Predicates\<close>

definition isRunning :: "pod \<Rightarrow> bool" where
  "isRunning p \<longleftrightarrow> podPhase p = ''Running''"

definition isFinished :: "pod \<Rightarrow> bool" where
  "isFinished p \<longleftrightarrow> has_label (Labels p) OperateFinishedLabel"

definition isHasVersion :: "pod \<Rightarrow> bool" where
  "isHasVersion p \<longleftrightarrow> has_label (Labels p) AdmissionWebhookVersionLabel"

definition isAdmissionWebhook :: "labels \<Rightarrow> bool" where
  "isAdmissionWebhook l \<longleftrightarrow> has_label l AdmissionWebhookVersionLabel"

definition isDefensed :: "labels \<Rightarrow> bool" where
  "isDefensed l \<longleftrightarrow> has_label l DefenseStatusLabel"

fun filterPodWithoutFinishedLabel :: "pod list \<Rightarrow> pod list" where
  "filterPodWithoutFinishedLabel [] = []"
| "filterPodWithoutFinishedLabel (item # items) =
     (if isFinished item then item # filterPodWithoutFinishedLabel items
      else filterPodWithoutFinishedLabel items)"

fun filterPodWithoutFinishedOrDefensedLabel :: "pod list \<Rightarrow> pod list" where
  "filterPodWithoutFinishedOrDefensedLabel [] = []"
| "filterPodWithoutFinishedOrDefensedLabel (item # items) =
     (let finished = isFinished item; defensed = isDefensed (Labels item)
      in if finished \<and> \<not> defensed then item # filterPodWithoutFinishedOrDefensedLabel items
         else filterPodWithoutFinishedOrDefensedLabel items)"

text \<open>Finished and not yet defensed: what the filter keeps.\<close>

definition preparing :: "pod \<Rightarrow> bool" where
  "preparing p \<longleftrightarrow> isFinished p \<and> \<not> isDefensed (Labels p)"

lemma filterFinished_eq: "filterPodWithoutFinishedLabel ps = filter isFinished ps"
  by (induction ps) simp_all

lemma filterPreparing_eq: "filterPodWithoutFinishedOrDefensedLabel ps = filter preparing ps"
  by (induction ps) (simp_all add: preparing_def Let_def)

subsection \<open>PodReconciler\<close>

definition markAsFinished :: "'e env \<Rightarrow> pod \<Rightarrow> ('e world, unit) prog" where
  "markAsFinished env p =
     bindM (nowUnix env) (\<lambda>t.
     bindM (set_label OperateFinishedLabel (itoa t) p) (\<lambda>p'.
     bindM (call (apiUpdate (podApi env) p')) (\<lambda>_. ret ())))"

definition Pod_Reconcile :: "'e env \<Rightarrow> namespacedName \<Rightarrow> ('e world, unit) prog" where
  "Pod_Reconcile env req =
     bindM (attempt (call (apiGet (podApi env) req))) (\<lambda>r. case r of
       Inl err \<Rightarrow> ignoreNotFound err (ret ())
     | Inr p \<Rightarrow> if isFinished p then ret () else markAsFinished env p)"

fun Pod_handleUpdateEvent :: "runtimeObject \<Rightarrow> runtimeObject \<Rightarrow> bool" where
  "Pod_handleUpdateEvent (PodObject oldPod) (PodObject newPod) =
     (if isFinished newPod then False
      else let running = isRunning newPod \<and> \<not> isRunning oldPod; hasVersion = isHasVersion newPod
           in running \<and> hasVersion)"
| "Pod_handleUpdateEvent _ _ = False"

fun Pod_handleCreateEvent :: "runtimeObject \<Rightarrow> bool" where
  "Pod_handleCreateEvent (PodObject p) =
     (if isFinished p then False else isRunning p \<and> isHasVersion p)"
| "Pod_handleCreateEvent _ = False"

text \<open>
  An event the filter lets through is about a running pod with a version and no finished
  label; a pod with a version label has an allocated label map, so \<open>markAsFinished\<close> does
  not panic on it.
\<close>

lemma Pod_handleUpdateEvent_iff:
  "Pod_handleUpdateEvent (PodObject q) (PodObject p) \<longleftrightarrow>
     \<not> isFinished p \<and> isHasVersion p \<and> isRunning p \<and> \<not> isRunning q"
  by auto

lemma Pod_handleCreateEvent_iff:
  "Pod_handleCreateEvent (PodObject p) \<longleftrightarrow> \<not> isFinished p \<and> isHasVersion p \<and> isRunning p"
  by auto

lemma set_label_Ok:
  "Labels obj \<noteq> None \<Longrightarrow> set_label k v obj s = (Ok (obj\<lparr>Labels := put_label k v (Labels obj)\<rparr>), s)"
  by (auto simp: set_label_def ret_def)

lemma set_label_Panic: "Labels obj = None \<Longrightarrow> set_label k v obj s = (Panic, s)"
  by (simp add: set_label_def crash_def)

lemma isHasVersion_alloc: "isHasVersion p \<Longrightarrow> Labels p \<noteq> None"
  by (cases "Labels p") (simp_all add: isHasVersion_def)

lemma markAsFinished_run:
  assumes "Labels p \<noteq> None" and "nowNs env (wExt w) = (ns, e)"
  defines "p' \<equiv> p\<lparr>Labels := put_label OperateFinishedLabel (itoa (time_unix ns)) (Labels p)\<rparr>"
  shows "markAsFinished env p w = (case apiUpdate (podApi env) p' e of
      (Inl err, e') \<Rightarrow> (Err err, w\<lparr>wExt := e'\<rparr>)
    | (Inr _, e') \<Rightarrow> (Ok (), w\<lparr>wExt := e'\<rparr>))"
  using assms(1,2)
  by (simp add: markAsFinished_def bindM_def prog_simps set_label_Ok call_def p'_def [symmetric]
      split: prod.split sum.split)

end
