(* ===== verification/Store_Laws.thy ===== *)
theory Store_Laws
  imports Client
begin

section \<open>What the API server promises\<close>

text \<open>
  The contract of the API server for one kind of object, as its clients rely on it. The locale
  \<open>object_reads\<close> is the contract of the reading client: \<open>stored\<close> is the server's
  truth, \<open>known\<close> the set of all versions ever stored, from which a read may answer with
  any (controller-runtime reads a cache that can lag behind), and \<open>rely\<close> what else may
  happen in the cluster during a call. Versions are unique: key and resource version determine
  the object. \<open>object_writes\<close> adds the writes of a kind with a status subresource:
  \<open>Update\<close> and \<open>Status().Update\<close> succeed only on the current resource version
  (optimistic concurrency), the first writes everything but the status, the second the status
  only; \<open>Status().Patch\<close> carries no resource version and merges what changed between base
  and argument into whatever is stored (\<open>merge_status\<close>, the JSON merge patch of the kind); a created object starts with the zero status.
\<close>

type_synonym 'o store = "namespacedName \<Rightarrow> 'o option"

text \<open>
  One step of a transition system on the stored objects; \<open>allowed\<close> also sees the history,
  the set of all versions stored so far, and the step adds its new versions to it.
\<close>

inductive view_step ::
  "('o set \<Rightarrow> 'o store \<Rightarrow> 'o store \<Rightarrow> bool) \<Rightarrow> 'o store \<times> 'o set \<Rightarrow> 'o store \<times> 'o set \<Rightarrow> bool"
  for allowed where
  "allowed H M N \<Longrightarrow> view_step allowed (M, H) (N, H \<union> ran N)"

inductive_cases view_stepE: "view_step allowed (M, H) v"

lemma view_steps_history:
  assumes "(view_step allowed)\<^sup>*\<^sup>* v w"
  shows "snd v \<subseteq> snd w"
  using assms by (induction rule: rtranclp_induct) (auto elim!: view_step.cases)

definition store_evolves ::
  "('e \<Rightarrow> bool) \<Rightarrow> ('e \<Rightarrow> 'o store) \<Rightarrow> ('e \<Rightarrow> 'o set) \<Rightarrow> ('o set \<Rightarrow> 'o store \<Rightarrow> 'o store \<Rightarrow> bool) \<Rightarrow>
   'e world \<Rightarrow> 'e world \<Rightarrow> bool" where
  "store_evolves good stored known allowed v w \<longleftrightarrow>
     (good (wExt v) \<longrightarrow>
        good (wExt w) \<and>
        (view_step allowed)\<^sup>*\<^sup>* (stored (wExt v), known (wExt v)) (stored (wExt w), known (wExt w)))"

lemma store_evolves_known:
  "store_evolves good stored known allowed v w \<Longrightarrow> good (wExt v) \<Longrightarrow>
    good (wExt w) \<and> known (wExt v) \<subseteq> known (wExt w)"
  by (auto simp: store_evolves_def dest!: view_steps_history)

text \<open>Operations that change the store in view only as \<open>rely\<close> allows.\<close>

definition harmless :: "('e \<Rightarrow> 'e \<Rightarrow> bool) \<Rightarrow> ('e \<Rightarrow> bool) \<Rightarrow> ('e \<Rightarrow> 'r \<times> 'e) \<Rightarrow> bool" where
  "harmless rely good op \<longleftrightarrow> (\<forall>e. good e \<longrightarrow> rely e (snd (op e)))"

definition harmless_kind :: "('e \<Rightarrow> 'e \<Rightarrow> bool) \<Rightarrow> ('e \<Rightarrow> bool) \<Rightarrow> ('e, 'o) kindApi \<Rightarrow> bool" where
  "harmless_kind rely good api \<longleftrightarrow>
     (\<forall>k. harmless rely good (apiGet api k)) \<and> (\<forall>l. harmless rely good (apiList api l)) \<and>
     (\<forall>x. harmless rely good (apiCreate api x)) \<and> (\<forall>x. harmless rely good (apiUpdate api x)) \<and>
     (\<forall>x. harmless rely good (apiDelete api x)) \<and> (\<forall>b x. harmless rely good (apiPatch api b x)) \<and>
     (\<forall>x. harmless rely good (apiStatusUpdate api x)) \<and>
     (\<forall>b x. harmless rely good (apiStatusPatch api b x))"

lemma harmless_kindD [simp]:
  assumes "harmless_kind rely good api"
  shows "harmless rely good (apiGet api k)" "harmless rely good (apiList api l)"
    "harmless rely good (apiCreate api x)" "harmless rely good (apiUpdate api x)"
    "harmless rely good (apiDelete api x)" "harmless rely good (apiPatch api b x)"
    "harmless rely good (apiStatusUpdate api x)" "harmless rely good (apiStatusPatch api b x)"
  using assms by (simp_all add: harmless_kind_def)

subsection \<open>Reading\<close>

locale object_reads =
  fixes api :: "('e, 'a objectMeta_scheme) kindApi"
    and index :: "string \<Rightarrow> 'a objectMeta_scheme \<Rightarrow> string list"
    and rely :: "'e \<Rightarrow> 'e \<Rightarrow> bool"
    and good :: "'e \<Rightarrow> bool"
    and stored :: "'e \<Rightarrow> 'a objectMeta_scheme store"
    and known :: "'e \<Rightarrow> 'a objectMeta_scheme set"
    and allowed :: "'a objectMeta_scheme set \<Rightarrow> 'a objectMeta_scheme store \<Rightarrow> 'a objectMeta_scheme store \<Rightarrow> bool"
  assumes rely_good: "rely e e' \<Longrightarrow> good e \<Longrightarrow> good e'"
    and rely_allowed: "rely e e' \<Longrightarrow> good e \<Longrightarrow>
      (view_step allowed)\<^sup>*\<^sup>* (stored e, known e) (stored e', known e')"
    and stored_known: "good e \<Longrightarrow> stored e k = Some ob \<Longrightarrow> ob \<in> known e \<and> obj_key ob = k"
    and version_unique: "good e \<Longrightarrow> ob \<in> known e \<Longrightarrow> ob' \<in> known e \<Longrightarrow> obj_key ob = obj_key ob' \<Longrightarrow>
      ResourceVersion ob = ResourceVersion ob' \<Longrightarrow> ob = ob'"
    and get_law: "good e \<Longrightarrow> apiGet api k e = (r, e') \<Longrightarrow>
      rely e e' \<and> (\<forall>ob. r = Inr ob \<longrightarrow> ob \<in> known e' \<and> obj_key ob = k)"
    and list_law: "good e \<Longrightarrow> apiList api opts e = (rs, e') \<Longrightarrow>
      rely e e' \<and> (\<forall>obs. rs = Inr obs \<longrightarrow> set obs \<subseteq> known e' \<and> list_all (selected index opts) obs)"
begin

lemma rely_known: "rely e e' \<Longrightarrow> good e \<Longrightarrow> known e \<subseteq> known e'"
  using view_steps_history [OF rely_allowed] by fastforce

lemma stored_ran: "good e \<Longrightarrow> ran (stored e) \<subseteq> known e"
  using stored_known by (fastforce simp: ran_def)

text \<open>Putting one new version is one step.\<close>

lemma put_evolves:
  assumes "good e" "good e'" "stored e' = (stored e)(k \<mapsto> ob)" "known e' = insert ob (known e)"
    and "allowed (known e) (stored e) ((stored e)(k \<mapsto> ob))"
  shows "(view_step allowed)\<^sup>*\<^sup>* (stored e, known e) (stored e', known e')"
proof -
  have "known e \<union> ran ((stored e)(k \<mapsto> ob)) = insert ob (known e)"
    using stored_ran [OF assms(1)] by (auto simp: ran_def split: if_splits)
  then show ?thesis
    using view_step.intros [of allowed, OF assms(5)] assms(3,4) by auto
qed

lemma delete_evolves:
  assumes "good e" "good e'" "stored e' = (stored e)(k := None)" "known e' = known e"
    and "allowed (known e) (stored e) ((stored e)(k := None))"
  shows "(view_step allowed)\<^sup>*\<^sup>* (stored e, known e) (stored e', known e')"
proof -
  have "known e \<union> ran ((stored e)(k := None)) = known e"
    using stored_ran [OF assms(1)] by (auto simp: ran_def split: if_splits)
  then show ?thesis
    using view_step.intros [of allowed, OF assms(5)] assms(3,4) by auto
qed

lemma evolves_evolution: "evolution (store_evolves good stored known allowed)"
proof
  fix s t u
  show "store_evolves good stored known allowed s s"
    by (simp add: store_evolves_def)
  show "store_evolves good stored known allowed s u"
    if "store_evolves good stored known allowed s t" "store_evolves good stored known allowed t u"
    using that by (fastforce simp: store_evolves_def)
qed

lemma rely_evolves:
  assumes "good (wExt v) \<Longrightarrow> rely (wExt v) (wExt w)"
  shows "store_evolves good stored known allowed v w"
  using assms rely_good rely_allowed by (auto simp: store_evolves_def)

lemma stable_good: "stable (store_evolves good stored known allowed) (\<lambda>w. good (wExt w))"
  by (auto simp: stable_def dest: store_evolves_known)

lemma triple_harmless:
  assumes "harmless rely good op"
  shows "triple (store_evolves good stored known allowed) (\<lambda>w. good (wExt w)) (call op)
    (\<lambda>_ w. good (wExt w))"
proof (rule tripleI)
  fix s r t
  assume g: "good (wExt s)" and run: "call op s = (r, t)"
  have t: "wExt t = snd (op (wExt s))"
    using run by (auto simp: call_def split: prod.splits)
  then have "rely (wExt s) (wExt t)"
    using assms g by (simp add: harmless_def)
  then show "store_evolves good stored known allowed s t \<and> (\<forall>a. r = Ok a \<longrightarrow> good (wExt t))"
    using g rely_good by (auto intro: rely_evolves)
qed

lemma triple_get:
  "triple (store_evolves good stored known allowed) (\<lambda>w. good (wExt w)) (call (apiGet api k))
     (\<lambda>ob w. good (wExt w) \<and> ob \<in> known (wExt w) \<and> obj_key ob = k)"
proof (rule tripleI)
  fix s r t
  assume g: "good (wExt s)" and run: "call (apiGet api k) s = (r, t)"
  obtain res e where get: "apiGet api k (wExt s) = (res, e)"
    by (cases "apiGet api k (wExt s)")
  note law = get_law [OF g get]
  show "store_evolves good stored known allowed s t \<and>
      (\<forall>a. r = Ok a \<longrightarrow> good (wExt t) \<and> a \<in> known (wExt t) \<and> obj_key a = k)"
    using run get law rely_good g
    by (auto simp: call_def intro: rely_evolves split: sum.splits)
qed

lemma triple_list:
  "triple (store_evolves good stored known allowed) (\<lambda>w. good (wExt w)) (call (apiList api opts))
     (\<lambda>obs w. good (wExt w) \<and> set obs \<subseteq> known (wExt w) \<and> list_all (selected index opts) obs)"
proof (rule tripleI)
  fix s r t
  assume g: "good (wExt s)" and run: "call (apiList api opts) s = (r, t)"
  obtain res e where get: "apiList api opts (wExt s) = (res, e)"
    by (cases "apiList api opts (wExt s)")
  note law = list_law [OF g get]
  show "store_evolves good stored known allowed s t \<and>
      (\<forall>a. r = Ok a \<longrightarrow> good (wExt t) \<and> set a \<subseteq> known (wExt t) \<and> list_all (selected index opts) a)"
    using run get law rely_good g
    by (auto simp: call_def intro: rely_evolves split: sum.splits)
qed

end

sublocale object_reads \<subseteq> evolution "store_evolves good stored known allowed"
  by (rule evolves_evolution)

subsection \<open>Writing\<close>

locale object_writes =
  object_reads api index rely good stored known allowed
  for api :: "('e, 'a objectMeta_scheme) kindApi"
    and index :: "string \<Rightarrow> 'a objectMeta_scheme \<Rightarrow> string list"
    and rely :: "'e \<Rightarrow> 'e \<Rightarrow> bool"
    and good :: "'e \<Rightarrow> bool"
    and stored :: "'e \<Rightarrow> 'a objectMeta_scheme store"
    and known :: "'e \<Rightarrow> 'a objectMeta_scheme set"
    and allowed :: "'a objectMeta_scheme set \<Rightarrow> 'a objectMeta_scheme store \<Rightarrow> 'a objectMeta_scheme store \<Rightarrow> bool" +
  fixes main_of :: "'a objectMeta_scheme \<Rightarrow> 'm"
    and status_of :: "'a objectMeta_scheme \<Rightarrow> 'st"
    and status_zero :: 'st
    and merge_status :: "'st \<Rightarrow> 'st \<Rightarrow> 'st \<Rightarrow> 'st"
  assumes create_law: "good e \<Longrightarrow> apiCreate api ob e = (r, e') \<Longrightarrow>
      (case r of
         Inl _ \<Rightarrow> rely e e'
       | Inr ob' \<Rightarrow> good e' \<and> known e' = insert ob' (known e) \<and> obj_key ob' = obj_key ob \<and>
           stored e (obj_key ob) = None \<and> stored e' = (stored e)(obj_key ob \<mapsto> ob') \<and>
           main_of ob' = main_of ob \<and> status_of ob' = status_zero)"
    and update_law: "good e \<Longrightarrow> apiUpdate api ob e = (r, e') \<Longrightarrow>
      (case r of
         Inl _ \<Rightarrow> rely e e'
       | Inr ob' \<Rightarrow> good e' \<and> known e' = insert ob' (known e) \<and> obj_key ob' = obj_key ob \<and>
           (\<exists>cur. stored e (obj_key ob) = Some cur \<and> ResourceVersion cur = ResourceVersion ob \<and>
              stored e' = (stored e)(obj_key ob \<mapsto> ob') \<and>
              main_of ob' = main_of ob \<and> status_of ob' = status_of cur))"
    and delete_law: "good e \<Longrightarrow> apiDelete api ob e = (rd, e') \<Longrightarrow>
      (case rd of
         Inl _ \<Rightarrow> rely e e'
       | Inr _ \<Rightarrow> good e' \<and> known e' = known e \<and> stored e' = (stored e)(obj_key ob := None))"
    and status_update_law: "good e \<Longrightarrow> apiStatusUpdate api ob e = (r, e') \<Longrightarrow>
      (case r of
         Inl _ \<Rightarrow> rely e e'
       | Inr ob' \<Rightarrow> good e' \<and> known e' = insert ob' (known e) \<and> obj_key ob' = obj_key ob \<and>
           (\<exists>cur. stored e (obj_key ob) = Some cur \<and> ResourceVersion cur = ResourceVersion ob \<and>
              stored e' = (stored e)(obj_key ob \<mapsto> ob') \<and>
              main_of ob' = main_of cur \<and> status_of ob' = status_of ob))"
    and status_patch_law: "good e \<Longrightarrow> apiStatusPatch api base ob e = (r, e') \<Longrightarrow>
      (case r of
         Inl _ \<Rightarrow> rely e e'
       | Inr ob' \<Rightarrow> good e' \<and> known e' = insert ob' (known e) \<and> obj_key ob' = obj_key ob \<and>
           (\<exists>cur. stored e (obj_key ob) = Some cur \<and>
              stored e' = (stored e)(obj_key ob \<mapsto> ob') \<and> main_of ob' = main_of cur \<and>
              status_of ob' = merge_status (status_of base) (status_of ob) (status_of cur)))"
begin

text \<open>
  A read-modify-write of the status either fails or acted on exactly the version that was
  read, however old that version was when it was read.
\<close>

lemma current_is_read:
  assumes "good e" "ob0 \<in> known e" "obj_key ob = obj_key ob0" "ResourceVersion ob = ResourceVersion ob0"
    and "stored e (obj_key ob) = Some cur" "ResourceVersion cur = ResourceVersion ob"
  shows "cur = ob0"
proof -
  have "cur \<in> known e" "obj_key cur = obj_key ob"
    using stored_known [OF assms(1,5)] by auto
  then show ?thesis
    using version_unique [OF assms(1) \<open>cur \<in> known e\<close> assms(2)] assms(3,4,6) by simp
qed

text \<open>
  The shape all writes share: an error leaves the environment to \<open>rely\<close>, a success puts
  one new version, by a step that may use the history and the objects in hand.
\<close>

lemma triple_put:
  assumes law: "\<And>e r e'. good e \<Longrightarrow> K \<subseteq> known e \<Longrightarrow> op e = (r, e') \<Longrightarrow>
      (case r of
         Inl _ \<Rightarrow> rely e e'
       | Inr ob' \<Rightarrow> good e' \<and> known e' = insert ob' (known e) \<and> stored e' = (stored e)(k \<mapsto> ob') \<and>
           allowed (known e) (stored e) ((stored e)(k \<mapsto> ob')) \<and> Q ob')"
  shows "triple (store_evolves good stored known allowed)
    (\<lambda>w. good (wExt w) \<and> K \<subseteq> known (wExt w)) (call op)
    (\<lambda>ob' w. good (wExt w) \<and> ob' \<in> known (wExt w) \<and> Q ob')"
proof (rule tripleI)
  fix s r t
  assume P: "good (wExt s) \<and> K \<subseteq> known (wExt s)" and run: "call op s = (r, t)"
  obtain res e where op: "op (wExt s) = (res, e)"
    by (cases "op (wExt s)")
  note law = law [OF conjunct1 [OF P] conjunct2 [OF P] op]
  show "store_evolves good stored known allowed s t \<and>
      (\<forall>ob'. r = Ok ob' \<longrightarrow> good (wExt t) \<and> ob' \<in> known (wExt t) \<and> Q ob')"
  proof (cases res)
    case (Inl er)
    then show ?thesis
      using law run op by (auto simp: call_def intro: rely_evolves)
  next
    case (Inr ob')
    then have "store_evolves good stored known allowed s t"
      using law run op put_evolves [of "wExt s" e k ob'] by (auto simp: call_def store_evolves_def)
    then show ?thesis
      using law run op Inr by (auto simp: call_def)
  qed
qed

lemma triple_status_update:
  assumes key: "obj_key ob = obj_key ob0" "ResourceVersion ob = ResourceVersion ob0" "ob0 \<in> K"
    and step: "\<And>H M ob'. K \<subseteq> H \<Longrightarrow> M (obj_key ob0) = Some ob0 \<Longrightarrow> obj_key ob' = obj_key ob0 \<Longrightarrow>
      main_of ob' = main_of ob0 \<Longrightarrow> status_of ob' = status_of ob \<Longrightarrow>
      allowed H M (M(obj_key ob0 \<mapsto> ob'))"
  shows "triple (store_evolves good stored known allowed)
    (\<lambda>w. good (wExt w) \<and> K \<subseteq> known (wExt w)) (call (apiStatusUpdate api ob))
    (\<lambda>ob' w. good (wExt w) \<and> ob' \<in> known (wExt w) \<and> obj_key ob' = obj_key ob0 \<and>
       main_of ob' = main_of ob0 \<and> status_of ob' = status_of ob)"
proof (rule triple_put)
  fix e r e'
  assume g: "good e" and K: "K \<subseteq> known e" and run: "apiStatusUpdate api ob e = (r, e')"
  note law = status_update_law [OF g run]
  have cur: "cur = ob0" if "stored e (obj_key ob) = Some cur" "ResourceVersion cur = ResourceVersion ob" for cur
    using that g K key by (intro current_is_read) auto
  show "case r of
      Inl _ \<Rightarrow> rely e e'
    | Inr ob' \<Rightarrow> good e' \<and> known e' = insert ob' (known e) \<and> stored e' = (stored e)(obj_key ob0 \<mapsto> ob') \<and>
        allowed (known e) (stored e) ((stored e)(obj_key ob0 \<mapsto> ob')) \<and>
        obj_key ob' = obj_key ob0 \<and> main_of ob' = main_of ob0 \<and> status_of ob' = status_of ob"
    using law cur key step [OF K] by (auto split: sum.splits)
qed

lemma triple_update:
  assumes key: "obj_key ob = obj_key ob0" "ResourceVersion ob = ResourceVersion ob0" "ob0 \<in> K"
    and step: "\<And>H M ob'. K \<subseteq> H \<Longrightarrow> M (obj_key ob0) = Some ob0 \<Longrightarrow> obj_key ob' = obj_key ob0 \<Longrightarrow>
      main_of ob' = main_of ob \<Longrightarrow> status_of ob' = status_of ob0 \<Longrightarrow>
      allowed H M (M(obj_key ob0 \<mapsto> ob'))"
  shows "triple (store_evolves good stored known allowed)
    (\<lambda>w. good (wExt w) \<and> K \<subseteq> known (wExt w)) (call (apiUpdate api ob))
    (\<lambda>ob' w. good (wExt w) \<and> ob' \<in> known (wExt w) \<and> obj_key ob' = obj_key ob0 \<and>
       main_of ob' = main_of ob \<and> status_of ob' = status_of ob0)"
proof (rule triple_put)
  fix e r e'
  assume g: "good e" and K: "K \<subseteq> known e" and run: "apiUpdate api ob e = (r, e')"
  note law = update_law [OF g run]
  have cur: "cur = ob0" if "stored e (obj_key ob) = Some cur" "ResourceVersion cur = ResourceVersion ob" for cur
    using that g K key by (intro current_is_read) auto
  show "case r of
      Inl _ \<Rightarrow> rely e e'
    | Inr ob' \<Rightarrow> good e' \<and> known e' = insert ob' (known e) \<and> stored e' = (stored e)(obj_key ob0 \<mapsto> ob') \<and>
        allowed (known e) (stored e) ((stored e)(obj_key ob0 \<mapsto> ob')) \<and>
        obj_key ob' = obj_key ob0 \<and> main_of ob' = main_of ob \<and> status_of ob' = status_of ob0"
    using law cur key step [OF K] by (auto split: sum.splits)
qed

text \<open>A patch merges into whatever is stored, so its step must be allowed from any status.\<close>

lemma triple_status_patch:
  assumes key: "obj_key ob = obj_key base"
    and step: "\<And>H M cur ob'. K \<subseteq> H \<Longrightarrow> M (obj_key ob) = Some cur \<Longrightarrow> obj_key ob' = obj_key ob \<Longrightarrow>
      main_of ob' = main_of cur \<Longrightarrow>
      status_of ob' = merge_status (status_of base) (status_of ob) (status_of cur) \<Longrightarrow>
      allowed H M (M(obj_key ob \<mapsto> ob'))"
  shows "triple (store_evolves good stored known allowed)
    (\<lambda>w. good (wExt w) \<and> K \<subseteq> known (wExt w)) (call (apiStatusPatch api base ob))
    (\<lambda>ob' w. good (wExt w) \<and> ob' \<in> known (wExt w) \<and> obj_key ob' = obj_key ob)"
proof (rule triple_put)
  fix e r e'
  assume g: "good e" and K: "K \<subseteq> known e" and run: "apiStatusPatch api base ob e = (r, e')"
  show "case r of
      Inl _ \<Rightarrow> rely e e'
    | Inr ob' \<Rightarrow> good e' \<and> known e' = insert ob' (known e) \<and> stored e' = (stored e)(obj_key ob \<mapsto> ob') \<and>
        allowed (known e) (stored e) ((stored e)(obj_key ob \<mapsto> ob')) \<and> obj_key ob' = obj_key ob"
    using status_patch_law [OF g run] step [OF K] by (auto split: sum.splits)
qed

lemma triple_create:
  assumes step: "\<And>H M ob'. K \<subseteq> H \<Longrightarrow> M (obj_key ob) = None \<Longrightarrow> obj_key ob' = obj_key ob \<Longrightarrow>
      main_of ob' = main_of ob \<Longrightarrow> status_of ob' = status_zero \<Longrightarrow> allowed H M (M(obj_key ob \<mapsto> ob'))"
  shows "triple (store_evolves good stored known allowed)
    (\<lambda>w. good (wExt w) \<and> K \<subseteq> known (wExt w)) (call (apiCreate api ob))
    (\<lambda>ob' w. good (wExt w) \<and> ob' \<in> known (wExt w) \<and> obj_key ob' = obj_key ob \<and>
       main_of ob' = main_of ob \<and> status_of ob' = status_zero)"
proof (rule triple_put)
  fix e r e'
  assume g: "good e" and K: "K \<subseteq> known e" and run: "apiCreate api ob e = (r, e')"
  show "case r of
      Inl _ \<Rightarrow> rely e e'
    | Inr ob' \<Rightarrow> good e' \<and> known e' = insert ob' (known e) \<and> stored e' = (stored e)(obj_key ob \<mapsto> ob') \<and>
        allowed (known e) (stored e) ((stored e)(obj_key ob \<mapsto> ob')) \<and>
        obj_key ob' = obj_key ob \<and> main_of ob' = main_of ob \<and> status_of ob' = status_zero"
    using create_law [OF g run] step [OF K] by (auto split: sum.splits)
qed

lemma triple_delete:
  assumes step: "\<And>H M. allowed H M (M(obj_key ob := None))"
  shows "triple (store_evolves good stored known allowed) (\<lambda>w. good (wExt w)) (call (apiDelete api ob))
    (\<lambda>_ w. good (wExt w))"
proof (rule tripleI)
  fix s r t
  assume g: "good (wExt s)" and run: "call (apiDelete api ob) s = (r, t)"
  obtain res e where d: "apiDelete api ob (wExt s) = (res, e)"
    by (cases "apiDelete api ob (wExt s)")
  note law = delete_law [OF g d]
  show "store_evolves good stored known allowed s t \<and> (\<forall>a. r = Ok a \<longrightarrow> good (wExt t))"
  proof (cases res)
    case (Inl er)
    then show ?thesis
      using law run d by (auto simp: call_def intro: rely_evolves)
  next
    case (Inr u)
    then show ?thesis
      using run d law delete_evolves [of "wExt s" e "obj_key ob"] step
      by (auto simp: call_def store_evolves_def)
  qed
qed

end

end
