(* ===== verification/Deployment_Controller.thy ===== *)
theory Deployment_Controller
  imports Factories Pod_Controller Store_Laws
begin

section \<open>controllers/deployment\_controller.go\<close>

text \<open>
  The DeploymentReconciler: for a Deployment that the webhook gave a version and that is not
  marked yet, it makes sure the ChangeWorkload of that version exists and then marks the
  Deployment as processed.
\<close>

subsection \<open>The program\<close>

definition getChangeWorkloadByDeployment' :: "'e env \<Rightarrow> deployment \<Rightarrow> ('e world, changeWorkload) prog" where
  "getChangeWorkloadByDeployment' env d = call (apiGet (changeWorkloadApi env)
     \<lparr>nnNamespace = Namespace d, nnName = GetChangeWorkloadNameByDeployment d\<rparr>)"

definition createNewChangeWorkload :: "'e env \<Rightarrow> deployment \<Rightarrow> ('e world, changeWorkload) prog" where
  "createNewChangeWorkload env d =
     bindM (ChangeWorkloadFactory_NewInstance env
         \<lparr>facDeployment = d, facReplicas = depReplicas d\<rparr>) (\<lambda>workload.
       let workload = (case refChangeWorkload env d workload of Inl err \<Rightarrow> workload | Inr w' \<Rightarrow> w')
       in call (apiCreate (changeWorkloadApi env) workload))"

definition getOrCreateChangeWorkload :: "'e env \<Rightarrow> deployment \<Rightarrow> ('e world, changeWorkload) prog" where
  "getOrCreateChangeWorkload env d =
     bindM (attempt (getChangeWorkloadByDeployment' env d)) (\<lambda>r. case r of
       Inr workload \<Rightarrow> ret workload
     | Inl err \<Rightarrow> if isNotFound err then createNewChangeWorkload env d else throw err)"

definition defenseProcessedDeployment :: "'e env \<Rightarrow> deployment \<Rightarrow> ('e world, unit) prog" where
  "defenseProcessedDeployment env d =
     bindM (set_label DefenseStatusLabel DefenseStatusLabelProcessed d) (\<lambda>d'.
       let d' = d'\<lparr>Labels := delete_label IgnoredSuspendLabel (Labels d')\<rparr>
       in bindM (call (apiPatch (deploymentApi env) d d')) (\<lambda>_. ret ()))"

definition Deployment_Reconcile :: "'e env \<Rightarrow> namespacedName \<Rightarrow> ('e world, unit) prog" where
  "Deployment_Reconcile env req =
     bindM (attempt (call (apiGet (deploymentApi env) req))) (\<lambda>r. case r of
       Inl err \<Rightarrow> ignoreNotFound err (ret ())
     | Inr d \<Rightarrow>
         if isDefensed (Labels d) then ret ()
         else
           bindM (getOrCreateChangeWorkload env d) (\<lambda>_.
             defenseProcessedDeployment env d))"

definition Deployment_handleEvent :: "labels \<Rightarrow> bool" where
  "Deployment_handleEvent l =
     (let admissionWebhook = isAdmissionWebhook l; defenseStatus = isDefensed l
      in admissionWebhook \<and> \<not> defenseStatus)"

fun objectLabels :: "runtimeObject \<Rightarrow> labels" where
  "objectLabels (PodObject p) = Labels p"
| "objectLabels (DeploymentObject d) = Labels d"
| "objectLabels (ReplicaSetObject rs) = Labels rs"
| "objectLabels (ChangeWorkloadObject cw) = Labels cw"
| "objectLabels (ChangePodObject cp) = Labels cp"
| "objectLabels (OpsConfigInfoObject oci) = Labels oci"
| "objectLabels OtherObject = None"

definition Deployment_handleUpdateEvent :: "runtimeObject \<Rightarrow> runtimeObject \<Rightarrow> bool" where
  "Deployment_handleUpdateEvent objOld objNew = Deployment_handleEvent (objectLabels objNew)"

definition Deployment_handleCreateEvent :: "runtimeObject \<Rightarrow> bool" where
  "Deployment_handleCreateEvent obj = Deployment_handleEvent (objectLabels obj)"

end
