(* ===== verification/Lifecycle.thy ===== *)
theory Lifecycle
  imports Store_Laws
begin

section \<open>The life of a ChangePod, abstractly\<close>

text \<open>
  What the operator promises of every ChangePod, independently of which goroutine does it:
  \<^item> it starts in \<open>ExecuteInit\<close>, is announced (\<open>PreWait\<close>, \<open>PreSubmitted\<close>),
    checked before (\<open>PostWait\<close>) and after (\<open>PostSubmitted\<close>), and finished;
  \<^item> each announcement may fail and each check may time out;
  \<^item> every such ending leads to \<open>ExecuteDone\<close>, with the ending kept as the message.
  \<open>statusStep\<close> is one step on the status, \<open>podTrans\<close> one change of the set of stored
  ChangePods, which the programs of the controllers are shown to refine.
\<close>

subsection \<open>Steps of one status\<close>

definition endings :: "string list" where
  "endings = [PreTimeout, PreFailed, PostFinish, PostTimeout, PostFailed]"

inductive statusStep :: "changePodStatus \<Rightarrow> changePodStatus \<Rightarrow> bool" where
  picked: "cpStatusStatus s = ExecuteInit \<Longrightarrow> cpStatusStatus t = PreWait \<Longrightarrow>
    cpMessage t = cpMessage s \<Longrightarrow> statusStep s t"
| start_failed: "cpStatusStatus s = PreWait \<Longrightarrow> cpStatusStatus t = PreFailed \<Longrightarrow> statusStep s t"
| started: "cpStatusStatus s = PreWait \<Longrightarrow> cpStatusStatus t = PreSubmitted \<Longrightarrow>
    cpPreTimeoutThreshold t = ChangePodPreTimeoutThreshold \<Longrightarrow> statusStep s t"
| pre_checked: "cpStatusStatus s = PreSubmitted \<Longrightarrow> cpStatusStatus t = PostWait \<Longrightarrow> statusStep s t"
| pre_timeout: "cpStatusStatus s = PreSubmitted \<Longrightarrow> cpStatusStatus t = PreTimeout \<Longrightarrow> statusStep s t"
| finish_failed: "cpStatusStatus s = PostWait \<Longrightarrow> cpStatusStatus t = PostFailed \<Longrightarrow> statusStep s t"
| finished: "cpStatusStatus s = PostWait \<Longrightarrow> cpStatusStatus t = PostSubmitted \<Longrightarrow>
    cpPostTimeoutThreshold t = ChangePodPostTimeoutThreshold \<Longrightarrow> statusStep s t"
| post_checked: "cpStatusStatus s = PostSubmitted \<Longrightarrow> cpStatusStatus t = PostFinish \<Longrightarrow> statusStep s t"
| post_timeout: "cpStatusStatus s = PostSubmitted \<Longrightarrow> cpStatusStatus t = PostTimeout \<Longrightarrow> statusStep s t"
| closed: "cpStatusStatus s \<in> set endings \<Longrightarrow> cpStatusStatus t = ExecuteDone \<Longrightarrow>
    cpMessage t = cpStatusStatus s \<Longrightarrow> statusStep s t"

inductive_cases statusStepE: "statusStep s t"
inductive_simps statusStep_simps: "statusStep s t"

text \<open>How many steps a ChangePod can still make.\<close>

definition statusRank :: "string \<Rightarrow> nat" where
  "statusRank s =
     (if s = ExecuteInit then 6
      else if s = PreWait then 5
      else if s = PreSubmitted then 4
      else if s = PostWait then 3
      else if s = PostSubmitted then 2
      else if s \<in> set endings then 1
      else 0)"

lemma statusRank_simps [simp]:
  "statusRank ExecuteInit = 6" "statusRank PreWait = 5" "statusRank PreSubmitted = 4"
  "statusRank PostWait = 3" "statusRank PostSubmitted = 2" "statusRank ExecuteDone = 0"
  "s \<in> set endings \<Longrightarrow> statusRank s = 1"
  by (auto simp: statusRank_def endings_def changePod_status_defs)

lemma endings_rank [simp]:
  "statusRank PreTimeout = 1" "statusRank PreFailed = 1" "statusRank PostFinish = 1"
  "statusRank PostTimeout = 1" "statusRank PostFailed = 1"
  by (simp_all add: endings_def)

lemma statusStep_rank: "statusStep s t \<Longrightarrow> statusRank (cpStatusStatus t) < statusRank (cpStatusStatus s)"
  by (induction rule: statusStep.induct) simp_all

lemma statusStep_path_rank:
  "(statusStep ^^ n) s t \<Longrightarrow> statusRank (cpStatusStatus t) + n \<le> statusRank (cpStatusStatus s)"
proof (induction n arbitrary: t)
  case 0
  then show ?case by simp
next
  case (Suc n)
  then obtain u where u: "(statusStep ^^ n) s u" "statusStep u t" by auto
  show ?case using Suc.IH [OF u(1)] statusStep_rank [OF u(2)] by simp
qed

lemma statusStep_done: "cpStatusStatus s = ExecuteDone \<Longrightarrow> \<not> statusStep s t"
  by (simp add: statusStep_simps endings_def changePod_status_defs)

text \<open>
  Well-formed: one of the eleven statuses; a submitted ChangePod has its deadline; a closed one
  carries the ending it had.
\<close>

definition statuses :: "string list" where
  "statuses = [ExecuteInit, PreWait, PreSubmitted, PostWait, PostSubmitted, ExecuteDone] @ endings"

definition statusInv :: "changePodStatus \<Rightarrow> bool" where
  "statusInv s \<longleftrightarrow>
     cpStatusStatus s \<in> set statuses \<and>
     (cpStatusStatus s = PreSubmitted \<longrightarrow> cpPreTimeoutThreshold s = ChangePodPreTimeoutThreshold) \<and>
     (cpStatusStatus s = PostSubmitted \<longrightarrow> cpPostTimeoutThreshold s = ChangePodPostTimeoutThreshold) \<and>
     (cpStatusStatus s = ExecuteDone \<longrightarrow> cpMessage s \<in> set endings)"

lemma statusStep_inv: "statusStep s t \<Longrightarrow> statusInv t"
  by (induction rule: statusStep.induct)
    (auto simp: statusInv_def statuses_def endings_def changePod_status_defs)

subsection \<open>Transitions of the stored ChangePods\<close>

type_synonym changePods = "namespacedName \<Rightarrow> changePod option"

inductive podTrans :: "changePods \<Rightarrow> changePods \<Rightarrow> bool" where
  create: "M k = None \<Longrightarrow> obj_key cp = k \<Longrightarrow> cpStatus cp = zeroChangePodStatus \<Longrightarrow>
    podTrans M (M(k \<mapsto> cp))"
| delete: "podTrans M (M(k := None))"
| respec: "M k = Some cp \<Longrightarrow> obj_key cp' = k \<Longrightarrow> cpStatus cp' = cpStatus cp \<Longrightarrow>
    podTrans M (M(k \<mapsto> cp'))"
| advance: "M k = Some cp \<Longrightarrow> obj_key cp' = k \<Longrightarrow> cpSpec cp' = cpSpec cp \<Longrightarrow>
    statusStep (cpStatus cp) (cpStatus cp') \<Longrightarrow> podTrans M (M(k \<mapsto> cp'))"

definition podsInv :: "changePods \<Rightarrow> bool" where
  "podsInv M \<longleftrightarrow> (\<forall>k cp. M k = Some cp \<longrightarrow> obj_key cp = k \<and> statusInv (cpStatus cp))"

lemma podTrans_inv: "podTrans M N \<Longrightarrow> podsInv M \<Longrightarrow> podsInv N"
proof (induction rule: podTrans.induct)
  case (create M k cp)
  then show ?case
    by (auto simp: podsInv_def statusInv_def statuses_def zeroChangePodStatus_def changePod_status_defs)
next
  case (delete M k)
  then show ?case by (auto simp: podsInv_def)
next
  case (respec M k cp cp')
  then show ?case by (auto simp: podsInv_def)
next
  case (advance M k cp cp')
  then show ?case by (auto simp: podsInv_def dest: statusStep_inv)
qed

text \<open>
  The transitions with the history. Besides the transitions of the life cycle there is the
  verdict callback: it patches the status without a resource version, so it may overwrite any
  status, and only the version it had read is known to have been waiting for a verdict.
\<close>

inductive podSteps :: "changePod set \<Rightarrow> changePods \<Rightarrow> changePods \<Rightarrow> bool" for H where
  own: "podTrans M N \<Longrightarrow> podSteps H M N"
| verdict: "M k = Some cp \<Longrightarrow> cp0 \<in> H \<Longrightarrow> obj_key cp0 = k \<Longrightarrow> obj_key cp' = k \<Longrightarrow> cpSpec cp' = cpSpec cp \<Longrightarrow>
    (changePodState cp0, changePodState cp') \<in> {(PreSubmitted, PostWait), (PostSubmitted, PostFinish)} \<Longrightarrow>
    podSteps H M (M(k \<mapsto> cp'))"

text \<open>What holds of every version ever stored.\<close>

definition podViewInv :: "changePods \<times> changePod set \<Rightarrow> bool" where
  "podViewInv v \<longleftrightarrow> podsInv (fst v) \<and> (\<forall>cp\<in>snd v. statusInv (cpStatus cp))"

lemma podSteps_step_inv: "podSteps H M N \<Longrightarrow> podsInv M \<Longrightarrow> podsInv N"
proof (induction rule: podSteps.induct)
  case (own M N)
  then show ?case by (rule podTrans_inv)
next
  case (verdict M k cp cp0 cp')
  then show ?case by (auto simp: podsInv_def statusInv_def statuses_def endings_def changePod_status_defs)
qed

lemma podSteps_inv:
  assumes "(view_step podSteps)\<^sup>*\<^sup>* v w" "podViewInv v"
  shows "podViewInv w"
  using assms
proof (induction rule: rtranclp_induct)
  case (step u w)
  from step.hyps(2) step.IH [OF step.prems] show ?case
  proof (cases rule: view_step.cases)
    case (1 H M N)
    then have "podsInv N"
      using podSteps_step_inv [of H M N] step.IH [OF step.prems] by (simp add: podViewInv_def)
    then show ?thesis
      using 1 step.IH [OF step.prems] by (auto simp: podViewInv_def podsInv_def ran_def)
  qed
qed

text \<open>While it is not deleted, a ChangePod never goes back.\<close>

lemma podTrans_rank:
  assumes "podTrans M N" "M k = Some cp" "N k = Some cp'"
  shows "cpStatus cp' = cpStatus cp \<or> statusRank (changePodState cp') < statusRank (changePodState cp)"
  using assms by (cases rule: podTrans.cases) (auto split: if_splits dest: statusStep_rank)

lemma podTrans_path_rank:
  assumes "(\<lambda>M N. podTrans M N \<and> N k \<noteq> None)\<^sup>*\<^sup>* M N" "M k = Some cp"
  shows "\<exists>cp'. N k = Some cp' \<and>
    (cpStatus cp' = cpStatus cp \<or> statusRank (changePodState cp') < statusRank (changePodState cp))"
  using assms
proof (induction rule: rtranclp_induct)
  case (step N P)
  then obtain cp' cp'' where "N k = Some cp'" "P k = Some cp''"
    "cpStatus cp' = cpStatus cp \<or> statusRank (changePodState cp') < statusRank (changePodState cp)"
    by auto
  then show ?case
    using podTrans_rank [of N P k cp' cp''] step.hyps(2) by auto
qed simp

section \<open>The life of a ChangeWorkload, abstractly\<close>

text \<open>
  A ChangeWorkload starts running, is judged by the verdicts collected so far, and can time out
  and resume. \<open>workloadTrans\<close> is one change of the stored ChangeWorkloads; resuming is
  possible only when some version had timed out, which is why the relation sees the history.
\<close>

inductive workloadStep :: "changeWorkload set \<Rightarrow> changeWorkloadStatus \<Rightarrow> changeWorkloadStatus \<Rightarrow> bool"
  for H where
  launched: "cwStatusStatus s = Init \<Longrightarrow> cwStatusStatus t = Running \<Longrightarrow>
    cwDefensePreparingPods t = cwDefensePreparingPods s \<Longrightarrow>
    cwDefenseCheckPassPods t = cwDefenseCheckPassPods s \<Longrightarrow>
    cwDefenseCheckFailPods t = cwDefenseCheckFailPods s \<Longrightarrow> workloadStep H s t"
| entered: "cwStatusStatus t = cwStatusStatus s \<Longrightarrow>
    cwDefensePreparingPods t = cwDefensePreparingPods s \<Longrightarrow>
    cwDefenseCheckPassPods t = cwDefenseCheckPassPods s \<Longrightarrow>
    cwDefenseCheckFailPods t = cwDefenseCheckFailPods s \<Longrightarrow> workloadStep H s t"
| judged: "cwDefensePreparingPods t = cwDefensePreparingPods s \<Longrightarrow>
    distinct (map psPod (cwDefenseCheckPassPods t)) \<Longrightarrow>
    distinct (map psPod (cwDefenseCheckFailPods t)) \<Longrightarrow>
    (cwDefenseCheckFailPods t \<noteq> [] \<longrightarrow> cwStatusStatus t = Suspend) \<Longrightarrow>
    (cwDefenseCheckFailPods t = [] \<longrightarrow> cwStatusStatus t \<in> {cwStatusStatus s, Success}) \<Longrightarrow>
    workloadStep H s t"
| expired: "cwStatusStatus s = Running \<Longrightarrow> cwDefensePreparingPods s \<noteq> [] \<Longrightarrow>
    cwStatusStatus t = TimeOutPreThreshold \<Longrightarrow> workloadStep H s t"
| resumed: "cw \<in> H \<Longrightarrow> changeWorkloadState cw = TimeOutPreThreshold \<Longrightarrow> cwStatusStatus t = Running \<Longrightarrow>
    workloadStep H s t"

type_synonym changeWorkloads = "namespacedName \<Rightarrow> changeWorkload option"

inductive workloadTrans :: "changeWorkload set \<Rightarrow> changeWorkloads \<Rightarrow> changeWorkloads \<Rightarrow> bool" for H where
  create: "M k = None \<Longrightarrow> obj_key cw = k \<Longrightarrow> cwStatus cw = zeroChangeWorkloadStatus \<Longrightarrow>
    workloadTrans H M (M(k \<mapsto> cw))"
| delete: "workloadTrans H M (M(k := None))"
| advance: "M k = Some cw \<Longrightarrow> obj_key cw' = k \<Longrightarrow> cwSpec cw' = cwSpec cw \<Longrightarrow>
    workloadStep H (cwStatus cw) (cwStatus cw') \<Longrightarrow> workloadTrans H M (M(k \<mapsto> cw'))"

text \<open>
  No ChangeWorkload ever has preparing pods, so none expires; a failed pod suspends it; the
  verdict lists name every pod once.
\<close>

definition workloadInv :: "changeWorkloadStatus \<Rightarrow> bool" where
  "workloadInv s \<longleftrightarrow>
     cwDefensePreparingPods s = [] \<and>
     cwStatusStatus s \<in> {Init, Running, Success, Suspend} \<and>
     (cwDefenseCheckFailPods s \<noteq> [] \<longrightarrow> cwStatusStatus s = Suspend) \<and>
     distinct (map psPod (cwDefenseCheckPassPods s)) \<and>
     distinct (map psPod (cwDefenseCheckFailPods s))"

lemma workloadStep_inv:
  assumes "workloadStep H s t" "workloadInv s" "\<forall>cw\<in>H. workloadInv (cwStatus cw)"
  shows "workloadInv t"
  using assms
  by (cases rule: workloadStep.cases)
    (auto simp: workloadInv_def changeWorkload_status_defs)

definition workloadsInv :: "changeWorkloads \<Rightarrow> bool" where
  "workloadsInv M \<longleftrightarrow> (\<forall>k cw. M k = Some cw \<longrightarrow> obj_key cw = k \<and> workloadInv (cwStatus cw))"

definition workloadViewInv :: "changeWorkloads \<times> changeWorkload set \<Rightarrow> bool" where
  "workloadViewInv v \<longleftrightarrow> workloadsInv (fst v) \<and> (\<forall>cw\<in>snd v. workloadInv (cwStatus cw))"

lemma workloadInv_zero: "workloadInv zeroChangeWorkloadStatus"
  by (simp add: workloadInv_def zeroChangeWorkloadStatus_def changeWorkload_status_defs)

lemma workloadTrans_inv:
  assumes "workloadTrans H M N" "workloadsInv M" "\<forall>cw\<in>H. workloadInv (cwStatus cw)"
  shows "workloadsInv N"
  using assms
  by (cases rule: workloadTrans.cases)
    (auto simp: workloadsInv_def workloadInv_zero dest: workloadStep_inv)

lemma workloadSteps_inv:
  assumes "(view_step workloadTrans)\<^sup>*\<^sup>* v w" "workloadViewInv v"
  shows "workloadViewInv w"
  using assms
proof (induction rule: rtranclp_induct)
  case (step u w)
  from step.hyps(2) show ?case
  proof (cases rule: view_step.cases)
    case (1 H M N)
    then have "workloadsInv N"
      using workloadTrans_inv [of H M N] step.IH [OF step.prems] by (simp add: workloadViewInv_def)
    then show ?thesis
      using 1 step.IH [OF step.prems] by (auto simp: workloadViewInv_def workloadsInv_def ran_def)
  qed
qed

end
