(* ===== verification/Go_Crypto.thy ===== *)
theory Go_Crypto
  imports Go_Std "HOL-Library.Word"
begin

section \<open>crypto/md5, crypto/sha256, encoding/hex and encoding/base64\<close>

text \<open>
  The digests and encodings the webhook (\<open>getDeploymentTemplateHash\<close>) and the HTTP client
  (\<open>sign\<close>) use, on byte strings: MD5 (RFC 1321), SHA-256 (FIPS 180-4), lower-case hex
  and URL-safe padded base64.
\<close>

unbundle bit_operations_syntax

type_synonym u32 = "32 word"

definition byte_word :: "char \<Rightarrow> u32" where
  "byte_word c = of_nat (of_char c)"

definition word_byte :: "u32 \<Rightarrow> char" where
  "word_byte w = char_of (unat (w AND 0xFF))"

definition le_word :: "string \<Rightarrow> u32" where
  "le_word bs = foldr (\<lambda>c w. push_bit 8 w OR byte_word c) bs 0"

definition be_word :: "string \<Rightarrow> u32" where
  "be_word bs = foldl (\<lambda>w c. push_bit 8 w OR byte_word c) 0 bs"

definition be_bytes :: "u32 \<Rightarrow> string" where
  "be_bytes w = [word_byte (drop_bit 24 w), word_byte (drop_bit 16 w), word_byte (drop_bit 8 w), word_byte w]"

definition le_bytes :: "u32 \<Rightarrow> string" where
  "le_bytes w = rev (be_bytes w)"

fun chunks :: "nat \<Rightarrow> 'a list \<Rightarrow> 'a list list" where
  "chunks n xs = (if xs = [] \<or> n = 0 then [] else take n xs # chunks n (drop n xs))"

declare chunks.simps [simp del]

text \<open>A message, the byte \<open>0x80\<close>, zeros up to 56 modulo 64, and its length in bits.\<close>

definition pad_message :: "string \<Rightarrow> string \<Rightarrow> string" where
  "pad_message len m =
     (let k = (119 - length m mod 64) mod 64
      in m @ [CHR 0x80] @ replicate k (CHR 0x00) @ len)"

definition bit_length_words :: "string \<Rightarrow> u32 \<times> u32" where
  "bit_length_words m = (let n = 8 * length m in (of_nat (n div 2 ^ 32), of_nat n))"

subsection \<open>MD5\<close>

definition md5_k :: "u32 list" where
  "md5_k =
    [0xd76aa478, 0xe8c7b756, 0x242070db, 0xc1bdceee, 0xf57c0faf, 0x4787c62a,
     0xa8304613, 0xfd469501, 0x698098d8, 0x8b44f7af, 0xffff5bb1, 0x895cd7be,
     0x6b901122, 0xfd987193, 0xa679438e, 0x49b40821, 0xf61e2562, 0xc040b340,
     0x265e5a51, 0xe9b6c7aa, 0xd62f105d, 0x02441453, 0xd8a1e681, 0xe7d3fbc8,
     0x21e1cde6, 0xc33707d6, 0xf4d50d87, 0x455a14ed, 0xa9e3e905, 0xfcefa3f8,
     0x676f02d9, 0x8d2a4c8a, 0xfffa3942, 0x8771f681, 0x6d9d6122, 0xfde5380c,
     0xa4beea44, 0x4bdecfa9, 0xf6bb4b60, 0xbebfbc70, 0x289b7ec6, 0xeaa127fa,
     0xd4ef3085, 0x04881d05, 0xd9d4d039, 0xe6db99e5, 0x1fa27cf8, 0xc4ac5665,
     0xf4292244, 0x432aff97, 0xab9423a7, 0xfc93a039, 0x655b59c3, 0x8f0ccc92,
     0xffeff47d, 0x85845dd1, 0x6fa87e4f, 0xfe2ce6e0, 0xa3014314, 0x4e0811a1,
     0xf7537e82, 0xbd3af235, 0x2ad7d2bb, 0xeb86d391]"

definition md5_s :: "nat list" where
  "md5_s =
    [7, 12, 17, 22, 7, 12, 17, 22, 7, 12, 17, 22, 7, 12, 17, 22,
     5, 9, 14, 20, 5, 9, 14, 20, 5, 9, 14, 20, 5, 9, 14, 20,
     4, 11, 16, 23, 4, 11, 16, 23, 4, 11, 16, 23, 4, 11, 16, 23,
     6, 10, 15, 21, 6, 10, 15, 21, 6, 10, 15, 21, 6, 10, 15, 21]"

definition md5_f :: "nat \<Rightarrow> u32 \<Rightarrow> u32 \<Rightarrow> u32 \<Rightarrow> u32 \<times> nat" where
  "md5_f i b c d =
     (if i < 16 then ((b AND c) OR (NOT b AND d), i)
      else if i < 32 then ((d AND b) OR (NOT d AND c), (5 * i + 1) mod 16)
      else if i < 48 then (b XOR c XOR d, (3 * i + 5) mod 16)
      else (c XOR (b OR NOT d), (7 * i) mod 16))"

fun md5_round :: "u32 list \<Rightarrow> nat \<times> u32 \<times> nat \<Rightarrow> u32 \<times> u32 \<times> u32 \<times> u32 \<Rightarrow> u32 \<times> u32 \<times> u32 \<times> u32" where
  "md5_round m (i, k, r) (a, b, c, d) =
     (let (f, g) = md5_f i b c d
      in (d, b + word_rotl r (f + a + k + m ! g), b, c))"

fun md5_block :: "u32 \<times> u32 \<times> u32 \<times> u32 \<Rightarrow> string \<Rightarrow> u32 \<times> u32 \<times> u32 \<times> u32" where
  "md5_block (a0, b0, c0, d0) blk =
     (let m = map le_word (chunks 4 blk);
          (a, b, c, d) = fold (md5_round m) (zip [0..<64] (zip md5_k md5_s)) (a0, b0, c0, d0)
      in (a0 + a, b0 + b, c0 + c, d0 + d))"

definition md5_sum :: "string \<Rightarrow> string" where
  "md5_sum msg =
     (let (hi, lo) = bit_length_words msg;
          (a, b, c, d) = foldl md5_block (0x67452301, 0xEFCDAB89, 0x98BADCFE, 0x10325476)
            (chunks 64 (pad_message (le_bytes lo @ le_bytes hi) msg))
      in le_bytes a @ le_bytes b @ le_bytes c @ le_bytes d)"

subsection \<open>SHA-256\<close>

text \<open>
  The constants in decimal: the first 32 bits of the fractional parts of the cube roots of the
  first 64 primes, and of the square roots of the first eight.
\<close>

definition sha_k :: "u32 list" where
  "sha_k =
    [1116352408, 1899447441, 3049323471, 3921009573, 961987163, 1508970993, 2453635748,
     2870763221, 3624381080, 310598401, 607225278, 1426881987, 1925078388, 2162078206,
     2614888103, 3248222580, 3835390401, 4022224774, 264347078, 604807628, 770255983,
     1249150122, 1555081692, 1996064986, 2554220882, 2821834349, 2952996808, 3210313671,
     3336571891, 3584528711, 113926993, 338241895, 666307205, 773529912, 1294757372,
     1396182291, 1695183700, 1986661051, 2177026350, 2456956037, 2730485921, 2820302411,
     3259730800, 3345764771, 3516065817, 3600352804, 4094571909, 275423344, 430227734,
     506948616, 659060556, 883997877, 958139571, 1322822218, 1537002063, 1747873779,
     1955562222, 2024104815, 2227730452, 2361852424, 2428436474, 2756734187, 3204031479,
     3329325298]"

definition sha_init :: "u32 list" where
  "sha_init =
    [1779033703, 3144134277, 1013904242, 2773480762, 1359893119, 2600822924, 528734635,
     1541459225]"

text \<open>The message schedule, newest word first.\<close>

fun sha_extend :: "nat \<Rightarrow> u32 list \<Rightarrow> u32 list" where
  "sha_extend 0 ws = ws"
| "sha_extend (Suc n) ws =
     (let w15 = ws ! 14; w2 = ws ! 1;
          s0 = word_rotr 7 w15 XOR word_rotr 18 w15 XOR drop_bit 3 w15;
          s1 = word_rotr 17 w2 XOR word_rotr 19 w2 XOR drop_bit 10 w2
      in sha_extend n ((ws ! 15 + s0 + ws ! 6 + s1) # ws))"

definition sha_round :: "u32 \<times> u32 \<Rightarrow> u32 list \<Rightarrow> u32 list" where
  "sha_round kw v =
     (let (k, w) = kw;
          a = v ! 0; b = v ! 1; c = v ! 2; d = v ! 3; e = v ! 4; f = v ! 5; g = v ! 6; h = v ! 7;
          s1 = word_rotr 6 e XOR word_rotr 11 e XOR word_rotr 25 e;
          ch = (e AND f) XOR (NOT e AND g);
          t1 = h + s1 + ch + k + w;
          s0 = word_rotr 2 a XOR word_rotr 13 a XOR word_rotr 22 a;
          maj = (a AND b) XOR (a AND c) XOR (b AND c);
          t2 = s0 + maj
      in [t1 + t2, a, b, c, d + t1, e, f, g])"

definition sha_block :: "u32 list \<Rightarrow> string \<Rightarrow> u32 list" where
  "sha_block h blk =
     (let ws = rev (sha_extend 48 (rev (map be_word (chunks 4 blk))))
      in map2 (+) h (fold sha_round (zip sha_k ws) h))"

definition sha256_sum :: "string \<Rightarrow> string" where
  "sha256_sum msg =
     (let (hi, lo) = bit_length_words msg
      in concat (map be_bytes (foldl sha_block sha_init
           (chunks 64 (pad_message (be_bytes hi @ be_bytes lo) msg)))))"

subsection \<open>hex and base64\<close>

definition hex_encode :: "string \<Rightarrow> string" where
  "hex_encode bs = concat (map (\<lambda>c. let b = (of_char c :: nat) in [hex_digit (b div 16), hex_digit (b mod 16)]) bs)"

definition base64_digit :: "nat \<Rightarrow> char" where
  "base64_digit n =
     (if n < 26 then char_of (65 + n) else if n < 52 then char_of (71 + n)
      else if n < 62 then char_of (n - 4) else if n = 62 then CHR ''-'' else CHR ''_'')"

fun base64_url :: "string \<Rightarrow> string" where
  "base64_url [] = []"
| "base64_url [x] =
     (let n = of_char x * 16 in [base64_digit (n div 64), base64_digit (n mod 64), CHR ''='', CHR ''=''])"
| "base64_url [x, y] =
     (let n = (of_char x * 256 + of_char y) * 4
      in [base64_digit (n div 4096), base64_digit (n div 64 mod 64), base64_digit (n mod 64), CHR ''=''])"
| "base64_url (x # y # z # r) =
     (let n = of_char x * 65536 + of_char y * 256 + of_char z
      in [base64_digit (n div 262144), base64_digit (n div 4096 mod 64),
          base64_digit (n div 64 mod 64), base64_digit (n mod 64)] @ base64_url r)"

text \<open>\<open>strings.ToUpper\<close> on ASCII text.\<close>

definition upper_char :: "char \<Rightarrow> char" where
  "upper_char c = (let b = (of_char c :: nat) in if 97 \<le> b \<and> b \<le> 122 then char_of (b - 32) else c)"

definition to_upper :: "string \<Rightarrow> string" where
  "to_upper s = map upper_char s"

subsection \<open>Shape of the results\<close>

lemma length_be_bytes [simp]: "length (be_bytes w) = 4"
  by (simp add: be_bytes_def)

lemma length_le_bytes [simp]: "length (le_bytes w) = 4"
  by (simp add: le_bytes_def)

lemma length_md5_sum: "length (md5_sum m) = 16"
  by (simp add: md5_sum_def Let_def split: prod.split)

lemma length_hex_encode: "length (hex_encode bs) = 2 * length bs"
  by (induction bs) (simp_all add: hex_encode_def Let_def)

lemma of_char_less_256: "(of_char c :: nat) < 256"
  using nat_of_char_less_256 by simp

lemma hex_digit_not_minus: "n < 16 \<Longrightarrow> hex_digit n \<noteq> CHR ''-''"
proof -
  assume n: "n < 16"
  have "of_char (hex_digit n) \<noteq> (of_char CHR ''-'' :: nat)"
    using n by (simp add: hex_digit_def)
  then show ?thesis by metis
qed

lemma hex_encode_no_minus: "CHR ''-'' \<notin> set (hex_encode bs)"
proof (induction bs)
  case Nil
  then show ?case by (simp add: hex_encode_def)
next
  case (Cons c bs)
  have "(of_char c :: nat) div 16 < 16" "(of_char c :: nat) mod 16 < 16"
    using of_char_less_256 [of c] by (simp_all add: div_less_iff_less_mult)
  then have "CHR ''-'' \<noteq> hex_digit (of_char c div 16)" "CHR ''-'' \<noteq> hex_digit (of_char c mod 16)"
    using hex_digit_not_minus by metis+
  then show ?case
    using Cons by (simp add: hex_encode_def Let_def)
qed

end
