(* ===== verification/Ops_Client.thy ===== *)
theory Ops_Client
  imports Common_Utils Go_Crypto
begin

section \<open>controllers/client/opscloud\_client.go\<close>

text \<open>
  The client of the AlterShield control plane: the request structs and their JSON form, the
  signature header, the POST with its retry loop, and the service calls built on it. The HTTP
  transport and the decoder of the response are parameters (\<open>httpDo\<close>,
  \<open>unmarshalResult\<close>). The retry loop is a recursion on the retry counter.
\<close>

subsection \<open>Constants and requests\<close>

definition Platform :: string where "Platform = ''cafed''"
definition Token :: string where "Token = ''123''"
definition OpsCloudDomain :: string where "OpsCloudDomain = ''http://localhost:8080''"
definition ApiVersion :: string where "ApiVersion = ''v1''"
definition SubmitChangeExecOrderAction :: string where
  "SubmitChangeExecOrderAction = ''submitChangeExecOrder''"
definition SubmitChangeStartNotifyAction :: string where
  "SubmitChangeStartNotifyAction = ''submitChangeExecBatchStartNotify''"
definition SubmitChangeFinishNotifyAction :: string where
  "SubmitChangeFinishNotifyAction = ''submitChangeFinishNotify''"
definition HttpHeaderPlatformKey :: string where "HttpHeaderPlatformKey = ''X-OpsCloud-Platform''"
definition HttpHeaderTimestampKey :: string where "HttpHeaderTimestampKey = ''X-OpsCloud-Timestamp''"
definition HttpHeaderSignKey :: string where "HttpHeaderSignKey = ''X-OpsCloud-Sign''"
definition OpsCloudChangeCheckTypeEnumBatch :: string where
  "OpsCloudChangeCheckTypeEnumBatch = ''CHANGE_BATCH''"
definition DefenseStageEnumPre :: string where "DefenseStageEnumPre = ''PRE''"
definition DefenseStageEnumPost :: string where "DefenseStageEnumPost = ''POST''"
definition MaxRetryCount :: nat where "MaxRetryCount = 3"
definition RetryInterval :: int where "RetryInterval = second * 1"

record opsCloudChangeExecBatchStartNotifyRequest =
  snPlatform :: string
  snBizExecOrderId :: string
  snChangeSceneKey :: string
  snBatchNo :: nat
  snChangePhase :: string
  snEffectiveTargetType :: string
  snEffectiveTargetLocations :: "string list"
  snExecutor :: string
  snTotalBatchNum :: nat
  snTotalBatchNumInChangePhase :: nat
  snTldcTenantCode :: string

record opsCloudChangeFinishNotifyRequest =
  fnBizExecOrderId :: string
  fnChangeSceneKey :: string
  fnNodeId :: string
  fnPlatform :: string
  fnServiceResult :: string
  fnSuccess :: bool
  fnTldcTenantCode :: string

record opsCloudChangeExecOrderSubmitRequest =
  eoBizExecOrderId :: string
  eoPlatform :: string
  eoChangeSceneKey :: string
  eoChangeApps :: "string list"
  eoChangeParamJson :: string
  eoChangePhases :: "string list"
  eoChangeScenarioCode :: string
  eoChangeTitle :: string
  eoChangeUrl :: string
  eoCreator :: string
  eoChangeContents :: "(string \<times> string) list"
  eoTldcTenantCode :: string

text \<open>
  The JSON objects of the structs, in field order. A list is nil in Go when nothing was
  appended to it, and nil encodes as \<open>null\<close>. A change content is its type name and
  instance name.
\<close>

definition json_list :: "json list \<Rightarrow> json" where
  "json_list xs = (if xs = [] then JNull else JArray xs)"

definition startNotify_json :: "opsCloudChangeExecBatchStartNotifyRequest \<Rightarrow> json" where
  "startNotify_json r = JObject
     [(''platform'', JString (snPlatform r)), (''bizExecOrderId'', JString (snBizExecOrderId r)),
      (''changeSceneKey'', JString (snChangeSceneKey r)), (''batchNo'', JInt (int (snBatchNo r))),
      (''changePhase'', JString (snChangePhase r)),
      (''effectiveTargetType'', JString (snEffectiveTargetType r)),
      (''effectiveTargetLocations'', json_list (map JString (snEffectiveTargetLocations r))),
      (''executor'', JString (snExecutor r)), (''totalBatchNum'', JInt (int (snTotalBatchNum r))),
      (''totalBatchNumInChangePhase'', JInt (int (snTotalBatchNumInChangePhase r))),
      (''tldcTenantCode'', JString (snTldcTenantCode r))]"

definition finishNotify_json :: "opsCloudChangeFinishNotifyRequest \<Rightarrow> json" where
  "finishNotify_json r = JObject
     [(''bizExecOrderId'', JString (fnBizExecOrderId r)), (''changeSceneKey'', JString (fnChangeSceneKey r)),
      (''nodeId'', JString (fnNodeId r)), (''platform'', JString (fnPlatform r)),
      (''serviceResult'', JString (fnServiceResult r)), (''success'', JBool (fnSuccess r)),
      (''tldcTenantCode'', JString (fnTldcTenantCode r))]"

definition execOrder_json :: "opsCloudChangeExecOrderSubmitRequest \<Rightarrow> json" where
  "execOrder_json r = JObject
     [(''bizExecOrderId'', JString (eoBizExecOrderId r)), (''platform'', JString (eoPlatform r)),
      (''changeSceneKey'', JString (eoChangeSceneKey r)),
      (''changeApps'', json_list (map JString (eoChangeApps r))),
      (''changeParamJson'', JString (eoChangeParamJson r)),
      (''changePhases'', json_list (map JString (eoChangePhases r))),
      (''changeScenarioCode'', JString (eoChangeScenarioCode r)),
      (''changeTitle'', JString (eoChangeTitle r)), (''changeUrl'', JString (eoChangeUrl r)),
      (''creator'', JString (eoCreator r)),
      (''changeContents'', json_list (map (\<lambda>(ty, inst). JObject
         [(''contentType'', JObject [(''typeName'', JString ty)]), (''instanceName'', JString inst)])
         (eoChangeContents r))),
      (''tldcTenantCode'', JString (eoTldcTenantCode r))]"

subsection \<open>The POST\<close>

text \<open>\<open>fmt.Sprintf(OpenApiFormat, ApiVersion, action)\<close> after the domain.\<close>

definition buildUri :: "string \<Rightarrow> string" where
  "buildUri action = OpsCloudDomain @ ''/openapi/'' @ ApiVersion @ ''/exe/'' @ action"

definition sign :: "int \<Rightarrow> string \<Rightarrow> string" where
  "sign currentTime content =
     (let strToSign = itoa currentTime @ content @ ''&token='' @ Token
      in to_upper (base64_url (sha256_sum strToSign)))"

text \<open>The \<open>for r := 0; ; r++\<close> loop, entered with the counter at \<open>r\<close>.\<close>

function postLoop :: "'e env \<Rightarrow> httpRequest \<Rightarrow> nat \<Rightarrow> ('e world, error + string) prog" where
  "postLoop env req r =
     bindM (attempt (call (httpDo env req))) (\<lambda>res.
       case res of
         Inl err \<Rightarrow>
           if r \<le> MaxRetryCount then bindM (goSleep env RetryInterval) (\<lambda>_. postLoop env req (Suc r))
           else throw err
       | Inr resp \<Rightarrow> ret resp)"
  by pat_completeness auto
termination
  by (relation "measure (\<lambda>(env, req, r). Suc MaxRetryCount - r)") auto

declare postLoop.simps [simp del]

definition doPost :: "'e env \<Rightarrow> string \<Rightarrow> json \<Rightarrow> ('e world, opsCloudResult) prog" where
  "doPost env uri request =
     (let bytes = json_encode request
      in bindM (nowUnix env) (\<lambda>currentTime.
         bindM (postLoop env
             \<lparr>reqMethod = ''POST'', reqUri = uri,
              reqHeaders = [(HttpHeaderPlatformKey, Platform), (HttpHeaderTimestampKey, itoa currentTime),
                (HttpHeaderSignKey, sign currentTime bytes), (''Content-Type'', ''application/json'')],
              reqBody = bytes\<rparr> 0) (\<lambda>body.
           case body of
             Inl err \<Rightarrow> throw err
           | Inr text \<Rightarrow>
               (case unmarshalResult env text of
                  (serviceRes, None) \<Rightarrow> ret serviceRes
                | (serviceRes, Some err) \<Rightarrow> throw err))))"

definition serviceTemplate :: "'e env \<Rightarrow> json \<Rightarrow> string \<Rightarrow> ('e world, opsCloudResult) prog" where
  "serviceTemplate env request action =
     bindM (doPost env (buildUri action) request) (\<lambda>result.
       if \<not> resSuccess result then throw (plain_error (resMsg result)) else ret result)"

definition SubmitChangeExecOrder ::
  "'e env \<Rightarrow> opsCloudChangeExecOrderSubmitRequest \<Rightarrow> ('e world, opsCloudResult) prog" where
  "SubmitChangeExecOrder env request =
     serviceTemplate env (execOrder_json request) SubmitChangeExecOrderAction"

definition SubmitChangeStartNotify ::
  "'e env \<Rightarrow> opsCloudChangeExecBatchStartNotifyRequest \<Rightarrow> ('e world, opsCloudResult) prog" where
  "SubmitChangeStartNotify env request =
     serviceTemplate env (startNotify_json request) SubmitChangeStartNotifyAction"

definition SubmitChangeFinishNotify ::
  "'e env \<Rightarrow> opsCloudChangeFinishNotifyRequest \<Rightarrow> ('e world, opsCloudResult) prog" where
  "SubmitChangeFinishNotify env request =
     serviceTemplate env (finishNotify_json request) SubmitChangeFinishNotifyAction"

subsection \<open>The retry loop\<close>

text \<open>One turn of the loop on a state.\<close>

lemma postLoop_step:
  "postLoop env req r w = (case httpDo env req (wExt w) of (res, e) \<Rightarrow>
     (case res of
        Inr resp \<Rightarrow> (Ok resp, w\<lparr>wExt := e\<rparr>)
      | Inl err \<Rightarrow>
          if r \<le> MaxRetryCount
          then postLoop env req (Suc r) (sleepFor env RetryInterval (w\<lparr>wExt := e\<rparr>))
          else (Err err, w\<lparr>wExt := e\<rparr>)))"
  by (subst postLoop.simps)
    (simp add: bindM_def attempt_def call_def throw_def ret_def goSleep_def split: prod.split sum.split)

text \<open>
  \<open>sent\<close> stands for any observation of the external state that counts the requests sent:
  each \<open>Do\<close> adds one, a sleep leaves it.
\<close>

locale request_counter =
  fixes env :: "'e env" and sent :: "'e \<Rightarrow> nat"
  assumes sent_do: "httpDo env req e = (res, e') \<Longrightarrow> sent e' = Suc (sent e)"
    and sent_sleep: "sent (wExt (sleepFor env d w)) = sent (wExt w)"
    and sent_clock: "sent (snd (nowNs env e)) = sent e"
begin

lemma postLoop_bound:
  "sent (wExt (snd (postLoop env req r w))) \<le> sent (wExt w) + Suc (Suc MaxRetryCount - r)"
proof (induction "Suc MaxRetryCount - r" arbitrary: r w rule: less_induct)
  case less
  obtain res e where h: "httpDo env req (wExt w) = (res, e)"
    by (cases "httpDo env req (wExt w)")
  note sent = sent_do [OF h]
  show ?case
  proof (cases "(\<exists>err. res = Inl err) \<and> r \<le> MaxRetryCount")
    case True
    define v where "v = sleepFor env RetryInterval (w\<lparr>wExt := e\<rparr>)"
    have "postLoop env req r w = postLoop env req (Suc r) v"
      using True h by (auto simp: postLoop_step [of env req r w] v_def)
    moreover have "sent (wExt v) = Suc (sent (wExt w))"
      using sent by (simp add: v_def sent_sleep)
    moreover have "sent (wExt (snd (postLoop env req (Suc r) v)))
        \<le> sent (wExt v) + Suc (Suc MaxRetryCount - Suc r)"
      using True by (intro less) auto
    moreover have "Suc MaxRetryCount - r = Suc (Suc MaxRetryCount - Suc r)"
      using True by (simp add: Suc_diff_le)
    ultimately show ?thesis by (simp only: add_Suc add_Suc_right)
  next
    case False
    then show ?thesis
      using h sent by (auto simp: postLoop_step [of env req r w] split: sum.split)
  qed
qed

lemma postLoop_all_fail:
  assumes fail: "\<And>e. fst (httpDo env req e) = Inl err"
  shows "fst (postLoop env req r w) = Err err \<and>
    sent (wExt (snd (postLoop env req r w))) = sent (wExt w) + Suc (Suc MaxRetryCount - r)"
proof (induction "Suc MaxRetryCount - r" arbitrary: r w rule: less_induct)
  case less
  obtain e where h: "httpDo env req (wExt w) = (Inl err, e)"
    using fail [of "wExt w"] by (cases "httpDo env req (wExt w)") auto
  note sent = sent_do [OF h]
  show ?case
  proof (cases "r \<le> MaxRetryCount")
    case True
    define v where "v = sleepFor env RetryInterval (w\<lparr>wExt := e\<rparr>)"
    have "postLoop env req r w = postLoop env req (Suc r) v"
      using True h by (simp add: postLoop_step [of env req r w] v_def)
    moreover have "sent (wExt v) = Suc (sent (wExt w))"
      using sent by (simp add: v_def sent_sleep)
    moreover have "fst (postLoop env req (Suc r) v) = Err err \<and>
        sent (wExt (snd (postLoop env req (Suc r) v))) = sent (wExt v) + Suc (Suc MaxRetryCount - Suc r)"
      using True by (intro less) auto
    ultimately show ?thesis using True by simp
  next
    case False
    then show ?thesis
      using h sent by (simp add: postLoop_step [of env req r w])
  qed
qed

lemma doPost_run:
  obtains rq where "snd (doPost env uri request w) = snd (postLoop env rq 0 (snd (nowUnix env w)))"
    "\<And>err. fst (postLoop env rq 0 (snd (nowUnix env w))) = Err err \<Longrightarrow> fst (doPost env uri request w) = Err err"
proof -
  obtain t e where n: "nowUnix env w = (Ok t, w\<lparr>wExt := e\<rparr>)" by (rule nowUnix_Ok)
  show ?thesis
    by (rule that [of "\<lparr>reqMethod = ''POST'', reqUri = uri,
        reqHeaders = [(HttpHeaderPlatformKey, Platform), (HttpHeaderTimestampKey, itoa t),
          (HttpHeaderSignKey, sign t (json_encode request)), (''Content-Type'', ''application/json'')],
        reqBody = json_encode request\<rparr>"])
      (auto simp: doPost_def n Let_def bindM_eval bindM_def throw_def ret_def
        split: prod.split outcome.split sum.split option.split)
qed

lemma sent_nowUnix: "sent (wExt (snd (nowUnix env w))) = sent (wExt w)"
  using sent_clock [of "wExt w"] by (simp add: nowUnix_def timeNow_def bindM_def ret_def case_prod_beta)

lemma doPost_bound: "sent (wExt (snd (doPost env uri request w))) \<le> sent (wExt w) + 5"
proof -
  obtain rq where "snd (doPost env uri request w) = snd (postLoop env rq 0 (snd (nowUnix env w)))"
    by (rule doPost_run)
  then show ?thesis
    using postLoop_bound [of rq 0 "snd (nowUnix env w)"] by (simp add: sent_nowUnix MaxRetryCount_def)
qed

lemma doPost_all_fail:
  assumes "\<And>rq e. fst (httpDo env rq e) = Inl err"
  shows "fst (doPost env uri request w) = Err err \<and>
    sent (wExt (snd (doPost env uri request w))) = sent (wExt w) + 5"
proof -
  obtain rq where rq: "snd (doPost env uri request w) = snd (postLoop env rq 0 (snd (nowUnix env w)))"
    "\<And>err. fst (postLoop env rq 0 (snd (nowUnix env w))) = Err err \<Longrightarrow> fst (doPost env uri request w) = Err err"
    by (rule doPost_run) blast
  then show ?thesis
    using postLoop_all_fail [OF assms, of rq 0 "snd (nowUnix env w)"] by (simp add: sent_nowUnix MaxRetryCount_def)
qed

end

text \<open>A cluster on which every request fails and is counted.\<close>

definition deadLink :: "nat env" where
  "deadLink = refusingEnv\<lparr>httpDo := (\<lambda>r n. (Inl refusedError, Suc n))\<rparr>"

interpretation deadLink: request_counter deadLink id
  by unfold_locales (auto simp: deadLink_def refusingEnv_def)

lemma postLoop_success:
  assumes "httpDo env req (wExt w) = (Inr resp, e)"
  shows "postLoop env req r w = (Ok resp, w\<lparr>wExt := e\<rparr>)"
  using assms by (simp add: postLoop_step [of env req r w])

lemma postLoop_returns: "returned (fst (postLoop env req r w))"
proof (induction "Suc MaxRetryCount - r" arbitrary: r w rule: less_induct)
  case less
  then show ?case
    by (auto simp: postLoop_step [of env req r w] split: prod.split sum.split)
qed

text \<open>A program built from parts that return returns.\<close>

lemma doPost_returns: "returned (fst (doPost env uri request w))"
proof -
  obtain t e where n: "nowUnix env w = (Ok t, w\<lparr>wExt := e\<rparr>)" by (rule nowUnix_Ok)
  then show ?thesis
    unfolding doPost_def Let_def
    by (intro returned_bindM postLoop_returns)
      (auto simp: throw_def ret_def split: sum.split option.split prod.split)
qed

lemma serviceTemplate_returns: "returned (fst (serviceTemplate env request action w))"
  unfolding serviceTemplate_def
  by (intro returned_bindM doPost_returns) (auto simp: throw_def ret_def)

lemma serviceTemplate_success:
  "fst (serviceTemplate env request action w) = Ok result \<Longrightarrow> resSuccess result"
  by (auto simp: serviceTemplate_def bindM_def throw_def ret_def
      split: prod.splits outcome.splits if_splits)

end
