(* ===== verification/Refinement.thy ===== *)
theory Refinement
  imports Store_Laws Config Ops_Client Factories
begin

section \<open>Programs that refine a transition system\<close>

text \<open>
  \<open>refines good stored known allowed m\<close>: from every good state, however \<open>m\<close> ends, the
  stored objects of the kind in view have changed only by \<open>allowed\<close> steps. The locale
  \<open>quiet_client\<close> adds to the contract of one kind that the clock, the HTTP transport and the
  other goroutines during a sleep keep to it too, and holds the rules that carry a program
  down to its API calls; the rules are collected in \<open>refines_intros\<close>.
\<close>

named_theorems refines_intros "introduction rules for refines"

definition refines ::
  "('e \<Rightarrow> bool) \<Rightarrow> ('e \<Rightarrow> 'o store) \<Rightarrow> ('e \<Rightarrow> 'o set) \<Rightarrow>
   ('o set \<Rightarrow> 'o store \<Rightarrow> 'o store \<Rightarrow> bool) \<Rightarrow>
   ('e world, 'a) prog \<Rightarrow> bool" where
  "refines good stored known allowed m \<longleftrightarrow>
     triple (store_evolves good stored known allowed) (\<lambda>w. good (wExt w)) m (\<lambda>_ w. good (wExt w))"

lemma refinesD:
  assumes "refines good stored known allowed m" "good (wExt w)" "m w = (r, t)"
  shows "good (wExt t)"
    "(view_step allowed)\<^sup>*\<^sup>* (stored (wExt w), known (wExt w)) (stored (wExt t), known (wExt t))"
  using assms unfolding refines_def triple_def store_evolves_def by (metis snd_conv)+

context object_reads
begin

lemma refines_triple:
  assumes "triple (store_evolves good stored known allowed) (\<lambda>w. good (wExt w)) m Q"
  shows "refines good stored known allowed m"
  using assms by (auto simp: refines_def triple_def store_evolves_def)

lemma refines_world:
  assumes "\<And>w. good (wExt w) \<Longrightarrow> rely (wExt w) (wExt (snd (m w)))"
  shows "refines good stored known allowed m"
  unfolding refines_def
proof (rule tripleI)
  fix s r t
  assume g: "good (wExt s)" and run: "m s = (r, t)"
  then have "rely (wExt s) (wExt t)"
    using assms [OF g] by simp
  then show "store_evolves good stored known allowed s t \<and> (\<forall>a. r = Ok a \<longrightarrow> good (wExt t))"
    using g rely_good by (auto intro: rely_evolves)
qed

lemma refines_same_ext:
  assumes "\<And>w. wExt (snd (m w)) = wExt w"
  shows "refines good stored known allowed m"
  unfolding refines_def
proof (rule tripleI)
  fix s r t
  assume g: "good (wExt s)" and run: "m s = (r, t)"
  then have "wExt t = wExt s" using assms [of s] by simp
  then show "store_evolves good stored known allowed s t \<and> (\<forall>a. r = Ok a \<longrightarrow> good (wExt t))"
    using g by (simp add: store_evolves_def)
qed

lemma refines_ret [refines_intros]: "refines good stored known allowed (ret a)"
  by (rule refines_same_ext) (simp add: ret_def)

lemma refines_throw [refines_intros]: "refines good stored known allowed (throw e)"
  by (rule refines_same_ext) (simp add: throw_def)

lemma refines_crash [refines_intros]: "refines good stored known allowed crash"
  by (rule refines_same_ext) (simp add: crash_def)

lemma refines_set_label [refines_intros]: "refines good stored known allowed (set_label k v ob)"
  by (rule refines_same_ext) (simp add: set_label_def ret_def crash_def)

lemma refines_sendConfig [refines_intros]: "refines good stored known allowed (sendConfig c)"
  by (rule refines_same_ext) (simp add: sendConfig_def)

lemma refines_bindM [refines_intros]:
  assumes "refines good stored known allowed m"
    and "\<And>a. refines good stored known allowed (f a)"
  shows "refines good stored known allowed (bindM m f)"
  using assms unfolding refines_def by (rule triple_bindM)

text \<open>The same with what the first part established about its value.\<close>

lemma refines_bindM_triple:
  assumes "triple (store_evolves good stored known allowed) (\<lambda>w. good (wExt w)) m R"
    and "\<And>a. triple (store_evolves good stored known allowed) (R a) (f a) (\<lambda>_ w. good (wExt w))"
  shows "refines good stored known allowed (bindM m f)"
  using assms unfolding refines_def by (rule triple_bindM)

lemma refines_thenM [refines_intros]:
  "refines good stored known allowed m \<Longrightarrow> refines good stored known allowed k \<Longrightarrow>
    refines good stored known allowed (thenM m k)"
  unfolding thenM_def by (rule refines_bindM)

lemma refines_attempt [refines_intros]:
  assumes "refines good stored known allowed m"
  shows "refines good stored known allowed (attempt m)"
  unfolding refines_def
  by (rule triple_attempt [OF assms [unfolded refines_def] stable_good]) auto

lemma refines_logged [refines_intros]:
  "refines good stored known allowed m \<Longrightarrow> refines good stored known allowed (logged m)"
  unfolding logged_def by (intro refines_intros)

lemma refines_forEach [refines_intros]:
  "(\<And>x. x \<in> set xs \<Longrightarrow> refines good stored known allowed (f x)) \<Longrightarrow>
    refines good stored known allowed (forEach xs f)"
  unfolding refines_def by (rule triple_forEach)

lemma refines_if [refines_intros]:
  "(b \<Longrightarrow> refines good stored known allowed m) \<Longrightarrow> (\<not> b \<Longrightarrow> refines good stored known allowed n) \<Longrightarrow>
    refines good stored known allowed (if b then m else n)"
  by simp

lemma refines_case_sum [refines_intros]:
  "(\<And>e. r = Inl e \<Longrightarrow> refines good stored known allowed (f e)) \<Longrightarrow>
    (\<And>a. r = Inr a \<Longrightarrow> refines good stored known allowed (g a)) \<Longrightarrow>
    refines good stored known allowed (case r of Inl e \<Rightarrow> f e | Inr a \<Rightarrow> g a)"
  by (cases r) simp_all

lemma refines_case_option [refines_intros]:
  "(r = None \<Longrightarrow> refines good stored known allowed m) \<Longrightarrow>
    (\<And>a. r = Some a \<Longrightarrow> refines good stored known allowed (g a)) \<Longrightarrow>
    refines good stored known allowed (case r of None \<Rightarrow> m | Some a \<Rightarrow> g a)"
  by (cases r) simp_all

lemma refines_case_prod [refines_intros]:
  "(\<And>a b. r = (a, b) \<Longrightarrow> refines good stored known allowed (f a b)) \<Longrightarrow>
    refines good stored known allowed (case r of (a, b) \<Rightarrow> f a b)"
  by (cases r) simp_all

lemma refines_ignoreNotFound [refines_intros]:
  "refines good stored known allowed m \<Longrightarrow> refines good stored known allowed (ignoreNotFound e m)"
  unfolding ignoreNotFound_def by (intro refines_intros)

lemma refines_Let [refines_intros]:
  "(\<And>x. x = v \<Longrightarrow> refines good stored known allowed (f x)) \<Longrightarrow>
    refines good stored known allowed (let x = v in f x)"
  by simp

lemma refines_call:
  "harmless rely good op \<Longrightarrow> refines good stored known allowed (call op)"
  using triple_harmless unfolding refines_def by blast

lemma refines_get [refines_intros]: "refines good stored known allowed (call (apiGet api k))"
  by (rule refines_triple [OF triple_get])

lemma refines_list [refines_intros]: "refines good stored known allowed (call (apiList api opts))"
  by (rule refines_triple [OF triple_list])

end

subsection \<open>Programs that hold objects they have read\<close>

text \<open>
  \<open>knowing ... K m\<close>: \<open>m\<close> refines \<open>allowed\<close> when started with the objects \<open>K\<close>
  in hand, versions that the server once stored.
\<close>

named_theorems knowing_intros "introduction rules for knowing"

definition knowing ::
  "('e \<Rightarrow> bool) \<Rightarrow> ('e \<Rightarrow> 'o store) \<Rightarrow> ('e \<Rightarrow> 'o set) \<Rightarrow>
   ('o set \<Rightarrow> 'o store \<Rightarrow> 'o store \<Rightarrow> bool) \<Rightarrow>
   'o set \<Rightarrow> ('e world, 'a) prog \<Rightarrow> bool" where
  "knowing good stored known allowed K m \<longleftrightarrow>
     triple (store_evolves good stored known allowed)
       (\<lambda>w. good (wExt w) \<and> K \<subseteq> known (wExt w)) m (\<lambda>_ w. good (wExt w))"

lemma refines_knowing: "refines good stored known allowed m \<Longrightarrow> knowing good stored known allowed K m"
  unfolding refines_def knowing_def by (erule triple_pre) simp

lemma knowing_empty: "knowing good stored known allowed {} m \<Longrightarrow> refines good stored known allowed m"
  unfolding refines_def knowing_def by (erule triple_pre) simp

lemma knowing_mono:
  "knowing good stored known allowed K m \<Longrightarrow> K \<subseteq> L \<Longrightarrow> knowing good stored known allowed L m"
  unfolding knowing_def by (erule triple_pre) auto

lemma knowing_if [knowing_intros]:
  "(b \<Longrightarrow> knowing good stored known allowed K m) \<Longrightarrow> (\<not> b \<Longrightarrow> knowing good stored known allowed K n) \<Longrightarrow>
    knowing good stored known allowed K (if b then m else n)"
  by simp

lemma knowing_case_sum [knowing_intros]:
  "(\<And>e. r = Inl e \<Longrightarrow> knowing good stored known allowed K (f e)) \<Longrightarrow>
    (\<And>a. r = Inr a \<Longrightarrow> knowing good stored known allowed K (g a)) \<Longrightarrow>
    knowing good stored known allowed K (case r of Inl e \<Rightarrow> f e | Inr a \<Rightarrow> g a)"
  by (cases r) simp_all

lemma knowing_Let [knowing_intros]:
  "(\<And>x. x = v \<Longrightarrow> knowing good stored known allowed K (f x)) \<Longrightarrow>
    knowing good stored known allowed K (let x = v in f x)"
  by simp

context object_reads
begin

lemma stable_knowing:
  "stable (store_evolves good stored known allowed) (\<lambda>w. good (wExt w) \<and> K \<subseteq> known (wExt w))"
  by (auto simp: stable_def dest: store_evolves_known)

lemma knowing_ret [knowing_intros]: "knowing good stored known allowed K (ret a)"
  by (rule refines_knowing [OF refines_ret])

lemma knowing_triple_bindM:
  assumes "triple (store_evolves good stored known allowed)
      (\<lambda>w. good (wExt w) \<and> K \<subseteq> known (wExt w)) m (\<lambda>a w. good (wExt w) \<and> F a \<subseteq> known (wExt w) \<and> Q a)"
    and "\<And>a. Q a \<Longrightarrow> knowing good stored known allowed (K \<union> F a) (f a)"
  shows "knowing good stored known allowed K (bindM m f)"
  unfolding knowing_def
proof (rule triple_bindM)
  show "triple (store_evolves good stored known allowed) (\<lambda>w. good (wExt w) \<and> K \<subseteq> known (wExt w)) m
      (\<lambda>a w. Q a \<and> good (wExt w) \<and> K \<union> F a \<subseteq> known (wExt w))"
    by (rule triple_weaken [OF triple_frame [OF assms(1) stable_knowing [of K]]]) auto
  show "triple (store_evolves good stored known allowed)
      (\<lambda>w. Q a \<and> good (wExt w) \<and> K \<union> F a \<subseteq> known (wExt w)) (f a) (\<lambda>_ w. good (wExt w))" for a
    by (rule triple_pre_fact) (rule assms(2) [unfolded knowing_def])
qed

lemma knowing_bindM:
  assumes "refines good stored known allowed m"
    and "\<And>a. yields m a \<Longrightarrow> knowing good stored known allowed K (f a)"
  shows "knowing good stored known allowed K (bindM m f)"
proof (rule knowing_triple_bindM [where F = "\<lambda>_. {}" and Q = "yields m"])
  show "triple (store_evolves good stored known allowed) (\<lambda>w. good (wExt w) \<and> K \<subseteq> known (wExt w)) m
      (\<lambda>a w. good (wExt w) \<and> {} \<subseteq> known (wExt w) \<and> yields m a)"
    using assms(1) by (auto simp: refines_def triple_def yields_def) (metis prod.collapse)
  show "yields m a \<Longrightarrow> knowing good stored known allowed (K \<union> {}) (f a)" for a
    using assms(2) by simp
qed

lemma knowing_self_bindM:
  assumes "knowing good stored known allowed K m"
    and "\<And>a. yields m a \<Longrightarrow> knowing good stored known allowed K (f a)"
  shows "knowing good stored known allowed K (bindM m f)"
proof (rule knowing_triple_bindM [where F = "\<lambda>_. {}" and Q = "yields m"])
  show "triple (store_evolves good stored known allowed) (\<lambda>w. good (wExt w) \<and> K \<subseteq> known (wExt w)) m
      (\<lambda>a w. good (wExt w) \<and> {} \<subseteq> known (wExt w) \<and> yields m a)"
    using assms(1) by (auto simp: knowing_def triple_def yields_def) (metis prod.collapse)
  show "yields m a \<Longrightarrow> knowing good stored known allowed (K \<union> {}) (f a)" for a
    using assms(2) by simp
qed

lemma knowing_logged:
  assumes "knowing good stored known allowed K m"
  shows "knowing good stored known allowed K (logged m)"
  unfolding logged_def bindM_ret_left
proof -
  have "triple (store_evolves good stored known allowed) (\<lambda>w. good (wExt w) \<and> K \<subseteq> known (wExt w)) (attempt m)
      (\<lambda>_ w. good (wExt w))"
    by (rule triple_attempt [OF assms [unfolded knowing_def] stable_good]) auto
  then show "knowing good stored known allowed K (bindM (attempt m) (\<lambda>_. ret ()))"
    by (intro knowing_self_bindM knowing_ret) (simp add: knowing_def)
qed

lemma knowing_forEach:
  assumes "\<And>x. x \<in> set xs \<Longrightarrow> knowing good stored known allowed K (f x)"
  shows "knowing good stored known allowed K (forEach xs f)"
  using assms by (induction xs) (auto intro: knowing_ret knowing_self_bindM)

lemma knowing_get:
  assumes "\<And>ob. obj_key ob = k \<Longrightarrow> knowing good stored known allowed (insert ob K) (f ob)"
  shows "knowing good stored known allowed K (bindM (call (apiGet api k)) f)"
proof (rule knowing_triple_bindM [where F = "\<lambda>ob. {ob}" and Q = "\<lambda>ob. obj_key ob = k"])
  show "triple (store_evolves good stored known allowed) (\<lambda>w. good (wExt w) \<and> K \<subseteq> known (wExt w))
      (call (apiGet api k)) (\<lambda>ob w. good (wExt w) \<and> {ob} \<subseteq> known (wExt w) \<and> obj_key ob = k)"
    by (rule triple_weaken [OF triple_get]) auto
qed (use assms in simp)

lemma knowing_attempt_get:
  assumes "\<And>ob. obj_key ob = k \<Longrightarrow> knowing good stored known allowed (insert ob K) (f (Inr ob))"
    and "\<And>e. knowing good stored known allowed K (f (Inl e))"
  shows "knowing good stored known allowed K (bindM (attempt (call (apiGet api k))) f)"
proof (rule knowing_triple_bindM
    [where F = "\<lambda>r. case r of Inl e \<Rightarrow> {} | Inr ob \<Rightarrow> {ob}"
      and Q = "\<lambda>r. case r of Inl e \<Rightarrow> True | Inr ob \<Rightarrow> obj_key ob = k"])
  show "triple (store_evolves good stored known allowed) (\<lambda>w. good (wExt w) \<and> K \<subseteq> known (wExt w))
      (attempt (call (apiGet api k)))
      (\<lambda>r w. good (wExt w) \<and> (case r of Inl e \<Rightarrow> {} | Inr ob \<Rightarrow> {ob}) \<subseteq> known (wExt w) \<and>
        (case r of Inl e \<Rightarrow> True | Inr ob \<Rightarrow> obj_key ob = k))"
    by (rule triple_attempt [OF triple_pre [OF triple_get] stable_good]) auto
qed (use assms in \<open>auto split: sum.splits\<close>)

lemma knowing_attempt_list:
  assumes "\<And>obs. list_all (selected index opts) obs \<Longrightarrow>
      knowing good stored known allowed (K \<union> set obs) (f (Inr obs))"
    and "\<And>e. knowing good stored known allowed K (f (Inl e))"
  shows "knowing good stored known allowed K (bindM (attempt (call (apiList api opts))) f)"
proof (rule knowing_triple_bindM
    [where F = "\<lambda>r. case r of Inl e \<Rightarrow> {} | Inr obs \<Rightarrow> set obs"
      and Q = "\<lambda>r. case r of Inl e \<Rightarrow> True | Inr obs \<Rightarrow> list_all (selected index opts) obs"])
  show "triple (store_evolves good stored known allowed) (\<lambda>w. good (wExt w) \<and> K \<subseteq> known (wExt w))
      (attempt (call (apiList api opts)))
      (\<lambda>r w. good (wExt w) \<and> (case r of Inl e \<Rightarrow> {} | Inr obs \<Rightarrow> set obs) \<subseteq> known (wExt w) \<and>
        (case r of Inl e \<Rightarrow> True | Inr obs \<Rightarrow> list_all (selected index opts) obs))"
    by (rule triple_attempt [OF triple_pre [OF triple_list] stable_good]) auto
qed (use assms in \<open>auto split: sum.splits\<close>)

end

text \<open>The writes, as single rules: each asks for the step it takes.\<close>

context object_writes
begin

lemma knowing_status_update_bindM:
  assumes "obj_key ob = obj_key ob0" "ResourceVersion ob = ResourceVersion ob0" "ob0 \<in> K"
    and "\<And>H M ob'. K \<subseteq> H \<Longrightarrow> M (obj_key ob0) = Some ob0 \<Longrightarrow> obj_key ob' = obj_key ob0 \<Longrightarrow>
      main_of ob' = main_of ob0 \<Longrightarrow> status_of ob' = status_of ob \<Longrightarrow> allowed H M (M(obj_key ob0 \<mapsto> ob'))"
    and "\<And>ob'. obj_key ob' = obj_key ob0 \<Longrightarrow> main_of ob' = main_of ob0 \<Longrightarrow> status_of ob' = status_of ob \<Longrightarrow>
      knowing good stored known allowed (insert ob' K) (f ob')"
  shows "knowing good stored known allowed K (bindM (call (apiStatusUpdate api ob)) f)"
proof (rule knowing_triple_bindM [where F = "\<lambda>ob'. {ob'}"
      and Q = "\<lambda>ob'. obj_key ob' = obj_key ob0 \<and> main_of ob' = main_of ob0 \<and> status_of ob' = status_of ob"])
qed (use assms in \<open>auto intro!: triple_weaken [OF triple_status_update [OF assms(1-4)]]\<close>)

lemma knowing_status_update:
  assumes "obj_key ob = obj_key ob0" "ResourceVersion ob = ResourceVersion ob0" "ob0 \<in> K"
    and "\<And>H M ob'. K \<subseteq> H \<Longrightarrow> M (obj_key ob0) = Some ob0 \<Longrightarrow> obj_key ob' = obj_key ob0 \<Longrightarrow>
      main_of ob' = main_of ob0 \<Longrightarrow> status_of ob' = status_of ob \<Longrightarrow> allowed H M (M(obj_key ob0 \<mapsto> ob'))"
  shows "knowing good stored known allowed K (call (apiStatusUpdate api ob))"
  unfolding knowing_def by (rule triple_post [OF triple_status_update [OF assms]]) simp_all

lemma knowing_update_bindM:
  assumes "obj_key ob = obj_key ob0" "ResourceVersion ob = ResourceVersion ob0" "ob0 \<in> K"
    and "\<And>H M ob'. K \<subseteq> H \<Longrightarrow> M (obj_key ob0) = Some ob0 \<Longrightarrow> obj_key ob' = obj_key ob0 \<Longrightarrow>
      main_of ob' = main_of ob \<Longrightarrow> status_of ob' = status_of ob0 \<Longrightarrow> allowed H M (M(obj_key ob0 \<mapsto> ob'))"
    and "\<And>ob'. obj_key ob' = obj_key ob0 \<Longrightarrow> main_of ob' = main_of ob \<Longrightarrow> status_of ob' = status_of ob0 \<Longrightarrow>
      knowing good stored known allowed (insert ob' K) (f ob')"
  shows "knowing good stored known allowed K (bindM (call (apiUpdate api ob)) f)"
proof (rule knowing_triple_bindM [where F = "\<lambda>ob'. {ob'}"
      and Q = "\<lambda>ob'. obj_key ob' = obj_key ob0 \<and> main_of ob' = main_of ob \<and> status_of ob' = status_of ob0"])
qed (use assms in \<open>auto intro!: triple_weaken [OF triple_update [OF assms(1-4)]]\<close>)

lemma knowing_attempt_status_patch:
  assumes "obj_key ob = obj_key base"
    and "\<And>H M cur ob'. K \<subseteq> H \<Longrightarrow> M (obj_key ob) = Some cur \<Longrightarrow> obj_key ob' = obj_key ob \<Longrightarrow>
      main_of ob' = main_of cur \<Longrightarrow>
      status_of ob' = merge_status (status_of base) (status_of ob) (status_of cur) \<Longrightarrow>
      allowed H M (M(obj_key ob \<mapsto> ob'))"
    and "\<And>e. knowing good stored known allowed K (f (Inl e))"
    and "\<And>ob'. obj_key ob' = obj_key ob \<Longrightarrow> knowing good stored known allowed (insert ob' K) (f (Inr ob'))"
  shows "knowing good stored known allowed K (bindM (attempt (call (apiStatusPatch api base ob))) f)"
proof (rule knowing_triple_bindM
    [where F = "\<lambda>r. case r of Inl e \<Rightarrow> {} | Inr ob' \<Rightarrow> {ob'}"
      and Q = "\<lambda>r. case r of Inl e \<Rightarrow> True | Inr ob' \<Rightarrow> obj_key ob' = obj_key ob"])
  show "triple (store_evolves good stored known allowed) (\<lambda>w. good (wExt w) \<and> K \<subseteq> known (wExt w))
      (attempt (call (apiStatusPatch api base ob)))
      (\<lambda>r w. good (wExt w) \<and> (case r of Inl e \<Rightarrow> {} | Inr ob' \<Rightarrow> {ob'}) \<subseteq> known (wExt w) \<and>
        (case r of Inl e \<Rightarrow> True | Inr ob' \<Rightarrow> obj_key ob' = obj_key ob))"
    by (rule triple_attempt [OF triple_status_patch [OF assms(1,2)] stable_good]) auto
qed (use assms(3,4) in \<open>auto split: sum.splits\<close>)

lemma refines_create:
  assumes "\<And>H M ob'. M (obj_key ob) = None \<Longrightarrow> obj_key ob' = obj_key ob \<Longrightarrow>
      main_of ob' = main_of ob \<Longrightarrow> status_of ob' = status_zero \<Longrightarrow> allowed H M (M(obj_key ob \<mapsto> ob'))"
  shows "refines good stored known allowed (call (apiCreate api ob))"
  by (rule knowing_empty, unfold knowing_def, rule triple_post [OF triple_create]) (use assms in auto)

lemma refines_delete:
  assumes "\<And>H M. allowed H M (M(obj_key ob := None))"
  shows "refines good stored known allowed (call (apiDelete api ob))"
  by (rule refines_triple [OF triple_delete [OF assms]])

end

subsection \<open>Clock, sleep and HTTP\<close>

locale quiet_client =
  object_reads api index rely good stored known allowed
  for api :: "('e, 'a objectMeta_scheme) kindApi"
    and index :: "string \<Rightarrow> 'a objectMeta_scheme \<Rightarrow> string list"
    and rely :: "'e \<Rightarrow> 'e \<Rightarrow> bool"
    and good :: "'e \<Rightarrow> bool"
    and stored :: "'e \<Rightarrow> 'a objectMeta_scheme store"
    and known :: "'e \<Rightarrow> 'a objectMeta_scheme set"
    and allowed :: "'a objectMeta_scheme set \<Rightarrow> 'a objectMeta_scheme store \<Rightarrow> 'a objectMeta_scheme store \<Rightarrow> bool" +
  fixes env :: "'e env"
  assumes clock_law: "harmless rely good (nowNs env)"
    and http_law: "harmless rely good (httpDo env req)"
    and sleep_law: "good (wExt w) \<Longrightarrow> rely (wExt w) (wExt (sleepFor env d w))"
begin

lemma refines_timeNow [refines_intros]: "refines good stored known allowed (timeNow env)"
  by (rule refines_world) (use clock_law in \<open>auto simp: timeNow_def harmless_def split: prod.splits\<close>)

lemma refines_nowUnix [refines_intros]: "refines good stored known allowed (nowUnix env)"
  unfolding nowUnix_def by (intro refines_intros)

lemma refines_GetNowTime [refines_intros]: "refines good stored known allowed (GetNowTime env)"
  unfolding GetNowTime_def by (intro refines_intros)

lemma refines_goSleep [refines_intros]: "refines good stored known allowed (goSleep env d)"
  by (rule refines_world) (simp add: goSleep_def sleep_law)

lemma refines_httpDo [refines_intros]: "refines good stored known allowed (call (httpDo env req))"
  by (intro refines_call http_law)

lemma refines_postLoop [refines_intros]: "refines good stored known allowed (postLoop env req r)"
proof (induction "Suc MaxRetryCount - r" arbitrary: r rule: less_induct)
  case less
  have "refines good stored known allowed (postLoop env req (Suc r))" if "r \<le> MaxRetryCount"
    by (rule less) (use that in simp)
  then show ?case
    by (subst postLoop.simps) (intro refines_intros)
qed

lemma refines_doPost [refines_intros]: "refines good stored known allowed (doPost env uri request)"
  unfolding doPost_def Let_def by (intro refines_intros)

lemma refines_serviceTemplate [refines_intros]:
  "refines good stored known allowed (serviceTemplate env request action)"
  unfolding serviceTemplate_def by (intro refines_intros)

lemma refines_SubmitChangeStartNotify [refines_intros]:
  "refines good stored known allowed (SubmitChangeStartNotify env rq)"
  unfolding SubmitChangeStartNotify_def by (intro refines_intros)

lemma refines_SubmitChangeFinishNotify [refines_intros]:
  "refines good stored known allowed (SubmitChangeFinishNotify env rq)"
  unfolding SubmitChangeFinishNotify_def by (intro refines_intros)

text \<open>Polling only sleeps; a poll that never ends leaves nothing behind to observe.\<close>

lemma sleeps_evolve:
  fixes d :: int
  assumes "good (wExt w)"
  defines "v \<equiv> \<lambda>n. (sleepFor env d ^^ n) w"
  shows "good (wExt (v n)) \<and> store_evolves good stored known allowed w (v n)"
proof (induction n)
  case 0
  then show ?case using assms E_refl by simp
next
  case (Suc n)
  then have "rely (wExt (v n)) (wExt (v (Suc n)))"
    unfolding v_def by (simp add: sleep_law)
  then have "good (wExt (v (Suc n)))" "store_evolves good stored known allowed (v n) (v (Suc n))"
    using rely_good Suc by (auto intro: rely_evolves)
  then show ?case using Suc E_trans by blast
qed

lemma refines_polled [refines_intros]:
  "refines good stored known allowed (polled (pollReady env ready val))"
  unfolding refines_def
proof (rule tripleI)
  fix s r t
  assume g: "good (wExt s)" and run: "polled (pollReady env ready val) s = (r, t)"
  show "store_evolves good stored known allowed s t \<and> (\<forall>a. r = Ok a \<longrightarrow> good (wExt t))"
  proof (cases "pollReady env ready val s")
    case None
    then show ?thesis using run E_refl by (auto simp: polled_def)
  next
    case (Some bu)
    then have "pollReady env ready val s = Some (fst bu, t)"
      using run by (auto simp: polled_def split: prod.splits)
    then obtain n where "t = (sleepFor env second ^^ n) s"
      by (blast dest: pollReady_Some)
    then show ?thesis using sleeps_evolve [OF g] by simp
  qed
qed

lemma refines_config [refines_intros]:
  "refines good stored known allowed (ConfigIsBatch env)"
  "refines good stored known allowed (ConfigBatchCount env)"
  "refines good stored known allowed (ConfigIsBlockingUp env)"
  unfolding ConfigIsBatch_def ConfigBatchCount_def ConfigIsBlockingUp_def by (rule refines_polled)+

lemma refines_countThreshold [refines_intros]:
  "refines good stored known allowed (countThreshold env replicas)"
  unfolding countThreshold_def by (intro refines_intros)

lemma refines_ChangeWorkloadFactory [refines_intros]:
  "refines good stored known allowed (ChangeWorkloadFactory_NewInstance env fac)"
  unfolding ChangeWorkloadFactory_NewInstance_def Let_def by (intro refines_intros)

lemma refines_ChangePodFactory [refines_intros]:
  "refines good stored known allowed (ChangePodFactory_NewInstance env fac)"
  unfolding ChangePodFactory_NewInstance_def Let_def by (intro refines_intros)

end

end
