(* ===== verification/Change_Pod.thy ===== *)
theory Change_Pod
  imports Lifecycle Refinement Pod_Controller
begin

section \<open>controllers/changepod\_controller.go\<close>

text \<open>
  The ChangePodReconciler. \<open>Reconcile\<close> reads the ChangePod and its ChangeWorkload and hands
  the ChangePod to the handler of its status. A handler that changes the object in Go returns
  the changed object here. The file's event filters and field indexers follow, then the
  behaviour of each handler and the refinement of the abstract life cycle.
\<close>

subsection \<open>Setting the status\<close>

definition setChangePodStatus :: "'e env \<Rightarrow> string \<Rightarrow> changePod \<Rightarrow> ('e world, changePod) prog" where
  "setChangePodStatus env status cp =
     bindM (GetNowTime env) (\<lambda>now.
     bindM (nowUnix env) (\<lambda>unix.
       ret (cp\<lparr>cpStatus := (cpStatus cp)
         \<lparr>cpStatusStatus := status, cpUpdateTime := now, cpUpdateTimeUnix := unix\<rparr>\<rparr>)))"

definition setChangePodPreSubmittedStatus :: "'e env \<Rightarrow> changePod \<Rightarrow> ('e world, changePod) prog" where
  "setChangePodPreSubmittedStatus env cp =
     bindM (setChangePodStatus env PreSubmitted cp) (\<lambda>cp.
     bindM (GetNowTime env) (\<lambda>now.
     bindM (nowUnix env) (\<lambda>unix.
       ret (cp\<lparr>cpStatus := (cpStatus cp)
         \<lparr>cpPreTimeoutThreshold := ChangePodPreTimeoutThreshold,
          cpPreSubmitTime := now, cpPreSubmitTimeUnix := unix\<rparr>\<rparr>))))"

definition setChangePodPostSubmittedStatus :: "'e env \<Rightarrow> changePod \<Rightarrow> ('e world, changePod) prog" where
  "setChangePodPostSubmittedStatus env cp =
     bindM (setChangePodStatus env PostSubmitted cp) (\<lambda>cp.
     bindM (GetNowTime env) (\<lambda>now.
     bindM (nowUnix env) (\<lambda>unix.
       ret (cp\<lparr>cpStatus := (cpStatus cp)
         \<lparr>cpPostTimeoutThreshold := ChangePodPostTimeoutThreshold,
          cpPostSubmitTime := now, cpPostSubmitTimeUnix := unix\<rparr>\<rparr>))))"

definition setChangePodDoneStatus :: "'e env \<Rightarrow> changePod \<Rightarrow> ('e world, changePod) prog" where
  "setChangePodDoneStatus env cp = setChangePodStatus env ExecuteDone cp"

definition setChangePodPreWaitStatus :: "'e env \<Rightarrow> changePod \<Rightarrow> ('e world, changePod) prog" where
  "setChangePodPreWaitStatus env cp = setChangePodStatus env PreWait cp"

definition setChangePodPreFailedStatus :: "'e env \<Rightarrow> changePod \<Rightarrow> ('e world, changePod) prog" where
  "setChangePodPreFailedStatus env cp = setChangePodStatus env PreFailed cp"

definition setChangePodPostFailedStatus :: "'e env \<Rightarrow> changePod \<Rightarrow> ('e world, changePod) prog" where
  "setChangePodPostFailedStatus env cp = setChangePodStatus env PostFailed cp"

definition updateChangePodStatus :: "'e env \<Rightarrow> changePod \<Rightarrow> ('e world, unit) prog" where
  "updateChangePodStatus env cp =
     bindM (call (apiStatusUpdate (changePodApi env) cp)) (\<lambda>_. ret ())"

subsection \<open>Pods\<close>

definition getPreparingPodSummary :: "pod \<Rightarrow> string \<Rightarrow> podSummary" where
  "getPreparingPodSummary p deploymentName =
     \<lparr>psApp = deploymentName, psHostname = Name p, psWorkspace = ''default'', psPod = Name p,
      psIp = podIP p, psNamespace = Namespace p, psVerdict = '''', psMessage = ''''\<rparr>"

definition defenseProcessedPod :: "'e env \<Rightarrow> pod \<Rightarrow> ('e world, unit) prog" where
  "defenseProcessedPod env p =
     (if get_label (Labels p) DefenseStatusLabel = DefenseStatusLabelProcessed then ret ()
      else bindM (set_label DefenseStatusLabel DefenseStatusLabelProcessed p) (\<lambda>p'.
           bindM (call (apiPatch (podApi env) p p')) (\<lambda>_. ret ())))"

definition markDefensedPods :: "'e env \<Rightarrow> podSummary list \<Rightarrow> ('e world, unit) prog" where
  "markDefensedPods env podInfos = forEach podInfos (\<lambda>podInfo.
     bindM (call (apiGet (podApi env) \<lparr>nnNamespace = psNamespace podInfo, nnName = psPod podInfo\<rparr>))
       (\<lambda>p. defenseProcessedPod env p))"

definition getAllPodsByChangePod :: "'e env \<Rightarrow> changePod \<Rightarrow> ('e world, pod list) prog" where
  "getAllPodsByChangePod env cp = call (apiList (podApi env)
     (anyOpts\<lparr>inNamespace := Some (Namespace cp),
        matchingLabels := [(AdmissionWebhookVersionLabel,
          get_label (Labels cp) AdmissionWebhookVersionLabel)]\<rparr>))"

definition noPodError :: "changePod \<Rightarrow> error" where
  "noPodError cp =
     plain_error (''no pod found by changePod '' @ Name cp @ '', will delete changePod'')"

definition getFinishedPodsWithoutDefenseByChangePodAndDeleteIfNotExist ::
  "'e env \<Rightarrow> changePod \<Rightarrow> ('e world, pod list) prog" where
  "getFinishedPodsWithoutDefenseByChangePodAndDeleteIfNotExist env cp =
     bindM (getAllPodsByChangePod env cp) (\<lambda>array.
       let podArray = filterPodWithoutFinishedOrDefensedLabel array
       in if \<not> IsNotEmpty (SliceValue podArray) then
            bindM (call (apiDelete (changePodApi env) cp)) (\<lambda>_. throw (noPodError cp))
          else ret podArray)"

subsection \<open>Requests to the control plane\<close>

definition podSummary_json :: "podSummary \<Rightarrow> json" where
  "podSummary_json ps = JObject
     ([(''app'', JString (psApp ps)), (''hostName'', JString (psHostname ps)),
       (''workSpace'', JString (psWorkspace ps)), (''pod'', JString (psPod ps)),
       (''ip'', JString (psIp ps)), (''namespace'', JString (psNamespace ps))] @
      omit_empty ''verdict'' (psVerdict ps) @ omit_empty ''message'' (psMessage ps))"

definition buildChangeStartNotifyRequest :: "changePod \<Rightarrow> opsCloudChangeExecBatchStartNotifyRequest" where
  "buildChangeStartNotifyRequest cp =
     (let podInfos = map (\<lambda>p. json_encode (podSummary_json p)) (cpPodInfos (cpSpec cp))
      in \<lparr>snPlatform = Platform, snBizExecOrderId = cpChangeWorkloadId (cpSpec cp),
          snChangeSceneKey = ChangeSceneKeyRollingUpdate, snBatchNo = 0, snChangePhase = ChangePhase,
          snEffectiveTargetType = StringRecordSpecEffectiveTargetType,
          snEffectiveTargetLocations = podInfos, snExecutor = DefaultCreator, snTotalBatchNum = 0,
          snTotalBatchNumInChangePhase = 0, snTldcTenantCode = DefaultTldcTenantCode\<rparr>)"

definition buildChangeFinishNotifyRequest :: "changePod \<Rightarrow> opsCloudChangeFinishNotifyRequest" where
  "buildChangeFinishNotifyRequest cp =
     \<lparr>fnBizExecOrderId = cpChangeWorkloadId (cpSpec cp), fnChangeSceneKey = ChangeSceneKeyRollingUpdate,
      fnNodeId = cpChangePodId (cpStatus cp), fnPlatform = Platform, fnServiceResult = ''{}'',
      fnSuccess = True, fnTldcTenantCode = DefaultTldcTenantCode\<rparr>"

text \<open>The error is only logged; the printed result at the end of its text is left out.\<close>

definition nodeIdError :: error where
  "nodeIdError = plain_error ''submitChangeStartNotifyAndGetNodeId get nodeId failed''"

definition submitChangeStartNotifyAndGetNodeId :: "'e env \<Rightarrow> changePod \<Rightarrow> ('e world, string) prog" where
  "submitChangeStartNotifyAndGetNodeId env cp =
     bindM (SubmitChangeStartNotify env (buildChangeStartNotifyRequest cp)) (\<lambda>result.
       case resDomain result of
         GMap domain \<Rightarrow>
           (case map_of domain ''nodeId'' of
              None \<Rightarrow> throw nodeIdError
            | Some v \<Rightarrow> if v = GNil then throw nodeIdError else ret (goSprint v))
       | _ \<Rightarrow> throw nodeIdError)"

subsection \<open>Handlers\<close>

definition executeInitChangePodHandle ::
  "'e env \<Rightarrow> changePod \<Rightarrow> changeWorkload \<Rightarrow> ('e world, unit) prog" where
  "executeInitChangePodHandle env cp workload =
     (let podInfos = cpPodInfos (cpSpec cp)
      in if IsNotEmpty (SliceValue podInfos) then markDefensedPods env podInfos
         else
           bindM (getFinishedPodsWithoutDefenseByChangePodAndDeleteIfNotExist env cp) (\<lambda>podArray.
           let threshold = cwCountThreshold (cwSpec workload);
               isGreaterThanThreshold = int (length podArray) > threshold
           in bindM (if isGreaterThanThreshold
                     then (if threshold < 0 then crash else ret (take (nat threshold) podArray))
                     else ret podArray) (\<lambda>podArray.
              bindM (call (apiUpdate (changePodApi env)
                (cp\<lparr>cpSpec := (cpSpec cp)\<lparr>cpPodInfos :=
                   map (\<lambda>p. getPreparingPodSummary p (get_label (Labels cp) DeploymentNameLabel))
                     podArray\<rparr>\<rparr>))) (\<lambda>cp.
              bindM (forEach podArray (\<lambda>p. defenseProcessedPod env p)) (\<lambda>_.
              bindM (setChangePodPreWaitStatus env cp) (\<lambda>cp.
                updateChangePodStatus env cp))))))"

definition preWaitChangePodHandle :: "'e env \<Rightarrow> changePod \<Rightarrow> ('e world, unit) prog" where
  "preWaitChangePodHandle env cp =
     bindM (attempt (submitChangeStartNotifyAndGetNodeId env cp)) (\<lambda>r. case r of
       Inl err \<Rightarrow>
         bindM (setChangePodPreFailedStatus env cp) (\<lambda>cp. updateChangePodStatus env cp)
     | Inr nodeId \<Rightarrow>
         bindM (setChangePodPreSubmittedStatus env
             (cp\<lparr>cpStatus := (cpStatus cp)\<lparr>cpChangePodId := nodeId\<rparr>\<rparr>)) (\<lambda>cp.
           updateChangePodStatus env cp))"

definition postWaitChangePodHandle :: "'e env \<Rightarrow> changePod \<Rightarrow> ('e world, unit) prog" where
  "postWaitChangePodHandle env cp =
     bindM (attempt (SubmitChangeFinishNotify env (buildChangeFinishNotifyRequest cp))) (\<lambda>r. case r of
       Inl err \<Rightarrow>
         bindM (setChangePodPostFailedStatus env cp) (\<lambda>cp. updateChangePodStatus env cp)
     | Inr _ \<Rightarrow>
         bindM (setChangePodPostSubmittedStatus env cp) (\<lambda>cp. updateChangePodStatus env cp))"

definition handleFinishedChangePod :: "'e env \<Rightarrow> changePod \<Rightarrow> ('e world, unit) prog" where
  "handleFinishedChangePod env cp =
     bindM (setChangePodDoneStatus env
         (cp\<lparr>cpStatus := (cpStatus cp)\<lparr>cpMessage := cpStatusStatus (cpStatus cp)\<rparr>\<rparr>)) (\<lambda>cp.
       updateChangePodStatus env cp)"

definition postFinishChangePodHandle :: "'e env \<Rightarrow> changePod \<Rightarrow> ('e world, unit) prog" where
  "postFinishChangePodHandle env cp = handleFinishedChangePod env cp"

definition timeoutOrFailedChangePodHandle :: "'e env \<Rightarrow> changePod \<Rightarrow> ('e world, unit) prog" where
  "timeoutOrFailedChangePodHandle env cp = handleFinishedChangePod env cp"

definition ChangePod_Reconcile :: "'e env \<Rightarrow> namespacedName \<Rightarrow> ('e world, unit) prog" where
  "ChangePod_Reconcile env req =
     bindM (attempt (call (apiGet (changePodApi env) req))) (\<lambda>r. case r of
       Inl err \<Rightarrow> ignoreNotFound err (ret ())
     | Inr cp \<Rightarrow>
         bindM (attempt (call (apiGet (changeWorkloadApi env)
             \<lparr>nnNamespace = Namespace cp, nnName = cpChangeWorkloadId (cpSpec cp)\<rparr>))) (\<lambda>r. case r of
           Inl err \<Rightarrow> ignoreNotFound err (ret ())
         | Inr workload \<Rightarrow>
             (let status = cpStatusStatus (cpStatus cp)
              in if status = ExecuteInit then executeInitChangePodHandle env cp workload
                 else if status = PreWait then preWaitChangePodHandle env cp
                 else if status = PostWait then postWaitChangePodHandle env cp
                 else if status = PostFinish then postFinishChangePodHandle env cp
                 else if status \<in> set [PreTimeout, PostTimeout, PreFailed, PostFailed]
                   then timeoutOrFailedChangePodHandle env cp
                 else ret ())))"

subsection \<open>Event filters and field indexers\<close>

definition ChangePod_handleEvent :: "changePod \<Rightarrow> bool" where
  "ChangePod_handleEvent cp \<longleftrightarrow> cpStatusStatus (cpStatus cp) \<noteq> ExecuteDone"

fun ChangePod_handleUpdateEvent :: "runtimeObject \<Rightarrow> runtimeObject \<Rightarrow> bool" where
  "ChangePod_handleUpdateEvent objOld (ChangePodObject cp) = ChangePod_handleEvent cp"
| "ChangePod_handleUpdateEvent objOld _ = False"

fun ChangePod_handleCreateEvent :: "runtimeObject \<Rightarrow> bool" where
  "ChangePod_handleCreateEvent (ChangePodObject cp) = ChangePod_handleEvent cp"
| "ChangePod_handleCreateEvent _ = False"

definition changePodIndex :: "string \<Rightarrow> changePod \<Rightarrow> string list" where
  "changePodIndex field cp =
     (if field = ChangePodFieldStatus then [cpStatusStatus (cpStatus cp)]
      else if field = ChangePodFieldChangePodId then [cpChangePodId (cpStatus cp)]
      else if field = ChangePodFieldChangeWorkloadId then [cpChangeWorkloadId (cpSpec cp)]
      else [])"

subsection \<open>Values of the status setters\<close>

text \<open>What a setter returns differs from its argument in the status only.\<close>

lemma setChangePodStatus_yields:
  assumes "yields (setChangePodStatus env st cp) cp'"
  obtains s where "cp' = cp\<lparr>cpStatus := s\<rparr>" "cpStatusStatus s = st" "cpMessage s = cpMessage (cpStatus cp)"
    "cpChangePodId s = cpChangePodId (cpStatus cp)" "cpPodResults s = cpPodResults (cpStatus cp)"
  using assms by (auto simp: setChangePodStatus_def dest!: yields_bindM)

lemma setChangePodPreSubmittedStatus_yields:
  assumes "yields (setChangePodPreSubmittedStatus env cp) cp'"
  obtains s where "cp' = cp\<lparr>cpStatus := s\<rparr>" "cpStatusStatus s = PreSubmitted"
    "cpPreTimeoutThreshold s = ChangePodPreTimeoutThreshold" "cpChangePodId s = cpChangePodId (cpStatus cp)"
  using assms
  by (auto simp: setChangePodPreSubmittedStatus_def dest!: yields_bindM elim!: setChangePodStatus_yields)

lemma setChangePodPostSubmittedStatus_yields:
  assumes "yields (setChangePodPostSubmittedStatus env cp) cp'"
  obtains s where "cp' = cp\<lparr>cpStatus := s\<rparr>" "cpStatusStatus s = PostSubmitted"
    "cpPostTimeoutThreshold s = ChangePodPostTimeoutThreshold" "cpChangePodId s = cpChangePodId (cpStatus cp)"
  using assms
  by (auto simp: setChangePodPostSubmittedStatus_def dest!: yields_bindM elim!: setChangePodStatus_yields)

lemmas setter_defs = setChangePodDoneStatus_def setChangePodPreWaitStatus_def
  setChangePodPreFailedStatus_def setChangePodPostFailedStatus_def

lemma obj_key_status [simp]: "obj_key (cp\<lparr>cpStatus := s\<rparr>) = obj_key cp"
  by (simp add: obj_key_def)

lemma obj_key_spec [simp]: "obj_key (cp\<lparr>cpSpec := s\<rparr>) = obj_key cp"
  by (simp add: obj_key_def)

subsection \<open>The contract of the ChangePod API\<close>

text \<open>
  What the operator relies on at the API server for ChangePods: the laws of
  \<open>object_writes\<close> for the kind, and that calls on other kinds, the clock, HTTP and sleeps
  leave the stored ChangePods to what the other goroutines of the operator may do
  (\<open>rely\<close>), which the life cycle bounds.
\<close>

definition changePod_main ::
  "changePod \<Rightarrow> namespacedName \<times> labels \<times> ownerReference list \<times> changePodSpec" where
  "changePod_main cp = (obj_key cp, Labels cp, OwnerReferences cp, cpSpec cp)"

locale changePod_world =
  object_writes "changePodApi env" changePodIndex rely good stored known podSteps
    changePod_main cpStatus zeroChangePodStatus mergeChangePodStatus
  for env :: "'e env" and rely and good and stored and known +
  assumes clock_quiet: "harmless rely good (nowNs env)"
    and http_quiet: "harmless rely good (httpDo env req)"
    and sleep_quiet: "good (wExt w) \<Longrightarrow> rely (wExt w) (wExt (sleepFor env d w))"
    and pods_quiet: "harmless_kind rely good (podApi env)"
    and deployments_quiet: "harmless_kind rely good (deploymentApi env)"
    and replicaSets_quiet: "harmless_kind rely good (replicaSetApi env)"
    and namespaces_quiet: "harmless_kind rely good (namespaceApi env)"
    and workloads_quiet: "harmless_kind rely good (changeWorkloadApi env)"
    and configs_quiet: "harmless_kind rely good (opsConfigInfoApi env)"

sublocale changePod_world \<subseteq> quiet_client "changePodApi env" changePodIndex rely good stored known podSteps env
  by unfold_locales (use clock_quiet http_quiet sleep_quiet in auto)

context changePod_world
begin

lemmas kinds_quiet = pods_quiet deployments_quiet replicaSets_quiet namespaces_quiet
  workloads_quiet configs_quiet

lemma other_kind_calls [refines_intros]:
  "refines good stored known podSteps (call (apiGet (podApi env) k))"
  "refines good stored known podSteps (call (apiPatch (podApi env) p p'))"
  "refines good stored known podSteps (call (apiUpdate (podApi env) p))"
  "refines good stored known podSteps (call (apiList (podApi env) opts))"
  "refines good stored known podSteps (call (apiGet (deploymentApi env) k))"
  "refines good stored known podSteps (call (apiPatch (deploymentApi env) d d'))"
  "refines good stored known podSteps (call (apiUpdate (deploymentApi env) d))"
  "refines good stored known podSteps (call (apiList (deploymentApi env) opts))"
  "refines good stored known podSteps (call (apiGet (replicaSetApi env) k))"
  "refines good stored known podSteps (call (apiList (replicaSetApi env) opts))"
  "refines good stored known podSteps (call (apiList (namespaceApi env) opts))"
  "refines good stored known podSteps (call (apiGet (changeWorkloadApi env) k))"
  "refines good stored known podSteps (call (apiList (changeWorkloadApi env) opts))"
  "refines good stored known podSteps (call (apiCreate (changeWorkloadApi env) cw))"
  "refines good stored known podSteps (call (apiDelete (changeWorkloadApi env) cw))"
  "refines good stored known podSteps (call (apiStatusUpdate (changeWorkloadApi env) cw))"
  "refines good stored known podSteps (call (apiStatusPatch (changeWorkloadApi env) cw cw'))"
  "refines good stored known podSteps (call (apiGet (opsConfigInfoApi env) k))"
  "refines good stored known podSteps (call (apiCreate (opsConfigInfoApi env) oci))"
  "refines good stored known podSteps (call (apiDelete (opsConfigInfoApi env) oci))"
  by (intro refines_call harmless_kindD kinds_quiet)+

lemma refines_setters [refines_intros]:
  "refines good stored known podSteps (setChangePodStatus env st cp)"
  "refines good stored known podSteps (setChangePodPreSubmittedStatus env cp)"
  "refines good stored known podSteps (setChangePodPostSubmittedStatus env cp)"
  unfolding setChangePodPreSubmittedStatus_def setChangePodPostSubmittedStatus_def setChangePodStatus_def
  by (intro refines_intros)+

text \<open>An update of the status that follows a step of the life cycle.\<close>

lemma knowing_updateStatus:
  assumes "cp0 \<in> K" "cp = cp0\<lparr>cpStatus := s\<rparr>" "statusStep (cpStatus cp0) s"
  shows "knowing good stored known podSteps K (updateChangePodStatus env cp)"
  unfolding updateChangePodStatus_def
proof (rule knowing_self_bindM [OF _ knowing_ret], rule knowing_status_update [OF _ _ assms(1)])
  fix H M and cp' :: changePod
  assume "M (obj_key cp0) = Some cp0" "obj_key cp' = obj_key cp0"
    "changePod_main cp' = changePod_main cp0" "cpStatus cp' = cpStatus cp"
  then show "podSteps H M (M(obj_key cp0 \<mapsto> cp'))"
    using assms(2,3)
    by (intro podSteps.own podTrans.advance [of M _ cp0]) (auto simp: changePod_main_def)
qed (use assms in simp_all)

lemma refines_submit [refines_intros]:
  "refines good stored known podSteps (submitChangeStartNotifyAndGetNodeId env cp)"
  unfolding submitChangeStartNotifyAndGetNodeId_def
  by (intro refines_intros) (auto split: goValue.splits intro!: refines_intros)

lemma refines_defenseProcessedPod [refines_intros]:
  "refines good stored known podSteps (defenseProcessedPod env p)"
  unfolding defenseProcessedPod_def by (intro refines_intros)

lemma refines_markDefensedPods [refines_intros]:
  "refines good stored known podSteps (markDefensedPods env ps)"
  unfolding markDefensedPods_def by (intro refines_intros)

lemma refines_podsOrDelete [refines_intros]:
  "refines good stored known podSteps (getFinishedPodsWithoutDefenseByChangePodAndDeleteIfNotExist env cp)"
  unfolding getFinishedPodsWithoutDefenseByChangePodAndDeleteIfNotExist_def getAllPodsByChangePod_def
  by (intro refines_intros refines_delete podSteps.own podTrans.delete)

lemma knowing_preWait:
  assumes "cp \<in> K" "changePodState cp = PreWait"
  shows "knowing good stored known podSteps K (preWaitChangePodHandle env cp)"
  unfolding preWaitChangePodHandle_def setter_defs
  by (intro knowing_bindM refines_intros knowing_intros)
    (auto elim!: setChangePodStatus_yields setChangePodPreSubmittedStatus_yields
      intro!: knowing_updateStatus [OF assms(1)]
      intro: statusStep.start_failed statusStep.started simp: assms(2))

lemma knowing_postWait:
  assumes "cp \<in> K" "changePodState cp = PostWait"
  shows "knowing good stored known podSteps K (postWaitChangePodHandle env cp)"
  unfolding postWaitChangePodHandle_def setter_defs
  by (intro knowing_bindM refines_intros knowing_intros)
    (auto elim!: setChangePodStatus_yields setChangePodPostSubmittedStatus_yields
      intro!: knowing_updateStatus [OF assms(1)]
      intro: statusStep.finish_failed statusStep.finished simp: assms(2))

lemma knowing_finished:
  assumes "cp \<in> K" "changePodState cp \<in> set endings"
  shows "knowing good stored known podSteps K (handleFinishedChangePod env cp)"
  unfolding handleFinishedChangePod_def setter_defs
  by (intro knowing_bindM refines_intros)
    (auto elim!: setChangePodStatus_yields intro!: knowing_updateStatus [OF assms(1)]
      intro: statusStep.closed simp: assms(2))

lemma knowing_executeInit:
  assumes "cp \<in> K" "changePodState cp = ExecuteInit"
  shows "knowing good stored known podSteps K (executeInitChangePodHandle env cp cw)"
proof -
  have update: "knowing good stored known podSteps (insert cp' K) (updateChangePodStatus env cp'')"
    if "cpStatus cp' = cpStatus cp" "yields (setChangePodPreWaitStatus env cp') cp''" for cp' cp''
    using that unfolding setter_defs
    by (elim setChangePodStatus_yields)
      (auto intro!: knowing_updateStatus intro: statusStep.picked simp: assms(2))
  have put: "knowing good stored known podSteps K (bindM (call (apiUpdate (changePodApi env) (cp\<lparr>cpSpec := sp\<rparr>)))
      (\<lambda>cp. bindM (forEach ps (\<lambda>p. defenseProcessedPod env p)) (\<lambda>_.
        bindM (setChangePodPreWaitStatus env cp) (\<lambda>cp. updateChangePodStatus env cp))))" for sp ps
  proof (rule knowing_update_bindM [OF _ _ assms(1)])
    fix H M and cp' :: changePod
    assume "M (obj_key cp) = Some cp" "obj_key cp' = obj_key cp" "cpStatus cp' = cpStatus cp"
    then show "podSteps H M (M(obj_key cp \<mapsto> cp'))"
      by (intro podSteps.own podTrans.respec)
  next
    fix cp' :: changePod
    assume "cpStatus cp' = cpStatus cp"
    then show "knowing good stored known podSteps (insert cp' K)
        (bindM (forEach ps (\<lambda>p. defenseProcessedPod env p)) (\<lambda>_.
          bindM (setChangePodPreWaitStatus env cp') (\<lambda>cp. updateChangePodStatus env cp)))"
      by (intro knowing_bindM refines_intros update) (auto simp: setter_defs intro: refines_intros)
  qed simp_all
  show ?thesis
    unfolding executeInitChangePodHandle_def Let_def
    by (intro knowing_intros knowing_bindM refines_intros put) (auto intro: refines_knowing refines_intros)
qed

theorem ChangePod_Reconcile_refines: "refines good stored known podSteps (ChangePod_Reconcile env req)"
  unfolding ChangePod_Reconcile_def postFinishChangePodHandle_def timeoutOrFailedChangePodHandle_def
  by (rule knowing_empty, rule knowing_attempt_get)
    (auto intro!: knowing_intros knowing_bindM refines_intros knowing_executeInit knowing_preWait
      knowing_postWait knowing_finished intro: refines_knowing refines_intros simp: endings_def)

end

end
