(* ===== verification/Change_Workload.thy ===== *)
theory Change_Workload
  imports Change_Pod
begin

section \<open>controllers/changeworkload\_controller.go\<close>

text \<open>
  The ChangeWorkloadReconciler with its two helper files
  (\<open>changeworkload_pod_control.go\<close>, \<open>changeworkload_changepod_control.go\<close>). Its
  requests name a ChangeWorkload, or, with a type prefix, the pod or ChangePod whose event
  caused them. Reconcile finds the ChangeWorkload, creates the next ChangePod when none is
  waiting, and carries the verdicts of the finished ChangePods into the status of the
  ChangeWorkload and the suspend label of the Deployment.
\<close>

subsection \<open>Pods and ChangePods of a ChangeWorkload\<close>

definition getAllPodsByVersion :: "'e env \<Rightarrow> string \<Rightarrow> string \<Rightarrow> ('e world, pod list) prog" where
  "getAllPodsByVersion env ns webhookVersionLabel = call (apiList (podApi env)
     (anyOpts\<lparr>inNamespace := Some ns,
        matchingLabels := [(AdmissionWebhookVersionLabel, webhookVersionLabel)]\<rparr>))"

definition getAllPodsByWorkload :: "'e env \<Rightarrow> changeWorkload \<Rightarrow> ('e world, pod list) prog" where
  "getAllPodsByWorkload env workload =
     getAllPodsByVersion env (Namespace workload) (get_label (Labels workload) AdmissionWebhookVersionLabel)"

definition getFinishedPodsByWorkload :: "'e env \<Rightarrow> changeWorkload \<Rightarrow> ('e world, pod list) prog" where
  "getFinishedPodsByWorkload env workload =
     bindM (getAllPodsByWorkload env workload) (\<lambda>array. ret (filterPodWithoutFinishedLabel array))"

definition getFinishedWithoutDefensedPodsByWorkload ::
  "'e env \<Rightarrow> changeWorkload \<Rightarrow> ('e world, pod list) prog" where
  "getFinishedWithoutDefensedPodsByWorkload env workload =
     bindM (getAllPodsByWorkload env workload) (\<lambda>array.
       ret (filterPodWithoutFinishedOrDefensedLabel array))"

text \<open>\<open>podMap[pod.Name] = pod\<close> for every pod, the last one winning.\<close>

definition podMapOf :: "pod list \<Rightarrow> (string \<rightharpoonup> pod)" where
  "podMapOf ps = foldl (\<lambda>m p. m(Name p \<mapsto> p)) Map.empty ps"

definition getAllPodMapByWorkload :: "'e env \<Rightarrow> changeWorkload \<Rightarrow> ('e world, string \<rightharpoonup> pod) prog" where
  "getAllPodMapByWorkload env workload =
     bindM (getAllPodsByVersion env (Namespace workload)
         (get_label (Labels workload) AdmissionWebhookVersionLabel))
       (\<lambda>podArray. ret (podMapOf podArray))"

definition getAllChangePodsByWorkload :: "'e env \<Rightarrow> changeWorkload \<Rightarrow> ('e world, changePod list) prog" where
  "getAllChangePodsByWorkload env workload = call (apiList (changePodApi env)
     (anyOpts\<lparr>inNamespace := Some (Namespace workload),
        matchingFields := [(ChangePodFieldChangeWorkloadId, Name workload)]\<rparr>))"

fun onlyExecuteDone :: "changePod list \<Rightarrow> changePod list" where
  "onlyExecuteDone [] = []"
| "onlyExecuteDone (cp # cps) =
     (if changePodState cp = ExecuteDone then cp # onlyExecuteDone cps else onlyExecuteDone cps)"

definition getFinishedChangePodsByWorkload ::
  "'e env \<Rightarrow> changeWorkload \<Rightarrow> ('e world, changePod list) prog" where
  "getFinishedChangePodsByWorkload env workload =
     bindM (getAllChangePodsByWorkload env workload) (\<lambda>changePods. ret (onlyExecuteDone changePods))"

definition isExistInitStatusChangePod :: "'e env \<Rightarrow> changeWorkload \<Rightarrow> ('e world, bool \<times> int) prog" where
  "isExistInitStatusChangePod env workload =
     bindM (getAllChangePodsByWorkload env workload) (\<lambda>changePods.
       let exist = foldl (\<lambda>exist cp. if changePodState cp = ExecuteInit then True else exist) False changePods
       in ret (exist, int (length changePods)))"

text \<open>Errors of the list call are logged and count as \<open>false\<close>.\<close>

definition isDefensePreparingPodsThresholdReached :: "'e env \<Rightarrow> changeWorkload \<Rightarrow> ('e world, bool) prog" where
  "isDefensePreparingPodsThresholdReached env workload =
     bindM (attempt (getFinishedWithoutDefensedPodsByWorkload env workload)) (\<lambda>r. case r of
       Inl err \<Rightarrow> ret False
     | Inr podArray \<Rightarrow> ret (int (length podArray) \<ge> cwCountThreshold (cwSpec workload)))"

definition isDefensePreparingPodsExist :: "'e env \<Rightarrow> changeWorkload \<Rightarrow> ('e world, bool) prog" where
  "isDefensePreparingPodsExist env workload =
     bindM (attempt (getFinishedWithoutDefensedPodsByWorkload env workload)) (\<lambda>r. case r of
       Inl err \<Rightarrow> ret False
     | Inr podArray \<Rightarrow> ret (int (length podArray) > NumberZero))"

subsection \<open>Writing\<close>

definition updateWorkloadStatus :: "'e env \<Rightarrow> changeWorkload \<Rightarrow> ('e world, changeWorkload) prog" where
  "updateWorkloadStatus env workload =
     bindM (GetNowTime env) (\<lambda>now.
     bindM (nowUnix env) (\<lambda>unix.
       call (apiStatusUpdate (changeWorkloadApi env)
         (workload\<lparr>cwStatus := (cwStatus workload)\<lparr>cwUpdateTime := now, cwUpdateTimeUnix := unix\<rparr>\<rparr>))))"

text \<open>
  \<open>patchWorkloadEntryTime\<close> changes its argument, also when the patch fails; the changed
  ChangeWorkload is the result.
\<close>

definition patchWorkloadEntryTime :: "'e env \<Rightarrow> changeWorkload \<Rightarrow> ('e world, changeWorkload) prog" where
  "patchWorkloadEntryTime env workload =
     bindM (GetNowTime env) (\<lambda>now.
     bindM (nowUnix env) (\<lambda>unix.
       let workload' = workload\<lparr>cwStatus := (cwStatus workload)
             \<lparr>cwEntryTime := now, cwEntryTimeUnix := unix\<rparr>\<rparr>
       in bindM (attempt (call (apiStatusPatch (changeWorkloadApi env) workload workload'))) (\<lambda>r. case r of
            Inl err \<Rightarrow> ret workload'
          | Inr stored \<Rightarrow> ret stored)))"

text \<open>
  A failing \<open>SetControllerReference\<close> is logged; the ChangePod is then created without
  an owner.
\<close>

definition createNewChangePod :: "'e env \<Rightarrow> changeWorkload \<Rightarrow> int \<Rightarrow> ('e world, changePod) prog" where
  "createNewChangePod env workload changePodNum =
     bindM (ChangePodFactory_NewInstance env
         \<lparr>facChangeWorkload = workload, facChangePodNum = changePodNum\<rparr>) (\<lambda>cp.
       let cp = (case refChangePod env workload cp of Inl err \<Rightarrow> cp | Inr cp' \<Rightarrow> cp')
       in call (apiCreate (changePodApi env) cp))"

text \<open>The new ChangePod, if any, and the ChangeWorkload as the call left it.\<close>

definition ensureInitChangePodCreatedIfNecessary ::
  "'e env \<Rightarrow> changeWorkload \<Rightarrow> bool \<Rightarrow> ('e world, changePod option \<times> changeWorkload) prog" where
  "ensureInitChangePodCreatedIfNecessary env workload reachedThreshold =
     bindM (isExistInitStatusChangePod env workload) (\<lambda>(exist, changePodNum).
       if exist then ret (None, workload)
       else
         bindM (if reachedThreshold then isDefensePreparingPodsThresholdReached env workload
                else isDefensePreparingPodsExist env workload) (\<lambda>ifNecessary.
           if ifNecessary then
             bindM (createNewChangePod env workload changePodNum) (\<lambda>newChangePod.
             bindM (patchWorkloadEntryTime env workload) (\<lambda>workload.
               ret (Some newChangePod, workload)))
           else ret (None, workload)))"

subsection \<open>The Deployment of a ChangeWorkload\<close>

fun firstOwner :: "string \<Rightarrow> ownerReference list \<Rightarrow> ownerReference option" where
  "firstOwner kind [] = None"
| "firstOwner kind (r # rs) = (if refKind r = kind then Some r else firstOwner kind rs)"

definition getDeploymentByWorkload :: "'e env \<Rightarrow> changeWorkload \<Rightarrow> ('e world, deployment) prog" where
  "getDeploymentByWorkload env workload =
     (case firstOwner DeploymentKind (OwnerReferences workload) of
        None \<Rightarrow> ret zeroDeployment
      | Some owner \<Rightarrow> call (apiGet (deploymentApi env)
          \<lparr>nnNamespace = Namespace workload, nnName = refName owner\<rparr>))"

definition patchDeployment :: "'e env \<Rightarrow> deployment \<Rightarrow> deployment \<Rightarrow> ('e world, unit) prog" where
  "patchDeployment env base d = bindM (call (apiPatch (deploymentApi env) base d)) (\<lambda>_. ret ())"

definition addOrRemoveDeploymentSuspendLabel :: "'e env \<Rightarrow> deployment \<Rightarrow> bool \<Rightarrow> ('e world, unit) prog" where
  "addOrRemoveDeploymentSuspendLabel env d add =
     bindM (if add then ConfigIsBlockingUp env else ret False) (\<lambda>suspend.
       if suspend then
         (if has_label (Labels d) SuspendLabel then ret ()
          else bindM (nowUnix env) (\<lambda>unix.
               bindM (set_label SuspendLabel (itoa unix) d) (\<lambda>d'. patchDeployment env d d')))
       else
         (if \<not> has_label (Labels d) SuspendLabel then ret ()
          else bindM (set_label IgnoredSuspendLabel True_str d) (\<lambda>d'.
               let d' = d'\<lparr>Labels := delete_label SuspendLabel (Labels d')\<rparr>;
                   d' = d'\<lparr>Labels := delete_label DefenseStatusLabel (Labels d')\<rparr>
               in patchDeployment env d d')))"

definition deleteOldChangeWorkload :: "'e env \<Rightarrow> changeWorkload \<Rightarrow> ('e world, unit) prog" where
  "deleteOldChangeWorkload env workload =
     bindM (attempt (call (apiGet (deploymentApi env)
         \<lparr>nnNamespace = Namespace workload, nnName = get_label (Labels workload) DeploymentNameLabel\<rparr>)))
       (\<lambda>r. case r of
          Inl err \<Rightarrow> ret ()
        | Inr d \<Rightarrow>
            if get_label (Labels d) AdmissionWebhookVersionLabel
                 \<noteq> get_label (Labels workload) AdmissionWebhookVersionLabel
            then ret ()
            else
              bindM (attempt (call (apiList (changeWorkloadApi env)
                  (anyOpts\<lparr>inNamespace := Some (Namespace workload),
                     matchingLabels := [(DeploymentNameLabel, Name d)]\<rparr>)))) (\<lambda>r. case r of
                 Inl err \<Rightarrow> ret ()
               | Inr items \<Rightarrow> forEach items (\<lambda>old.
                   if Name old \<noteq> Name workload
                   then logged (call (apiDelete (changeWorkloadApi env) old)) else ret ())))"

subsection \<open>Verdicts\<close>

definition getPassAndFailedPodsByPostFinishChangePod ::
  "changePod \<Rightarrow> podSummary list \<times> podSummary list" where
  "getPassAndFailedPodsByPostFinishChangePod cp =
     foldl (\<lambda>(passPods, failedPods) podResult.
         if psVerdict podResult = ChangePodVerdictPass then (passPods @ [podResult], failedPods)
         else (passPods, failedPods @ [podResult]))
       ([], []) (cpPodResults (cpStatus cp))"

text \<open>The body of the loop over the finished ChangePods.\<close>

definition collectVerdicts ::
  "podSummary list \<times> podSummary list \<Rightarrow> changePod \<Rightarrow> podSummary list \<times> podSummary list" where
  "collectVerdicts acc cp = (case acc of (successChangePods, failureChangePods) \<Rightarrow>
     if cpMessage (cpStatus cp) \<in> set [PreTimeout, PreFailed, PostFailed, PostTimeout] then
       (successChangePods @ cpPodInfos (cpSpec cp), failureChangePods)
     else if cpMessage (cpStatus cp) = PostFinish then
       (case getPassAndFailedPodsByPostFinishChangePod cp of (passPods, failedPods) \<Rightarrow>
          (successChangePods @ passPods, failureChangePods @ failedPods))
     else (successChangePods, failureChangePods))"

definition validateChangeWorkloadSuccessOrSuspend :: "'e env \<Rightarrow> changeWorkload \<Rightarrow> ('e world, unit) prog" where
  "validateChangeWorkloadSuccessOrSuspend env workload =
     bindM (getDeploymentByWorkload env workload) (\<lambda>d.
       case depReplicas d of
         None \<Rightarrow> crash
       | Some replicas \<Rightarrow>
           bindM (getFinishedPodsByWorkload env workload) (\<lambda>finishedPods.
             let isAllPodFinished = int (length finishedPods) \<ge> replicas;
                 isAllPodPass = int (length (cwDefenseCheckPassPods (cwStatus workload))) = replicas;
                 workload = (if isAllPodFinished \<and> isAllPodPass
                   then workload\<lparr>cwStatus := (cwStatus workload)\<lparr>cwStatusStatus := Success\<rparr>\<rparr> else workload);
                 isPodFail = int (length (cwDefenseCheckFailPods (cwStatus workload))) > NumberZero;
                 workload = (if isPodFail
                   then workload\<lparr>cwStatus := (cwStatus workload)\<lparr>cwStatusStatus := Suspend\<rparr>\<rparr> else workload)
             in bindM (addOrRemoveDeploymentSuspendLabel env d isPodFail) (\<lambda>_.
                bindM (updateWorkloadStatus env workload) (\<lambda>_. ret ()))))"

definition syncChangeWorkloadStatus :: "'e env \<Rightarrow> changeWorkload \<Rightarrow> ('e world, unit) prog" where
  "syncChangeWorkloadStatus env workload =
     bindM (getFinishedChangePodsByWorkload env workload) (\<lambda>changePods.
     bindM (getAllPodMapByWorkload env workload) (\<lambda>allPodMapByWorkload.
       if IsNotEmpty (SliceValue changePods) then
         (case foldl collectVerdicts ([], []) changePods of (successChangePods, failureChangePods) \<Rightarrow>
            let passPods = RemoveDuplicatePod successChangePods allPodMapByWorkload;
                failPods = RemoveDuplicatePod failureChangePods allPodMapByWorkload
            in if IsPodSummarySliceEqual passPods (cwDefenseCheckPassPods (cwStatus workload)) \<and>
                  IsPodSummarySliceEqual failPods (cwDefenseCheckFailPods (cwStatus workload))
               then ret ()
               else validateChangeWorkloadSuccessOrSuspend env
                      (workload\<lparr>cwStatus := (cwStatus workload)
                         \<lparr>cwDefenseCheckPassPods := passPods, cwDefenseCheckFailPods := failPods\<rparr>\<rparr>))
       else ret ()))"

subsection \<open>Handlers\<close>

definition initChangeWorkloadHandle :: "'e env \<Rightarrow> changeWorkload \<Rightarrow> ('e world, unit) prog" where
  "initChangeWorkloadHandle env workload =
     bindM (updateWorkloadStatus env
       (workload\<lparr>cwStatus := (cwStatus workload)\<lparr>cwStatusStatus := Running\<rparr>\<rparr>)) (\<lambda>_. ret ())"

definition successChangeWorkloadHandle :: "'e env \<Rightarrow> changeWorkload \<Rightarrow> ('e world, unit) prog" where
  "successChangeWorkloadHandle env workload =
     bindM (deleteOldChangeWorkload env workload) (\<lambda>_.
     bindM (ensureInitChangePodCreatedIfNecessary env workload False) (\<lambda>(_, workload).
       syncChangeWorkloadStatus env workload))"

definition runningChangeWorkloadHandle :: "'e env \<Rightarrow> changeWorkload \<Rightarrow> ('e world, unit) prog" where
  "runningChangeWorkloadHandle env workload =
     bindM (ensureInitChangePodCreatedIfNecessary env workload True) (\<lambda>(_, workload).
       syncChangeWorkloadStatus env workload)"

definition suspendChangeWorkloadHandle :: "'e env \<Rightarrow> changeWorkload \<Rightarrow> ('e world, unit) prog" where
  "suspendChangeWorkloadHandle env workload =
     bindM (ensureInitChangePodCreatedIfNecessary env workload False) (\<lambda>(_, workload).
       syncChangeWorkloadStatus env workload)"

definition waitTimeoutChangeWorkloadHandle :: "'e env \<Rightarrow> changeWorkload \<Rightarrow> ('e world, unit) prog" where
  "waitTimeoutChangeWorkloadHandle env workload =
     bindM (ensureInitChangePodCreatedIfNecessary env workload False) (\<lambda>(newChangePod, workload).
       if newChangePod \<noteq> None then
         bindM (updateWorkloadStatus env
           (workload\<lparr>cwStatus := (cwStatus workload)\<lparr>cwStatusStatus := Running\<rparr>\<rparr>)) (\<lambda>_. ret ())
       else syncChangeWorkloadStatus env workload)"

subsection \<open>From a pod or ChangePod to its ChangeWorkload\<close>

definition getReplicaSetByPod :: "'e env \<Rightarrow> pod \<Rightarrow> ('e world, replicaSet) prog" where
  "getReplicaSetByPod env p =
     (case firstOwner ReplicaSetKind (OwnerReferences p) of
        None \<Rightarrow> ret zeroReplicaSet
      | Some owner \<Rightarrow> call (apiGet (replicaSetApi env)
          \<lparr>nnNamespace = Namespace p, nnName = refName owner\<rparr>))"

definition getDeploymentByReplicaSet :: "'e env \<Rightarrow> replicaSet \<Rightarrow> ('e world, deployment) prog" where
  "getDeploymentByReplicaSet env rs =
     (case firstOwner DeploymentKind (OwnerReferences rs) of
        None \<Rightarrow> ret zeroDeployment
      | Some owner \<Rightarrow> call (apiGet (deploymentApi env)
          \<lparr>nnNamespace = Namespace rs, nnName = refName owner\<rparr>))"

definition getDeploymentByPod :: "'e env \<Rightarrow> pod \<Rightarrow> ('e world, deployment) prog" where
  "getDeploymentByPod env p =
     bindM (getReplicaSetByPod env p) (\<lambda>rs. getDeploymentByReplicaSet env rs)"

definition getChangeWorkloadByDeployment :: "'e env \<Rightarrow> deployment \<Rightarrow> ('e world, changeWorkload) prog" where
  "getChangeWorkloadByDeployment env d = call (apiGet (changeWorkloadApi env)
     \<lparr>nnNamespace = Namespace d, nnName = GetChangeWorkloadNameByDeployment d\<rparr>)"

definition podReconcile :: "'e env \<Rightarrow> namespacedName \<Rightarrow> ('e world, changeWorkload option) prog" where
  "podReconcile env req =
     bindM (attempt (call (apiGet (podApi env) req))) (\<lambda>r. case r of
       Inl err \<Rightarrow> ignoreNotFound err (ret None)
     | Inr p \<Rightarrow>
         if \<not> isFinished p then ret None
         else
           bindM (getDeploymentByPod env p) (\<lambda>d.
           bindM (getChangeWorkloadByDeployment env d) (\<lambda>workload. ret (Some workload))))"

definition changePodReconcile :: "'e env \<Rightarrow> namespacedName \<Rightarrow> ('e world, changeWorkload option) prog" where
  "changePodReconcile env req =
     bindM (attempt (call (apiGet (changePodApi env) req))) (\<lambda>r. case r of
       Inl err \<Rightarrow> ignoreNotFound err (ret None)
     | Inr cp \<Rightarrow>
         bindM (call (apiGet (changeWorkloadApi env)
             \<lparr>nnNamespace = Namespace cp, nnName = cpChangeWorkloadId (cpSpec cp)\<rparr>))
           (\<lambda>workload. ret (Some workload)))"

subsection \<open>Reconcile\<close>

definition ChangeWorkload_dispatch :: "'e env \<Rightarrow> changeWorkload \<Rightarrow> ('e world, unit) prog" where
  "ChangeWorkload_dispatch env workload =
     (let status = changeWorkloadState workload
      in if status = Init then initChangeWorkloadHandle env workload
         else if status = Success then successChangeWorkloadHandle env workload
         else if status = Running then runningChangeWorkloadHandle env workload
         else if status = Suspend then suspendChangeWorkloadHandle env workload
         else if status = TimeOutPreThreshold then waitTimeoutChangeWorkloadHandle env workload
         else ret ())"

definition ChangeWorkload_Reconcile :: "'e env \<Rightarrow> namespacedName \<Rightarrow> ('e world, unit) prog" where
  "ChangeWorkload_Reconcile env req =
     (let resourceType = GetResourceTypeFromNamespaceName req;
          found = (if IsPodResourceType resourceType
                   then podReconcile env (GetPodRequestFromPodNameSpaceName req)
                   else if IsChangePodResourceType resourceType
                   then changePodReconcile env (GetPodRequestFromPodNameSpaceName req)
                   else bindM (call (apiGet (changeWorkloadApi env) req)) (\<lambda>workload. ret (Some workload)))
      in bindM (attempt found) (\<lambda>r. case r of
           Inl err \<Rightarrow> ignoreNotFound err (ret ())
         | Inr None \<Rightarrow> ret ()
         | Inr (Some workload) \<Rightarrow> ChangeWorkload_dispatch env workload))"

subsection \<open>Watches, event filters and the field indexer\<close>

fun watchPodEventHandler :: "runtimeObject \<Rightarrow> namespacedName list" where
  "watchPodEventHandler (PodObject p) =
     (if isFinished p \<and> \<not> isDefensed (Labels p) then [GetPodNameSpaceNameFromPod p] else [])"
| "watchPodEventHandler _ = []"

fun watchChangePodEventHandler :: "runtimeObject \<Rightarrow> namespacedName list" where
  "watchChangePodEventHandler (ChangePodObject cp) =
     (if changePodState cp \<noteq> ExecuteInit then [GetChangePodNameSpaceNameFromChangePod cp] else [])"
| "watchChangePodEventHandler _ = []"

definition podHandleEvent :: "pod \<Rightarrow> bool" where
  "podHandleEvent p =
     (let finished = isFinished p; defensed = isDefensed (Labels p)
      in if finished \<and> \<not> defensed then True else False)"

definition changePodCreateHandleEvent :: "changePod \<Rightarrow> bool" where
  "changePodCreateHandleEvent cp \<longleftrightarrow> changePodState cp = ExecuteDone"

definition changePodUpdateHandleEvent :: "changePod \<Rightarrow> changePod \<Rightarrow> bool" where
  "changePodUpdateHandleEvent oldChangePod newChangePod =
     (if changePodState oldChangePod = ExecuteInit \<and> changePodState newChangePod = PreWait then True
      else if changePodState newChangePod = ExecuteDone then True
      else False)"

definition isInitStatusChangeWorkload :: "changeWorkload \<Rightarrow> bool" where
  "isInitStatusChangeWorkload cw \<longleftrightarrow> changeWorkloadState cw = Init"

definition isFailedStatusChangeWorkload :: "changeWorkload \<Rightarrow> bool" where
  "isFailedStatusChangeWorkload cw \<longleftrightarrow> changeWorkloadState cw = Failed"

definition changeWorkloadHandleEvent :: "changeWorkload \<Rightarrow> bool" where
  "changeWorkloadHandleEvent cw =
     (let isInitStatus = isInitStatusChangeWorkload cw; isFailedStatus = isFailedStatusChangeWorkload cw
      in if isInitStatus \<or> isFailedStatus then False else True)"

text \<open>
  The type assertion on the old object panics when the old object is of another kind, which is
  the value \<open>None\<close>.
\<close>

fun ChangeWorkload_handleUpdateEvent :: "runtimeObject \<Rightarrow> runtimeObject \<Rightarrow> bool option" where
  "ChangeWorkload_handleUpdateEvent objOld (PodObject p) = Some (podHandleEvent p)"
| "ChangeWorkload_handleUpdateEvent (ChangePodObject old) (ChangePodObject new) =
     Some (changePodUpdateHandleEvent old new)"
| "ChangeWorkload_handleUpdateEvent _ (ChangePodObject new) = None"
| "ChangeWorkload_handleUpdateEvent objOld (ChangeWorkloadObject cw) = Some (changeWorkloadHandleEvent cw)"
| "ChangeWorkload_handleUpdateEvent _ _ = Some False"

fun ChangeWorkload_handleCreateEvent :: "runtimeObject \<Rightarrow> bool" where
  "ChangeWorkload_handleCreateEvent (PodObject p) = podHandleEvent p"
| "ChangeWorkload_handleCreateEvent (ChangePodObject cp) = changePodCreateHandleEvent cp"
| "ChangeWorkload_handleCreateEvent (ChangeWorkloadObject cw) = changeWorkloadHandleEvent cw"
| "ChangeWorkload_handleCreateEvent _ = False"

definition changeWorkloadIndex :: "string \<Rightarrow> changeWorkload \<Rightarrow> string list" where
  "changeWorkloadIndex field cw =
     (if field = ChangeWorkloadFieldStatus then [changeWorkloadState cw] else [])"

subsection \<open>What the reconciler does to the ChangePods\<close>

context changePod_world
begin

lemma refines_createNewChangePod [refines_intros]:
  "refines good stored known podSteps (createNewChangePod env workload n)"
  unfolding createNewChangePod_def Let_def
  by (intro refines_intros refines_create podSteps.own podTrans.create)

lemma refines_workload_reads [refines_intros]:
  "refines good stored known podSteps (getAllPodsByWorkload env workload)"
  "refines good stored known podSteps (getFinishedPodsByWorkload env workload)"
  "refines good stored known podSteps (getFinishedWithoutDefensedPodsByWorkload env workload)"
  "refines good stored known podSteps (getAllPodMapByWorkload env workload)"
  "refines good stored known podSteps (getAllChangePodsByWorkload env workload)"
  "refines good stored known podSteps (getFinishedChangePodsByWorkload env workload)"
  "refines good stored known podSteps (isExistInitStatusChangePod env workload)"
  "refines good stored known podSteps (isDefensePreparingPodsThresholdReached env workload)"
  "refines good stored known podSteps (isDefensePreparingPodsExist env workload)"
  "refines good stored known podSteps (getDeploymentByWorkload env workload)"
  unfolding getAllPodsByWorkload_def getFinishedPodsByWorkload_def
    getFinishedWithoutDefensedPodsByWorkload_def getAllPodMapByWorkload_def getAllPodsByVersion_def
    getAllChangePodsByWorkload_def getFinishedChangePodsByWorkload_def isExistInitStatusChangePod_def
    isDefensePreparingPodsThresholdReached_def isDefensePreparingPodsExist_def getDeploymentByWorkload_def
  by (intro refines_intros)+

lemma refines_workload_writes [refines_intros]:
  "refines good stored known podSteps (updateWorkloadStatus env workload)"
  "refines good stored known podSteps (patchWorkloadEntryTime env workload)"
  "refines good stored known podSteps (patchDeployment env d d')"
  "refines good stored known podSteps (addOrRemoveDeploymentSuspendLabel env d add)"
  "refines good stored known podSteps (deleteOldChangeWorkload env workload)"
  unfolding updateWorkloadStatus_def patchWorkloadEntryTime_def patchDeployment_def
    addOrRemoveDeploymentSuspendLabel_def deleteOldChangeWorkload_def
  by (intro refines_intros)+

lemma refines_ensureInit [refines_intros]:
  "refines good stored known podSteps (ensureInitChangePodCreatedIfNecessary env workload b)"
  unfolding ensureInitChangePodCreatedIfNecessary_def by (intro refines_intros)

lemma refines_sync [refines_intros]:
  "refines good stored known podSteps (validateChangeWorkloadSuccessOrSuspend env workload)"
  "refines good stored known podSteps (syncChangeWorkloadStatus env workload)"
  unfolding syncChangeWorkloadStatus_def validateChangeWorkloadSuccessOrSuspend_def
  by (intro refines_intros)+

lemma refines_dispatch [refines_intros]:
  "refines good stored known podSteps (ChangeWorkload_dispatch env workload)"
  unfolding ChangeWorkload_dispatch_def initChangeWorkloadHandle_def successChangeWorkloadHandle_def
    runningChangeWorkloadHandle_def suspendChangeWorkloadHandle_def waitTimeoutChangeWorkloadHandle_def
  by (intro refines_intros)

lemma refines_find [refines_intros]:
  "refines good stored known podSteps (podReconcile env req)"
  "refines good stored known podSteps (changePodReconcile env req)"
  unfolding podReconcile_def changePodReconcile_def getDeploymentByPod_def getReplicaSetByPod_def
    getDeploymentByReplicaSet_def getChangeWorkloadByDeployment_def
  by (intro refines_intros)+

theorem ChangeWorkload_Reconcile_refines:
  "refines good stored known podSteps (ChangeWorkload_Reconcile env req)"
  unfolding ChangeWorkload_Reconcile_def Let_def by (intro refines_intros)

end

subsection \<open>The contract of the ChangeWorkload API\<close>

definition workload_main ::
  "changeWorkload \<Rightarrow> namespacedName \<times> labels \<times> ownerReference list \<times> changeWorkloadSpec" where
  "workload_main cw = (obj_key cw, Labels cw, OwnerReferences cw, cwSpec cw)"

locale workload_world =
  object_writes "changeWorkloadApi env" changeWorkloadIndex rely good stored known workloadTrans
    workload_main cwStatus zeroChangeWorkloadStatus mergeChangeWorkloadStatus
  for env :: "'e env" and rely and good and stored and known +
  assumes clock_quiet: "harmless rely good (nowNs env)"
    and http_quiet: "harmless rely good (httpDo env req)"
    and sleep_quiet: "good (wExt w) \<Longrightarrow> rely (wExt w) (wExt (sleepFor env d w))"
    and pods_quiet: "harmless_kind rely good (podApi env)"
    and deployments_quiet: "harmless_kind rely good (deploymentApi env)"
    and replicaSets_quiet: "harmless_kind rely good (replicaSetApi env)"
    and namespaces_quiet: "harmless_kind rely good (namespaceApi env)"
    and changePods_quiet: "harmless_kind rely good (changePodApi env)"
    and configs_quiet: "harmless_kind rely good (opsConfigInfoApi env)"

sublocale workload_world \<subseteq>
    quiet_client "changeWorkloadApi env" changeWorkloadIndex rely good stored known workloadTrans env
  by unfold_locales (use clock_quiet http_quiet sleep_quiet in auto)

lemma obj_key_cwStatus [simp]: "obj_key (cw\<lparr>cwStatus := s\<rparr>) = obj_key cw"
  by (simp add: obj_key_def)

text \<open>
  A ChangeWorkload in the hand of a handler: a stored version of which only the entry and
  update times may have been changed.
\<close>

definition retimed :: "changeWorkload \<Rightarrow> changeWorkload \<Rightarrow> bool" where
  "retimed cw cw' \<longleftrightarrow> (\<exists>s. cw' = cw\<lparr>cwStatus := s\<rparr> \<and>
     cwStatusStatus s = changeWorkloadState cw \<and>
     cwDefensePreparingPods s = cwDefensePreparingPods (cwStatus cw) \<and>
     cwDefenseCheckPassPods s = cwDefenseCheckPassPods (cwStatus cw) \<and>
     cwDefenseCheckFailPods s = cwDefenseCheckFailPods (cwStatus cw))"

lemma retimed_refl: "retimed cw cw"
  unfolding retimed_def by (rule exI [of _ "cwStatus cw"]) simp

lemma merged_entered:
  assumes "status_of_cw' = mergeChangeWorkloadStatus s (s\<lparr>cwEntryTime := a, cwEntryTimeUnix := b\<rparr>) c"
  shows "workloadStep H c status_of_cw'"
  using assms by (intro workloadStep.entered) (simp_all add: mergeChangeWorkloadStatus_def)

context workload_world
begin

lemma other_kind_calls [refines_intros]:
  "refines good stored known workloadTrans (call (apiGet (podApi env) k))"
  "refines good stored known workloadTrans (call (apiPatch (podApi env) p p'))"
  "refines good stored known workloadTrans (call (apiUpdate (podApi env) p))"
  "refines good stored known workloadTrans (call (apiList (podApi env) opts))"
  "refines good stored known workloadTrans (call (apiGet (deploymentApi env) k))"
  "refines good stored known workloadTrans (call (apiPatch (deploymentApi env) d d'))"
  "refines good stored known workloadTrans (call (apiUpdate (deploymentApi env) d))"
  "refines good stored known workloadTrans (call (apiList (deploymentApi env) opts))"
  "refines good stored known workloadTrans (call (apiGet (replicaSetApi env) k))"
  "refines good stored known workloadTrans (call (apiList (replicaSetApi env) opts))"
  "refines good stored known workloadTrans (call (apiList (namespaceApi env) opts))"
  "refines good stored known workloadTrans (call (apiGet (changePodApi env) k))"
  "refines good stored known workloadTrans (call (apiList (changePodApi env) opts))"
  "refines good stored known workloadTrans (call (apiCreate (changePodApi env) cp))"
  "refines good stored known workloadTrans (call (apiUpdate (changePodApi env) cp))"
  "refines good stored known workloadTrans (call (apiDelete (changePodApi env) cp))"
  "refines good stored known workloadTrans (call (apiStatusUpdate (changePodApi env) cp))"
  "refines good stored known workloadTrans (call (apiStatusPatch (changePodApi env) cp cp'))"
  "refines good stored known workloadTrans (call (apiGet (opsConfigInfoApi env) k))"
  "refines good stored known workloadTrans (call (apiCreate (opsConfigInfoApi env) oci))"
  "refines good stored known workloadTrans (call (apiDelete (opsConfigInfoApi env) oci))"
  by (intro refines_call harmless_kindD pods_quiet deployments_quiet replicaSets_quiet
      namespaces_quiet changePods_quiet configs_quiet)+

lemma refines_workload_reads [refines_intros]:
  "refines good stored known workloadTrans (getAllPodsByWorkload env workload)"
  "refines good stored known workloadTrans (getFinishedPodsByWorkload env workload)"
  "refines good stored known workloadTrans (getFinishedWithoutDefensedPodsByWorkload env workload)"
  "refines good stored known workloadTrans (getAllPodMapByWorkload env workload)"
  "refines good stored known workloadTrans (getAllChangePodsByWorkload env workload)"
  "refines good stored known workloadTrans (getFinishedChangePodsByWorkload env workload)"
  "refines good stored known workloadTrans (isExistInitStatusChangePod env workload)"
  "refines good stored known workloadTrans (isDefensePreparingPodsThresholdReached env workload)"
  "refines good stored known workloadTrans (isDefensePreparingPodsExist env workload)"
  "refines good stored known workloadTrans (getDeploymentByWorkload env workload)"
  "refines good stored known workloadTrans (createNewChangePod env workload n)"
  unfolding getAllPodsByWorkload_def getFinishedPodsByWorkload_def
    getFinishedWithoutDefensedPodsByWorkload_def getAllPodMapByWorkload_def getAllPodsByVersion_def
    getAllChangePodsByWorkload_def getFinishedChangePodsByWorkload_def isExistInitStatusChangePod_def
    isDefensePreparingPodsThresholdReached_def isDefensePreparingPodsExist_def getDeploymentByWorkload_def
    createNewChangePod_def
  by (intro refines_intros)+

lemma refines_deployment_writes [refines_intros]:
  "refines good stored known workloadTrans (patchDeployment env d d')"
  "refines good stored known workloadTrans (addOrRemoveDeploymentSuspendLabel env d add)"
  unfolding patchDeployment_def addOrRemoveDeploymentSuspendLabel_def by (intro refines_intros)+

lemma refines_deleteOld [refines_intros]:
  "refines good stored known workloadTrans (deleteOldChangeWorkload env workload)"
  unfolding deleteOldChangeWorkload_def
  by (intro refines_intros refines_delete workloadTrans.delete)

lemma knowing_updateWorkloadStatus:
  assumes "cw \<in> K" "cw' = cw\<lparr>cwStatus := s\<rparr>"
    and "\<And>H now unix. K \<subseteq> H \<Longrightarrow>
      workloadStep H (cwStatus cw) (s\<lparr>cwUpdateTime := now, cwUpdateTimeUnix := unix\<rparr>)"
  shows "knowing good stored known workloadTrans K (updateWorkloadStatus env cw')"
  unfolding updateWorkloadStatus_def
proof (intro knowing_bindM refines_intros knowing_status_update [OF _ _ assms(1)])
  fix now unix H M and cw'' :: changeWorkload
  assume "K \<subseteq> H" "M (obj_key cw) = Some cw" "obj_key cw'' = obj_key cw"
    "workload_main cw'' = workload_main cw"
    "cwStatus cw'' = cwStatus (cw'\<lparr>cwStatus := (cwStatus cw')\<lparr>cwUpdateTime := now, cwUpdateTimeUnix := unix\<rparr>\<rparr>)"
  then show "workloadTrans H M (M(obj_key cw \<mapsto> cw''))"
    using assms(2) assms(3) [where H = H and now = now and unix = unix]
    by (intro workloadTrans.advance [of M _ cw]) (auto simp: workload_main_def)
qed (use assms(2) in simp_all)

text \<open>What follows \<open>ensureInitChangePodCreatedIfNecessary\<close> may rely on.\<close>

lemma knowing_patchEntry_bindM:
  assumes "cw \<in> K"
    and "\<And>cw1 cw' L. K \<subseteq> L \<Longrightarrow> cw1 \<in> L \<Longrightarrow> retimed cw1 cw' \<Longrightarrow>
      knowing good stored known workloadTrans L (f cw')"
  shows "knowing good stored known workloadTrans K (bindM (patchWorkloadEntryTime env cw) f)"
  unfolding patchWorkloadEntryTime_def Let_def bindM_assoc
proof (rule knowing_bindM [OF refines_GetNowTime], rule knowing_bindM [OF refines_nowUnix],
    rule knowing_attempt_status_patch)
  fix now unix H M cur and cw' :: changeWorkload
  let ?new = "cw\<lparr>cwStatus := (cwStatus cw)\<lparr>cwEntryTime := now, cwEntryTimeUnix := unix\<rparr>\<rparr>"
  assume "M (obj_key ?new) = Some cur" "obj_key cw' = obj_key ?new" "workload_main cw' = workload_main cur"
    "cwStatus cw' = mergeChangeWorkloadStatus (cwStatus cw) (cwStatus ?new) (cwStatus cur)"
  then show "workloadTrans H M (M(obj_key ?new \<mapsto> cw'))"
    by (intro workloadTrans.advance [of M _ cur]) (auto simp: workload_main_def intro: merged_entered)
next
  fix now unix e
  have "retimed cw (cw\<lparr>cwStatus := (cwStatus cw)\<lparr>cwEntryTime := now, cwEntryTimeUnix := unix\<rparr>\<rparr>)"
    by (auto simp: retimed_def)
  then show "knowing good stored known workloadTrans K (bindM
      (case Inl e of Inl err \<Rightarrow> ret (cw\<lparr>cwStatus := (cwStatus cw)\<lparr>cwEntryTime := now, cwEntryTimeUnix := unix\<rparr>\<rparr>)
       | Inr stored \<Rightarrow> ret stored) f)"
    using assms by simp
next
  fix now unix and cw' :: changeWorkload
  show "knowing good stored known workloadTrans (insert cw' K) (bindM
      (case Inr cw' of Inl err \<Rightarrow> ret (cw\<lparr>cwStatus := (cwStatus cw)\<lparr>cwEntryTime := now, cwEntryTimeUnix := unix\<rparr>\<rparr>)
       | Inr stored \<Rightarrow> ret stored) f)"
    using assms(2) [of "insert cw' K" cw' cw'] by (simp add: retimed_refl subset_insertI)
qed simp

lemma knowing_ensure_bindM:
  assumes "cw \<in> K"
    and "\<And>n cw1 cw' L. K \<subseteq> L \<Longrightarrow> cw1 \<in> L \<Longrightarrow> retimed cw1 cw' \<Longrightarrow>
      knowing good stored known workloadTrans L (f (n, cw'))"
  shows "knowing good stored known workloadTrans K
    (bindM (ensureInitChangePodCreatedIfNecessary env cw b) f)"
proof -
  have none: "knowing good stored known workloadTrans K (f (None, cw))"
    using assms(2) [of K cw cw None] assms(1) retimed_refl by simp
  have inner: "knowing good stored known workloadTrans K
      (bindM (createNewChangePod env cw m) (\<lambda>n.
         bindM (patchWorkloadEntryTime env cw) (\<lambda>workload. f (Some n, workload))))" for m
    by (intro knowing_bindM [OF refines_workload_reads(11)] knowing_patchEntry_bindM [OF assms(1)] assms(2))
  show ?thesis
    unfolding ensureInitChangePodCreatedIfNecessary_def bindM_assoc
  proof (rule knowing_bindM [OF refines_workload_reads(7)])
    fix a :: "bool \<times> int"
    show "knowing good stored known workloadTrans K
      (bindM (case a of (exist, changePodNum) \<Rightarrow>
         if exist then ret (None, cw)
         else bindM (if b then isDefensePreparingPodsThresholdReached env cw
             else isDefensePreparingPodsExist env cw) (\<lambda>ifNecessary.
           if ifNecessary then bindM (createNewChangePod env cw changePodNum) (\<lambda>newChangePod.
             bindM (patchWorkloadEntryTime env cw) (\<lambda>workload. ret (Some newChangePod, workload)))
           else ret (None, cw))) f)"
      by (cases a) (auto simp: none bindM_if bindM_assoc
          intro!: inner knowing_bindM [OF refines_workload_reads(8)] knowing_bindM [OF refines_workload_reads(9)])
  qed
qed

lemma knowing_validate:
  assumes "cw \<in> K" "cw' = cw\<lparr>cwStatus := s\<rparr>" "cwStatusStatus s = changeWorkloadState cw"
    and "cwDefensePreparingPods s = cwDefensePreparingPods (cwStatus cw)"
    and "distinct (map psPod (cwDefenseCheckPassPods s))" "distinct (map psPod (cwDefenseCheckFailPods s))"
  shows "knowing good stored known workloadTrans K (validateChangeWorkloadSuccessOrSuspend env cw')"
  unfolding validateChangeWorkloadSuccessOrSuspend_def Let_def
proof (rule knowing_bindM [OF refines_workload_reads(10)], goal_cases)
  case (1 d)
  have update: "knowing good stored known workloadTrans K (updateWorkloadStatus env (cw\<lparr>cwStatus := u\<rparr>))"
    if "cwDefensePreparingPods u = cwDefensePreparingPods s"
      "cwDefenseCheckPassPods u = cwDefenseCheckPassPods s"
      "cwDefenseCheckFailPods u = cwDefenseCheckFailPods s"
      "cwDefenseCheckFailPods s \<noteq> [] \<longrightarrow> cwStatusStatus u = Suspend"
      "cwDefenseCheckFailPods s = [] \<longrightarrow> cwStatusStatus u \<in> {cwStatusStatus s, Success}" for u
    by (rule knowing_updateWorkloadStatus [OF assms(1) refl], rule workloadStep.judged)
      (use that assms(2-) in auto)
  show ?case
  proof (cases "depReplicas d")
    case None
    then show ?thesis by (simp add: refines_knowing refines_crash)
  next
    case (Some replicas)
    show ?thesis
      unfolding Some option.case assms(2)
      by (rule knowing_bindM [OF refines_workload_reads(2)], rule knowing_bindM [OF refines_deployment_writes(2)])
        (auto intro!: knowing_self_bindM [OF update knowing_ret] simp: NumberZero_def)
  qed
qed

lemma knowing_sync:
  assumes "cw \<in> K" "retimed cw cw'"
  shows "knowing good stored known workloadTrans K (syncChangeWorkloadStatus env cw')"
proof -
  obtain s where s: "cw' = cw\<lparr>cwStatus := s\<rparr>" "cwStatusStatus s = changeWorkloadState cw"
    "cwDefensePreparingPods s = cwDefensePreparingPods (cwStatus cw)"
    using assms(2) by (auto simp: retimed_def)
  have "knowing good stored known workloadTrans K (validateChangeWorkloadSuccessOrSuspend env
      (cw'\<lparr>cwStatus := (cwStatus cw')
         \<lparr>cwDefenseCheckPassPods := RemoveDuplicatePod ps m, cwDefenseCheckFailPods := RemoveDuplicatePod fs m\<rparr>\<rparr>))"
    for ps fs m
    by (rule knowing_validate [OF assms(1), where s = "s\<lparr>cwDefenseCheckPassPods := RemoveDuplicatePod ps m,
          cwDefenseCheckFailPods := RemoveDuplicatePod fs m\<rparr>"])
      (use s in \<open>simp_all add: RemoveDuplicatePod_distinct\<close>)
  then show ?thesis
    unfolding syncChangeWorkloadStatus_def Let_def
    by (intro knowing_bindM refines_intros knowing_intros) (auto split: prod.split intro!: knowing_intros)
qed

lemma knowing_dispatch:
  assumes "cw \<in> K"
  shows "knowing good stored known workloadTrans K (ChangeWorkload_dispatch env cw)"
proof -
  have sync: "knowing good stored known workloadTrans K
      (bindM (ensureInitChangePodCreatedIfNecessary env cw b) (\<lambda>(_, workload). syncChangeWorkloadStatus env workload))" for b
    by (rule knowing_ensure_bindM [OF assms]) (auto intro: knowing_sync)
  have init: "knowing good stored known workloadTrans K (initChangeWorkloadHandle env cw)"
    if "changeWorkloadState cw = Init"
    unfolding initChangeWorkloadHandle_def
    by (rule knowing_self_bindM [OF knowing_updateWorkloadStatus [OF assms refl] knowing_ret])
      (rule workloadStep.launched, use that in simp_all)
  have resume: "knowing good stored known workloadTrans L (bindM (updateWorkloadStatus env
      (cw'\<lparr>cwStatus := (cwStatus cw')\<lparr>cwStatusStatus := Running\<rparr>\<rparr>)) (\<lambda>_. ret ()))"
    if "changeWorkloadState cw = TimeOutPreThreshold" "K \<subseteq> L" "cw1 \<in> L" "retimed cw1 cw'" for L cw1 cw'
  proof (rule knowing_self_bindM [OF _ knowing_ret])
    from \<open>retimed cw1 cw'\<close> obtain s where "cw' = cw1\<lparr>cwStatus := s\<rparr>"
      by (auto simp: retimed_def)
    then show "knowing good stored known workloadTrans L (updateWorkloadStatus env
        (cw'\<lparr>cwStatus := (cwStatus cw')\<lparr>cwStatusStatus := Running\<rparr>\<rparr>))"
      using that assms
      by (intro knowing_updateWorkloadStatus [of cw1 L _ "s\<lparr>cwStatusStatus := Running\<rparr>"]
          workloadStep.resumed [of cw]) auto
  qed
  show ?thesis
    unfolding ChangeWorkload_dispatch_def successChangeWorkloadHandle_def runningChangeWorkloadHandle_def
      suspendChangeWorkloadHandle_def waitTimeoutChangeWorkloadHandle_def Let_def
    by (intro knowing_intros init sync knowing_bindM refines_deleteOld knowing_ensure_bindM [OF assms])
      (auto intro!: knowing_intros intro: resume knowing_sync)
qed

text \<open>The ChangeWorkload that a request leads to is one the server has stored.\<close>

definition found_in :: "changeWorkload option \<Rightarrow> 'e world \<Rightarrow> bool" where
  "found_in r w \<longleftrightarrow> good (wExt w) \<and> set_option r \<subseteq> known (wExt w)"

lemma triple_found:
  assumes "refines good stored known workloadTrans m"
    and "\<And>a. triple (store_evolves good stored known workloadTrans) (\<lambda>w. good (wExt w)) (f a) found_in"
  shows "triple (store_evolves good stored known workloadTrans) (\<lambda>w. good (wExt w)) (bindM m f) found_in"
  using assms unfolding refines_def by (rule triple_bindM)

lemma triple_found_none:
  "triple (store_evolves good stored known workloadTrans) (\<lambda>w. good (wExt w)) (ret None) found_in"
  "triple (store_evolves good stored known workloadTrans) (\<lambda>w. good (wExt w)) (throw e) found_in"
  by (auto intro!: triple_ret triple_throw simp: found_in_def)

lemma triple_found_get:
  "triple (store_evolves good stored known workloadTrans) (\<lambda>w. good (wExt w))
     (bindM (call (apiGet (changeWorkloadApi env) k)) (\<lambda>workload. ret (Some workload))) found_in"
  by (rule triple_bindM [OF triple_get]) (auto intro!: triple_ret simp: found_in_def)

lemma triple_podReconcile:
  "triple (store_evolves good stored known workloadTrans) (\<lambda>w. good (wExt w)) (podReconcile env k) found_in"
  unfolding podReconcile_def getDeploymentByPod_def getReplicaSetByPod_def getDeploymentByReplicaSet_def
    getChangeWorkloadByDeployment_def ignoreNotFound_def
  by (intro triple_found refines_intros triple_case_sum triple_if triple_found_none triple_found_get)

lemma triple_changePodReconcile:
  "triple (store_evolves good stored known workloadTrans) (\<lambda>w. good (wExt w)) (changePodReconcile env k) found_in"
  unfolding changePodReconcile_def ignoreNotFound_def
  by (rule triple_found) (intro refines_intros triple_case_sum triple_if triple_found_none triple_found_get)+

theorem ChangeWorkload_Reconcile_refines:
  "refines good stored known workloadTrans (ChangeWorkload_Reconcile env req)"
proof -
  let ?E = "store_evolves good stored known workloadTrans"
  have "refines good stored known workloadTrans (bindM (attempt found) (\<lambda>r. case r of
      Inl err \<Rightarrow> ignoreNotFound err (ret ())
    | Inr None \<Rightarrow> ret ()
    | Inr (Some workload) \<Rightarrow> ChangeWorkload_dispatch env workload))"
    if found: "triple ?E (\<lambda>w. good (wExt w)) found found_in" for found
  proof (rule knowing_empty, rule knowing_triple_bindM
      [where F = "\<lambda>r. case r of Inr (Some cw) \<Rightarrow> {cw} | _ \<Rightarrow> {}" and Q = "\<lambda>_. True"])
    show "triple ?E (\<lambda>w. good (wExt w) \<and> {} \<subseteq> known (wExt w)) (attempt found)
        (\<lambda>r w. good (wExt w) \<and> (case r of Inr (Some cw) \<Rightarrow> {cw} | _ \<Rightarrow> {}) \<subseteq> known (wExt w) \<and> True)"
      by (rule triple_attempt [OF triple_pre [OF found] stable_good])
        (auto simp: found_in_def split: option.splits)
  qed (auto split: sum.split option.split intro!: knowing_dispatch intro: refines_knowing refines_intros)
  then show ?thesis
    unfolding ChangeWorkload_Reconcile_def Let_def
    using triple_podReconcile triple_changePodReconcile triple_found_get by (simp split: if_split)
qed

end

end
