(* ===== verification/Runnables.thy ===== *)
theory Runnables
  imports Change_Workload Store_Laws
begin

section \<open>runnable: the background goroutines\<close>

text \<open>
  The three loops that expire what waits too long (\<open>run_changepod_timeout_valid.go\<close>,
  \<open>run_changeworkload_timeout_valid.go\<close>) or roll a broken Deployment back
  (\<open>run_deployment_status_vaild.go\<close>), and the pause loop of
  \<open>run_deployment_status_pause.go\<close>. Each loop is endless; a definition is one turn of it,
  from the sleep on. The rollback loop, which can return, is also modelled as a whole.
\<close>

subsection \<open>ChangePodTimeoutValidRun\<close>

definition listOrEmpty :: "('e world, 'a list) prog \<Rightarrow> ('e world, 'a list) prog" where
  "listOrEmpty m = bindM (attempt m) (\<lambda>r. case r of Inl err \<Rightarrow> ret [] | Inr items \<Rightarrow> ret items)"

definition changePodsWithStatus :: "'e env \<Rightarrow> string \<Rightarrow> ('e world, changePod list) prog" where
  "changePodsWithStatus env status = listOrEmpty (call (apiList (changePodApi env)
     (anyOpts\<lparr>matchingFields := [(ChangePodFieldStatus, status)]\<rparr>)))"

text \<open>The bodies of the two \<open>range\<close> loops. \<open>&&\<close> reads the clock only when the status fits.\<close>

definition expirePreSubmitted :: "'e env \<Rightarrow> changePod \<Rightarrow> ('e world, unit) prog" where
  "expirePreSubmitted env node =
     (if changePodState node = PreSubmitted then
        bindM (nowUnix env) (\<lambda>t.
          if sub64 t (cpPreSubmitTimeUnix (cpStatus node)) > cpPreTimeoutThreshold (cpStatus node) then
            bindM (GetNowTime env) (\<lambda>now.
            bindM (nowUnix env) (\<lambda>unix.
              logged (call (apiStatusUpdate (changePodApi env)
                (node\<lparr>cpStatus := (cpStatus node)
                   \<lparr>cpStatusStatus := PreTimeout, cpUpdateTime := now, cpUpdateTimeUnix := unix\<rparr>\<rparr>)))))
          else ret ())
      else ret ())"

definition expirePostSubmitted :: "'e env \<Rightarrow> changePod \<Rightarrow> ('e world, unit) prog" where
  "expirePostSubmitted env node =
     (if changePodState node = PostSubmitted then
        bindM (nowUnix env) (\<lambda>t.
          if sub64 t (cpPostSubmitTimeUnix (cpStatus node)) > cpPostTimeoutThreshold (cpStatus node) then
            bindM (GetNowTime env) (\<lambda>now.
            bindM (nowUnix env) (\<lambda>unix.
              logged (call (apiStatusUpdate (changePodApi env)
                (node\<lparr>cpStatus := (cpStatus node)
                   \<lparr>cpStatusStatus := PostTimeout, cpUpdateTime := now, cpUpdateTimeUnix := unix\<rparr>\<rparr>)))))
          else ret ())
      else ret ())"

definition ChangePodTimeout_turn :: "'e env \<Rightarrow> ('e world, unit) prog" where
  "ChangePodTimeout_turn env =
     thenM (goSleep env second)
     (bindM (changePodsWithStatus env PreSubmitted) (\<lambda>preSubmittedChangePods.
      bindM (changePodsWithStatus env PostSubmitted) (\<lambda>postSubmittedChangePods.
      bindM (forEach preSubmittedChangePods (expirePreSubmitted env)) (\<lambda>_.
        forEach postSubmittedChangePods (expirePostSubmitted env)))))"

subsection \<open>ChangeWorkloadTimeoutValidRun\<close>

definition expireWorkload :: "'e env \<Rightarrow> changeWorkload \<Rightarrow> ('e world, unit) prog" where
  "expireWorkload env order =
     (if changeWorkloadState order \<noteq> Running then ret ()
      else if IsNotEmpty (SliceValue (cwDefensePreparingPods (cwStatus order))) then
        bindM (nowUnix env) (\<lambda>t.
          if sub64 t (cwEntryTimeUnix (cwStatus order)) > cwWaitTimeThreshold (cwSpec order) then
            bindM (GetNowTime env) (\<lambda>now.
            bindM (nowUnix env) (\<lambda>unix.
              logged (call (apiStatusUpdate (changeWorkloadApi env)
                (order\<lparr>cwStatus := (cwStatus order)
                   \<lparr>cwStatusStatus := TimeOutPreThreshold, cwUpdateTime := now, cwUpdateTimeUnix := unix\<rparr>\<rparr>)))))
          else ret ())
      else ret ())"

definition ChangeWorkloadTimeout_turn :: "'e env \<Rightarrow> ('e world, unit) prog" where
  "ChangeWorkloadTimeout_turn env =
     thenM (goSleep env second)
     (bindM (attempt (call (apiList (changeWorkloadApi env)
         (anyOpts\<lparr>matchingFields := [(ChangeWorkloadFieldStatus, Running)]\<rparr>)))) (\<lambda>r. case r of
        Inl err \<Rightarrow> ret ()
      | Inr items \<Rightarrow> forEach items (expireWorkload env)))"

subsection \<open>DeploymentStatusPauseRun\<close>

definition DeploymentStatusPause_turn :: "'e env \<Rightarrow> ('e world, unit) prog" where
  "DeploymentStatusPause_turn env =
     bindM (attempt (call (apiGet (deploymentApi env) \<lparr>nnNamespace = ''default'', nnName = ''sleep''\<rparr>)))
       (\<lambda>r. case r of
          Inl err \<Rightarrow> ret ()
        | Inr d \<Rightarrow> logged (call (apiUpdate (deploymentApi env) (d\<lparr>depPaused := True\<rparr>))))"

subsection \<open>DeploymentStatusRollBackRun\<close>

definition rollbackTimeout :: int where
  "rollbackTimeout = 120 * second"

definition getAllWebhookNamespace :: "'e env \<Rightarrow> ('e world, namespaceObj list) prog" where
  "getAllWebhookNamespace env = listOrEmpty (call (apiList (namespaceApi env)
     (anyOpts\<lparr>matchingLabels := [(AdmissionWebhookNamespaceLabel, Enabled)]\<rparr>)))"

text \<open>\<open>metav1.Time.Before\<close> is false for a nil receiver.\<close>

definition startedBefore :: "int option \<Rightarrow> int \<Rightarrow> bool" where
  "startedBefore start t \<longleftrightarrow> (case start of None \<Rightarrow> False | Some s \<Rightarrow> s < t)"

text \<open>
  \<open>mapPods\<close> as an association list in order of first insertion; \<open>mapOrder\<close> gives the
  order in which the final \<open>range\<close> visits it.
\<close>

definition putPod :: "string \<Rightarrow> pod \<Rightarrow> (string \<times> pod) list \<Rightarrow> (string \<times> pod) list" where
  "putPod k p m = (if k \<in> fst ` set m then map (\<lambda>(k', p'). (k', if k' = k then p else p')) m else m @ [(k, p)])"

fun putOwners :: "pod \<Rightarrow> ownerReference list \<Rightarrow> (string \<times> pod) list \<Rightarrow> (string \<times> pod) list" where
  "putOwners p [] m = m"
| "putOwners p (r # rs) m =
     putOwners p rs (if refKind r = ReplicaSetKind then putPod (refName r) p m else m)"

fun collectNonRunning ::
  "'e env \<Rightarrow> pod list \<Rightarrow> (string \<times> pod) list \<Rightarrow> ('e world, (string \<times> pod) list) prog" where
  "collectNonRunning env [] m = ret m"
| "collectNonRunning env (p # ps) m =
     (if \<not> has_label (Labels p) AdmissionWebhookVersionLabel then collectNonRunning env ps m
      else if podPhase p \<noteq> PodStatusRunning \<and> podPhase p \<noteq> PodStatusTerminating then
        bindM (timeNow env) (\<lambda>t.
          if startedBefore (podStartTime p) (t - rollbackTimeout)
          then collectNonRunning env ps (putOwners p (OwnerReferences p) m)
          else collectNonRunning env ps m)
      else collectNonRunning env ps m)"

definition getNonRunningPods :: "'e env \<Rightarrow> string \<Rightarrow> ('e world, pod list) prog" where
  "getNonRunningPods env ns =
     bindM (attempt (call (apiList (podApi env) (anyOpts\<lparr>inNamespace := Some ns\<rparr>)))) (\<lambda>r. case r of
       Inl err \<Rightarrow> ret []
     | Inr items \<Rightarrow>
         bindM (collectNonRunning env items []) (\<lambda>mapPods.
           ret (List.map_filter (map_of mapPods) (mapOrder env (map fst mapPods)))))"

definition orElse :: "'a \<Rightarrow> ('s, 'a) prog \<Rightarrow> ('s, 'a) prog" where
  "orElse d m = bindM (attempt m) (\<lambda>r. case r of Inl err \<Rightarrow> ret d | Inr a \<Rightarrow> ret a)"

definition getPodOwnsReplicaSet :: "'e env \<Rightarrow> pod \<Rightarrow> ('e world, replicaSet) prog" where
  "getPodOwnsReplicaSet env p =
     (case firstOwner ReplicaSetKind (OwnerReferences p) of
        None \<Rightarrow> ret zeroReplicaSet
      | Some owner \<Rightarrow> orElse zeroReplicaSet (call (apiGet (replicaSetApi env)
          \<lparr>nnNamespace = Namespace p, nnName = refName owner\<rparr>)))"

definition getReplicaSetOwnsDeployment :: "'e env \<Rightarrow> replicaSet \<Rightarrow> ('e world, deployment) prog" where
  "getReplicaSetOwnsDeployment env rs =
     (case firstOwner DeploymentKind (OwnerReferences rs) of
        None \<Rightarrow> ret zeroDeployment
      | Some owner \<Rightarrow> orElse zeroDeployment (call (apiGet (deploymentApi env)
          \<lparr>nnNamespace = Namespace rs, nnName = refName owner\<rparr>)))"

definition checkDeploymentStatus :: "deployment \<Rightarrow> bool" where
  "checkDeploymentStatus d \<longleftrightarrow>
     depStatusReplicas d = depStatusReady d \<and>
     depStatusReady d = depStatusAvailable d \<and>
     depStatusAvailable d = depStatusUpdated d"

definition normalReplicaSet :: "replicaSet \<Rightarrow> replicaSet \<Rightarrow> bool" where
  "normalReplicaSet owns rs \<longleftrightarrow>
     Name rs \<noteq> Name owns \<and> rsStatusReplicas rs \<noteq> NumberZero \<and>
     rsStatusReplicas rs = rsStatusReady rs \<and> rsStatusReady rs = rsStatusAvailable rs"

fun firstNormal :: "replicaSet \<Rightarrow> replicaSet list \<Rightarrow> replicaSet" where
  "firstNormal owns [] = zeroReplicaSet"
| "firstNormal owns (rs # rss) = (if normalReplicaSet owns rs then rs else firstNormal owns rss)"

definition getNormalReplicaSetByDeployment ::
  "'e env \<Rightarrow> deployment \<Rightarrow> replicaSet \<Rightarrow> ('e world, replicaSet) prog" where
  "getNormalReplicaSetByDeployment env d owns =
     (case depMatchLabels d of
        None \<Rightarrow> crash
      | Some matchLabels \<Rightarrow>
          bindM (listOrEmpty (call (apiList (replicaSetApi env)
              (anyOpts\<lparr>inNamespace := Some (Namespace d), matchingLabels := matchLabels\<rparr>)))) (\<lambda>items.
            if length items \<le> 1 then ret zeroReplicaSet else ret (firstNormal owns items)))"

text \<open>
  The result of the loop bodies tells whether they executed \<open>return\<close>, which ends the
  goroutine, or went on.
\<close>

datatype loopEnd = Return | Continue

definition rollbackPod :: "'e env \<Rightarrow> pod \<Rightarrow> ('e world, loopEnd) prog" where
  "rollbackPod env p =
     bindM (getPodOwnsReplicaSet env p) (\<lambda>ownsReplicaSet.
       if Name ownsReplicaSet \<noteq> '''' then
         bindM (getReplicaSetOwnsDeployment env ownsReplicaSet) (\<lambda>ownsDeployment.
           if Name ownsDeployment \<noteq> '''' then
             (if checkDeploymentStatus ownsDeployment then ret Return
              else
                bindM (getNormalReplicaSetByDeployment env ownsDeployment ownsReplicaSet) (\<lambda>normal.
                  if Name normal = '''' then ret Return
                  else
                    let template = (rsTemplate normal)
                          \<lparr>tmplLabels := delete_label ''pod-template-hash'' (tmplLabels (rsTemplate normal))\<rparr>
                    in bindM (logged (call (apiUpdate (deploymentApi env)
                         (ownsDeployment\<lparr>depTemplate := template\<rparr>)))) (\<lambda>_. ret Continue)))
           else ret Continue)
       else ret Continue)"

fun untilReturn :: "('a \<Rightarrow> ('s, loopEnd) prog) \<Rightarrow> 'a list \<Rightarrow> ('s, loopEnd) prog" where
  "untilReturn f [] = ret Continue"
| "untilReturn f (x # xs) =
     bindM (f x) (\<lambda>r. case r of Return \<Rightarrow> ret Return | Continue \<Rightarrow> untilReturn f xs)"

definition rollbackNamespace :: "'e env \<Rightarrow> namespaceObj \<Rightarrow> ('e world, loopEnd) prog" where
  "rollbackNamespace env ns =
     bindM (getNonRunningPods env (Name ns)) (\<lambda>pods. untilReturn (rollbackPod env) pods)"

definition DeploymentStatusRollBack_turn :: "'e env \<Rightarrow> ('e world, loopEnd) prog" where
  "DeploymentStatusRollBack_turn env =
     thenM (goSleep env second)
     (bindM (getAllWebhookNamespace env) (\<lambda>namespaces. untilReturn (rollbackNamespace env) namespaces))"

text \<open>
  The goroutine: turn after turn until one of them returns. It has no result when no turn ever
  does.
\<close>

partial_function (option) DeploymentStatusRollBackRun ::
  "'e env \<Rightarrow> 'e world \<Rightarrow> (unit outcome \<times> 'e world) option" where
  "DeploymentStatusRollBackRun env w = (case DeploymentStatusRollBack_turn env w of (r, t) \<Rightarrow>
     (case r of
        Ok Return \<Rightarrow> Some (Ok (), t)
      | Ok Continue \<Rightarrow> DeploymentStatusRollBackRun env t
      | Err err \<Rightarrow> Some (Err err, t)
      | Panic \<Rightarrow> Some (Panic, t)
      | Hang \<Rightarrow> None))"

text \<open>The state after \<open>n\<close> turns that all went on.\<close>

primrec rollbackTurns :: "'e env \<Rightarrow> nat \<Rightarrow> 'e world \<Rightarrow> 'e world option" where
  "rollbackTurns env 0 w = Some w"
| "rollbackTurns env (Suc n) w = (case DeploymentStatusRollBack_turn env w of
     (Ok Continue, t) \<Rightarrow> rollbackTurns env n t
   | _ \<Rightarrow> None)"

lemma rollbackTurns_run:
  "rollbackTurns env n w = Some v \<Longrightarrow> DeploymentStatusRollBackRun env w = DeploymentStatusRollBackRun env v"
proof (induction n arbitrary: w)
  case (Suc n)
  then obtain t where "DeploymentStatusRollBack_turn env w = (Ok Continue, t)" "rollbackTurns env n t = Some v"
    by (auto split: prod.splits outcome.splits loopEnd.splits)
  then show ?case
    using Suc.IH [of t] by (subst DeploymentStatusRollBackRun.simps) simp
qed simp

lemma untilReturn_append:
  "untilReturn f xs w = (Ok Continue, t) \<Longrightarrow> untilReturn f (xs @ ys) w = untilReturn f ys t"
  by (induction xs arbitrary: w) (auto simp: bindM_def ret_def split: prod.splits outcome.splits loopEnd.splits)

end
