(* ===== verification/Callback.thy ===== *)
theory Callback
  imports Change_Workload
begin

section \<open>controllers/callback and the web handlers of the client\<close>

text \<open>
  The HTTP handlers: the control plane's verdict callback (\<open>nodecallbak_handle.go\<close>), the
  suspended Deployments (\<open>deployment_handle.go\<close>) and the three test handlers of
  \<open>opscloud_client.go\<close>. A handler returns the responses it wrote, in order, because nothing
  stops a handler from writing twice; an empty list is gin's default reply, 200 without a body.
  The result of \<open>ShouldBindJSON\<close> is an argument.
\<close>

record opsCloudChangeCheckVerdict =
  cvVerdict :: string
  cvMsg :: string
  cvNodeId :: string

record opsCloudChangeCheckCallbackRequest =
  cbNodeId :: string
  cbChangeSceneKey :: string
  cbBizExecOrderId :: string
  cbVerdict :: opsCloudChangeCheckVerdict
  cbDefenseStageEnum :: string

record opsCloudChangeCheckCallbackWrapperRequest =
  cwrChangeCheckType :: string
  cwrCallbackRequest :: opsCloudChangeCheckCallbackRequest

record suspendDeployment =
  sdDeploymentName :: string
  sdNamespace :: string
  sdNowReplicaSet :: replicaSet
  sdHasSuccessVersion :: bool
  sdSuccessReplicaSet :: replicaSet
  sdSuccessVersion :: string

datatype responseBody =
    CommonErr "(string \<times> json) list"
  | CommonSuccess "(string \<times> json) list"
  | SuccessWithDeployments "(string \<times> json) list" "suspendDeployment list"
  | HelloWorld
  | JsonText string
  | DataResult opsCloudResult

type_synonym response = "int \<times> responseBody"

subsection \<open>CheckCallBackHandler\<close>

definition patchChangePodStatus :: "'e env \<Rightarrow> changePod \<Rightarrow> changePod \<Rightarrow> ('e world, changePod) prog" where
  "patchChangePodStatus env base cp = call (apiStatusPatch (changePodApi env) base cp)"

definition callbackPre :: "'e env \<Rightarrow> changePod \<Rightarrow> ('e world, response list) prog" where
  "callbackPre env cp =
     (if changePodState cp = PreSubmitted then
        bindM (GetNowTime env) (\<lambda>now.
        bindM (nowUnix env) (\<lambda>unix.
        bindM (attempt (patchChangePodStatus env cp
            (cp\<lparr>cpStatus := (cpStatus cp)
               \<lparr>cpStatusStatus := PostWait, cpUpdateTime := now, cpUpdateTimeUnix := unix\<rparr>\<rparr>))) (\<lambda>r.
          case r of
            Inl err \<Rightarrow> ret [(500, CommonErr (GetCommonCallbackErr err))]
          | Inr _ \<Rightarrow> ret [(200, CommonSuccess GetCommonCallbackSuccess)])))
      else ret [(200, CommonSuccess GetCommonCallbackSuccess)])"

text \<open>
  \<open>Status.PodResults = Spec.PodInfos\<close> shares the array, so the loop over the results
  writes the verdict into \<open>Spec.PodInfos\<close> of the handler's copy as well.
\<close>

definition callbackPost ::
  "'e env \<Rightarrow> changePod \<Rightarrow> opsCloudChangeCheckVerdict \<Rightarrow> ('e world, response list) prog" where
  "callbackPost env cp verdict =
     (if changePodState cp = PostSubmitted then
        let results = map (\<lambda>ps. ps\<lparr>psVerdict := cvVerdict verdict, psMessage := cvMsg verdict\<rparr>)
              (cpPodInfos (cpSpec cp))
        in bindM (GetNowTime env) (\<lambda>now.
           bindM (nowUnix env) (\<lambda>unix.
           bindM (attempt (patchChangePodStatus env cp
               (cp\<lparr>cpSpec := (cpSpec cp)\<lparr>cpPodInfos := results\<rparr>,
                   cpStatus := (cpStatus cp)\<lparr>cpStatusStatus := PostFinish, cpPodResults := results,
                     cpUpdateTime := now, cpUpdateTimeUnix := unix\<rparr>\<rparr>))) (\<lambda>r.
             case r of
               Inl err \<Rightarrow> ret [(500, CommonErr (GetCommonCallbackErr err))]
             | Inr _ \<Rightarrow> ret [])))
      else ret [(200, CommonSuccess GetCommonCallbackSuccess)])"

text \<open>What the loop writes to each result.\<close>

definition judged :: "opsCloudChangeCheckVerdict \<Rightarrow> podSummary \<Rightarrow> podSummary" where
  "judged v = (\<lambda>ps. ps\<lparr>psVerdict := cvVerdict v, psMessage := cvMsg v\<rparr>)"

definition callbackStage ::
  "'e env \<Rightarrow> opsCloudChangeCheckCallbackRequest \<Rightarrow> changePod \<Rightarrow> ('e world, response list) prog" where
  "callbackStage env req cp =
     (if cbDefenseStageEnum req = DefenseStageEnumPre then callbackPre env cp
      else if cbDefenseStageEnum req = DefenseStageEnumPost then callbackPost env cp (cbVerdict req)
      else ret [])"

definition CheckCallBackHandler ::
  "'e env \<Rightarrow> error + opsCloudChangeCheckCallbackWrapperRequest \<Rightarrow> ('e world, response list) prog" where
  "CheckCallBackHandler env bound =
     (case bound of
        Inl err \<Rightarrow> ret [(400, CommonErr (GetCommonCallbackErr err))]
      | Inr data \<Rightarrow>
          if cwrChangeCheckType data \<noteq> OpsCloudChangeCheckTypeEnumBatch then ret []
          else
            (let req = cwrCallbackRequest data
             in bindM (attempt (call (apiList (changePodApi env)
                    (anyOpts\<lparr>matchingFields := [(ChangePodFieldChangePodId, cbNodeId req)]\<rparr>)))) (\<lambda>r.
                  case r of
                    Inl err \<Rightarrow> ret []
                  | Inr items \<Rightarrow>
                      let (cp, early) = (case items of
                              cp # _ \<Rightarrow> (cp, [])
                            | [] \<Rightarrow> (zeroChangePod, [(200, CommonSuccess GetCommonCallbackSuccess)]))
                      in bindM (callbackStage env req cp) (\<lambda>late. ret (early @ late)))))"

definition LiveTest :: "response list" where
  "LiveTest = [(200, HelloWorld)]"

subsection \<open>GetSuspendDeployment\<close>

fun ownedBy :: "string \<Rightarrow> replicaSet list \<Rightarrow> ('s, replicaSet) prog" where
  "ownedBy deploymentName [] = ret zeroReplicaSet"
| "ownedBy deploymentName (rs # rss) =
     (case OwnerReferences rs of
        [] \<Rightarrow> crash
      | owner # _ \<Rightarrow> if refName owner = deploymentName then ret rs else ownedBy deploymentName rss)"

definition getReplicaSet :: "'e env \<Rightarrow> string \<Rightarrow> string \<Rightarrow> string \<Rightarrow> ('e world, replicaSet) prog" where
  "getReplicaSet env deploymentName namespace version =
     bindM (call (apiList (replicaSetApi env)
         (anyOpts\<lparr>inNamespace := Some namespace,
            matchingLabels := [(AdmissionWebhookVersionLabel, version)]\<rparr>)))
       (\<lambda>items. ownedBy deploymentName items)"

fun firstSuccess :: "changeWorkload list \<Rightarrow> changeWorkload option" where
  "firstSuccess [] = None"
| "firstSuccess (cw # cws) = (if changeWorkloadState cw = Success then Some cw else firstSuccess cws)"

definition getSuspendDeployment :: "'e env \<Rightarrow> deployment \<Rightarrow> ('e world, suspendDeployment) prog" where
  "getSuspendDeployment env d =
     bindM (getReplicaSet env (Name d) (Namespace d) (get_label (Labels d) AdmissionWebhookVersionLabel))
       (\<lambda>nowReplicaSet.
         let sd = \<lparr>sdDeploymentName = Name d, sdNamespace = Namespace d, sdNowReplicaSet = nowReplicaSet,
               sdHasSuccessVersion = False, sdSuccessReplicaSet = zeroReplicaSet, sdSuccessVersion = ''''\<rparr>
         in bindM (call (apiList (changeWorkloadApi env)
                (anyOpts\<lparr>inNamespace := Some (Namespace d),
                   matchingLabels := [(DeploymentNameLabel, Name d)]\<rparr>))) (\<lambda>workloads.
              case firstSuccess workloads of
                None \<Rightarrow> ret sd
              | Some workload \<Rightarrow>
                  let version = get_label (Labels workload) AdmissionWebhookVersionLabel
                  in bindM (getReplicaSet env (Name d) (Namespace d) version) (\<lambda>oldReplicaSet.
                       ret (sd\<lparr>sdHasSuccessVersion := True, sdSuccessVersion := version,
                            sdSuccessReplicaSet := oldReplicaSet\<rparr>))))"

primrec mapProg :: "('a \<Rightarrow> ('s, 'b) prog) \<Rightarrow> 'a list \<Rightarrow> ('s, 'b list) prog" where
  "mapProg f [] = ret []"
| "mapProg f (x # xs) = bindM (f x) (\<lambda>y. bindM (mapProg f xs) (\<lambda>ys. ret (y # ys)))"

definition GetSuspendDeployment :: "'e env \<Rightarrow> string \<Rightarrow> ('e world, response list) prog" where
  "GetSuspendDeployment env namespace =
     bindM (attempt (call (apiList (deploymentApi env)
         (anyOpts\<lparr>inNamespace := Some namespace, hasLabels := [SuspendLabel]\<rparr>)))) (\<lambda>r. case r of
       Inl err \<Rightarrow> ret [(500, CommonErr (GetCommonCallbackErr err))]
     | Inr items \<Rightarrow>
         if IsNotEmpty (SliceValue items) then
           bindM (attempt (mapProg (getSuspendDeployment env) items)) (\<lambda>r. case r of
             Inl err \<Rightarrow> ret [(500, CommonErr (GetCommonCallbackErr err))]
           | Inr suspended \<Rightarrow> ret [(200, SuccessWithDeployments GetCommonCallbackSuccess suspended)])
         else ret [(200, CommonSuccess GetCommonCallbackSuccess)])"

definition DeploymentRollback :: "response list" where
  "DeploymentRollback = []"

subsection \<open>Web handlers of the client\<close>

definition submitWeb :: "('d \<Rightarrow> ('s, opsCloudResult) prog) \<Rightarrow> error + 'd \<Rightarrow> ('s, response list) prog" where
  "submitWeb submit bound =
     (case bound of
        Inl err \<Rightarrow> ret [(400, JsonText (errorText err))]
      | Inr data \<Rightarrow>
          bindM (attempt (submit data)) (\<lambda>r. case r of
            Inl err \<Rightarrow> ret [(500, JsonText (errorText err))]
          | Inr result \<Rightarrow> ret [(200, DataResult result)]))"

definition SubmitChangeExecOrderWeb ::
  "'e env \<Rightarrow> error + opsCloudChangeExecOrderSubmitRequest \<Rightarrow> ('e world, response list) prog" where
  "SubmitChangeExecOrderWeb env = submitWeb (SubmitChangeExecOrder env)"

definition SubmitChangeStartNotifyWeb ::
  "'e env \<Rightarrow> error + opsCloudChangeExecBatchStartNotifyRequest \<Rightarrow> ('e world, response list) prog" where
  "SubmitChangeStartNotifyWeb env = submitWeb (SubmitChangeStartNotify env)"

definition SubmitChangeFinishNotifyWeb ::
  "'e env \<Rightarrow> error + opsCloudChangeFinishNotifyRequest \<Rightarrow> ('e world, response list) prog" where
  "SubmitChangeFinishNotifyWeb env = submitWeb (SubmitChangeFinishNotify env)"

subsection \<open>What the handlers do to the stored objects\<close>

text \<open>
  The two patches of the callback, on the version the cache gave it: they set the status
  whatever the stored status is by then.
\<close>

lemma verdict_merged:
  assumes "cpStatusStatus n \<noteq> cpStatusStatus b"
  shows "cpStatusStatus (mergeChangePodStatus b n c) = cpStatusStatus n"
  using assms by (simp add: mergeChangePodStatus_def merged_def)

context changePod_world
begin

lemma knowing_verdict_patch:
  assumes "cp \<in> K" "obj_key cp' = obj_key cp"
    and "(changePodState cp, changePodState cp') \<in> {(PreSubmitted, PostWait), (PostSubmitted, PostFinish)}"
    and "\<And>r. knowing good stored known podSteps K (f r)"
  shows "knowing good stored known podSteps K (bindM (attempt (patchChangePodStatus env cp cp')) f)"
  unfolding patchChangePodStatus_def
proof (rule knowing_attempt_status_patch)
  fix H M cur and new :: changePod
  assume "K \<subseteq> H" "M (obj_key cp') = Some cur" "obj_key new = obj_key cp'"
    "changePod_main new = changePod_main cur"
    "cpStatus new = mergeChangePodStatus (cpStatus cp) (cpStatus cp') (cpStatus cur)"
  moreover have "changePodState cp' \<noteq> changePodState cp"
    using assms(3) by (auto simp: changePod_status_defs)
  ultimately show "podSteps H M (M(obj_key cp' \<mapsto> new))"
    using assms by (intro podSteps.verdict [of M _ cur cp]) (auto simp: changePod_main_def verdict_merged)
qed (use assms in \<open>auto intro: knowing_mono\<close>)

lemma knowing_callback:
  assumes "cp \<in> K"
  shows "knowing good stored known podSteps K (callbackPre env cp)"
    and "knowing good stored known podSteps K (callbackPost env cp verdict)"
  unfolding callbackPre_def callbackPost_def Let_def
  by (auto intro!: knowing_intros knowing_bindM [OF refines_GetNowTime] knowing_bindM [OF refines_nowUnix]
      knowing_verdict_patch [OF assms] simp: obj_key_def)

theorem CheckCallBackHandler_refines: "refines good stored known podSteps (CheckCallBackHandler env bound)"
proof -
  have none: "knowing good stored known podSteps K (callbackPre env zeroChangePod)"
    "knowing good stored known podSteps K (callbackPost env zeroChangePod verdict)" for K verdict
    by (auto simp: callbackPre_def callbackPost_def zero_defs changePod_status_defs
        intro: refines_knowing refines_intros)
  have stage: "knowing good stored known podSteps K (callbackStage env req cp)"
    if "cp \<in> K \<or> cp = zeroChangePod" for K cp req
    using that unfolding callbackStage_def
    by (intro knowing_if) (auto intro: knowing_callback none knowing_ret)
  show ?thesis
    unfolding CheckCallBackHandler_def Let_def
    by (intro refines_case_sum refines_if refines_ret knowing_empty [OF knowing_attempt_list])
      (auto intro!: refines_knowing [OF refines_ret] knowing_self_bindM [OF stage] split: list.split)
qed

end

end
