(* ===== verification/Webhook.thy ===== *)
theory Webhook
  imports Pod_Controller Go_Crypto
begin

section \<open>apis/apps/v1/deployment\_webhook.go\<close>

text \<open>
  The admission webhook of Deployments. The mutator writes the MD5 of the pod template, less
  the version label itself, as the version label of the Deployment and of its template; the
  validator refuses updates of a suspended Deployment. A request carries the results of
  decoding its objects, since the decoder and the computation of the JSON patch belong to
  controller-runtime. \<open>json.Marshal\<close> of the foreign types is a parameter.
\<close>

datatype admissionOperation = Create | Update | Delete | Connect

record admissionRequest =
  admOperation :: admissionOperation
  admObject :: "error + deployment"
  admOldObject :: "error + deployment"

datatype admissionResponse =
    Errored int error
  | Denied string
  | Allowed string
  | PatchResponse deployment

definition StatusBadRequest :: int where "StatusBadRequest = 400"
definition StatusInternalServerError :: int where "StatusInternalServerError = 500"

subsection \<open>Validator\<close>

definition ValidateCreate :: "deployment \<Rightarrow> error option" where
  "ValidateCreate r = None"

definition ValidateUpdate :: "deployment \<Rightarrow> deployment \<Rightarrow> error option" where
  "ValidateUpdate r old =
     (if has_label (Labels r) IgnoredSuspendLabel then None
      else if has_label (Labels old) SuspendLabel
      then Some (plain_error (''deployment '' @ Name old @ '' is suspended''))
      else None)"

definition ValidateDelete :: "deployment \<Rightarrow> error option" where
  "ValidateDelete r = None"

definition Validator_Handle :: "admissionRequest \<Rightarrow> admissionResponse" where
  "Validator_Handle req =
     (case admObject req of
        Inl err \<Rightarrow> Errored StatusBadRequest err
      | Inr d \<Rightarrow>
          (case admOperation req of
             Create \<Rightarrow> (case ValidateCreate d of Some err \<Rightarrow> Denied (errorText err) | None \<Rightarrow> Allowed '''')
           | Update \<Rightarrow>
               (case admOldObject req of
                  Inl err \<Rightarrow> Errored StatusBadRequest err
                | Inr oldDeployment \<Rightarrow>
                    (case ValidateUpdate d oldDeployment of
                       Some err \<Rightarrow> Denied (errorText err)
                     | None \<Rightarrow> Allowed ''''))
           | Delete \<Rightarrow> Allowed ''''
           | Connect \<Rightarrow> Allowed ''''))"

subsection \<open>Mutator\<close>

text \<open>
  The template is passed by value, but its label map is shared: deleting the version label
  from the copy deletes it from the caller's Deployment, which the result carries.
\<close>

definition getDeploymentTemplateHash :: "'e env \<Rightarrow> deployment \<Rightarrow> (error + string) \<times> deployment" where
  "getDeploymentTemplateHash env d =
     (let template = (depTemplate d)
            \<lparr>tmplLabels := delete_label AdmissionWebhookVersionLabel (tmplLabels (depTemplate d))\<rparr>;
          d' = d\<lparr>depTemplate := template\<rparr>
      in case marshalTemplate env template of
           Inl err \<Rightarrow> (Inl err, d')
         | Inr jsonBytes \<Rightarrow> (Inr (hex_encode (md5_sum jsonBytes)), d'))"

definition set_template_label :: "string \<Rightarrow> string \<Rightarrow> deployment \<Rightarrow> ('s, deployment) prog" where
  "set_template_label k v d =
     (if tmplLabels (depTemplate d) = None then crash
      else ret (d\<lparr>depTemplate := (depTemplate d)
        \<lparr>tmplLabels := put_label k v (tmplLabels (depTemplate d))\<rparr>\<rparr>))"

definition Mutator_Handle :: "'e env \<Rightarrow> admissionRequest \<Rightarrow> ('e world, admissionResponse) prog" where
  "Mutator_Handle env req =
     (case admObject req of
        Inl err \<Rightarrow> ret (Errored StatusBadRequest err)
      | Inr d \<Rightarrow>
          (case getDeploymentTemplateHash env d of
             (Inl err, d) \<Rightarrow> ret (Errored StatusInternalServerError err)
           | (Inr hash, d) \<Rightarrow>
               let oldHash = get_label (Labels d) AdmissionWebhookVersionLabel
               in if oldHash = hash then ret (Allowed '''')
                  else
                    bindM (set_label AdmissionWebhookVersionLabel hash
                        (d\<lparr>Labels := delete_label DefenseStatusLabel (Labels d)\<rparr>)) (\<lambda>d.
                    bindM (set_template_label AdmissionWebhookVersionLabel hash d) (\<lambda>d.
                      case marshalDeployment env d of
                        Some err \<Rightarrow> ret (Errored StatusInternalServerError err)
                      | None \<Rightarrow> ret (PatchResponse d)))))"

end
