(* ===== verification/Operator.thy ===== *)
theory Operator
  imports Deployment_Controller Runnables Callback Webhook
begin

section \<open>The operator as a whole\<close>

text \<open>
  Every goroutine of the operator as one step of a transition relation on the world, in any
  interleaving: the five reconcilers on any request, the HTTP handlers on any request, the
  background loops turn by turn and the configuration loop. Each program is shown to change
  the stored ChangePods and ChangeWorkloads only as the two life cycles of
  \<open>Lifecycle\<close> allow, so their invariants hold in every reachable world.
\<close>

subsection \<open>The remaining programs\<close>

lemmas small_programs = Pod_Reconcile_def markAsFinished_def newBatchConfig_def newBlockUpConfig_def
  configInit_turn_def OpsConfigInfo_Reconcile_def configTypeIsBranchHandel_def
  configTypeIsBlockingUpHandel_def DeploymentStatusPause_turn_def listOrEmpty_def orElse_def

lemmas rollback_programs = DeploymentStatusRollBack_turn_def rollbackNamespace_def rollbackPod_def
  getAllWebhookNamespace_def getNonRunningPods_def getPodOwnsReplicaSet_def
  getReplicaSetOwnsDeployment_def getNormalReplicaSetByDeployment_def listOrEmpty_def orElse_def

lemmas deployment_programs = Deployment_Reconcile_def getOrCreateChangeWorkload_def
  getChangeWorkloadByDeployment'_def createNewChangeWorkload_def defenseProcessedDeployment_def

lemmas suspend_programs = GetSuspendDeployment_def getSuspendDeployment_def getReplicaSet_def

context object_reads
begin

lemma refines_untilReturn [refines_intros]:
  "(\<And>x. refines good stored known allowed (f x)) \<Longrightarrow> refines good stored known allowed (untilReturn f xs)"
  by (induction xs) (auto intro!: refines_intros split: loopEnd.split)

lemma refines_mapProg [refines_intros]:
  "(\<And>x. refines good stored known allowed (f x)) \<Longrightarrow> refines good stored known allowed (mapProg f xs)"
  by (induction xs) (auto intro!: refines_intros)

lemma refines_ownedBy [refines_intros]: "refines good stored known allowed (ownedBy n rss)"
  by (induction rss) (auto intro!: refines_intros split: list.split)

end

context quiet_client
begin

lemma refines_collectNonRunning [refines_intros]:
  "refines good stored known allowed (collectNonRunning env ps m)"
proof (induction ps arbitrary: m)
  case (Cons p ps)
  show ?case by (auto intro!: refines_intros Cons.IH)
qed (auto intro!: refines_intros)

end

context changePod_world
begin

lemma refines_small:
  "refines good stored known podSteps (Pod_Reconcile env req)"
  "refines good stored known podSteps (configInit_turn env)"
  "refines good stored known podSteps (OpsConfigInfo_Reconcile env req)"
  "refines good stored known podSteps (DeploymentStatusPause_turn env)"
  unfolding small_programs by (intro refines_intros)+

lemma refines_rollback: "refines good stored known podSteps (DeploymentStatusRollBack_turn env)"
  unfolding rollback_programs Let_def by (intro refines_intros)

lemma refines_deployment: "refines good stored known podSteps (Deployment_Reconcile env req)"
  unfolding deployment_programs Let_def by (intro refines_intros)

lemma refines_suspended: "refines good stored known podSteps (GetSuspendDeployment env ns)"
  unfolding suspend_programs Let_def by (intro refines_intros)

text \<open>The expiry loop acts on what its lists returned, so on the status each entry was read with.\<close>

lemma knowing_expire:
  assumes "cp \<in> K"
  shows "knowing good stored known podSteps K (expirePreSubmitted env cp)"
    and "knowing good stored known podSteps K (expirePostSubmitted env cp)"
proof -
  have update: "knowing good stored known podSteps K (logged (call (apiStatusUpdate (changePodApi env)
      (cp\<lparr>cpStatus := s\<rparr>))))" if "statusStep (cpStatus cp) s" for s
  proof (rule knowing_logged, rule knowing_status_update [OF _ _ assms])
    fix H M and cp' :: changePod
    assume "M (obj_key cp) = Some cp" "obj_key cp' = obj_key cp" "changePod_main cp' = changePod_main cp"
      "cpStatus cp' = cpStatus (cp\<lparr>cpStatus := s\<rparr>)"
    then show "podSteps H M (M(obj_key cp \<mapsto> cp'))"
      using that by (intro podSteps.own podTrans.advance [of M _ cp]) (auto simp: changePod_main_def)
  qed simp_all
  show "knowing good stored known podSteps K (expirePreSubmitted env cp)"
    unfolding expirePreSubmitted_def
    by (intro knowing_if knowing_ret knowing_bindM refines_nowUnix refines_GetNowTime update)
      (auto intro: statusStep.pre_timeout)
  show "knowing good stored known podSteps K (expirePostSubmitted env cp)"
    unfolding expirePostSubmitted_def
    by (intro knowing_if knowing_ret knowing_bindM refines_nowUnix refines_GetNowTime update)
      (auto intro: statusStep.post_timeout)
qed

lemma knowing_listOrEmpty_bindM:
  assumes "\<And>obs. knowing good stored known podSteps (K \<union> set obs) (f obs)"
  shows "knowing good stored known podSteps K (bindM (changePodsWithStatus env st) f)"
  unfolding changePodsWithStatus_def listOrEmpty_def bindM_assoc
  by (rule knowing_attempt_list) (use assms [of "[]"] assms in auto)

lemma refines_podTimeout: "refines good stored known podSteps (ChangePodTimeout_turn env)"
  unfolding ChangePodTimeout_turn_def
  by (intro refines_thenM refines_goSleep knowing_empty [OF knowing_listOrEmpty_bindM]
      knowing_listOrEmpty_bindM knowing_self_bindM knowing_forEach knowing_expire) auto

lemma refines_workloadTimeout: "refines good stored known podSteps (ChangeWorkloadTimeout_turn env)"
  unfolding ChangeWorkloadTimeout_turn_def expireWorkload_def by (intro refines_intros)

lemma refines_web:
  "refines good stored known podSteps (SubmitChangeExecOrderWeb env r1)"
  "refines good stored known podSteps (SubmitChangeStartNotifyWeb env r2)"
  "refines good stored known podSteps (SubmitChangeFinishNotifyWeb env r3)"
  unfolding SubmitChangeExecOrderWeb_def SubmitChangeStartNotifyWeb_def SubmitChangeFinishNotifyWeb_def
    submitWeb_def SubmitChangeExecOrder_def
  by (intro refines_intros)+

end

context workload_world
begin

lemma refines_small:
  "refines good stored known workloadTrans (Pod_Reconcile env req)"
  "refines good stored known workloadTrans (configInit_turn env)"
  "refines good stored known workloadTrans (OpsConfigInfo_Reconcile env req)"
  "refines good stored known workloadTrans (DeploymentStatusPause_turn env)"
  unfolding small_programs by (intro refines_intros)+

lemma refines_rollback: "refines good stored known workloadTrans (DeploymentStatusRollBack_turn env)"
  unfolding rollback_programs Let_def by (intro refines_intros)

lemma refines_deployment: "refines good stored known workloadTrans (Deployment_Reconcile env req)"
  unfolding deployment_programs Let_def
  by (intro refines_intros refines_create workloadTrans.create)

lemma refines_suspended: "refines good stored known workloadTrans (GetSuspendDeployment env ns)"
  unfolding suspend_programs Let_def by (intro refines_intros)

lemmas changePod_programs = setter_defs setChangePodStatus_def setChangePodPreSubmittedStatus_def
  setChangePodPostSubmittedStatus_def updateChangePodStatus_def defenseProcessedPod_def
  markDefensedPods_def getFinishedPodsWithoutDefenseByChangePodAndDeleteIfNotExist_def
  getAllPodsByChangePod_def executeInitChangePodHandle_def preWaitChangePodHandle_def
  postWaitChangePodHandle_def handleFinishedChangePod_def postFinishChangePodHandle_def
  timeoutOrFailedChangePodHandle_def

lemma refines_submit [refines_intros]:
  "refines good stored known workloadTrans (submitChangeStartNotifyAndGetNodeId env cp)"
  unfolding submitChangeStartNotifyAndGetNodeId_def
  by (intro refines_intros) (auto split: goValue.splits intro!: refines_intros)

lemma refines_changePod: "refines good stored known workloadTrans (ChangePod_Reconcile env req)"
  unfolding ChangePod_Reconcile_def changePod_programs Let_def by (intro refines_intros)

lemma refines_callback: "refines good stored known workloadTrans (CheckCallBackHandler env bound)"
  unfolding CheckCallBackHandler_def callbackStage_def callbackPre_def callbackPost_def
    patchChangePodStatus_def Let_def
  by (intro refines_intros)

lemma refines_podTimeout: "refines good stored known workloadTrans (ChangePodTimeout_turn env)"
  unfolding ChangePodTimeout_turn_def changePodsWithStatus_def listOrEmpty_def
    expirePreSubmitted_def expirePostSubmitted_def
  by (intro refines_intros)

lemma knowing_expireWorkload:
  assumes "cw \<in> K"
  shows "knowing good stored known workloadTrans K (expireWorkload env cw)"
  unfolding expireWorkload_def
proof (intro knowing_if knowing_ret knowing_bindM refines_nowUnix refines_GetNowTime knowing_logged,
    rule knowing_status_update [OF _ _ assms], goal_cases)
  case (3 t now unix H M cw')
  then show ?case
    by (intro workloadTrans.advance [of M _ cw] workloadStep.expired) (auto simp: workload_main_def)
qed simp_all

lemma refines_workloadTimeout: "refines good stored known workloadTrans (ChangeWorkloadTimeout_turn env)"
  unfolding ChangeWorkloadTimeout_turn_def
  by (intro refines_thenM refines_goSleep knowing_empty [OF knowing_attempt_list])
    (auto intro: knowing_ret knowing_forEach knowing_expireWorkload)

lemma refines_web:
  "refines good stored known workloadTrans (SubmitChangeExecOrderWeb env r1)"
  "refines good stored known workloadTrans (SubmitChangeStartNotifyWeb env r2)"
  "refines good stored known workloadTrans (SubmitChangeFinishNotifyWeb env r3)"
  unfolding SubmitChangeExecOrderWeb_def SubmitChangeStartNotifyWeb_def SubmitChangeFinishNotifyWeb_def
    submitWeb_def SubmitChangeExecOrder_def
  by (intro refines_intros)+

end

subsection \<open>Steps of the operator\<close>

text \<open>
  One step: some goroutine runs one reconcile, one request or one turn of its loop, whatever
  its outcome; or the process starts again, which loses the configuration it had received.
  What the goroutines do to each other within a step is the \<open>rely\<close> of the API contract.
\<close>

inductive operatorStep :: "'e env \<Rightarrow> 'e world \<Rightarrow> 'e world \<Rightarrow> bool" for env where
  pod: "Pod_Reconcile env req w = (r, t) \<Longrightarrow> operatorStep env w t"
| deployment: "Deployment_Reconcile env req w = (r, t) \<Longrightarrow> operatorStep env w t"
| changeWorkload: "ChangeWorkload_Reconcile env req w = (r, t) \<Longrightarrow> operatorStep env w t"
| changePod: "ChangePod_Reconcile env req w = (r, t) \<Longrightarrow> operatorStep env w t"
| opsConfigInfo: "OpsConfigInfo_Reconcile env req w = (r, t) \<Longrightarrow> operatorStep env w t"
| configInit: "configInit_turn env w = (r, t) \<Longrightarrow> operatorStep env w t"
| podTimeout: "ChangePodTimeout_turn env w = (r, t) \<Longrightarrow> operatorStep env w t"
| workloadTimeout: "ChangeWorkloadTimeout_turn env w = (r, t) \<Longrightarrow> operatorStep env w t"
| rollback: "DeploymentStatusRollBack_turn env w = (l, t) \<Longrightarrow> operatorStep env w t"
| pause: "DeploymentStatusPause_turn env w = (r, t) \<Longrightarrow> operatorStep env w t"
| callback: "CheckCallBackHandler env bound w = (rs, t) \<Longrightarrow> operatorStep env w t"
| suspended: "GetSuspendDeployment env ns w = (rs, t) \<Longrightarrow> operatorStep env w t"
| webExecOrder: "SubmitChangeExecOrderWeb env b1 w = (rs, t) \<Longrightarrow> operatorStep env w t"
| webStartNotify: "SubmitChangeStartNotifyWeb env b2 w = (rs, t) \<Longrightarrow> operatorStep env w t"
| webFinishNotify: "SubmitChangeFinishNotifyWeb env b3 w = (rs, t) \<Longrightarrow> operatorStep env w t"
| restart: "operatorStep env w (w\<lparr>wConfig := initialConfig\<rparr>)"

context changePod_world
begin

lemma operatorStep_refines:
  assumes "operatorStep env w t" "good (wExt w)"
  shows "good (wExt t) \<and>
    (view_step podSteps)\<^sup>*\<^sup>* (stored (wExt w), known (wExt w)) (stored (wExt t), known (wExt t))"
  using assms
  by (cases rule: operatorStep.cases)
    (auto dest: refinesD [OF ChangePod_Reconcile_refines] refinesD [OF ChangeWorkload_Reconcile_refines]
      refinesD [OF CheckCallBackHandler_refines] refinesD [OF refines_small(1)]
      refinesD [OF refines_small(2)] refinesD [OF refines_small(3)] refinesD [OF refines_small(4)]
      refinesD [OF refines_rollback] refinesD [OF refines_deployment] refinesD [OF refines_suspended]
      refinesD [OF refines_podTimeout] refinesD [OF refines_workloadTimeout]
      refinesD [OF refines_web(1)] refinesD [OF refines_web(2)] refinesD [OF refines_web(3)])

lemma operator_path_refines:
  assumes "(operatorStep env)\<^sup>*\<^sup>* w t" "good (wExt w)"
  shows "good (wExt t) \<and>
    (view_step podSteps)\<^sup>*\<^sup>* (stored (wExt w), known (wExt w)) (stored (wExt t), known (wExt t))"
  using assms
proof (induction rule: rtranclp_induct)
  case (step t u)
  then show ?case using operatorStep_refines [of t u] by (meson rtranclp_trans)
qed simp

end

context workload_world
begin

lemma operatorStep_refines:
  assumes "operatorStep env w t" "good (wExt w)"
  shows "good (wExt t) \<and>
    (view_step workloadTrans)\<^sup>*\<^sup>* (stored (wExt w), known (wExt w)) (stored (wExt t), known (wExt t))"
  using assms
  by (cases rule: operatorStep.cases)
    (auto dest: refinesD [OF refines_changePod] refinesD [OF ChangeWorkload_Reconcile_refines]
      refinesD [OF refines_callback] refinesD [OF refines_small(1)]
      refinesD [OF refines_small(2)] refinesD [OF refines_small(3)] refinesD [OF refines_small(4)]
      refinesD [OF refines_rollback] refinesD [OF refines_deployment] refinesD [OF refines_suspended]
      refinesD [OF refines_podTimeout] refinesD [OF refines_workloadTimeout]
      refinesD [OF refines_web(1)] refinesD [OF refines_web(2)] refinesD [OF refines_web(3)])

lemma operator_path_refines:
  assumes "(operatorStep env)\<^sup>*\<^sup>* w t" "good (wExt w)"
  shows "good (wExt t) \<and>
    (view_step workloadTrans)\<^sup>*\<^sup>* (stored (wExt w), known (wExt w)) (stored (wExt t), known (wExt t))"
  using assms
proof (induction rule: rtranclp_induct)
  case (step t u)
  then show ?case using operatorStep_refines [of t u] by (meson rtranclp_trans)
qed simp

end

end
