(* ===== verification/Progress.thy ===== *)
theory Progress
  imports Operator
begin

section \<open>What a successful reconcile of a ChangePod has done\<close>

text \<open>
  The refinement says what a reconcile may do; here is what it has done when it returned
  without an error: a ChangePod that waits to be announced, finished or closed has taken its
  step, and an initial one has been given its pods.
\<close>

context object_reads
begin

text \<open>As \<open>knowing_bindM\<close>, with a postcondition.\<close>

lemma triple_keep_bindM:
  assumes "refines good stored known allowed m"
    and "\<And>a. yields m a \<Longrightarrow> triple (store_evolves good stored known allowed)
      (\<lambda>w. good (wExt w) \<and> K \<subseteq> known (wExt w)) (f a) Q"
  shows "triple (store_evolves good stored known allowed)
    (\<lambda>w. good (wExt w) \<and> K \<subseteq> known (wExt w)) (bindM m f) Q"
proof (rule triple_bindM)
  show "triple (store_evolves good stored known allowed) (\<lambda>w. good (wExt w) \<and> K \<subseteq> known (wExt w)) m
      (\<lambda>a w. yields m a \<and> good (wExt w) \<and> K \<subseteq> known (wExt w))"
  proof (rule tripleI)
    fix s r t
    assume "good (wExt s) \<and> K \<subseteq> known (wExt s)" and run: "m s = (r, t)"
    then have "store_evolves good stored known allowed s t" "good (wExt s)" "K \<subseteq> known (wExt s)"
      using tripleD(1) [OF assms(1) [unfolded refines_def], of s] by auto
    then show "store_evolves good stored known allowed s t \<and>
        (\<forall>a. r = Ok a \<longrightarrow> yields m a \<and> good (wExt t) \<and> K \<subseteq> known (wExt t))"
      using store_evolves_known [of good stored known allowed s t] run by (auto intro: yieldsI)
  qed
  show "triple (store_evolves good stored known allowed)
      (\<lambda>w. yields m a \<and> good (wExt w) \<and> K \<subseteq> known (wExt w)) (f a) Q" for a
    by (rule triple_pre_fact) (rule assms(2))
qed

end

subsection \<open>Steps taken\<close>

text \<open>Some stored version is a life-cycle step away from \<open>cp\<close>.\<close>

definition advanced :: "changePod \<Rightarrow> changePod set \<Rightarrow> bool" where
  "advanced cp H \<longleftrightarrow> (\<exists>cp'\<in>H. obj_key cp' = obj_key cp \<and> cpSpec cp' = cpSpec cp \<and>
     statusStep (cpStatus cp) (cpStatus cp'))"

text \<open>Some stored version has exactly these pods and waits to be announced.\<close>

definition picked :: "changePod \<Rightarrow> podSummary list \<Rightarrow> changePod set \<Rightarrow> bool" where
  "picked cp infos H \<longleftrightarrow> (\<exists>cp'\<in>H. obj_key cp' = obj_key cp \<and> cpPodInfos (cpSpec cp') = infos \<and>
     changePodState cp' = PreWait)"

context changePod_world
begin

lemma triple_updateStatus:
  assumes "cp0 \<in> K" "cp = cp0\<lparr>cpStatus := s\<rparr>" "statusStep (cpStatus cp0) s"
  shows "triple (store_evolves good stored known podSteps)
    (\<lambda>w. good (wExt w) \<and> K \<subseteq> known (wExt w)) (updateChangePodStatus env cp)
    (\<lambda>_ w. \<exists>cp'\<in>known (wExt w). obj_key cp' = obj_key cp0 \<and> cpSpec cp' = cpSpec cp0 \<and> cpStatus cp' = s)"
  unfolding updateChangePodStatus_def
proof (rule triple_bindM [OF triple_status_update [OF _ _ assms(1)]])
  fix H M and cp' :: changePod
  assume "M (obj_key cp0) = Some cp0" "obj_key cp' = obj_key cp0"
    "changePod_main cp' = changePod_main cp0" "cpStatus cp' = cpStatus cp"
  then show "podSteps H M (M(obj_key cp0 \<mapsto> cp'))"
    using assms(2,3)
    by (intro podSteps.own podTrans.advance [of M _ cp0]) (auto simp: changePod_main_def)
next
  fix cp' :: changePod
  show "triple (store_evolves good stored known podSteps)
      (\<lambda>w. good (wExt w) \<and> cp' \<in> known (wExt w) \<and> obj_key cp' = obj_key cp0 \<and>
        changePod_main cp' = changePod_main cp0 \<and> cpStatus cp' = cpStatus cp)
      (ret ()) (\<lambda>_ w. \<exists>cp'\<in>known (wExt w). obj_key cp' = obj_key cp0 \<and> cpSpec cp' = cpSpec cp0 \<and> cpStatus cp' = s)"
    using assms(2) by (intro triple_ret) (auto simp: changePod_main_def)
qed (use assms in simp_all)

lemma triple_advance:
  assumes "cp0 \<in> K" "cp = cp0\<lparr>cpStatus := s\<rparr>" "statusStep (cpStatus cp0) s"
  shows "triple (store_evolves good stored known podSteps)
    (\<lambda>w. good (wExt w) \<and> K \<subseteq> known (wExt w)) (updateChangePodStatus env cp)
    (\<lambda>_ w. advanced cp0 (known (wExt w)))"
  by (rule triple_post [OF triple_updateStatus [OF assms]]) (use assms(3) in \<open>auto simp: advanced_def\<close>)

lemma advance_handlers:
  assumes "cp \<in> K"
  shows "changePodState cp = PreWait \<Longrightarrow> triple (store_evolves good stored known podSteps)
      (\<lambda>w. good (wExt w) \<and> K \<subseteq> known (wExt w)) (preWaitChangePodHandle env cp)
      (\<lambda>_ w. advanced cp (known (wExt w)))"
    and "changePodState cp = PostWait \<Longrightarrow> triple (store_evolves good stored known podSteps)
      (\<lambda>w. good (wExt w) \<and> K \<subseteq> known (wExt w)) (postWaitChangePodHandle env cp)
      (\<lambda>_ w. advanced cp (known (wExt w)))"
    and "changePodState cp \<in> set endings \<Longrightarrow> triple (store_evolves good stored known podSteps)
      (\<lambda>w. good (wExt w) \<and> K \<subseteq> known (wExt w)) (handleFinishedChangePod env cp)
      (\<lambda>_ w. advanced cp (known (wExt w)))"
  unfolding preWaitChangePodHandle_def postWaitChangePodHandle_def handleFinishedChangePod_def setter_defs
  by (intro triple_keep_bindM refines_intros triple_case_sum;
      auto elim!: setChangePodStatus_yields setChangePodPreSubmittedStatus_yields
        setChangePodPostSubmittedStatus_yields
        intro!: triple_advance [OF assms]
        intro: statusStep.start_failed statusStep.started statusStep.finish_failed statusStep.finished
          statusStep.closed)+

text \<open>The reads of \<open>Reconcile\<close>, when both succeed.\<close>

lemma reads_known:
  assumes "good e" "apiGet (changePodApi env) req e = (Inr cp, e1)"
    and "apiGet (changeWorkloadApi env) k e1 = (Inr cw, e2)"
  shows "good e2 \<and> cp \<in> known e2 \<and> obj_key cp = req"
proof -
  have 1: "rely e e1" "cp \<in> known e1" "obj_key cp = req"
    using get_law [OF assms(1,2)] by auto
  then have g1: "good e1" using rely_good assms(1) by blast
  have "rely e1 e2"
    using workloads_quiet assms(3) g1 by (auto simp: harmless_kind_def harmless_def) (metis snd_conv)
  then show ?thesis
    using 1 g1 rely_good rely_known by blast
qed

lemma Reconcile_run:
  assumes "apiGet (changePodApi env) req (wExt w) = (Inr cp, e1)"
    and "apiGet (changeWorkloadApi env) \<lparr>nnNamespace = Namespace cp, nnName = cpChangeWorkloadId (cpSpec cp)\<rparr> e1
      = (Inr cw, e2)"
  shows "ChangePod_Reconcile env req w =
    (let v = w\<lparr>wExt := e2\<rparr>; status = changePodState cp
     in if status = ExecuteInit then executeInitChangePodHandle env cp cw v
        else if status = PreWait then preWaitChangePodHandle env cp v
        else if status = PostWait then postWaitChangePodHandle env cp v
        else if status \<in> set endings then handleFinishedChangePod env cp v
        else (Ok (), v))"
  using assms
  by (auto simp: ChangePod_Reconcile_def bindM_def attempt_def call_def ret_def Let_def
      postFinishChangePodHandle_def timeoutOrFailedChangePodHandle_def endings_def changePod_status_defs)

theorem Reconcile_advances:
  assumes "good (wExt w)"
    and "apiGet (changePodApi env) req (wExt w) = (Inr cp, e1)"
    and "apiGet (changeWorkloadApi env) \<lparr>nnNamespace = Namespace cp, nnName = cpChangeWorkloadId (cpSpec cp)\<rparr> e1
      = (Inr cw, e2)"
    and "changePodState cp \<in> {PreWait, PostWait} \<union> set endings"
    and "ChangePod_Reconcile env req w = (Ok (), t)"
  shows "advanced cp (known (wExt t))"
proof -
  have pre: "good (wExt (w\<lparr>wExt := e2\<rparr>)) \<and> {cp} \<subseteq> known (wExt (w\<lparr>wExt := e2\<rparr>))"
    using reads_known [OF assms(1-3)] by simp
  have "changePodState cp \<noteq> ExecuteInit"
    using assms(4) by (auto simp: endings_def changePod_status_defs)
  then consider "changePodState cp = PreWait" "preWaitChangePodHandle env cp (w\<lparr>wExt := e2\<rparr>) = (Ok (), t)"
    | "changePodState cp = PostWait" "postWaitChangePodHandle env cp (w\<lparr>wExt := e2\<rparr>) = (Ok (), t)"
    | "changePodState cp \<in> set endings" "handleFinishedChangePod env cp (w\<lparr>wExt := e2\<rparr>) = (Ok (), t)"
    using assms(4,5) Reconcile_run [OF assms(2,3)]
    by (auto simp: Let_def split: if_splits)
  then show ?thesis
    using tripleD(2) [OF advance_handlers(1) pre] tripleD(2) [OF advance_handlers(2) pre]
      tripleD(2) [OF advance_handlers(3) pre]
    by cases (metis fst_conv insertI1 snd_conv)+
qed

text \<open>The pods a ChangePod in \<open>ExecuteInit\<close> is given, and what then happens to them.\<close>

definition recordPods :: "changePod \<Rightarrow> pod list \<Rightarrow> ('e world, unit) prog" where
  "recordPods cp ps =
     bindM (call (apiUpdate (changePodApi env)
       (cp\<lparr>cpSpec := (cpSpec cp)\<lparr>cpPodInfos :=
          map (\<lambda>p. getPreparingPodSummary p (get_label (Labels cp) DeploymentNameLabel)) ps\<rparr>\<rparr>))) (\<lambda>cp.
     bindM (forEach ps (\<lambda>p. defenseProcessedPod env p)) (\<lambda>_.
     bindM (setChangePodPreWaitStatus env cp) (\<lambda>cp. updateChangePodStatus env cp)))"

lemma findPods_eq:
  assumes "apiList (podApi env) (anyOpts\<lparr>inNamespace := Some (Namespace cp),
        matchingLabels := [(AdmissionWebhookVersionLabel,
          get_label (Labels cp) AdmissionWebhookVersionLabel)]\<rparr>) (wExt v) = (Inr ps, e)"
  shows "getFinishedPodsWithoutDefenseByChangePodAndDeleteIfNotExist env cp v =
    (if filter preparing ps = []
     then bindM (call (apiDelete (changePodApi env) cp)) (\<lambda>_. throw (noPodError cp)) (v\<lparr>wExt := e\<rparr>)
     else (Ok (filter preparing ps), v\<lparr>wExt := e\<rparr>))"
  using assms by (simp add: getFinishedPodsWithoutDefenseByChangePodAndDeleteIfNotExist_def
      getAllPodsByChangePod_def bindM_def call_def filterPreparing_eq ret_def)

lemma executeInit_eq:
  assumes "cpPodInfos (cpSpec cp) = []"
    and "apiList (podApi env) (anyOpts\<lparr>inNamespace := Some (Namespace cp),
        matchingLabels := [(AdmissionWebhookVersionLabel,
          get_label (Labels cp) AdmissionWebhookVersionLabel)]\<rparr>) (wExt v) = (Inr ps, e)"
  shows "executeInitChangePodHandle env cp cw v =
    (if filter preparing ps = []
     then bindM (call (apiDelete (changePodApi env) cp)) (\<lambda>_. throw (noPodError cp)) (v\<lparr>wExt := e\<rparr>)
     else if cwCountThreshold (cwSpec cw) < 0 then (Panic, v\<lparr>wExt := e\<rparr>)
     else recordPods cp (take (nat (cwCountThreshold (cwSpec cw))) (filter preparing ps)) (v\<lparr>wExt := e\<rparr>))"
proof (cases "filter preparing ps = []")
  case True
  then have "bindM (getFinishedPodsWithoutDefenseByChangePodAndDeleteIfNotExist env cp) f v =
      bindM (bindM (call (apiDelete (changePodApi env) cp)) (\<lambda>_. throw (noPodError cp))) f (v\<lparr>wExt := e\<rparr>)"
    for f :: "pod list \<Rightarrow> ('e world, unit) prog"
    using findPods_eq [OF assms(2)] by (intro bindM_at) simp
  then show ?thesis
    using assms(1) True by (simp add: executeInitChangePodHandle_def Let_def bindM_assoc)
next
  case False
  have [simp]: "bindM (getFinishedPodsWithoutDefenseByChangePodAndDeleteIfNotExist env cp) f v =
      f (filter preparing ps) (v\<lparr>wExt := e\<rparr>)" for f :: "pod list \<Rightarrow> ('e world, unit) prog"
    using findPods_eq [OF assms(2)] False by (intro bindM_eval(1)) simp
  have all: "take (nat n) qs = qs" if "\<not> n < int (length qs)" for n and qs :: "pod list"
    using that by simp
  show ?thesis
    using assms(1) False
    by (cases "cwCountThreshold (cwSpec cw) < int (length (filter preparing ps))")
      (simp_all add: executeInitChangePodHandle_def Let_def recordPods_def crash_eval all)
qed

lemma executeInit_run:
  assumes "cpPodInfos (cpSpec cp) = []"
    and "apiList (podApi env) (anyOpts\<lparr>inNamespace := Some (Namespace cp),
        matchingLabels := [(AdmissionWebhookVersionLabel,
          get_label (Labels cp) AdmissionWebhookVersionLabel)]\<rparr>) (wExt v) = (Inr ps, e)"
    and "executeInitChangePodHandle env cp cw v = (Ok (), t)"
  shows "filter preparing ps \<noteq> [] \<and> 0 \<le> cwCountThreshold (cwSpec cw) \<and>
    recordPods cp (take (nat (cwCountThreshold (cwSpec cw))) (filter preparing ps)) (v\<lparr>wExt := e\<rparr>) = (Ok (), t)"
  using assms(3) executeInit_eq [OF assms(1,2), of cw]
  by (auto simp: throw_def elim!: bindM_OkE split: if_splits)

text \<open>After the pods are recorded, what is left keeps them and changes the status.\<close>

lemma triple_announce:
  assumes "obj_key cp1 = obj_key cp" "cpPodInfos (cpSpec cp1) = infos" "changePodState cp1 = ExecuteInit"
  shows "triple (store_evolves good stored known podSteps)
    (\<lambda>w. good (wExt w) \<and> {cp1} \<subseteq> known (wExt w))
    (bindM (forEach ps (\<lambda>p. defenseProcessedPod env p)) (\<lambda>_.
     bindM (setChangePodPreWaitStatus env cp1) (\<lambda>cp. updateChangePodStatus env cp)))
    (\<lambda>_ w. picked cp infos (known (wExt w)))"
  unfolding setChangePodPreWaitStatus_def
proof (intro triple_keep_bindM refines_intros, goal_cases)
  case (1 u cp2)
  from \<open>yields (setChangePodStatus env PreWait cp1) cp2\<close> obtain s where
    s: "cp2 = cp1\<lparr>cpStatus := s\<rparr>" "cpStatusStatus s = PreWait" "cpMessage s = cpMessage (cpStatus cp1)"
    by (rule setChangePodStatus_yields)
  have "statusStep (cpStatus cp1) s"
    using s assms(3) by (intro statusStep.picked) simp_all
  from triple_updateStatus [OF _ s(1) this, of "{cp1}"] show ?case
    by (rule triple_post) (use assms s(2) in \<open>auto simp: picked_def\<close>)
qed

lemma triple_recordPods:
  assumes "cp \<in> K" "changePodState cp = ExecuteInit"
  shows "triple (store_evolves good stored known podSteps)
    (\<lambda>w. good (wExt w) \<and> K \<subseteq> known (wExt w)) (recordPods cp ps)
    (\<lambda>_ w. picked cp (map (\<lambda>p. getPreparingPodSummary p (get_label (Labels cp) DeploymentNameLabel)) ps)
      (known (wExt w)))"
  unfolding recordPods_def
proof (rule triple_bindM [OF triple_update [OF _ _ assms(1)]])
  fix H M and cp' :: changePod
  assume "M (obj_key cp) = Some cp" "obj_key cp' = obj_key cp" "cpStatus cp' = cpStatus cp"
  then show "podSteps H M (M(obj_key cp \<mapsto> cp'))"
    by (intro podSteps.own podTrans.respec)
next
  fix cp1 :: changePod
  let ?infos = "map (\<lambda>p. getPreparingPodSummary p (get_label (Labels cp) DeploymentNameLabel)) ps"
  let ?cp = "cp\<lparr>cpSpec := (cpSpec cp)\<lparr>cpPodInfos := ?infos\<rparr>\<rparr>"
  show "triple (store_evolves good stored known podSteps)
      (\<lambda>w. good (wExt w) \<and> cp1 \<in> known (wExt w) \<and> obj_key cp1 = obj_key cp \<and>
        changePod_main cp1 = changePod_main ?cp \<and> cpStatus cp1 = cpStatus cp)
      (bindM (forEach ps (\<lambda>p. defenseProcessedPod env p)) (\<lambda>_.
       bindM (setChangePodPreWaitStatus env cp1) (\<lambda>cp. updateChangePodStatus env cp)))
      (\<lambda>_ w. picked cp ?infos (known (wExt w)))"
    using triple_announce [of cp1 cp ?infos ps] assms(2) by (auto simp: triple_def changePod_main_def)
qed simp_all

theorem Reconcile_picks:
  assumes "good (wExt w)"
    and "apiGet (changePodApi env) req (wExt w) = (Inr cp, e1)"
    and "apiGet (changeWorkloadApi env) \<lparr>nnNamespace = Namespace cp, nnName = cpChangeWorkloadId (cpSpec cp)\<rparr> e1
      = (Inr cw, e2)"
    and "changePodState cp = ExecuteInit" "cpPodInfos (cpSpec cp) = []"
    and "apiList (podApi env) (anyOpts\<lparr>inNamespace := Some (Namespace cp),
        matchingLabels := [(AdmissionWebhookVersionLabel,
          get_label (Labels cp) AdmissionWebhookVersionLabel)]\<rparr>) e2 = (Inr ps, e3)"
    and "ChangePod_Reconcile env req w = (Ok (), t)"
  shows "filter preparing ps \<noteq> [] \<and> 0 \<le> cwCountThreshold (cwSpec cw) \<and>
    picked cp (map (\<lambda>p. getPreparingPodSummary p (get_label (Labels cp) DeploymentNameLabel))
      (take (nat (cwCountThreshold (cwSpec cw))) (filter preparing ps))) (known (wExt t))"
proof -
  have known: "good e2" "cp \<in> known e2"
    using reads_known [OF assms(1-3)] by auto
  have list: "apiList (podApi env) (anyOpts\<lparr>inNamespace := Some (Namespace cp),
      matchingLabels := [(AdmissionWebhookVersionLabel,
        get_label (Labels cp) AdmissionWebhookVersionLabel)]\<rparr>) (wExt (w\<lparr>wExt := e2\<rparr>)) = (Inr ps, e3)"
    using assms(6) by simp
  have "executeInitChangePodHandle env cp cw (w\<lparr>wExt := e2\<rparr>) = (Ok (), t)"
    using assms(4,7) Reconcile_run [OF assms(2,3)] by (simp add: Let_def)
  note run = executeInit_run [OF assms(5) list this]
  have "rely e2 e3"
    using harmless_kindD(2) [OF pods_quiet] known(1) assms(6) by (simp add: harmless_def) (metis snd_conv)
  then have "good e3 \<and> {cp} \<subseteq> known e3"
    using known rely_good rely_known by blast
  then show ?thesis
    using run tripleD(2) [OF triple_recordPods [OF singletonI assms(4)], where s = "w\<lparr>wExt := e3\<rparr>" and
        ps1 = "take (nat (cwCountThreshold (cwSpec cw))) (filter preparing ps)"]
    by simp
qed

end

subsection \<open>The ChangeWorkload of a Deployment\<close>

context workload_world
begin

lemma triple_createNewChangeWorkload:
  assumes "\<And>cw cw'. refChangeWorkload env d cw = Inr cw' \<Longrightarrow> obj_key cw' = obj_key cw"
  shows "triple (store_evolves good stored known workloadTrans) (\<lambda>w. good (wExt w) \<and> {} \<subseteq> known (wExt w))
    (createNewChangeWorkload env d)
    (\<lambda>cw w. good (wExt w) \<and> cw \<in> known (wExt w) \<and>
       obj_key cw = \<lparr>nnNamespace = Namespace d, nnName = GetChangeWorkloadNameByDeployment d\<rparr>)"
  unfolding createNewChangeWorkload_def Let_def
proof (intro triple_keep_bindM refines_ChangeWorkloadFactory, goal_cases)
  case (1 cw)
  then have "obj_key cw = \<lparr>nnNamespace = Namespace d, nnName = GetChangeWorkloadNameByDeployment d\<rparr>"
    by (auto simp: yields_def obj_key_def zero_defs elim!: ChangeWorkloadFactory_result)
  then have "obj_key (case refChangeWorkload env d cw of Inl err \<Rightarrow> cw | Inr w' \<Rightarrow> w') =
      \<lparr>nnNamespace = Namespace d, nnName = GetChangeWorkloadNameByDeployment d\<rparr>"
    using assms by (auto split: sum.split)
  then show ?case
    by (intro triple_weaken [OF triple_create [of "{}"]])
      (auto intro: workloadTrans.create)
qed

lemma triple_getOrCreate:
  assumes "\<And>cw cw'. refChangeWorkload env d cw = Inr cw' \<Longrightarrow> obj_key cw' = obj_key cw"
  shows "triple (store_evolves good stored known workloadTrans) (\<lambda>w. good (wExt w))
    (getOrCreateChangeWorkload env d)
    (\<lambda>cw w. good (wExt w) \<and> cw \<in> known (wExt w) \<and>
       obj_key cw = \<lparr>nnNamespace = Namespace d, nnName = GetChangeWorkloadNameByDeployment d\<rparr>)"
  unfolding getOrCreateChangeWorkload_def getChangeWorkloadByDeployment'_def
proof (rule triple_bindM)
  let ?key = "\<lparr>nnNamespace = Namespace d, nnName = GetChangeWorkloadNameByDeployment d\<rparr>"
  let ?R = "\<lambda>r w. good (wExt w) \<and> (case r of Inl _ \<Rightarrow> True | Inr cw \<Rightarrow> cw \<in> known (wExt w) \<and> obj_key cw = ?key)"
  show "triple (store_evolves good stored known workloadTrans) (\<lambda>w. good (wExt w))
      (attempt (call (apiGet (changeWorkloadApi env) ?key))) ?R"
    by (rule triple_attempt [OF triple_get stable_good]) auto
  fix r :: "error + changeWorkload"
  show "triple (store_evolves good stored known workloadTrans) (?R r)
      (case r of Inl err \<Rightarrow> if isNotFound err then createNewChangeWorkload env d else throw err
       | Inr workload \<Rightarrow> ret workload)
      (\<lambda>cw w. good (wExt w) \<and> cw \<in> known (wExt w) \<and> obj_key cw = ?key)"
    using triple_createNewChangeWorkload [OF assms]
    by (cases r) (auto intro!: triple_if triple_throw triple_ret)
qed

theorem Deployment_workload_known:
  assumes "\<And>cw cw'. refChangeWorkload env d cw = Inr cw' \<Longrightarrow> obj_key cw' = obj_key cw"
    and "good (wExt w)" "apiGet (deploymentApi env) req (wExt w) = (Inr d, e)"
    and "\<not> isDefensed (Labels d)" "Deployment_Reconcile env req w = (Ok (), t)"
  shows "\<exists>cw\<in>known (wExt t). obj_key cw = \<lparr>nnNamespace = Namespace d, nnName = GetChangeWorkloadNameByDeployment d\<rparr>"
proof -
  have "rely (wExt w) e"
    using harmless_kindD(1) [OF deployments_quiet] assms(2,3) by (simp add: harmless_def) (metis snd_conv)
  then have "good e" using rely_good assms(2) by blast
  have "bindM (getOrCreateChangeWorkload env d) (\<lambda>_. defenseProcessedDeployment env d) (w\<lparr>wExt := e\<rparr>) = (Ok (), t)"
    using assms(3-5) by (simp add: Deployment_Reconcile_def bindM_def attempt_def call_def)
  then obtain cw v where cw: "getOrCreateChangeWorkload env d (w\<lparr>wExt := e\<rparr>) = (Ok cw, v)"
    "defenseProcessedDeployment env d v = (Ok (), t)"
    by (rule bindM_OkE)
  have known: "good (wExt v)" "cw \<in> known (wExt v)"
    "obj_key cw = \<lparr>nnNamespace = Namespace d, nnName = GetChangeWorkloadNameByDeployment d\<rparr>"
    using tripleD(2) [OF triple_getOrCreate [of d], where s = "w\<lparr>wExt := e\<rparr>" and a = cw] assms(1) cw(1)
      \<open>good e\<close>
    by auto
  have mark: "refines good stored known workloadTrans (defenseProcessedDeployment env d)"
    unfolding defenseProcessedDeployment_def Let_def by (intro refines_intros)
  have "known (wExt v) \<subseteq> known (wExt t)"
    using view_steps_history [OF refinesD(2) [OF mark known(1) cw(2)]] by simp
  then show ?thesis using known by blast
qed

end

end
