(* ===== verification/Kube_Store.thy ===== *)
theory Kube_Store
  imports Progress
begin

section \<open>A reference cluster\<close>

text \<open>
  An executable API server that keeps the contracts of \<open>Store_Laws\<close>, on which the locales
  are interpreted and on which programs are run. Each kind has a shelf: the stored objects, the
  informer cache that reads are answered from and that may lag behind, the history of all
  versions, and the next resource version. The clock advances with a sleep, which also lets the
  caches catch up; HTTP answers from a script. It is no model of code of the repository.
\<close>

subsection \<open>One shelf\<close>

record 'o shelf =
  shStored :: "'o list"
  shCached :: "'o list"
  shHistory :: "'o list"
  shVersion :: nat

fun findObj :: "namespacedName \<Rightarrow> 'a objectMeta_scheme list \<Rightarrow> 'a objectMeta_scheme option" where
  "findObj k [] = None"
| "findObj k (ob # obs) = (if obj_key ob = k then Some ob else findObj k obs)"

fun putObj :: "'a objectMeta_scheme \<Rightarrow> 'a objectMeta_scheme list \<Rightarrow> 'a objectMeta_scheme list" where
  "putObj ob [] = [ob]"
| "putObj ob (x # xs) = (if obj_key x = obj_key ob then ob # xs else x # putObj ob xs)"

definition dropObj :: "namespacedName \<Rightarrow> 'a objectMeta_scheme list \<Rightarrow> 'a objectMeta_scheme list" where
  "dropObj k obs = filter (\<lambda>ob. obj_key ob \<noteq> k) obs"

definition storeObj :: "'a objectMeta_scheme \<Rightarrow> 'a objectMeta_scheme shelf \<Rightarrow>
    'a objectMeta_scheme \<times> 'a objectMeta_scheme shelf" where
  "storeObj ob sh =
     (let ob' = ob\<lparr>ResourceVersion := shVersion sh\<rparr>
      in (ob', sh\<lparr>shStored := putObj ob' (shStored sh), shHistory := ob' # shHistory sh,
            shVersion := Suc (shVersion sh)\<rparr>))"

definition syncShelf :: "'o shelf \<Rightarrow> 'o shelf" where
  "syncShelf sh = sh\<lparr>shCached := shStored sh\<rparr>"

definition notFoundError :: "namespacedName \<Rightarrow> error" where
  "notFoundError k = \<lparr>isNotFound = True, errorText = nnName k @ '' not found''\<rparr>"

definition existsError :: "namespacedName \<Rightarrow> error" where
  "existsError k = plain_error (nnName k @ '' already exists'')"

definition conflictError :: "namespacedName \<Rightarrow> error" where
  "conflictError k = plain_error (''Operation cannot be fulfilled on '' @ nnName k @
     '': the object has been modified; please apply your changes to the latest version and try again'')"

text \<open>
  The operations, given how a kind puts the status of one object on another (\<open>withStatus\<close>,
  whose first argument is the origin of the status), how a patch merges, and its indexer.
\<close>

record ('a) kindSpec =
  ksWithStatus :: "'a objectMeta_scheme \<Rightarrow> 'a objectMeta_scheme \<Rightarrow> 'a objectMeta_scheme"
  ksZero :: "'a objectMeta_scheme"
  ksMerge :: "'a objectMeta_scheme \<Rightarrow> 'a objectMeta_scheme \<Rightarrow> 'a objectMeta_scheme \<Rightarrow> 'a objectMeta_scheme"
  ksIndex :: "string \<Rightarrow> 'a objectMeta_scheme \<Rightarrow> string list"

definition putIfCurrent ::
  "('a objectMeta_scheme \<Rightarrow> 'a objectMeta_scheme) \<Rightarrow> 'a objectMeta_scheme \<Rightarrow> 'a objectMeta_scheme shelf \<Rightarrow>
   (error + 'a objectMeta_scheme) \<times> 'a objectMeta_scheme shelf" where
  "putIfCurrent newObj ob sh =
     (case findObj (obj_key ob) (shStored sh) of
        None \<Rightarrow> (Inl (notFoundError (obj_key ob)), sh)
      | Some cur \<Rightarrow>
          if ResourceVersion cur = ResourceVersion ob
          then (case storeObj (newObj cur) sh of (ob', sh') \<Rightarrow> (Inr ob', sh'))
          else (Inl (conflictError (obj_key ob)), sh))"

definition putOver ::
  "('a objectMeta_scheme \<Rightarrow> 'a objectMeta_scheme) \<Rightarrow> 'a objectMeta_scheme \<Rightarrow> 'a objectMeta_scheme shelf \<Rightarrow>
   (error + 'a objectMeta_scheme) \<times> 'a objectMeta_scheme shelf" where
  "putOver newObj ob sh =
     (case findObj (obj_key ob) (shStored sh) of
        None \<Rightarrow> (Inl (notFoundError (obj_key ob)), sh)
      | Some cur \<Rightarrow> (case storeObj (newObj cur) sh of (ob', sh') \<Rightarrow> (Inr ob', sh')))"

definition shelfApi :: "'a kindSpec \<Rightarrow> ('a objectMeta_scheme shelf, 'a objectMeta_scheme) kindApi" where
  "shelfApi ks = \<lparr>
     apiGet = (\<lambda>k sh. (case findObj k (shCached sh) of
        None \<Rightarrow> Inl (notFoundError k) | Some ob \<Rightarrow> Inr ob, sh)),
     apiList = (\<lambda>opts sh. (Inr (filter (selected (ksIndex ks) opts) (shCached sh)), sh)),
     apiCreate = (\<lambda>ob sh. (case findObj (obj_key ob) (shStored sh) of
        Some _ \<Rightarrow> (Inl (existsError (obj_key ob)), sh)
      | None \<Rightarrow> (case storeObj (ksWithStatus ks (ksZero ks) ob) sh of (ob', sh') \<Rightarrow> (Inr ob', sh')))),
     apiUpdate = (\<lambda>ob. putIfCurrent (\<lambda>cur. ksWithStatus ks cur ob) ob),
     apiDelete = (\<lambda>ob sh. (case findObj (obj_key ob) (shStored sh) of
        None \<Rightarrow> (Inl (notFoundError (obj_key ob)), sh)
      | Some _ \<Rightarrow> (Inr (), sh\<lparr>shStored := dropObj (obj_key ob) (shStored sh)\<rparr>))),
     apiPatch = (\<lambda>base ob. putOver (\<lambda>cur. ksWithStatus ks cur (ksMerge ks base ob cur)) ob),
     apiStatusUpdate = (\<lambda>ob. putIfCurrent (\<lambda>cur. ksWithStatus ks ob cur) ob),
     apiStatusPatch = (\<lambda>base ob. putOver (\<lambda>cur. ksWithStatus ks (ksMerge ks base ob cur) cur) ob)\<rparr>"

lemma findObj_key: "findObj k obs = Some ob \<Longrightarrow> ob \<in> set obs \<and> obj_key ob = k"
  by (induction obs) (auto split: if_splits)

lemma findObj_put: "findObj k (putObj ob obs) = (if k = obj_key ob then Some ob else findObj k obs)"
  by (induction obs) auto

lemma findObj_drop: "findObj k (dropObj k' obs) = (if k = k' then None else findObj k obs)"
  by (induction obs) (auto simp: dropObj_def)

lemma set_putObj: "set (putObj ob obs) \<subseteq> insert ob (set obs)"
  by (induction obs) auto

subsection \<open>A shelf keeps the contract\<close>

definition goodShelf :: "'a objectMeta_scheme shelf \<Rightarrow> bool" where
  "goodShelf sh \<longleftrightarrow>
     set (shStored sh) \<subseteq> set (shHistory sh) \<and> set (shCached sh) \<subseteq> set (shHistory sh) \<and>
     (\<forall>ob\<in>set (shHistory sh). ResourceVersion ob < shVersion sh) \<and>
     distinct (map ResourceVersion (shHistory sh))"

lemma goodShelf_versions:
  assumes "goodShelf sh" "ob \<in> set (shHistory sh)" "ob' \<in> set (shHistory sh)"
    "ResourceVersion ob = ResourceVersion ob'"
  shows "ob = ob'"
  using assms by (auto simp: goodShelf_def distinct_map inj_on_def)

lemma storeObj_good:
  assumes "goodShelf sh" "storeObj ob sh = (ob', sh')"
  shows "goodShelf sh'" "set (shHistory sh') = insert ob' (set (shHistory sh))"
    "ob' = ob\<lparr>ResourceVersion := shVersion sh\<rparr>" "shStored sh' = putObj ob' (shStored sh)"
  using assms set_putObj [of ob' "shStored sh"]
  by (fastforce simp: storeObj_def Let_def goodShelf_def)+

lemma dropObj_good: "goodShelf sh \<Longrightarrow> goodShelf (sh\<lparr>shStored := dropObj k (shStored sh)\<rparr>)"
  by (auto simp: goodShelf_def dropObj_def)

lemma syncShelf_good: "goodShelf sh \<Longrightarrow> goodShelf (syncShelf sh)"
  by (simp add: goodShelf_def syncShelf_def)

text \<open>What a successful put does, with and without the version check.\<close>

definition putEffect ::
  "namespacedName \<Rightarrow> 'a objectMeta_scheme \<Rightarrow> 'a objectMeta_scheme shelf \<Rightarrow> 'a objectMeta_scheme shelf \<Rightarrow> bool" where
  "putEffect k ob' sh sh' \<longleftrightarrow> goodShelf sh' \<and> set (shHistory sh') = insert ob' (set (shHistory sh)) \<and>
     (\<lambda>k. findObj k (shStored sh')) = (\<lambda>k. findObj k (shStored sh))(k \<mapsto> ob') \<and> obj_key ob' = k"

lemma storeObj_effect:
  assumes "goodShelf sh" "storeObj ob sh = (ob', sh')"
  shows "putEffect (obj_key ob) ob' sh sh'"
proof -
  have key: "obj_key ob' = obj_key ob"
    unfolding storeObj_good(3) [OF assms] by simp
  have "(\<lambda>k. findObj k (shStored sh')) = (\<lambda>k. findObj k (shStored sh))(obj_key ob \<mapsto> ob')"
    unfolding storeObj_good(4) [OF assms] findObj_put key by auto
  then show ?thesis
    using storeObj_good(1,2) [OF assms] key by (simp add: putEffect_def)
qed

lemma putOver_Inr:
  assumes "goodShelf sh" "putOver f ob sh = (Inr ob', sh')" "\<And>cur. obj_key cur = obj_key ob \<Longrightarrow> obj_key (f cur) = obj_key ob"
  shows "\<exists>cur. findObj (obj_key ob) (shStored sh) = Some cur \<and> putEffect (obj_key ob) ob' sh sh' \<and>
    ob' = (f cur)\<lparr>ResourceVersion := shVersion sh\<rparr>"
proof (cases "findObj (obj_key ob) (shStored sh)")
  case None
  then show ?thesis using assms(2) by (simp add: putOver_def)
next
  case (Some cur)
  then have "storeObj (f cur) sh = (ob', sh')"
    using assms(2) by (simp add: putOver_def split: prod.splits)
  then show ?thesis
    using Some storeObj_effect [OF assms(1), of "f cur"] storeObj_good(3) [OF assms(1), of "f cur"]
      assms(3) [of cur] findObj_key [OF Some] by auto
qed

lemma putIfCurrent_Inr:
  assumes "goodShelf sh" "putIfCurrent f ob sh = (Inr ob', sh')" "\<And>cur. obj_key cur = obj_key ob \<Longrightarrow> obj_key (f cur) = obj_key ob"
  shows "\<exists>cur. findObj (obj_key ob) (shStored sh) = Some cur \<and> putEffect (obj_key ob) ob' sh sh' \<and>
    ob' = (f cur)\<lparr>ResourceVersion := shVersion sh\<rparr> \<and> ResourceVersion cur = ResourceVersion ob"
proof (cases "findObj (obj_key ob) (shStored sh)")
  case None
  then show ?thesis using assms(2) by (simp add: putIfCurrent_def)
next
  case (Some cur)
  then have "storeObj (f cur) sh = (ob', sh')" "ResourceVersion cur = ResourceVersion ob"
    using assms(2) by (simp_all add: putIfCurrent_def split: prod.splits if_splits)
  then show ?thesis
    using Some storeObj_effect [OF assms(1), of "f cur"] storeObj_good(3) [OF assms(1), of "f cur"]
      assms(3) [of cur] findObj_key [OF Some] by auto
qed

lemma put_Inl:
  "putOver f ob sh = (Inl e, sh') \<Longrightarrow> sh' = sh"
  "putIfCurrent f ob sh = (Inl e, sh') \<Longrightarrow> sh' = sh"
  by (auto simp: putOver_def putIfCurrent_def split: option.splits prod.splits if_splits)

subsection \<open>A shelf within a cluster\<close>

definition onPart ::
  "('e \<Rightarrow> 's) \<Rightarrow> (('s \<Rightarrow> 's) \<Rightarrow> 'e \<Rightarrow> 'e) \<Rightarrow> ('s \<Rightarrow> 'r \<times> 's) \<Rightarrow> 'e \<Rightarrow> 'r \<times> 'e" where
  "onPart part upd op e = (case op (part e) of (r, s) \<Rightarrow> (r, upd (\<lambda>_. s) e))"

definition onShelf ::
  "('e \<Rightarrow> 's) \<Rightarrow> (('s \<Rightarrow> 's) \<Rightarrow> 'e \<Rightarrow> 'e) \<Rightarrow> ('s, 'o) kindApi \<Rightarrow> ('e, 'o) kindApi" where
  "onShelf part upd api = \<lparr>
     apiGet = (\<lambda>k. onPart part upd (apiGet api k)),
     apiList = (\<lambda>opts. onPart part upd (apiList api opts)),
     apiCreate = (\<lambda>ob. onPart part upd (apiCreate api ob)),
     apiUpdate = (\<lambda>ob. onPart part upd (apiUpdate api ob)),
     apiDelete = (\<lambda>ob. onPart part upd (apiDelete api ob)),
     apiPatch = (\<lambda>base ob. onPart part upd (apiPatch api base ob)),
     apiStatusUpdate = (\<lambda>ob. onPart part upd (apiStatusUpdate api ob)),
     apiStatusPatch = (\<lambda>base ob. onPart part upd (apiStatusPatch api base ob))\<rparr>"

lemma onShelf_sel [simp]:
  "apiGet (onShelf part upd api) k = onPart part upd (apiGet api k)"
  "apiList (onShelf part upd api) opts = onPart part upd (apiList api opts)"
  "apiCreate (onShelf part upd api) ob = onPart part upd (apiCreate api ob)"
  "apiUpdate (onShelf part upd api) ob = onPart part upd (apiUpdate api ob)"
  "apiDelete (onShelf part upd api) ob = onPart part upd (apiDelete api ob)"
  "apiPatch (onShelf part upd api) base ob = onPart part upd (apiPatch api base ob)"
  "apiStatusUpdate (onShelf part upd api) ob = onPart part upd (apiStatusUpdate api ob)"
  "apiStatusPatch (onShelf part upd api) base ob = onPart part upd (apiStatusPatch api base ob)"
  by (simp_all add: onShelf_def)

text \<open>The contract's view of a shelf, and the weakest \<open>rely\<close> there is.\<close>

definition shelfStored :: "'a objectMeta_scheme shelf \<Rightarrow> 'a objectMeta_scheme store" where
  "shelfStored sh = (\<lambda>k. findObj k (shStored sh))"

definition shelfKnown :: "'o shelf \<Rightarrow> 'o set" where
  "shelfKnown sh = set (shHistory sh)"

definition shelfRely ::
  "('e \<Rightarrow> 'a objectMeta_scheme shelf) \<Rightarrow>
   ('a objectMeta_scheme set \<Rightarrow> 'a objectMeta_scheme store \<Rightarrow> 'a objectMeta_scheme store \<Rightarrow> bool) \<Rightarrow>
   'e \<Rightarrow> 'e \<Rightarrow> bool" where
  "shelfRely part allowed e e' \<longleftrightarrow> (goodShelf (part e) \<longrightarrow> goodShelf (part e') \<and>
     (view_step allowed)\<^sup>*\<^sup>* (shelfStored (part e), shelfKnown (part e))
       (shelfStored (part e'), shelfKnown (part e')))"

lemma shelfRely_same:
  "part e' = part e \<Longrightarrow> shelfRely part allowed e e'"
  "part e = part e' \<Longrightarrow> shelfRely part allowed e e'"
  by (simp_all add: shelfRely_def)

locale shelf_kind =
  fixes part :: "'e \<Rightarrow> 'a objectMeta_scheme shelf"
    and upd :: "('a objectMeta_scheme shelf \<Rightarrow> 'a objectMeta_scheme shelf) \<Rightarrow> 'e \<Rightarrow> 'e"
    and ks :: "'a kindSpec"
    and main_of :: "'a objectMeta_scheme \<Rightarrow> 'm"
    and status_of :: "'a objectMeta_scheme \<Rightarrow> 'st"
    and status_zero :: 'st
    and merge_status :: "'st \<Rightarrow> 'st \<Rightarrow> 'st \<Rightarrow> 'st"
    and allowed :: "'a objectMeta_scheme set \<Rightarrow> 'a objectMeta_scheme store \<Rightarrow> 'a objectMeta_scheme store \<Rightarrow> bool"
  assumes part_upd: "part (upd f e) = f (part e)"
    and with_key: "obj_key (ksWithStatus ks s m) = obj_key m"
    and with_main: "main_of (ksWithStatus ks s m) = main_of m"
    and with_status: "status_of (ksWithStatus ks s m) = status_of s"
    and version_main: "main_of (ob\<lparr>ResourceVersion := v\<rparr>) = main_of ob"
    and version_status: "status_of (ob\<lparr>ResourceVersion := v\<rparr>) = status_of ob"
    and zero_status: "status_of (ksZero ks) = status_zero"
    and merge_law: "status_of (ksMerge ks b n c) = merge_status (status_of b) (status_of n) (status_of c)"
begin

lemma onPart_cases:
  assumes "onPart part upd op e = (r, e')"
  obtains sh' where "op (part e) = (r, sh')" "part e' = sh'"
  using assms by (auto simp: onPart_def part_upd split: prod.splits)

lemma putEffect_view:
  assumes "putEffect k ob' (part e) (part e')"
  shows "goodShelf (part e') \<and> shelfKnown (part e') = insert ob' (shelfKnown (part e)) \<and>
    shelfStored (part e') = (shelfStored (part e))(k \<mapsto> ob') \<and> obj_key ob' = k"
  using assms by (auto simp: putEffect_def shelfKnown_def shelfStored_def)

lemma create_contract:
  assumes "goodShelf (part e)" "apiCreate (onShelf part upd (shelfApi ks)) ob e = (r, e')"
  shows "case r of
      Inl _ \<Rightarrow> shelfRely part allowed e e'
    | Inr ob' \<Rightarrow> goodShelf (part e') \<and> shelfKnown (part e') = insert ob' (shelfKnown (part e)) \<and>
        obj_key ob' = obj_key ob \<and> shelfStored (part e) (obj_key ob) = None \<and>
        shelfStored (part e') = (shelfStored (part e))(obj_key ob \<mapsto> ob') \<and>
        main_of ob' = main_of ob \<and> status_of ob' = status_zero"
proof -
  obtain sh' where sh': "apiCreate (shelfApi ks) ob (part e) = (r, sh')" "part e' = sh'"
    using assms(2) by (auto elim: onPart_cases)
  show ?thesis
  proof (cases "findObj (obj_key ob) (shStored (part e))")
    case None
    let ?new = "ksWithStatus ks (ksZero ks) ob"
    obtain ob' where ob': "storeObj ?new (part e) = (ob', sh')" "r = Inr ob'"
      using sh'(1) None by (auto simp: shelfApi_def split: prod.splits)
    have "putEffect (obj_key ?new) ob' (part e) (part e')"
      using storeObj_effect [OF assms(1) ob'(1)] sh'(2) by simp
    from putEffect_view [OF this] show ?thesis
      using ob' None storeObj_good(3) [OF assms(1) ob'(1)]
      by (simp add: with_key with_main with_status version_main version_status zero_status shelfStored_def)
  next
    case (Some cur)
    then show ?thesis
      using sh' by (auto simp: shelfApi_def intro: shelfRely_same)
  qed
qed

lemma current_contract:
  assumes "goodShelf (part e)" "onPart part upd (putIfCurrent f ob) e = (r, e')"
    and "\<And>cur. obj_key cur = obj_key ob \<Longrightarrow> obj_key (f cur) = obj_key ob"
  shows "case r of
      Inl _ \<Rightarrow> shelfRely part allowed e e'
    | Inr ob' \<Rightarrow> goodShelf (part e') \<and> shelfKnown (part e') = insert ob' (shelfKnown (part e)) \<and>
        obj_key ob' = obj_key ob \<and>
        (\<exists>cur. shelfStored (part e) (obj_key ob) = Some cur \<and> ResourceVersion cur = ResourceVersion ob \<and>
           shelfStored (part e') = (shelfStored (part e))(obj_key ob \<mapsto> ob') \<and>
           main_of ob' = main_of (f cur) \<and> status_of ob' = status_of (f cur))"
proof -
  obtain sh' where sh': "putIfCurrent f ob (part e) = (r, sh')" "part e' = sh'"
    using assms(2) by (auto elim: onPart_cases)
  show ?thesis
  proof (cases r)
    case (Inl er)
    then show ?thesis
      using sh' put_Inl(2) [of f ob "part e" er sh'] by (auto intro: shelfRely_same)
  next
    case (Inr ob')
    then obtain cur where "findObj (obj_key ob) (shStored (part e)) = Some cur"
      "putEffect (obj_key ob) ob' (part e) (part e')" "ob' = (f cur)\<lparr>ResourceVersion := shVersion (part e)\<rparr>"
      "ResourceVersion cur = ResourceVersion ob"
      using putIfCurrent_Inr [where f = f, OF assms(1) _ assms(3)] sh' by blast
    then show ?thesis
      using Inr putEffect_view [of "obj_key ob" ob' e e']
      by (auto simp: version_main version_status shelfStored_def simp del: obj_key_updates)
  qed
qed

lemma over_contract:
  assumes "goodShelf (part e)" "onPart part upd (putOver f ob) e = (r, e')"
    and "\<And>cur. obj_key cur = obj_key ob \<Longrightarrow> obj_key (f cur) = obj_key ob"
  shows "case r of
      Inl _ \<Rightarrow> shelfRely part allowed e e'
    | Inr ob' \<Rightarrow> goodShelf (part e') \<and> shelfKnown (part e') = insert ob' (shelfKnown (part e)) \<and>
        obj_key ob' = obj_key ob \<and>
        (\<exists>cur. shelfStored (part e) (obj_key ob) = Some cur \<and>
           shelfStored (part e') = (shelfStored (part e))(obj_key ob \<mapsto> ob') \<and>
           main_of ob' = main_of (f cur) \<and> status_of ob' = status_of (f cur))"
proof -
  obtain sh' where sh': "putOver f ob (part e) = (r, sh')" "part e' = sh'"
    using assms(2) by (auto elim: onPart_cases)
  show ?thesis
  proof (cases r)
    case (Inl er)
    then show ?thesis
      using sh' put_Inl(1) [of f ob "part e" er sh'] by (auto intro: shelfRely_same)
  next
    case (Inr ob')
    then obtain cur where "findObj (obj_key ob) (shStored (part e)) = Some cur"
      "putEffect (obj_key ob) ob' (part e) (part e')" "ob' = (f cur)\<lparr>ResourceVersion := shVersion (part e)\<rparr>"
      using putOver_Inr [where f = f, OF assms(1) _ assms(3)] sh' by blast
    then show ?thesis
      using Inr putEffect_view [of "obj_key ob" ob' e e']
      by (auto simp: version_main version_status shelfStored_def simp del: obj_key_updates)
  qed
qed

lemma delete_contract:
  assumes "goodShelf (part e)" "apiDelete (onShelf part upd (shelfApi ks)) ob e = (r, e')"
  shows "case r of
      Inl _ \<Rightarrow> shelfRely part allowed e e'
    | Inr _ \<Rightarrow> goodShelf (part e') \<and> shelfKnown (part e') = shelfKnown (part e) \<and>
        shelfStored (part e') = (shelfStored (part e))(obj_key ob := None)"
proof -
  obtain sh' where sh': "apiDelete (shelfApi ks) ob (part e) = (r, sh')" "part e' = sh'"
    using assms(2) by (auto elim: onPart_cases)
  show ?thesis
  proof (cases "findObj (obj_key ob) (shStored (part e))")
    case None
    then show ?thesis using sh' by (auto simp: shelfApi_def intro: shelfRely_same)
  next
    case (Some cur)
    then have "r = Inr ()" "part e' = (part e)\<lparr>shStored := dropObj (obj_key ob) (shStored (part e))\<rparr>"
      using sh' by (auto simp: shelfApi_def)
    then show ?thesis
      using dropObj_good [OF assms(1)]
      by (auto simp: shelfKnown_def shelfStored_def findObj_drop)
  qed
qed

end

sublocale shelf_kind \<subseteq>
  object_writes "onShelf part upd (shelfApi ks)" "ksIndex ks" "shelfRely part allowed"
    "\<lambda>e. goodShelf (part e)" "\<lambda>e. shelfStored (part e)" "\<lambda>e. shelfKnown (part e)" allowed
    main_of status_of status_zero merge_status
proof (unfold_locales, goal_cases)
  case (1 e e')
  then show ?case by (simp add: shelfRely_def)
next
  case (2 e e')
  then show ?case by (simp add: shelfRely_def)
next
  case (3 e k ob)
  then show ?case
    using findObj_key [of k "shStored (part e)" ob] by (auto simp: shelfStored_def shelfKnown_def goodShelf_def)
next
  case (4 e ob ob')
  then show ?case using goodShelf_versions by (auto simp: shelfKnown_def)
next
  case (5 e k r e')
  then show ?case
    using findObj_key [of k "shCached (part e)"]
    by (fastforce simp: shelfApi_def shelfKnown_def goodShelf_def elim!: onPart_cases
        intro: shelfRely_same split: option.splits)
next
  case (6 e opts r e')
  then show ?case
    by (auto simp: shelfApi_def shelfKnown_def goodShelf_def list_all_iff elim!: onPart_cases
        intro: shelfRely_same)
next
  case (7 e ob r e')
  then show ?case by (rule create_contract)
next
  case (8 e ob r e')
  then show ?case
    using current_contract [of e "\<lambda>cur. ksWithStatus ks cur ob" ob r e']
    by (auto simp: shelfApi_def with_key with_main with_status split: sum.splits)
next
  case (9 e ob r e')
  then show ?case by (rule delete_contract)
next
  case (10 e ob r e')
  then show ?case
    using current_contract [of e "\<lambda>cur. ksWithStatus ks ob cur" ob r e']
    by (auto simp: shelfApi_def with_key with_main with_status split: sum.splits)
next
  case (11 e base ob r e')
  then show ?case
    using over_contract [of e "\<lambda>cur. ksWithStatus ks (ksMerge ks base ob cur) cur" ob r e']
    by (auto simp: shelfApi_def with_key with_main with_status merge_law split: sum.splits)
qed

subsection \<open>The kinds\<close>

text \<open>A merge patch of a label map: the keys that changed between base and argument.\<close>

definition mergeLabels :: "labels \<Rightarrow> labels \<Rightarrow> labels \<Rightarrow> labels" where
  "mergeLabels b n c =
     (if n = None \<and> c = None then None
      else Some (\<lambda>k. merged (lookup_label b k) (lookup_label n k) (lookup_label c k)))"

definition podKind where
  "podKind = \<lparr>
     ksWithStatus = (\<lambda>s m :: pod. m\<lparr>podPhase := podPhase s, podIP := podIP s, podStartTime := podStartTime s\<rparr>),
     ksZero = objectMeta.extend zeroMeta \<lparr>podPhase = '''', podIP = '''', podStartTime = None\<rparr>,
     ksMerge = (\<lambda>b n c. c\<lparr>Labels := mergeLabels (Labels b) (Labels n) (Labels c)\<rparr>),
     ksIndex = (\<lambda>f p. [])\<rparr>"

definition deploymentKind where
  "deploymentKind = \<lparr>
     ksWithStatus = (\<lambda>s m :: deployment. m\<lparr>depStatusReplicas := depStatusReplicas s,
       depStatusReady := depStatusReady s, depStatusAvailable := depStatusAvailable s,
       depStatusUpdated := depStatusUpdated s\<rparr>),
     ksZero = zeroDeployment,
     ksMerge = (\<lambda>b n c. c\<lparr>Labels := mergeLabels (Labels b) (Labels n) (Labels c)\<rparr>),
     ksIndex = (\<lambda>f d. [])\<rparr>"

definition replicaSetKind where
  "replicaSetKind = \<lparr>
     ksWithStatus = (\<lambda>s m :: replicaSet. m\<lparr>rsStatusReplicas := rsStatusReplicas s,
       rsStatusReady := rsStatusReady s, rsStatusAvailable := rsStatusAvailable s\<rparr>),
     ksZero = zeroReplicaSet,
     ksMerge = (\<lambda>b n c. c\<lparr>Labels := mergeLabels (Labels b) (Labels n) (Labels c)\<rparr>),
     ksIndex = (\<lambda>f d. [])\<rparr>"

definition namespaceKind where
  "namespaceKind = \<lparr>ksWithStatus = (\<lambda>s m :: namespaceObj. m), ksZero = zeroMeta,
     ksMerge = (\<lambda>b n c. c\<lparr>Labels := mergeLabels (Labels b) (Labels n) (Labels c)\<rparr>),
     ksIndex = (\<lambda>f d. [])\<rparr>"

definition opsConfigInfoKind where
  "opsConfigInfoKind = \<lparr>ksWithStatus = (\<lambda>s m :: opsConfigInfo. m), ksZero = zeroOpsConfigInfo,
     ksMerge = (\<lambda>b n c. c\<lparr>Labels := mergeLabels (Labels b) (Labels n) (Labels c)\<rparr>),
     ksIndex = (\<lambda>f d. [])\<rparr>"

definition changePodKind where
  "changePodKind = \<lparr>ksWithStatus = (\<lambda>s m :: changePod. m\<lparr>cpStatus := cpStatus s\<rparr>), ksZero = zeroChangePod,
     ksMerge = (\<lambda>b n c. c\<lparr>Labels := mergeLabels (Labels b) (Labels n) (Labels c),
       cpStatus := mergeChangePodStatus (cpStatus b) (cpStatus n) (cpStatus c)\<rparr>),
     ksIndex = changePodIndex\<rparr>"

definition changeWorkloadKind where
  "changeWorkloadKind = \<lparr>ksWithStatus = (\<lambda>s m :: changeWorkload. m\<lparr>cwStatus := cwStatus s\<rparr>),
     ksZero = zeroChangeWorkload,
     ksMerge = (\<lambda>b n c. c\<lparr>Labels := mergeLabels (Labels b) (Labels n) (Labels c),
       cwStatus := mergeChangeWorkloadStatus (cwStatus b) (cwStatus n) (cwStatus c)\<rparr>),
     ksIndex = changeWorkloadIndex\<rparr>"

subsection \<open>The cluster\<close>

record cluster =
  clPods :: "pod shelf"
  clDeployments :: "deployment shelf"
  clReplicaSets :: "replicaSet shelf"
  clNamespaces :: "namespaceObj shelf"
  clWorkloads :: "changeWorkload shelf"
  clChangePods :: "changePod shelf"
  clConfigs :: "opsConfigInfo shelf"
  clNow :: int
  clHttp :: "(error + (error + string)) list"
  clSent :: "httpRequest list"

definition syncCluster :: "cluster \<Rightarrow> cluster" where
  "syncCluster e = e\<lparr>clPods := syncShelf (clPods e), clDeployments := syncShelf (clDeployments e),
     clReplicaSets := syncShelf (clReplicaSets e), clNamespaces := syncShelf (clNamespaces e),
     clWorkloads := syncShelf (clWorkloads e), clChangePods := syncShelf (clChangePods e),
     clConfigs := syncShelf (clConfigs e)\<rparr>"

definition clusterHttp :: "httpRequest \<Rightarrow> cluster \<Rightarrow> (error + (error + string)) \<times> cluster" where
  "clusterHttp req e =
     (let e' = e\<lparr>clSent := clSent e @ [req]\<rparr>
      in case clHttp e of
           [] \<Rightarrow> (Inl refusedError, e')
         | a # as \<Rightarrow> (a, e'\<lparr>clHttp := as\<rparr>))"

text \<open>A response body is \<open>node:\<close> and the node id; anything else does not decode.\<close>

definition clusterUnmarshal :: "string \<Rightarrow> opsCloudResult \<times> error option" where
  "clusterUnmarshal s = (case strip_prefix ''node:'' s of
      None \<Rightarrow> (zeroResult, Some (plain_error ''invalid character''))
    | Some i \<Rightarrow> (\<lparr>resSuccess = True, resResultCode = '''', resMsg = '''',
        resDomain = GMap [(''nodeId'', GString i)]\<rparr>, None))"

definition clusterEnv :: "cluster env" where
  "clusterEnv = \<lparr>
     podApi = onShelf clPods clPods_update (shelfApi podKind),
     deploymentApi = onShelf clDeployments clDeployments_update (shelfApi deploymentKind),
     replicaSetApi = onShelf clReplicaSets clReplicaSets_update (shelfApi replicaSetKind),
     namespaceApi = onShelf clNamespaces clNamespaces_update (shelfApi namespaceKind),
     changeWorkloadApi = onShelf clWorkloads clWorkloads_update (shelfApi changeWorkloadKind),
     changePodApi = onShelf clChangePods clChangePods_update (shelfApi changePodKind),
     opsConfigInfoApi = onShelf clConfigs clConfigs_update (shelfApi opsConfigInfoKind),
     nowNs = (\<lambda>e. (clNow e, e)),
     tzOffset = 0,
     sleepFor = (\<lambda>d w. w\<lparr>wExt := (syncCluster (wExt w))\<lparr>clNow := clNow (wExt w) + d\<rparr>\<rparr>),
     refChangeWorkload = (\<lambda>d cw. Inr (cw\<lparr>OwnerReferences := [\<lparr>refKind = DeploymentKind, refName = Name d\<rparr>]\<rparr>)),
     refChangePod = (\<lambda>cw cp. Inr (cp\<lparr>OwnerReferences := [\<lparr>refKind = ''ChangeWorkload'', refName = Name cw\<rparr>]\<rparr>)),
     httpDo = clusterHttp,
     unmarshalResult = clusterUnmarshal,
     marshalTemplate = (\<lambda>t. Inr (tmplBody t @ get_label (tmplLabels t) AdmissionWebhookVersionLabel)),
     marshalDeployment = (\<lambda>d. None),
     mapOrder = (\<lambda>ks. ks)\<rparr>"

subsection \<open>The cluster keeps the contracts\<close>

lemma other_shelf_harmless:
  assumes "\<And>f e. part (upd f e) = part e"
  shows "harmless_kind (shelfRely part allowed) good (onShelf part' upd api)"
  using assms
  by (auto simp: harmless_kind_def harmless_def onPart_def case_prod_beta intro: shelfRely_same)

lemma clock_harmless: "harmless (shelfRely part allowed) good (\<lambda>e. (f e, e))"
  by (simp add: harmless_def shelfRely_same)

lemma sync_rely: "part e' = syncShelf (part e) \<Longrightarrow> shelfRely part allowed e e'"
  by (simp add: shelfRely_def syncShelf_good)
    (simp add: shelfStored_def shelfKnown_def syncShelf_def)

interpretation changePodShelf: shelf_kind clChangePods clChangePods_update changePodKind
    changePod_main cpStatus zeroChangePodStatus mergeChangePodStatus podSteps
  by unfold_locales
    (simp_all add: changePodKind_def changePod_main_def obj_key_def zeroChangePod_def zeroMeta_def
      objectMeta.extend_def)

interpretation workloadShelf: shelf_kind clWorkloads clWorkloads_update changeWorkloadKind
    workload_main cwStatus zeroChangeWorkloadStatus mergeChangeWorkloadStatus workloadTrans
  by unfold_locales
    (simp_all add: changeWorkloadKind_def workload_main_def obj_key_def zeroChangeWorkload_def zeroMeta_def
      objectMeta.extend_def)

interpretation clusterPods: changePod_world clusterEnv "shelfRely clChangePods podSteps"
    "\<lambda>e. goodShelf (clChangePods e)" "\<lambda>e. shelfStored (clChangePods e)" "\<lambda>e. shelfKnown (clChangePods e)"
proof -
  have api: "changePodApi clusterEnv = onShelf clChangePods clChangePods_update (shelfApi changePodKind)"
    "changePodIndex = ksIndex changePodKind"
    by (simp_all add: clusterEnv_def changePodKind_def)
  show "changePod_world clusterEnv (shelfRely clChangePods podSteps) (\<lambda>e. goodShelf (clChangePods e))
      (\<lambda>e. shelfStored (clChangePods e)) (\<lambda>e. shelfKnown (clChangePods e))"
    unfolding changePod_world_def api
    by (intro conjI changePodShelf.object_writes_axioms changePod_world_axioms.intro)
      (auto simp: clusterEnv_def clusterHttp_def Let_def harmless_def syncCluster_def clock_harmless
        split: list.split intro: shelfRely_same sync_rely other_shelf_harmless)
qed

interpretation clusterWorkloads: workload_world clusterEnv "shelfRely clWorkloads workloadTrans"
    "\<lambda>e. goodShelf (clWorkloads e)" "\<lambda>e. shelfStored (clWorkloads e)" "\<lambda>e. shelfKnown (clWorkloads e)"
proof -
  have api: "changeWorkloadApi clusterEnv = onShelf clWorkloads clWorkloads_update (shelfApi changeWorkloadKind)"
    "changeWorkloadIndex = ksIndex changeWorkloadKind"
    by (simp_all add: clusterEnv_def changeWorkloadKind_def)
  show "workload_world clusterEnv (shelfRely clWorkloads workloadTrans) (\<lambda>e. goodShelf (clWorkloads e))
      (\<lambda>e. shelfStored (clWorkloads e)) (\<lambda>e. shelfKnown (clWorkloads e))"
    unfolding workload_world_def api
    by (intro conjI workloadShelf.object_writes_axioms workload_world_axioms.intro)
      (auto simp: clusterEnv_def clusterHttp_def Let_def harmless_def syncCluster_def clock_harmless
        split: list.split intro: shelfRely_same sync_rely other_shelf_harmless)
qed

text \<open>The requests sent are a counter of the HTTP calls.\<close>

interpretation clusterRequests: request_counter clusterEnv "\<lambda>e. length (clSent e)"
  by unfold_locales
    (auto simp: clusterEnv_def clusterHttp_def syncCluster_def Let_def split: list.splits)

end
