(* ===== verification/Samples.thy ===== *)
theory Samples
  imports Kube_Store
begin

section \<open>Sample objects and clusters\<close>

text \<open>
  Small concrete clusters on which the properties are exercised: one Deployment \<open>app\<close> of
  version \<open>v1\<close> in the namespace \<open>default\<close>, its ChangeWorkload, a ChangePod and two pods.
\<close>

definition shelfOf :: "'a objectMeta_scheme list \<Rightarrow> 'a objectMeta_scheme shelf" where
  "shelfOf obs = \<lparr>shStored = obs, shCached = obs, shHistory = obs, shVersion = 9\<rparr>"

definition emptyCluster :: cluster where
  "emptyCluster = \<lparr>clPods = shelfOf [], clDeployments = shelfOf [], clReplicaSets = shelfOf [],
     clNamespaces = shelfOf [], clWorkloads = shelfOf [], clChangePods = shelfOf [],
     clConfigs = shelfOf [], clNow = 1000 * second, clHttp = [], clSent = []\<rparr>"

definition readyConfig :: configState where
  "readyConfig = configRun [IsBatchMsg False, BatchCountMsg 1, IsBlockingUpMsg True] initialConfig"

definition worldOf :: "cluster \<Rightarrow> cluster world" where
  "worldOf e = \<lparr>wConfig = readyConfig, wExt = e\<rparr>"

definition sampleLabels :: labels where
  "sampleLabels = Some [DeploymentNameLabel \<mapsto> ''app'', AdmissionWebhookVersionLabel \<mapsto> ''v1'']"

definition samplePod :: "string \<Rightarrow> nat \<Rightarrow> pod" where
  "samplePod n v = objectMeta.extend
     \<lparr>Namespace = ''default'', Name = n,
      Labels = Some [AdmissionWebhookVersionLabel \<mapsto> ''v1'', OperateFinishedLabel \<mapsto> ''900''],
      OwnerReferences = [], ResourceVersion = v\<rparr>
     \<lparr>podPhase = ''Running'', podIP = ''10.0.0.1'', podStartTime = Some 0\<rparr>"

definition sampleWorkload :: "string \<Rightarrow> changeWorkload" where
  "sampleWorkload st = zeroChangeWorkload
     \<lparr>Namespace := ''default'', Name := ''app--x--v1'', Labels := sampleLabels, ResourceVersion := 0,
      OwnerReferences := [\<lparr>refKind = DeploymentKind, refName = ''app''\<rparr>],
      cwSpec := (cwSpec zeroChangeWorkload)\<lparr>cwChangeWorkloadId := ''app--x--v1'', cwCountThreshold := 1\<rparr>,
      cwStatus := zeroChangeWorkloadStatus\<lparr>cwStatusStatus := st\<rparr>\<rparr>"

definition sampleSummary :: "string \<Rightarrow> podSummary" where
  "sampleSummary n = \<lparr>psApp = ''app'', psHostname = n, psWorkspace = ''default'', psPod = n,
     psIp = ''10.0.0.1'', psNamespace = ''default'', psVerdict = '''', psMessage = ''''\<rparr>"

definition sampleChangePod :: "string \<Rightarrow> podSummary list \<Rightarrow> nat \<Rightarrow> changePod" where
  "sampleChangePod st infos v = zeroChangePod
     \<lparr>Namespace := ''default'', Name := ''app--x--v1--x--1'', Labels := sampleLabels, ResourceVersion := v,
      cpSpec := (cpSpec zeroChangePod)\<lparr>cpChangeWorkloadId := ''app--x--v1'', cpPodInfos := infos\<rparr>,
      cpStatus := zeroChangePodStatus\<lparr>cpStatusStatus := st, cpChangePodId := ''7''\<rparr>\<rparr>"

definition sampleDeployment :: "labels \<Rightarrow> deployment" where
  "sampleDeployment l = zeroDeployment
     \<lparr>Namespace := ''default'', Name := ''app'', Labels := l, depReplicas := Some 2,
      depTemplate := \<lparr>tmplLabels = Some [''app'' \<mapsto> ''app''], tmplBody = ''image: app''\<rparr>\<rparr>"

lemma sampleDeployment_simps [simp]:
  "Labels (sampleDeployment l) = l" "Name (sampleDeployment l) = ''app''"
  "(sampleDeployment l)\<lparr>Labels := l'\<rparr> = sampleDeployment l'"
  "tmplLabels (depTemplate (sampleDeployment l)) \<noteq> None"
  by (simp_all add: sampleDeployment_def)

definition sampleKey :: namespacedName where
  "sampleKey = \<lparr>nnNamespace = ''default'', nnName = ''app--x--v1--x--1''\<rparr>"

text \<open>A cluster with the ChangePod in a given status.\<close>

definition sampleCluster :: "string \<Rightarrow> podSummary list \<Rightarrow> cluster" where
  "sampleCluster st infos = emptyCluster
     \<lparr>clPods := shelfOf [samplePod ''p0'' 0, samplePod ''p1'' 1],
      clWorkloads := shelfOf [sampleWorkload Running],
      clDeployments := shelfOf [sampleDeployment sampleLabels],
      clChangePods := shelfOf [sampleChangePod st infos 0]\<rparr>"

lemmas sample_defs = shelfOf_def emptyCluster_def worldOf_def sampleLabels_def samplePod_def
  sampleWorkload_def sampleSummary_def sampleChangePod_def sampleDeployment_def sampleKey_def
  sampleCluster_def zero_defs

lemma goodShelf_single: "ResourceVersion ob < 9 \<Longrightarrow> goodShelf (shelfOf [ob])"
  by (simp add: goodShelf_def shelfOf_def)

lemma shelfOf_single [simp]:
  "shelfStored (shelfOf [ob]) = [obj_key ob \<mapsto> ob]"
  "shelfKnown (shelfOf [ob]) = {ob}"
  by (auto simp: shelfStored_def shelfKnown_def shelfOf_def fun_eq_iff)

lemma sampleCluster_changePods [simp]:
  "clChangePods (sampleCluster st infos) = shelfOf [sampleChangePod st infos 0]"
  "goodShelf (shelfOf [sampleChangePod st infos 0])"
  by (simp_all add: sampleCluster_def sampleChangePod_def goodShelf_single)

lemma sampleCluster_workloads [simp]:
  "clWorkloads (sampleCluster st infos) = shelfOf [sampleWorkload Running]"
  "goodShelf (shelfOf [sampleWorkload s])"
  by (simp_all add: sampleCluster_def sampleWorkload_def goodShelf_single)

lemma samplePods_inv:
  assumes "st \<in> {ExecuteInit, PreWait, PostWait}"
  shows "podViewInv ([obj_key (sampleChangePod st infos 0) \<mapsto> sampleChangePod st infos 0],
    {sampleChangePod st infos 0})"
  using assms
  by (auto simp: podViewInv_def podsInv_def statusInv_def statuses_def sampleChangePod_def
      changePod_status_defs split: if_splits)

lemma sampleWorkloads_inv:
  assumes "st \<in> {Init, Running, Success, Suspend}"
  shows "workloadViewInv ([obj_key (sampleWorkload st) \<mapsto> sampleWorkload st], {sampleWorkload st})"
  using assms
  by (auto simp: workloadViewInv_def workloadsInv_def workloadInv_def sampleWorkload_def
      zeroChangeWorkloadStatus_def split: if_splits)

end
