(* ===== verification/Utility_Properties.thy ===== *)
theory Utility_Properties
  imports Samples Process_Utils
begin

section \<open>Properties of the client, the helpers and the configuration\<close>

text \<open>
  The retry loop of the control-plane client, the helper functions of
  \<open>controllers/utils\<close>, the dynamic configuration, the object factories and the process
  helpers, each followed by an instance on concrete values.
\<close>

subsection \<open>The control-plane client\<close>

text \<open>
  C37 (bounds). Whatever the transport answers, one call of \<open>doPost\<close> sends
  at most five requests: the loop tries again while the counter is at most
  \<open>MaxRetryCount = 3\<close>, so there are four retries, not three. When every request fails, it
  sends exactly five and returns the error of the last.
\<close>

theorem doPost_request_bound:
  assumes "request_counter env sent"
  shows "sent (wExt (snd (doPost env uri request w))) \<le> sent (wExt w) + 5 \<and>
    ((\<forall>rq e. fst (httpDo env rq e) = Inl err) \<longrightarrow>
       fst (doPost env uri request w) = Err err \<and>
       sent (wExt (snd (doPost env uri request w))) = sent (wExt w) + 5)"
  using request_counter.doPost_bound [OF assms] request_counter.doPost_all_fail [OF assms] by blast

theorem doPost_request_bound_witness:
  "fst (doPost deadLink ''u'' JNull \<lparr>wConfig = initialConfig, wExt = 0\<rparr>) = Err refusedError \<and>
   wExt (snd (doPost deadLink ''u'' JNull \<lparr>wConfig = initialConfig, wExt = 0\<rparr>)) = 5"
  using doPost_request_bound [OF deadLink.request_counter_axioms, where err = refusedError and uri = "''u''" and
      request = JNull and w = "\<lparr>wConfig = initialConfig, wExt = 0\<rparr>"]
  by (simp add: deadLink_def)

text \<open>
  A service call returns, with a result or an error: it
  neither panics nor hangs; and a result it returns carries the success flag.
\<close>

theorem service_call_returns:
  "returned (fst (serviceTemplate env request action w)) \<and>
   (case fst (serviceTemplate env request action w) of Ok result \<Rightarrow> resSuccess result | _ \<Rightarrow> True)"
  using serviceTemplate_returns [of env request action w] serviceTemplate_success [of env request action w]
  by (auto split: outcome.split)

subsection \<open>Thresholds\<close>

text \<open>
  C34 (bounds). For a positive 32-bit replica count and a positive percentage the
  batch size lies between zero and the replica count, and it is zero exactly when the percentage
  amounts to less than one replica: the guard for small results tests \<open>result < 0\<close>, so the
  intended minimum of one is not kept.
\<close>

theorem Percent_range:
  assumes "int32 v" "0 < v" "0 < p"
  shows "0 \<le> Percent v p \<and> Percent v p \<le> v \<and> (Percent v p = 0 \<longleftrightarrow> v * p < 100)"
proof (cases "p \<le> 100")
  case True
  have "0 < v * p"
    using assms by simp
  then have "v * p div 100 = 0 \<longleftrightarrow> v * p < 100"
    unfolding zdiv_eq_0_iff by linarith
  then show ?thesis
    using Percent_bounds [OF assms] Percent_exact [OF assms True] by simp
next
  case False
  then have "100 < p" by simp
  moreover have "p \<le> v * p"
    using mult_right_mono [of 1 v p] assms by simp
  ultimately have "\<not> v * p < 100"
    by linarith
  then show ?thesis
    using assms False by (simp add: Percent_def NumberZero_def NumberOneHundred_def)
qed

theorem Percent_range_witness: "Percent 5 10 = 0 \<and> Percent 5 50 \<le> 5"
  using Percent_range [of 5 10] Percent_range [of 5 50] by (simp add: int32_def)

subsection \<open>Pod summaries\<close>

text \<open>
  \<open>RemoveDuplicatePod\<close> keeps, of the summaries
  whose pod still exists, exactly one per pod name, and that is the first one.
\<close>

theorem RemoveDuplicatePod_spec:
  "distinct (map psPod (RemoveDuplicatePod arr podMap)) \<and>
   psPod ` set (RemoveDuplicatePod arr podMap) = {psPod v |v. v \<in> set arr \<and> podMap (psPod v) \<noteq> None} \<and>
   list_all (\<lambda>v. List.find (\<lambda>u. psPod u = psPod v) arr = Some v) (RemoveDuplicatePod arr podMap)"
  using RemoveDuplicatePod_distinct RemoveDuplicatePod_pods RemoveDuplicatePod_first [of _ arr podMap]
  by (auto simp: list_all_iff)

text \<open>
  C33 (equivalence). On lists that name every pod once, as
  \<open>RemoveDuplicatePod\<close> makes them, the map-based comparison decides equality up to order.
\<close>

theorem IsPodSummarySliceEqual_spec:
  assumes "distinct (map psPod a)" "distinct (map psPod b)"
  shows "IsPodSummarySliceEqual a b \<longleftrightarrow> mset a = mset b"
  by (rule IsPodSummarySliceEqual_mset [OF assms])

theorem IsPodSummarySliceEqual_spec_witness:
  "IsPodSummarySliceEqual [sampleSummary ''p0'', sampleSummary ''p1''] [sampleSummary ''p1'', sampleSummary ''p0'']"
  using IsPodSummarySliceEqual_spec
    [of "[sampleSummary ''p0'', sampleSummary ''p1'']" "[sampleSummary ''p1'', sampleSummary ''p0'']"]
  by (simp add: sampleSummary_def)

subsection \<open>Request names\<close>

text \<open>
  C32 (roundtrip). The request that a pod or ChangePod event enqueues
  is recognised as being of its kind and of no other, and decodes to the key of the object,
  also when the object's name contains the separator.
\<close>

theorem request_names_roundtrip:
  "GetPodRequestFromPodNameSpaceName (GetPodNameSpaceNameFromPod p) = obj_key p \<and>
   IsPodResourceType (GetResourceTypeFromNamespaceName (GetPodNameSpaceNameFromPod p)) \<and>
   GetPodRequestFromPodNameSpaceName (GetChangePodNameSpaceNameFromChangePod cp) = obj_key cp \<and>
   IsChangePodResourceType (GetResourceTypeFromNamespaceName (GetChangePodNameSpaceNameFromChangePod cp)) \<and>
   \<not> IsPodResourceType (GetResourceTypeFromNamespaceName (GetChangePodNameSpaceNameFromChangePod cp))"
  by (simp add: podRequest_of_pod podRequest_of_changePod resourceType_of_pod resourceType_of_changePod
      IsPodResourceType_def IsChangePodResourceType_def resourceTypes_differ [symmetric])

subsection \<open>Configuration\<close>

text \<open>
  C35 (functional). Reconciling an OpsConfigInfo changes the dynamic
  configuration exactly by the messages the object stands for, when the read succeeds, and not
  at all when it fails: an object in another namespace, of an unknown type or with an unknown
  name sends nothing.
\<close>

theorem OpsConfigInfo_applies:
  "wConfig (snd (OpsConfigInfo_Reconcile env req w)) =
     (case fst (apiGet (opsConfigInfoApi env) req (wExt w)) of
        Inl err \<Rightarrow> wConfig w
      | Inr oci \<Rightarrow> configRun (configMessages oci) (wConfig w))"
  by (rule OpsConfigInfo_Reconcile_config)

text \<open>
  After any sequence of messages each flag tells whether its
  variable was ever received, and the batch switch has the value received last.
\<close>

theorem configRun_last:
  "configIsBatch (configRun ms initialConfig) = lastIsBatch False ms \<and>
   (configIsBatchIsReady (configRun ms initialConfig) \<longleftrightarrow> (\<exists>b. IsBatchMsg b \<in> set ms)) \<and>
   (configBatchCountReady (configRun ms initialConfig) \<longleftrightarrow> (\<exists>n. BatchCountMsg n \<in> set ms)) \<and>
   (configIsBlockingUpIsReady (configRun ms initialConfig) \<longleftrightarrow> (\<exists>b. IsBlockingUpMsg b \<in> set ms))"
  by (simp add: configRun_isBatch configRun_ready initialConfig_def)

text \<open>
  C36 (termination). \<open>ConfigIsBatch\<close> returns exactly when some
  number of one-second sleeps ends with the flag raised; then it has slept the least such
  number of times and returns the value of that moment. Otherwise it never returns.
\<close>

theorem ConfigIsBatch_terminates:
  defines "raised \<equiv> \<lambda>env w n. configIsBatchIsReady (wConfig ((sleepFor env second ^^ n) w))"
  shows "fst (ConfigIsBatch env w) =
    (if \<exists>n. raised env w n
     then Ok (configIsBatch (wConfig ((sleepFor env second ^^ (LEAST n. raised env w n)) w)))
     else Hang)"
proof (cases "\<exists>n. raised env w n")
  case True
  define n where "n = (LEAST n. raised env w n)"
  have "raised env w n" "\<And>m. m < n \<Longrightarrow> \<not> raised env w m"
    using True unfolding n_def by (auto intro: LeastI_ex dest: not_less_Least)
  then have "ConfigIsBatch env w = (let v = (sleepFor env second ^^ n) w in (Ok (configIsBatch (wConfig v)), v))"
    by (intro ConfigIsBatch_after) (auto simp: raised_def)
  then show ?thesis
    using True by (simp add: Let_def n_def)
next
  case False
  then have "pollReady env configIsBatchIsReady configIsBatch w = None"
    unfolding raised_def by (metis pollReady_Some not_None_eq prod.collapse)
  then show ?thesis
    unfolding ConfigIsBatch_def polled_def using False by (simp only: option.case fst_conv if_False)
qed

subsection \<open>Factories\<close>

text \<open>
  Two ChangePods made for one ChangeWorkload have the
  same name only for the same number; each is in the ChangeWorkload's namespace, points back to
  it, carries its version label, and starts in \<open>ExecuteInit\<close> with no pods.
\<close>

theorem ChangePodFactory_contract:
  assumes "ChangePodFactory_NewInstance env fac v = (Ok cp, v')"
    and "ChangePodFactory_NewInstance env' fac' w = (Ok cp', w')"
    and "facChangeWorkload fac' = facChangeWorkload fac"
  shows "(Name cp = Name cp' \<longleftrightarrow> facChangePodNum fac = facChangePodNum fac') \<and>
    Namespace cp = Namespace (facChangeWorkload fac) \<and>
    cpChangeWorkloadId (cpSpec cp) = Name (facChangeWorkload fac) \<and>
    get_label (Labels cp) AdmissionWebhookVersionLabel =
      get_label (Labels (facChangeWorkload fac)) AdmissionWebhookVersionLabel \<and>
    cpStatus cp = zeroChangePodStatus \<and> changePodState cp = ExecuteInit \<and> cpPodInfos (cpSpec cp) = []"
proof -
  have name: "Name cp = Name (facChangeWorkload fac) @ MetaMark @ itoa (facChangePodNum fac + 1)"
    "Name cp' = Name (facChangeWorkload fac') @ MetaMark @ itoa (facChangePodNum fac' + 1)"
    using assms(1,2) by (auto elim!: ChangePodFactory_result)
  have "Name cp = Name cp' \<longleftrightarrow> facChangePodNum fac = facChangePodNum fac'"
    unfolding name assms(3) changePod_names_inject by simp
  moreover have "Namespace cp = Namespace (facChangeWorkload fac) \<and>
      cpChangeWorkloadId (cpSpec cp) = Name (facChangeWorkload fac) \<and>
      cpStatus cp = zeroChangePodStatus \<and> changePodState cp = ExecuteInit \<and> cpPodInfos (cpSpec cp) = []"
    using assms(1) by (auto simp: zero_defs ExecuteInit_def elim!: ChangePodFactory_result)
  ultimately show ?thesis
    using podFactory.made_version [OF assms(1)] by (simp add: zeroChangePodStatus_def ExecuteInit_def)
qed

theorem ChangePodFactory_contract_witness:
  defines "made n \<equiv> ChangePodFactory_NewInstance clusterEnv
    \<lparr>facChangeWorkload = sampleWorkload Running, facChangePodNum = n\<rparr> (worldOf emptyCluster)"
  shows "(case (fst (made 0), fst (made 1)) of (Ok a, Ok b) \<Rightarrow> Name a \<noteq> Name b | _ \<Rightarrow> False)"
proof -
  obtain a e where a: "made 0 = (Ok a, (worldOf emptyCluster)\<lparr>wExt := e\<rparr>)"
    unfolding made_def by (rule ChangePodFactory_returns)
  obtain b e' where b: "made 1 = (Ok b, (worldOf emptyCluster)\<lparr>wExt := e'\<rparr>)"
    unfolding made_def by (rule ChangePodFactory_returns)
  show ?thesis
    using ChangePodFactory_contract [OF a [unfolded made_def] b [unfolded made_def]] a b by simp
qed

subsection \<open>Environment cache\<close>

text \<open>
  Once \<open>Get\<close> has returned a non-empty value for a key, every
  later \<open>Get\<close> of it returns the same value, whatever the environment has become.
\<close>

theorem EnvCache_sticky:
  assumes "EnvCache_Get getenv key cache = (Ok value, cache')" "value \<noteq> ''''"
  shows "EnvCache_Get getenv' key cache' = (Ok value, cache')"
  using assms by (cases cache) (auto simp: EnvCache_Get_def Let_def split: option.splits if_splits)

theorem EnvCache_sticky_witness:
  "EnvCache_Get (\<lambda>_. ''new'') ''K'' (snd (EnvCache_Get (\<lambda>_. ''old'') ''K'' (Some Map.empty))) =
     (Ok ''old'', Some [''K'' \<mapsto> ''old''])"
  using EnvCache_sticky [of "\<lambda>_. ''old''" "''K''" "Some Map.empty" "''old''" "Some [''K'' \<mapsto> ''old'']" "\<lambda>_. ''new''"]
  by (simp add: EnvCache_Get_def Let_def)

end
