(* ===== verification/Webhook_Properties.thy ===== *)
theory Webhook_Properties
  imports Samples
begin

section \<open>Properties of the admission webhook and of suspension\<close>

text \<open>
  The mutator gives a Deployment the hash of its template as version, the validator refuses
  changes of a suspended Deployment, and the ChangeWorkload controller sets and removes the
  label that suspends. The properties are about each and about how the three fit together.
\<close>

subsection \<open>Label edits\<close>

lemma put_label_alloc [simp]: "has_label l k \<Longrightarrow> l \<noteq> None"
  by (cases l) auto

lemma get_put_label [simp]: "l \<noteq> None \<Longrightarrow> get_label (put_label k v l) k = v"
  by (simp add: get_label_def)

lemma has_put_label [simp]:
  "l \<noteq> None \<Longrightarrow> has_label (put_label k v l) k' \<longleftrightarrow> k' = k \<or> has_label l k'"
  by (simp add: has_label_def)

lemma has_delete_label [simp]: "has_label (delete_label k l) k' \<longleftrightarrow> k' \<noteq> k \<and> has_label l k'"
  by (simp add: has_label_def)

lemma delete_put_delete [simp]:
  "delete_label k (put_label k v (delete_label k l)) = delete_label k l"
  by (cases l) (simp_all add: delete_label_def put_label_def)

lemma delete_delete [simp]: "delete_label k (delete_label k l) = delete_label k l"
  by (cases l) (simp_all add: delete_label_def)

subsection \<open>The mutator\<close>

text \<open>The version the mutator computes: the hash of the template without its version label.\<close>

definition unversioned :: "podTemplate \<Rightarrow> podTemplate" where
  "unversioned t = t\<lparr>tmplLabels := delete_label AdmissionWebhookVersionLabel (tmplLabels t)\<rparr>"

lemma getDeploymentTemplateHash_eq:
  "getDeploymentTemplateHash env d =
     (case marshalTemplate env (unversioned (depTemplate d)) of
        Inl err \<Rightarrow> (Inl err, d\<lparr>depTemplate := unversioned (depTemplate d)\<rparr>)
      | Inr js \<Rightarrow> (Inr (hex_encode (md5_sum js)), d\<lparr>depTemplate := unversioned (depTemplate d)\<rparr>))"
  by (simp add: getDeploymentTemplateHash_def unversioned_def Let_def split: sum.split)

text \<open>All ends of the mutator, with the Deployment it answers with.\<close>

lemma Mutator_Handle_eq:
  "Mutator_Handle env req w =
     (case admObject req of
        Inl err \<Rightarrow> (Ok (Errored 400 err), w)
      | Inr d \<Rightarrow>
          (case marshalTemplate env (unversioned (depTemplate d)) of
             Inl err \<Rightarrow> (Ok (Errored 500 err), w)
           | Inr js \<Rightarrow>
               let h = hex_encode (md5_sum js);
                   d' = d\<lparr>Labels := put_label AdmissionWebhookVersionLabel h
                            (delete_label DefenseStatusLabel (Labels d)),
                          depTemplate := (unversioned (depTemplate d))\<lparr>tmplLabels :=
                            put_label AdmissionWebhookVersionLabel h (tmplLabels (unversioned (depTemplate d)))\<rparr>\<rparr>
               in if get_label (Labels d) AdmissionWebhookVersionLabel = h then (Ok (Allowed ''''), w)
                  else if Labels d = None \<or> tmplLabels (depTemplate d) = None then (Panic, w)
                  else (case marshalDeployment env d' of
                          Some err \<Rightarrow> (Ok (Errored 500 err), w)
                        | None \<Rightarrow> (Ok (PatchResponse d'), w))))"
  by (auto simp: Mutator_Handle_def getDeploymentTemplateHash_eq StatusBadRequest_def
      StatusInternalServerError_def Let_def set_label_def set_template_label_def bindM_def ret_def crash_def
      unversioned_def split: sum.split option.split)

lemma Mutator_patched:
  assumes "fst (Mutator_Handle env req w) = Ok (PatchResponse d')"
  obtains d js where "admObject req = Inr d" "Labels d \<noteq> None" "tmplLabels (depTemplate d) \<noteq> None"
    "marshalTemplate env (unversioned (depTemplate d)) = Inr js"
    "d' = d\<lparr>Labels := put_label AdmissionWebhookVersionLabel (hex_encode (md5_sum js))
              (delete_label DefenseStatusLabel (Labels d)),
            depTemplate := (unversioned (depTemplate d))\<lparr>tmplLabels :=
              put_label AdmissionWebhookVersionLabel (hex_encode (md5_sum js))
                (tmplLabels (unversioned (depTemplate d)))\<rparr>\<rparr>"
  using assms
  by (auto simp: Mutator_Handle_eq Let_def split: sum.splits option.splits if_splits)

text \<open>
  C19 (functional). What the mutator answers with is a fixed point: handed
  its own patched Deployment it computes the same version and admits it unchanged, because the
  version label itself is left out of the hash.
\<close>

theorem mutator_idempotent:
  assumes "fst (Mutator_Handle env req w) = Ok (PatchResponse d')" "admObject req' = Inr d'"
  shows "Mutator_Handle env req' w' = (Ok (Allowed ''''), w')"
proof -
  obtain d js where d: "Labels d \<noteq> None" "tmplLabels (depTemplate d) \<noteq> None"
    "marshalTemplate env (unversioned (depTemplate d)) = Inr js"
    "d' = d\<lparr>Labels := put_label AdmissionWebhookVersionLabel (hex_encode (md5_sum js))
              (delete_label DefenseStatusLabel (Labels d)),
            depTemplate := (unversioned (depTemplate d))\<lparr>tmplLabels :=
              put_label AdmissionWebhookVersionLabel (hex_encode (md5_sum js))
                (tmplLabels (unversioned (depTemplate d)))\<rparr>\<rparr>"
    using assms(1) by (rule Mutator_patched)
  have "unversioned (depTemplate d') = unversioned (depTemplate d)"
    unfolding d(4) by (simp add: unversioned_def)
  moreover have "get_label (Labels d') AdmissionWebhookVersionLabel = hex_encode (md5_sum js)"
    unfolding d(4) using d(1) by simp
  ultimately show ?thesis
    using assms(2) d(3) by (simp add: Mutator_Handle_eq)
qed

definition sampleRequest :: "deployment \<Rightarrow> deployment \<Rightarrow> admissionRequest" where
  "sampleRequest new old = \<lparr>admOperation = Update, admObject = Inr new, admOldObject = Inr old\<rparr>"

definition sampleNamed :: "string \<Rightarrow> deployment" where
  "sampleNamed n = (sampleDeployment (Some Map.empty))\<lparr>Name := n\<rparr>"

lemma sample_mutated:
  "\<exists>d'. fst (Mutator_Handle clusterEnv (sampleRequest (sampleNamed n) old) w) = Ok (PatchResponse d') \<and>
     Name d' = n"
proof -
  have "get_label (Some Map.empty) AdmissionWebhookVersionLabel \<noteq> hex_encode s" if "length s = 16" for s
    using length_hex_encode [of s] that by (auto simp: get_label_def)
  then show ?thesis
    by (auto simp: Mutator_Handle_eq sampleRequest_def sampleNamed_def clusterEnv_def Let_def length_md5_sum)
qed

theorem mutator_idempotent_witness:
  "\<exists>d'. fst (Mutator_Handle clusterEnv (sampleRequest (sampleNamed ''app'') (sampleNamed ''app''))
      (worldOf emptyCluster)) = Ok (PatchResponse d') \<and>
    Mutator_Handle clusterEnv (sampleRequest d' d') (worldOf emptyCluster) = (Ok (Allowed ''''), worldOf emptyCluster)"
proof -
  obtain d' where d': "fst (Mutator_Handle clusterEnv (sampleRequest (sampleNamed ''app'') (sampleNamed ''app''))
      (worldOf emptyCluster)) = Ok (PatchResponse d')"
    using sample_mutated by blast
  then show ?thesis
    using mutator_idempotent [OF d', of "sampleRequest d' d'"] by (auto simp: sampleRequest_def)
qed

text \<open>
  C31 (error). The mutator panics exactly on a Deployment that decodes and
  hashes, whose version changed, and whose own label map or template label map is nil; a
  Deployment created without metadata labels is such a Deployment.
\<close>

theorem mutator_panics:
  "fst (Mutator_Handle env req w) = Panic \<longleftrightarrow>
     (\<exists>d js. admObject req = Inr d \<and> marshalTemplate env (unversioned (depTemplate d)) = Inr js \<and>
        get_label (Labels d) AdmissionWebhookVersionLabel \<noteq> hex_encode (md5_sum js) \<and>
        (Labels d = None \<or> tmplLabels (depTemplate d) = None))"
  by (auto simp: Mutator_Handle_eq Let_def split: sum.split option.split)

text \<open>
  The version of a mutated Deployment contains no
  dash, so the name of its ChangeWorkload determines both the Deployment and the version, even
  when Deployment names contain the separator.
\<close>

theorem workload_name_injective:
  assumes "fst (Mutator_Handle env req v) = Ok (PatchResponse d)"
    and "fst (Mutator_Handle env req' w) = Ok (PatchResponse d')"
  shows "GetChangeWorkloadNameByDeployment d = GetChangeWorkloadNameByDeployment d' \<longleftrightarrow>
    Name d = Name d' \<and>
    get_label (Labels d) AdmissionWebhookVersionLabel = get_label (Labels d') AdmissionWebhookVersionLabel"
proof -
  have "CHR ''-'' \<notin> set (get_label (Labels d) AdmissionWebhookVersionLabel)"
    using assms(1) by (rule Mutator_patched) (simp add: hex_encode_no_minus)
  moreover have "CHR ''-'' \<notin> set (get_label (Labels d') AdmissionWebhookVersionLabel)"
    using assms(2) by (rule Mutator_patched) (simp add: hex_encode_no_minus)
  ultimately show ?thesis
    unfolding GetChangeWorkloadNameByDeployment_def by (rule CombineString_inject)
qed

theorem workload_name_injective_witness:
  "\<exists>d d'. fst (Mutator_Handle clusterEnv (sampleRequest (sampleNamed ''app'') (sampleNamed ''app''))
      (worldOf emptyCluster)) = Ok (PatchResponse d) \<and>
    fst (Mutator_Handle clusterEnv (sampleRequest (sampleNamed ''app--x--1'') (sampleNamed ''app''))
      (worldOf emptyCluster)) = Ok (PatchResponse d') \<and>
    GetChangeWorkloadNameByDeployment d \<noteq> GetChangeWorkloadNameByDeployment d'"
proof -
  obtain d where d: "fst (Mutator_Handle clusterEnv (sampleRequest (sampleNamed ''app'') (sampleNamed ''app''))
      (worldOf emptyCluster)) = Ok (PatchResponse d)" "Name d = ''app''"
    using sample_mutated by blast
  obtain d' where d': "fst (Mutator_Handle clusterEnv (sampleRequest (sampleNamed ''app--x--1'') (sampleNamed ''app''))
      (worldOf emptyCluster)) = Ok (PatchResponse d')" "Name d' = ''app--x--1''"
    using sample_mutated by blast
  show ?thesis
    using workload_name_injective [OF d(1) d'(1)] d d' by auto
qed

subsection \<open>The validator\<close>

text \<open>
  The validator denies exactly the updates of a Deployment
  that carries the suspend label, unless the new version carries the label that ignores the
  suspension; creations and deletions are never denied.
\<close>

theorem validator_denies:
  "Validator_Handle req = Denied m \<longleftrightarrow>
     admOperation req = Update \<and>
     (\<exists>new old. admObject req = Inr new \<and> admOldObject req = Inr old \<and>
        has_label (Labels old) SuspendLabel \<and> \<not> has_label (Labels new) IgnoredSuspendLabel \<and>
        m = ''deployment '' @ Name old @ '' is suspended'')"
  by (auto simp: Validator_Handle_def ValidateCreate_def ValidateUpdate_def
      split: sum.split admissionOperation.split)

subsection \<open>Suspension\<close>

lemma suspendLabel_run:
  fixes add :: bool
  assumes "configIsBlockingUpIsReady (wConfig w)" "nowNs env (wExt w) = (ns, e)"
  defines "wanted \<equiv> add \<and> configIsBlockingUp (wConfig w)"
  shows "addOrRemoveDeploymentSuspendLabel env d add w =
    (if wanted = has_label (Labels d) SuspendLabel then (Ok (), w)
     else if wanted then
       (if Labels d = None then (Panic, w\<lparr>wExt := e\<rparr>)
        else patchDeployment env d
          (d\<lparr>Labels := put_label SuspendLabel (itoa (time_unix ns)) (Labels d)\<rparr>) (w\<lparr>wExt := e\<rparr>))
     else patchDeployment env d
       (d\<lparr>Labels := delete_label DefenseStatusLabel (delete_label SuspendLabel
            (put_label IgnoredSuspendLabel True_str (Labels d)))\<rparr>) w)"
  using assms
  by (auto simp: addOrRemoveDeploymentSuspendLabel_def bindM_def ret_def crash_def set_label_def
      nowUnix_def timeNow_def prog_simps Let_def)

text \<open>
  C18 (functional). When the blocking switch is known,
  \<open>addOrRemoveDeploymentSuspendLabel\<close> brings the suspend label to what is wanted and writes
  only when it has to: it patches the label in, panics on a nil label map, or, to resume,
  patches in the ignore label and takes the suspend and the defense label out.
\<close>

theorem suspend_label_sync:
  fixes add :: bool
  assumes "configIsBlockingUpIsReady (wConfig w)" "nowNs env (wExt w) = (ns, e)"
  defines "wanted \<equiv> add \<and> configIsBlockingUp (wConfig w)"
  shows "addOrRemoveDeploymentSuspendLabel env d add w =
    (if wanted = has_label (Labels d) SuspendLabel then (Ok (), w)
     else if wanted then
       (if Labels d = None then (Panic, w\<lparr>wExt := e\<rparr>)
        else patchDeployment env d
          (d\<lparr>Labels := put_label SuspendLabel (itoa (time_unix ns)) (Labels d)\<rparr>) (w\<lparr>wExt := e\<rparr>))
     else patchDeployment env d
       (d\<lparr>Labels := delete_label DefenseStatusLabel (delete_label SuspendLabel
            (put_label IgnoredSuspendLabel True_str (Labels d)))\<rparr>) w)"
  unfolding wanted_def by (rule suspendLabel_run [OF assms(1,2)])

theorem suspend_label_sync_witness:
  "addOrRemoveDeploymentSuspendLabel clusterEnv (sampleDeployment None) False (worldOf emptyCluster) =
     (Ok (), worldOf emptyCluster)"
  using suspend_label_sync [of "worldOf emptyCluster" clusterEnv "clNow emptyCluster" emptyCluster
      "sampleDeployment None" False]
  by (simp add: worldOf_def readyConfig_def initialConfig_def Let_def clusterEnv_def)

text \<open>
  C17 (safety). From the suspended labels on, the validator denies every
  update that does not ignore the suspension, admits the patch with which the operator
  resumes, and admits everything after it.
\<close>

theorem suspension_enforced:
  fixes t :: string
  assumes "Labels d \<noteq> None"
  defines "suspended \<equiv> d\<lparr>Labels := put_label SuspendLabel t (Labels d)\<rparr>"
  defines "resumed \<equiv> suspended\<lparr>Labels := delete_label DefenseStatusLabel (delete_label SuspendLabel
      (put_label IgnoredSuspendLabel True_str (Labels suspended)))\<rparr>"
  shows "(Validator_Handle (sampleRequest new suspended) =
      (if has_label (Labels new) IgnoredSuspendLabel then Allowed ''''
       else Denied (''deployment '' @ Name d @ '' is suspended''))) \<and>
    Validator_Handle (sampleRequest resumed suspended) = Allowed '''' \<and>
    Validator_Handle (sampleRequest new resumed) = Allowed ''''"
  using assms(1)
  by (simp add: Validator_Handle_def ValidateUpdate_def sampleRequest_def suspended_def resumed_def)

theorem suspension_enforced_witness:
  "Validator_Handle (sampleRequest (sampleDeployment sampleLabels)
      (sampleDeployment (put_label SuspendLabel ''1'' sampleLabels))) = Denied ''deployment app is suspended''"
  using suspension_enforced [of "sampleDeployment sampleLabels" "sampleDeployment sampleLabels" "''1''"]
  by (simp add: sampleLabels_def has_label_def)

text \<open>
  C30 (safety). On a suspended Deployment the patch with which the
  DeploymentReconciler marks it as processed is denied by the operator's own validator, since
  the patch takes out the label that ignores the suspension: a Deployment updated under the
  ignore label stays unmarked, and its reconcile fails, until the suspension is lifted.
\<close>

theorem defense_mark_denied:
  assumes "has_label (Labels d) SuspendLabel"
  shows "\<exists>d'. (\<forall>w. defenseProcessedDeployment env d w = patchDeployment env d d' w) \<and>
    Validator_Handle (sampleRequest d' d) = Denied (''deployment '' @ Name d @ '' is suspended'')"
proof -
  let ?d' = "d\<lparr>Labels := delete_label IgnoredSuspendLabel
      (put_label DefenseStatusLabel DefenseStatusLabelProcessed (Labels d))\<rparr>"
  have "\<forall>w. defenseProcessedDeployment env d w = patchDeployment env d ?d' w"
    using assms by (auto simp: defenseProcessedDeployment_def patchDeployment_def set_label_def Let_def)
  moreover have "Validator_Handle (sampleRequest ?d' d) = Denied (''deployment '' @ Name d @ '' is suspended'')"
    using assms by (simp add: Validator_Handle_def ValidateUpdate_def sampleRequest_def)
  ultimately show ?thesis by blast
qed

theorem defense_mark_denied_witness:
  "\<exists>d'. Validator_Handle (sampleRequest d' (sampleDeployment (Some [SuspendLabel \<mapsto> ''1''])))
      = Denied ''deployment app is suspended''"
  using defense_mark_denied [of "sampleDeployment (Some [SuspendLabel \<mapsto> ''1''])"]
  by (auto simp: has_label_def)

end
