(* ===== verification/Cluster_Runs.thy ===== *)
theory Cluster_Runs
  imports Samples
begin

section \<open>Running programs on the reference cluster\<close>

text \<open>
  What one call does on \<open>clusterEnv\<close>, and which part of the cluster a call leaves alone.
  With these rules a program is run on the cluster by rewriting.
\<close>

named_theorems cluster_simps "one call on the reference cluster"

lemma cluster_api [simp]:
  "podApi clusterEnv = onShelf clPods clPods_update (shelfApi podKind)"
  "deploymentApi clusterEnv = onShelf clDeployments clDeployments_update (shelfApi deploymentKind)"
  "replicaSetApi clusterEnv = onShelf clReplicaSets clReplicaSets_update (shelfApi replicaSetKind)"
  "namespaceApi clusterEnv = onShelf clNamespaces clNamespaces_update (shelfApi namespaceKind)"
  "changeWorkloadApi clusterEnv = onShelf clWorkloads clWorkloads_update (shelfApi changeWorkloadKind)"
  "changePodApi clusterEnv = onShelf clChangePods clChangePods_update (shelfApi changePodKind)"
  "opsConfigInfoApi clusterEnv = onShelf clConfigs clConfigs_update (shelfApi opsConfigInfoKind)"
  "nowNs clusterEnv e = (clNow e, e)"
  "refChangePod clusterEnv cw cp = Inr (cp\<lparr>OwnerReferences := [\<lparr>refKind = ''ChangeWorkload'', refName = Name cw\<rparr>]\<rparr>)"
  "refChangeWorkload clusterEnv d cw = Inr (cw\<lparr>OwnerReferences := [\<lparr>refKind = DeploymentKind, refName = Name d\<rparr>]\<rparr>)"
  "mapOrder clusterEnv ks = ks"
  by (simp_all add: clusterEnv_def)

lemma cluster_clock [cluster_simps]:
  "timeNow clusterEnv w = (Ok (clNow (wExt w)), w)"
  "nowUnix clusterEnv w = (Ok (time_unix (clNow (wExt w))), w)"
  by (simp_all add: timeNow_def nowUnix_def bindM_def ret_def)

lemma cluster_GetNowTime: obtains s where "GetNowTime clusterEnv w = (Ok s, w)"
  by (auto simp: GetNowTime_def bindM_def cluster_clock ret_def)

lemma onPart_same: "(\<And>s. snd (op s) = s) \<Longrightarrow> (\<And>e. upd (\<lambda>_. part e) e = e) \<Longrightarrow>
    onPart part upd op e = (fst (op (part e)), e)"
  by (simp add: onPart_def case_prod_beta)

lemma shelf_reads [simp]:
  "apiGet (shelfApi ks) k sh =
     ((case findObj k (shCached sh) of None \<Rightarrow> Inl (notFoundError k) | Some ob \<Rightarrow> Inr ob), sh)"
  "apiList (shelfApi ks) opts sh = (Inr (filter (selected (ksIndex ks) opts) (shCached sh)), sh)"
  by (simp_all add: shelfApi_def)

lemma shelf_writes:
  "apiStatusUpdate (shelfApi ks) ob = putIfCurrent (\<lambda>cur. ksWithStatus ks ob cur) ob"
  "apiUpdate (shelfApi ks) ob = putIfCurrent (\<lambda>cur. ksWithStatus ks cur ob) ob"
  "apiStatusPatch (shelfApi ks) base ob = putOver (\<lambda>cur. ksWithStatus ks (ksMerge ks base ob cur) cur) ob"
  "apiPatch (shelfApi ks) base ob = putOver (\<lambda>cur. ksWithStatus ks cur (ksMerge ks base ob cur)) ob"
  "apiDelete (shelfApi ks) ob sh = (case findObj (obj_key ob) (shStored sh) of
        None \<Rightarrow> (Inl (notFoundError (obj_key ob)), sh)
      | Some _ \<Rightarrow> (Inr (), sh\<lparr>shStored := dropObj (obj_key ob) (shStored sh)\<rparr>))"
  by (simp_all add: shelfApi_def)

lemma kind_index [simp]:
  "ksIndex changePodKind = changePodIndex"
  "ksIndex changeWorkloadKind = changeWorkloadIndex"
  by (simp_all add: changePodKind_def changeWorkloadKind_def)

text \<open>Reads on a part of the cluster leave the cluster as it is.\<close>

lemma cluster_get [cluster_simps]:
  assumes "\<And>e. upd (\<lambda>_. part e) e = e"
  shows "call (onPart part upd (apiGet (shelfApi ks) k)) w =
    (case findObj k (shCached (part (wExt w))) of None \<Rightarrow> (Err (notFoundError k), w) | Some ob \<Rightarrow> (Ok ob, w))"
  using assms by (simp add: call_def onPart_def split: option.split)

lemma cluster_list [cluster_simps]:
  assumes "\<And>e. upd (\<lambda>_. part e) e = e"
  shows "call (onPart part upd (apiList (shelfApi ks) opts)) w =
    (Ok (filter (selected (ksIndex ks) opts) (shCached (part (wExt w)))), w)"
  using assms by (simp add: call_def onPart_def)

lemma notFoundError_isNotFound [simp]: "isNotFound (notFoundError k)"
  by (simp add: notFoundError_def)

text \<open>Writes of a ChangePod.\<close>

definition putChangePod :: "changePod \<Rightarrow> cluster \<Rightarrow> cluster" where
  "putChangePod cp e = e\<lparr>clChangePods := snd (storeObj cp (clChangePods e))\<rparr>"

lemma putChangePod_stored:
  "findObj k (shStored (clChangePods (putChangePod cp e))) =
     (if k = obj_key cp then Some (cp\<lparr>ResourceVersion := shVersion (clChangePods e)\<rparr>)
      else findObj k (shStored (clChangePods e)))"
  by (simp add: putChangePod_def storeObj_def Let_def findObj_put)

lemma cluster_status_update [cluster_simps]:
  "call (onPart clChangePods clChangePods_update (apiStatusUpdate (shelfApi changePodKind) cp)) w =
     (case findObj (obj_key cp) (shStored (clChangePods (wExt w))) of
        None \<Rightarrow> (Err (notFoundError (obj_key cp)), w)
      | Some cur \<Rightarrow>
          if ResourceVersion cur = ResourceVersion cp
          then (Ok (cur\<lparr>cpStatus := cpStatus cp, ResourceVersion := shVersion (clChangePods (wExt w))\<rparr>),
                w\<lparr>wExt := putChangePod (cur\<lparr>cpStatus := cpStatus cp\<rparr>) (wExt w)\<rparr>)
          else (Err (conflictError (obj_key cp)), w))"
  by (simp add: call_def onPart_def shelf_writes putIfCurrent_def changePodKind_def storeObj_def Let_def
      putChangePod_def split: option.split)

lemma cluster_status_patch [cluster_simps]:
  "call (onPart clChangePods clChangePods_update (apiStatusPatch (shelfApi changePodKind) base cp)) w =
     (case findObj (obj_key cp) (shStored (clChangePods (wExt w))) of
        None \<Rightarrow> (Err (notFoundError (obj_key cp)), w)
      | Some cur \<Rightarrow>
          let s = mergeChangePodStatus (cpStatus base) (cpStatus cp) (cpStatus cur)
          in (Ok (cur\<lparr>cpStatus := s, ResourceVersion := shVersion (clChangePods (wExt w))\<rparr>),
              w\<lparr>wExt := putChangePod (cur\<lparr>cpStatus := s\<rparr>) (wExt w)\<rparr>))"
  by (simp add: call_def onPart_def shelf_writes putOver_def changePodKind_def storeObj_def Let_def
      putChangePod_def split: option.split)

lemma cluster_update [cluster_simps]:
  "call (onPart clChangePods clChangePods_update (apiUpdate (shelfApi changePodKind) cp)) w =
     (case findObj (obj_key cp) (shStored (clChangePods (wExt w))) of
        None \<Rightarrow> (Err (notFoundError (obj_key cp)), w)
      | Some cur \<Rightarrow>
          if ResourceVersion cur = ResourceVersion cp
          then (Ok (cp\<lparr>cpStatus := cpStatus cur, ResourceVersion := shVersion (clChangePods (wExt w))\<rparr>),
                w\<lparr>wExt := putChangePod (cp\<lparr>cpStatus := cpStatus cur\<rparr>) (wExt w)\<rparr>)
          else (Err (conflictError (obj_key cp)), w))"
  by (simp add: call_def onPart_def shelf_writes putIfCurrent_def changePodKind_def storeObj_def Let_def
      putChangePod_def split: option.split)

text \<open>Patches of a stored pod succeed and leave the ChangePods alone.\<close>

lemma cluster_markPod:
  assumes "findObj (obj_key p) (shStored (clPods (wExt w))) = Some q" "Labels p \<noteq> None"
  obtains t where "defenseProcessedPod clusterEnv p w = (Ok (), t)"
    "clChangePods (wExt t) = clChangePods (wExt w)" "clWorkloads (wExt t) = clWorkloads (wExt w)"
proof (cases "get_label (Labels p) DefenseStatusLabel = DefenseStatusLabelProcessed")
  case True
  then show ?thesis
    by (intro that [of w]) (simp_all add: defenseProcessedPod_def ret_def)
next
  case False
  have "\<exists>t. defenseProcessedPod clusterEnv p w = (Ok (), t) \<and>
    clChangePods (wExt t) = clChangePods (wExt w) \<and> clWorkloads (wExt t) = clWorkloads (wExt w)"
    using assms False
    by (simp add: defenseProcessedPod_def set_label_Ok bindM_def call_def onPart_def shelf_writes
        putOver_def storeObj_def Let_def ret_def)
  then show ?thesis using that by blast
qed

lemma cluster_setChangePodStatus:
  obtains s where "setChangePodStatus clusterEnv st cp w = (Ok (cp\<lparr>cpStatus := s\<rparr>), w)"
    "cpStatusStatus s = st" "cpMessage s = cpMessage (cpStatus cp)"
proof -
  obtain now where now: "GetNowTime clusterEnv w = (Ok now, w)" by (rule cluster_GetNowTime)
  show ?thesis
    by (rule that [of "(cpStatus cp)\<lparr>cpStatusStatus := st, cpUpdateTime := now,
        cpUpdateTimeUnix := time_unix (clNow (wExt w))\<rparr>"])
      (simp_all add: setChangePodStatus_def bindM_def now cluster_clock ret_def)
qed

text \<open>Calls on other parts.\<close>

lemma onPart_other:
  assumes "\<And>f e. part (upd f e) = part e"
  shows "part (snd (onPart part' upd op e)) = part e"
  using assms by (simp add: onPart_def case_prod_beta)

lemma preserves_other_part:
  assumes "\<And>f e. part (upd f e) = part e"
  shows "preserves (\<lambda>w. part (wExt w) = X) (call (onPart part' upd op))"
  using onPart_other [of part upd part' op, OF assms] by (intro preserves_call) simp

lemma keeps_changePods:
  "preserves (\<lambda>w. clChangePods (wExt w) = X) (call (onPart clPods clPods_update op1))"
  "preserves (\<lambda>w. clChangePods (wExt w) = X) (call (onPart clDeployments clDeployments_update op2))"
  "preserves (\<lambda>w. clChangePods (wExt w) = X) (call (onPart clReplicaSets clReplicaSets_update op3))"
  "preserves (\<lambda>w. clChangePods (wExt w) = X) (call (onPart clWorkloads clWorkloads_update op4))"
  by (rule preserves_other_part, simp)+

lemma keeps_deployments:
  "preserves (\<lambda>w. clDeployments (wExt w) = X) (call (onPart clPods clPods_update op1))"
  "preserves (\<lambda>w. clDeployments (wExt w) = X) (call (onPart clChangePods clChangePods_update op2))"
  "preserves (\<lambda>w. clDeployments (wExt w) = X) (call (onPart clReplicaSets clReplicaSets_update op3))"
  "preserves (\<lambda>w. clDeployments (wExt w) = X) (call (onPart clWorkloads clWorkloads_update op4))"
  by (rule preserves_other_part, simp)+

lemma preserves_cluster_clock:
  "preserves P (timeNow clusterEnv)" "preserves P (nowUnix clusterEnv)" "preserves P (GetNowTime clusterEnv)"
  by (auto simp: preserves_def cluster_clock elim: cluster_GetNowTime [where w = s for s]) (metis cluster_GetNowTime snd_conv)

lemma preserves_set_label: "preserves P (set_label k v ob)"
  by (auto simp: set_label_def intro: preserves_intros)

subsection \<open>The verdict callback on the cluster\<close>

lemma cluster_CheckCallBackHandler:
  assumes "filter (selected changePodIndex (anyOpts\<lparr>matchingFields :=
        [(ChangePodFieldChangePodId, cbNodeId (cwrCallbackRequest data))]\<rparr>))
      (shCached (clChangePods (wExt w))) = cp # rest"
    and "cwrChangeCheckType data = OpsCloudChangeCheckTypeEnumBatch"
    and "callbackStage clusterEnv (cwrCallbackRequest data) cp w = (Ok rs, t)"
  shows "CheckCallBackHandler clusterEnv (Inr data) w = (Ok rs, t)"
proof -
  have "attempt (call (apiList (changePodApi clusterEnv) (anyOpts\<lparr>matchingFields :=
        [(ChangePodFieldChangePodId, cbNodeId (cwrCallbackRequest data))]\<rparr>))) w = (Ok (Inr (cp # rest)), w)"
    using assms(1) by (simp add: attempt_def cluster_simps)
  then show ?thesis
    using assms(2,3) by (simp add: CheckCallBackHandler_def Let_def bindM_def ret_def)
qed

text \<open>The patch of a verdict, which is merged into whatever status is stored.\<close>

lemma cluster_patchChangePodStatus:
  assumes "findObj (obj_key cp) (shStored (clChangePods (wExt w))) = Some cur" "obj_key new = obj_key cp"
  shows "\<exists>r. patchChangePodStatus clusterEnv cp new w = (Ok r, w\<lparr>wExt := putChangePod
    (cur\<lparr>cpStatus := mergeChangePodStatus (cpStatus cp) (cpStatus new) (cpStatus cur)\<rparr>) (wExt w)\<rparr>)"
  using assms by (simp add: patchChangePodStatus_def cluster_simps Let_def)

lemma cluster_callbackPre:
  assumes "changePodState cp = PreSubmitted" "findObj (obj_key cp) (shStored (clChangePods (wExt w))) = Some cur"
  shows "\<exists>now unix. callbackPre clusterEnv cp w = (Ok [(200, CommonSuccess GetCommonCallbackSuccess)],
    w\<lparr>wExt := putChangePod (cur\<lparr>cpStatus := mergeChangePodStatus (cpStatus cp)
      ((cpStatus cp)\<lparr>cpStatusStatus := PostWait, cpUpdateTime := now, cpUpdateTimeUnix := unix\<rparr>)
      (cpStatus cur)\<rparr>) (wExt w)\<rparr>)"
proof -
  obtain now where now: "GetNowTime clusterEnv w = (Ok now, w)" by (rule cluster_GetNowTime)
  let ?new = "cp\<lparr>cpStatus := (cpStatus cp)\<lparr>cpStatusStatus := PostWait, cpUpdateTime := now,
      cpUpdateTimeUnix := time_unix (clNow (wExt w))\<rparr>\<rparr>"
  have key: "obj_key ?new = obj_key cp" by (simp add: obj_key_def)
  show ?thesis
    using cluster_patchChangePodStatus [OF assms(2) key] assms(1)
    by (intro exI [of _ now] exI [of _ "time_unix (clNow (wExt w))"])
      (auto simp: callbackPre_def bindM_def now cluster_clock attempt_def ret_def)
qed

lemma cluster_callbackPost:
  fixes verdict :: opsCloudChangeCheckVerdict
  assumes "changePodState cp = PostSubmitted" "findObj (obj_key cp) (shStored (clChangePods (wExt w))) = Some cur"
  defines "results \<equiv> map (\<lambda>ps. ps\<lparr>psVerdict := cvVerdict verdict, psMessage := cvMsg verdict\<rparr>) (cpPodInfos (cpSpec cp))"
  shows "\<exists>now unix. callbackPost clusterEnv cp verdict w = (Ok [],
    w\<lparr>wExt := putChangePod (cur\<lparr>cpStatus := mergeChangePodStatus (cpStatus cp)
      ((cpStatus cp)\<lparr>cpStatusStatus := PostFinish, cpPodResults := results, cpUpdateTime := now,
        cpUpdateTimeUnix := unix\<rparr>) (cpStatus cur)\<rparr>) (wExt w)\<rparr>)"
proof -
  obtain now where now: "GetNowTime clusterEnv w = (Ok now, w)" by (rule cluster_GetNowTime)
  let ?new = "cp\<lparr>cpSpec := (cpSpec cp)\<lparr>cpPodInfos := results\<rparr>, cpStatus := (cpStatus cp)
      \<lparr>cpStatusStatus := PostFinish, cpPodResults := results, cpUpdateTime := now,
       cpUpdateTimeUnix := time_unix (clNow (wExt w))\<rparr>\<rparr>"
  have key: "obj_key ?new = obj_key cp" by (simp add: obj_key_def)
  show ?thesis
    using cluster_patchChangePodStatus [OF assms(2) key] assms(1)
    by (intro exI [of _ now] exI [of _ "time_unix (clNow (wExt w))"])
      (auto simp: callbackPost_def Let_def results_def [symmetric] bindM_def now cluster_clock attempt_def ret_def)
qed

end
