(* ===== verification/ChangePod_Properties.thy ===== *)
theory ChangePod_Properties
  imports Cluster_Runs
begin

section \<open>Properties of the ChangePod controller and of its callback\<close>

text \<open>
  What a reconcile of a ChangePod achieves on each status, where it cannot make progress, and
  what the verdict callback answers and does to the stored object.
\<close>

subsection \<open>Progress\<close>

text \<open>
  C4 (liveness). A reconcile that read a ChangePod waiting to be announced
  (\<open>PreWait\<close>), to be finished (\<open>PostWait\<close>) or to be closed (one of the endings), and
  returned without an error, has stored a version of it that is one life-cycle step further.
\<close>

theorem reconcile_advances:
  assumes "changePod_world env rely good stored known" "good (wExt w)"
    and "apiGet (changePodApi env) req (wExt w) = (Inr cp, e1)"
    and "apiGet (changeWorkloadApi env) \<lparr>nnNamespace = Namespace cp, nnName = cpChangeWorkloadId (cpSpec cp)\<rparr> e1
      = (Inr cw, e2)"
    and "changePodState cp \<in> {PreWait, PostWait} \<union> set endings"
    and "ChangePod_Reconcile env req w = (Ok (), t)"
  shows "\<exists>cp'\<in>known (wExt t). obj_key cp' = obj_key cp \<and> cpSpec cp' = cpSpec cp \<and>
    statusStep (cpStatus cp) (cpStatus cp')"
  using changePod_world.Reconcile_advances [OF assms] by (simp add: advanced_def)

lemma sample_gets:
  "apiGet (changePodApi clusterEnv) sampleKey (wExt (worldOf (sampleCluster st infos))) =
     (Inr (sampleChangePod st infos 0), sampleCluster st infos)"
  "apiGet (changeWorkloadApi clusterEnv)
     \<lparr>nnNamespace = Namespace (sampleChangePod st infos 0),
      nnName = cpChangeWorkloadId (cpSpec (sampleChangePod st infos 0))\<rparr> (sampleCluster st infos) =
     (Inr (sampleWorkload Running), sampleCluster st infos)"
  by (simp_all add: onPart_def sample_defs obj_key_def)

lemma sampleChangePod_state: "changePodState (sampleChangePod st infos v) = st"
  by (simp add: sampleChangePod_def)

lemma cluster_finish:
  assumes "findObj (obj_key cp) (shStored (clChangePods (wExt w))) = Some cp"
  shows "\<exists>t. handleFinishedChangePod clusterEnv cp w = (Ok (), t)"
proof -
  obtain s where s: "setChangePodStatus clusterEnv ExecuteDone
      (cp\<lparr>cpStatus := (cpStatus cp)\<lparr>cpMessage := changePodState cp\<rparr>\<rparr>) w = (Ok (cp\<lparr>cpStatus := s\<rparr>), w)"
    by (rule cluster_setChangePodStatus [where w = w and st = ExecuteDone and
          cp = "cp\<lparr>cpStatus := (cpStatus cp)\<lparr>cpMessage := changePodState cp\<rparr>\<rparr>"]) simp
  show ?thesis
    by (simp add: handleFinishedChangePod_def setChangePodDoneStatus_def updateChangePodStatus_def
        bindM_def s cluster_simps assms ret_def)
qed

lemma sample_finished_run:
  "\<exists>t. ChangePod_Reconcile clusterEnv sampleKey (worldOf (sampleCluster PostFinish [])) = (Ok (), t)"
proof -
  let ?w = "worldOf (sampleCluster PostFinish [])"
  let ?cp = "sampleChangePod PostFinish [] 0"
  have w: "?w\<lparr>wExt := sampleCluster PostFinish []\<rparr> = ?w" by (simp add: worldOf_def)
  have "ChangePod_Reconcile clusterEnv sampleKey ?w = handleFinishedChangePod clusterEnv ?cp ?w"
    using clusterPods.Reconcile_run [OF sample_gets] w
    by (simp add: sampleChangePod_state Let_def endings_def changePod_status_defs)
  also have "\<exists>t. \<dots> = (Ok (), t)"
    by (rule cluster_finish) (simp add: worldOf_def shelfOf_def)
  finally show ?thesis .
qed

theorem reconcile_advances_witness:
  "\<exists>t. ChangePod_Reconcile clusterEnv sampleKey (worldOf (sampleCluster PostFinish [])) = (Ok (), t) \<and>
     (\<exists>cp'\<in>shelfKnown (clChangePods (wExt t)). changePodState cp' = ExecuteDone \<and> cpMessage (cpStatus cp') = PostFinish)"
proof -
  obtain t where t: "ChangePod_Reconcile clusterEnv sampleKey (worldOf (sampleCluster PostFinish [])) = (Ok (), t)"
    using sample_finished_run by blast
  have "\<exists>cp'\<in>shelfKnown (clChangePods (wExt t)). statusStep (cpStatus (sampleChangePod PostFinish [] 0)) (cpStatus cp')"
    using reconcile_advances [OF clusterPods.changePod_world_axioms _ sample_gets _ t]
    by (fastforce simp: worldOf_def sampleChangePod_state endings_def)
  then show ?thesis
    using t by (auto simp: sampleChangePod_def changePod_status_defs elim!: statusStepE)
qed

subsection \<open>Picking the pods\<close>

text \<open>
  C14 (functional). A reconcile of an initial ChangePod that returns without
  an error found pods that are finished and not defensed, and has stored a version in
  \<open>PreWait\<close> that names exactly the first of them, as many as the threshold of the
  ChangeWorkload; a threshold of zero picks none and still announces the ChangePod.
\<close>

theorem executeInit_selects:
  assumes "changePod_world env rely good stored known" "good (wExt w)"
    and "apiGet (changePodApi env) req (wExt w) = (Inr cp, e1)"
    and "apiGet (changeWorkloadApi env) \<lparr>nnNamespace = Namespace cp, nnName = cpChangeWorkloadId (cpSpec cp)\<rparr> e1
      = (Inr cw, e2)"
    and "changePodState cp = ExecuteInit" "cpPodInfos (cpSpec cp) = []"
    and "apiList (podApi env) (anyOpts\<lparr>inNamespace := Some (Namespace cp),
        matchingLabels := [(AdmissionWebhookVersionLabel,
          get_label (Labels cp) AdmissionWebhookVersionLabel)]\<rparr>) e2 = (Inr ps, e3)"
    and "ChangePod_Reconcile env req w = (Ok (), t)"
  shows "filter preparing ps \<noteq> [] \<and> 0 \<le> cwCountThreshold (cwSpec cw) \<and>
    (\<exists>cp'\<in>known (wExt t). obj_key cp' = obj_key cp \<and> changePodState cp' = PreWait \<and>
       cpPodInfos (cpSpec cp') =
         map (\<lambda>p. getPreparingPodSummary p (get_label (Labels cp) DeploymentNameLabel))
           (take (nat (cwCountThreshold (cwSpec cw))) (filter preparing ps)))"
  using changePod_world.Reconcile_picks [OF assms] by (auto simp: picked_def)

lemma cluster_recordPods:
  assumes stored: "findObj (obj_key cp) (shStored (clChangePods (wExt w))) = Some cp"
    and pod: "findObj (obj_key p) (shStored (clPods (wExt w))) = Some p" "Labels p \<noteq> None"
  shows "\<exists>t. clusterPods.recordPods cp [p] w = (Ok (), t)"
proof -
  define n where "n = shVersion (clChangePods (wExt w))"
  define cp1 where "cp1 = cp\<lparr>cpSpec := (cpSpec cp)\<lparr>cpPodInfos :=
      [getPreparingPodSummary p (get_label (Labels cp) DeploymentNameLabel)]\<rparr>\<rparr>"
  define w1 where "w1 = w\<lparr>wExt := putChangePod cp1 (wExt w)\<rparr>"
  have key: "obj_key cp1 = obj_key cp" "ResourceVersion cp1 = ResourceVersion cp" "cpStatus cp1 = cpStatus cp"
    by (simp_all add: cp1_def)
  have update: "call (apiUpdate (changePodApi clusterEnv) cp1) w = (Ok (cp1\<lparr>ResourceVersion := n\<rparr>), w1)"
    using stored key(1,2) by (simp add: cluster_simps n_def w1_def key(3) [symmetric])
  have pods: "clPods (wExt w1) = clPods (wExt w)"
    by (simp add: w1_def putChangePod_def)
  obtain w2 where w2: "defenseProcessedPod clusterEnv p w1 = (Ok (), w2)"
    "clChangePods (wExt w2) = clChangePods (wExt w1)"
    using cluster_markPod [of p w1 p] pod pods by auto
  obtain s where s: "setChangePodStatus clusterEnv PreWait (cp1\<lparr>ResourceVersion := n\<rparr>) w2 =
      (Ok (cp1\<lparr>ResourceVersion := n, cpStatus := s\<rparr>), w2)"
    by (rule cluster_setChangePodStatus [where cp = "cp1\<lparr>ResourceVersion := n\<rparr>" and w = w2])
  have "findObj (obj_key cp1) (shStored (clChangePods (wExt w2))) = Some (cp1\<lparr>ResourceVersion := n\<rparr>)"
    using w2(2) by (simp add: w1_def putChangePod_stored n_def)
  then have "\<exists>t. updateChangePodStatus clusterEnv (cp1\<lparr>ResourceVersion := n, cpStatus := s\<rparr>) w2 = (Ok (), t)"
    using key(1) by (simp add: updateChangePodStatus_def bindM_def cluster_simps ret_def obj_key_def)
  then show ?thesis
    using update by (simp add: clusterPods.recordPods_def cp1_def [symmetric] bindM_def w2(1)
        setChangePodPreWaitStatus_def s ret_def)
qed

lemma sample_pods_list:
  "apiList (podApi clusterEnv) (anyOpts\<lparr>inNamespace := Some (Namespace (sampleChangePod st infos v)),
      matchingLabels := [(AdmissionWebhookVersionLabel,
        get_label (Labels (sampleChangePod st infos v)) AdmissionWebhookVersionLabel)]\<rparr>) (sampleCluster st infos) =
    (Inr [samplePod ''p0'' 0, samplePod ''p1'' 1], sampleCluster st infos)"
  by (simp add: onPart_def sample_defs podKind_def selected_def anyOpts_def get_label_def lookup_label_def)

lemma sample_preparing: "preparing (samplePod n v)"
  by (simp add: preparing_def isFinished_def isDefensed_def samplePod_def has_label_def objectMeta.extend_def)

lemma sample_init_run:
  "\<exists>t. ChangePod_Reconcile clusterEnv sampleKey (worldOf (sampleCluster ExecuteInit [])) = (Ok (), t)"
proof -
  let ?w = "worldOf (sampleCluster ExecuteInit [])"
  let ?cp = "sampleChangePod ExecuteInit [] 0"
  have w: "?w\<lparr>wExt := sampleCluster ExecuteInit []\<rparr> = ?w" by (simp add: worldOf_def)
  have infos: "cpPodInfos (cpSpec ?cp) = []" "\<not> cwCountThreshold (cwSpec (sampleWorkload Running)) < 0"
    "nat (cwCountThreshold (cwSpec (sampleWorkload Running))) = Suc 0"
    by (simp_all add: sampleChangePod_def sampleWorkload_def)
  have "ChangePod_Reconcile clusterEnv sampleKey ?w =
      executeInitChangePodHandle clusterEnv ?cp (sampleWorkload Running) ?w"
    using clusterPods.Reconcile_run [OF sample_gets] w
    by (simp add: sampleChangePod_state Let_def)
  also have "\<dots> = clusterPods.recordPods ?cp [samplePod ''p0'' 0] ?w"
    using clusterPods.executeInit_eq [OF infos(1), of ?w "[samplePod ''p0'' 0, samplePod ''p1'' 1]"
        "sampleCluster ExecuteInit []" "sampleWorkload Running"] sample_pods_list [of ExecuteInit "[]" 0] w infos
    by (simp add: sample_preparing worldOf_def)
  also have "\<exists>t. \<dots> = (Ok (), t)"
    by (rule cluster_recordPods)
      (simp_all add: worldOf_def shelfOf_def, simp_all add: sampleCluster_def shelfOf_def samplePod_def objectMeta.extend_def)
  finally show ?thesis .
qed

theorem executeInit_selects_witness:
  "\<exists>t. ChangePod_Reconcile clusterEnv sampleKey (worldOf (sampleCluster ExecuteInit [])) = (Ok (), t) \<and>
     (\<exists>cp\<in>shelfKnown (clChangePods (wExt t)). changePodState cp = PreWait \<and>
        map psPod (cpPodInfos (cpSpec cp)) = [''p0''])"
proof -
  obtain t where t: "ChangePod_Reconcile clusterEnv sampleKey (worldOf (sampleCluster ExecuteInit [])) = (Ok (), t)"
    using sample_init_run by blast
  have infos: "cpPodInfos (cpSpec (sampleChangePod ExecuteInit [] 0)) = []"
    "nat (cwCountThreshold (cwSpec (sampleWorkload Running))) = Suc 0"
    by (simp_all add: sampleChangePod_def sampleWorkload_def)
  have good: "goodShelf (clChangePods (wExt (worldOf (sampleCluster ExecuteInit []))))"
    by (simp add: worldOf_def)
  obtain cp where "cp \<in> shelfKnown (clChangePods (wExt t))" "changePodState cp = PreWait"
    "map psPod (cpPodInfos (cpSpec cp)) = [Name (samplePod ''p0'' 0)]"
    using executeInit_selects [OF clusterPods.changePod_world_axioms good sample_gets
        sampleChangePod_state infos(1) sample_pods_list t] infos(2)
    by (auto simp: sample_preparing getPreparingPodSummary_def)
  then show ?thesis
    using t by (auto simp: samplePod_def objectMeta.extend_def)
qed

subsection \<open>A ChangePod that was interrupted\<close>

lemma preserves_markDefensedPods:
  "preserves (\<lambda>w. clChangePods (wExt w) = X) (markDefensedPods clusterEnv infos)"
  unfolding markDefensedPods_def defenseProcessedPod_def cluster_api onShelf_sel
  by (intro preserves_intros keeps_changePods preserves_set_label)

text \<open>
  C24 (liveness). When the process stops between the two writes of
  \<open>executeInit\<close>, the ChangePod is left in \<open>ExecuteInit\<close> with pods. From then on the
  handler only marks the pods: on the reference cluster a reconcile leaves the stored ChangePods
  exactly as they are, whatever the rest of the cluster is, so the ChangePod never leaves
  \<open>ExecuteInit\<close>.
\<close>

theorem executeInit_stuck:
  assumes "findObj req (shCached (clChangePods (wExt w))) = Some cp"
    and "changePodState cp = ExecuteInit" "cpPodInfos (cpSpec cp) \<noteq> []"
  shows "clChangePods (wExt (snd (ChangePod_Reconcile clusterEnv req w))) = clChangePods (wExt w)"
proof -
  have get: "attempt (call (apiGet (changePodApi clusterEnv) req)) w = (Ok (Inr cp), w)"
    using assms(1) by (simp add: attempt_def cluster_simps)
  have handle: "executeInitChangePodHandle clusterEnv cp cw = markDefensedPods clusterEnv (cpPodInfos (cpSpec cp))" for cw
    using assms(3) by (simp add: executeInitChangePodHandle_def Let_def)
  let ?rest = "bindM (attempt (call (apiGet (changeWorkloadApi clusterEnv)
          \<lparr>nnNamespace = Namespace cp, nnName = cpChangeWorkloadId (cpSpec cp)\<rparr>))) (\<lambda>r. case r of
         Inl err \<Rightarrow> ignoreNotFound err (ret ())
       | Inr workload \<Rightarrow> executeInitChangePodHandle clusterEnv cp workload)"
  have keep: "preserves (\<lambda>v. clChangePods (wExt v) = clChangePods (wExt w)) ?rest"
    unfolding handle cluster_api onShelf_sel
    by (intro preserves_intros keeps_changePods preserves_markDefensedPods)
  have run: "ChangePod_Reconcile clusterEnv req w = ?rest w"
    unfolding ChangePod_Reconcile_def
    by (subst bindM_eval(1) [where m = "attempt (call (apiGet (changePodApi clusterEnv) req))", OF get])
      (simp only: sum.case assms(2) Let_def if_True refl)
  show ?thesis
    unfolding run by (rule preservesD [OF keep refl])
qed

theorem executeInit_stuck_witness:
  "clChangePods (wExt (snd (ChangePod_Reconcile clusterEnv sampleKey
      (worldOf (sampleCluster ExecuteInit [sampleSummary ''p0'']))))) =
    shelfOf [sampleChangePod ExecuteInit [sampleSummary ''p0''] 0]"
  using executeInit_stuck [of sampleKey "worldOf (sampleCluster ExecuteInit [sampleSummary ''p0''])"
      "sampleChangePod ExecuteInit [sampleSummary ''p0''] 0"]
  by (simp add: sampleChangePod_state worldOf_def shelfOf_def) (simp add: sample_defs obj_key_def)

subsection \<open>The verdict callback\<close>

definition sampleCallback :: "string \<Rightarrow> string \<Rightarrow> opsCloudChangeCheckCallbackWrapperRequest" where
  "sampleCallback node stage =
     \<lparr>cwrChangeCheckType = OpsCloudChangeCheckTypeEnumBatch,
      cwrCallbackRequest = \<lparr>cbNodeId = node, cbChangeSceneKey = '''', cbBizExecOrderId = '''',
        cbVerdict = \<lparr>cvVerdict = ChangePodVerdictPass, cvMsg = '''', cvNodeId = node\<rparr>,
        cbDefenseStageEnum = stage\<rparr>\<rparr>"

text \<open>
  C38 (error). For a batch verdict on a node that no ChangePod has, the
  handler writes the success response and goes on with an empty ChangePod: a verdict of a known
  stage is answered twice, and nothing is written to the API server either way.
\<close>

theorem callback_unknown_node:
  assumes "cwrChangeCheckType data = OpsCloudChangeCheckTypeEnumBatch"
    and "apiList (changePodApi env)
      (anyOpts\<lparr>matchingFields := [(ChangePodFieldChangePodId, cbNodeId (cwrCallbackRequest data))]\<rparr>) (wExt w)
      = (Inr [], e)"
  shows "CheckCallBackHandler env (Inr data) w =
    (Ok (if cbDefenseStageEnum (cwrCallbackRequest data) \<in> {DefenseStageEnumPre, DefenseStageEnumPost}
         then [(200, CommonSuccess GetCommonCallbackSuccess), (200, CommonSuccess GetCommonCallbackSuccess)]
         else [(200, CommonSuccess GetCommonCallbackSuccess)]),
     w\<lparr>wExt := e\<rparr>)"
proof -
  have "changePodState zeroChangePod \<noteq> PreSubmitted" "changePodState zeroChangePod \<noteq> PostSubmitted"
    by (simp_all add: zero_defs changePod_status_defs)
  then show ?thesis
    using assms
    by (simp add: CheckCallBackHandler_def bindM_def attempt_def call_def callbackStage_def callbackPre_def
        callbackPost_def ret_def Let_def)
qed

theorem callback_unknown_node_witness:
  "\<exists>r. CheckCallBackHandler clusterEnv (Inr (sampleCallback ''9'' DefenseStageEnumPre)) (worldOf emptyCluster) =
     (Ok [r, r], worldOf emptyCluster)"
  using callback_unknown_node [of "sampleCallback ''9'' DefenseStageEnumPre" clusterEnv "worldOf emptyCluster"
      emptyCluster]
  by (auto simp: sampleCallback_def onPart_def worldOf_def emptyCluster_def shelfOf_def)

text \<open>
  C21 (safety). The callback patches without a resource version: a batch verdict of either
  check on a ChangePod that its cache still shows as submitted for that check sets the stored status
  to \<open>PostWait\<close> (pre-check) or \<open>PostFinish\<close> (post-check, with the verdict
  in the results) whatever the stored status is by then, so a ChangePod that timed out and was
  closed is opened again. Nothing but this status changes. When the cache is up to date it is a
  step of the life cycle.
\<close>

theorem verdict_overwrites:
  assumes "filter (selected changePodIndex (anyOpts\<lparr>matchingFields :=
        [(ChangePodFieldChangePodId, cbNodeId (cwrCallbackRequest data))]\<rparr>))
      (shCached (clChangePods (wExt w))) = cp # rest"
    and "findObj (obj_key cp) (shStored (clChangePods (wExt w))) = Some cur"
    and "cwrChangeCheckType data = OpsCloudChangeCheckTypeEnumBatch"
  defines "stage \<equiv> cbDefenseStageEnum (cwrCallbackRequest data)"
  defines "results \<equiv> map (\<lambda>ps. ps\<lparr>psVerdict := cvVerdict (cbVerdict (cwrCallbackRequest data)),
      psMessage := cvMsg (cbVerdict (cwrCallbackRequest data))\<rparr>) (cpPodInfos (cpSpec cp))"
  assumes "stage = DefenseStageEnumPre \<and> changePodState cp = PreSubmitted \<or>
      stage = DefenseStageEnumPost \<and> changePodState cp = PostSubmitted"
  shows "\<exists>t new. CheckCallBackHandler clusterEnv (Inr data) w =
      (Ok (if stage = DefenseStageEnumPre then [(200, CommonSuccess GetCommonCallbackSuccess)] else []), t) \<and>
    findObj (obj_key cp) (shStored (clChangePods (wExt t))) = Some new \<and>
    changePodState new = (if stage = DefenseStageEnumPre then PostWait else PostFinish) \<and>
    cpPodResults (cpStatus new) = (if stage = DefenseStageEnumPre \<or> cpPodResults (cpStatus cp) = results
      then cpPodResults (cpStatus cur) else results) \<and>
    changePod_main new = changePod_main cur \<and>
    (\<forall>k. k \<noteq> obj_key cp \<longrightarrow> findObj k (shStored (clChangePods (wExt t))) = findObj k (shStored (clChangePods (wExt w)))) \<and>
    (cpStatus cur = cpStatus cp \<longrightarrow> statusStep (cpStatus cp) (cpStatus new))"
proof -
  have stages: "DefenseStageEnumPre \<noteq> DefenseStageEnumPost"
    by (simp add: DefenseStageEnumPre_def DefenseStageEnumPost_def)
  obtain now unix nst where nst: "nst = (if stage = DefenseStageEnumPre
      then (cpStatus cp)\<lparr>cpStatusStatus := PostWait, cpUpdateTime := now, cpUpdateTimeUnix := unix\<rparr>
      else (cpStatus cp)\<lparr>cpStatusStatus := PostFinish, cpPodResults := results, cpUpdateTime := now, cpUpdateTimeUnix := unix\<rparr>)"
    and run: "callbackStage clusterEnv (cwrCallbackRequest data) cp w =
      (Ok (if stage = DefenseStageEnumPre then [(200, CommonSuccess GetCommonCallbackSuccess)] else []),
       w\<lparr>wExt := putChangePod (cur\<lparr>cpStatus := mergeChangePodStatus (cpStatus cp) nst (cpStatus cur)\<rparr>) (wExt w)\<rparr>)"
    using cluster_callbackPre [OF _ assms(2)] cluster_callbackPost [OF _ assms(2), of "cbVerdict (cwrCallbackRequest data)"]
      assms(6) stages by (cases "stage = DefenseStageEnumPre") (auto simp: callbackStage_def stage_def results_def)
  have differs: "cpStatusStatus nst \<noteq> cpStatusStatus (cpStatus cp)"
    and step: "statusStep (cpStatus cp) nst"
    using assms(6) stages by (auto simp: nst changePod_status_defs intro: statusStep.pre_checked statusStep.post_checked)
  have "cpPodResults (mergeChangePodStatus (cpStatus cp) nst (cpStatus cur)) =
      (if stage = DefenseStageEnumPre \<or> cpPodResults (cpStatus cp) = results then cpPodResults (cpStatus cur) else results)"
    by (auto simp: nst mergeChangePodStatus_def merged_def)
  then show ?thesis
    using cluster_CheckCallBackHandler [OF assms(1,3) run] verdict_merged [OF differs, of "cpStatus cur"]
      findObj_key [OF assms(2)] step
    by (auto simp: putChangePod_stored merge_current nst changePod_main_def)
qed

text \<open>Two ChangePods that were closed by a timeout in the meantime are opened again.\<close>

theorem verdict_overwrites_witness:
  fixes late :: "string \<Rightarrow> cluster"
  defines "late \<equiv> \<lambda>st. emptyCluster\<lparr>clChangePods := (shelfOf [sampleChangePod ExecuteDone [sampleSummary ''p0''] 1])
      \<lparr>shCached := [sampleChangePod st [sampleSummary ''p0''] 0]\<rparr>\<rparr>"
  shows "(\<exists>new. findObj sampleKey (shStored (clChangePods (wExt (snd (CheckCallBackHandler clusterEnv
      (Inr (sampleCallback ''7'' DefenseStageEnumPre)) (worldOf (late PreSubmitted))))))) = Some new \<and>
      changePodState new = PostWait) \<and>
    (\<exists>new. findObj sampleKey (shStored (clChangePods (wExt (snd (CheckCallBackHandler clusterEnv
      (Inr (sampleCallback ''7'' DefenseStageEnumPost)) (worldOf (late PostSubmitted))))))) = Some new \<and>
      changePodState new = PostFinish \<and> map psVerdict (cpPodResults (cpStatus new)) = [ChangePodVerdictPass])"
proof -
  let ?cp = "\<lambda>st v. sampleChangePod st [sampleSummary ''p0''] v"
  have "selected changePodIndex (anyOpts\<lparr>matchingFields := [(ChangePodFieldChangePodId, ''7'')]\<rparr>) (?cp st 0)" for st
    by (simp add: selected_def anyOpts_def changePodIndex_def sampleChangePod_def
        ChangePodFieldStatus_def ChangePodFieldChangePodId_def)
  moreover have "obj_key (?cp st v) = sampleKey" for st v
    by (simp add: sampleChangePod_def obj_key_def sampleKey_def)
  moreover have "cpPodResults (cpStatus (?cp st v)) = []" "cpPodInfos (cpSpec (?cp st v)) = [sampleSummary ''p0'']" for st v
    by (simp_all add: sampleChangePod_def zero_defs)
  moreover have "DefenseStageEnumPre \<noteq> DefenseStageEnumPost"
    by (simp add: DefenseStageEnumPre_def DefenseStageEnumPost_def)
  ultimately show ?thesis
    using verdict_overwrites [of "sampleCallback ''7'' DefenseStageEnumPre" "worldOf (late PreSubmitted)"
        "?cp PreSubmitted 0" "[]" "?cp ExecuteDone 1"]
      verdict_overwrites [of "sampleCallback ''7'' DefenseStageEnumPost" "worldOf (late PostSubmitted)"
        "?cp PostSubmitted 0" "[]" "?cp ExecuteDone 1"]
    by (auto simp: late_def worldOf_def shelfOf_def sampleCallback_def sampleChangePod_state)
qed

end
