(* ===== verification/Workload_Properties.thy ===== *)
theory Workload_Properties
  imports Cluster_Runs
begin

section \<open>Properties of the ChangeWorkload controller\<close>

text \<open>
  When the controller creates a ChangePod, how it sums up the verdicts of the finished ones, and
  what it makes of the sum.
\<close>

subsection \<open>Creating ChangePods\<close>

definition changePodsOf :: "changeWorkload \<Rightarrow> listOpts" where
  "changePodsOf workload = anyOpts\<lparr>inNamespace := Some (Namespace workload),
     matchingFields := [(ChangePodFieldChangeWorkloadId, Name workload)]\<rparr>"

definition podsOf :: "changeWorkload \<Rightarrow> listOpts" where
  "podsOf workload = anyOpts\<lparr>inNamespace := Some (Namespace workload),
     matchingLabels := [(AdmissionWebhookVersionLabel,
       get_label (Labels workload) AdmissionWebhookVersionLabel)]\<rparr>"

text \<open>Enough pods wait for a check: as many as the threshold, or any at all.\<close>

definition necessary :: "bool \<Rightarrow> changeWorkload \<Rightarrow> pod list \<Rightarrow> bool" where
  "necessary reachedThreshold workload ps \<longleftrightarrow>
     (if reachedThreshold then int (length (filter preparing ps)) \<ge> cwCountThreshold (cwSpec workload)
      else filter preparing ps \<noteq> [])"

lemma foldl_exists: "foldl (\<lambda>b x. if P x then True else b) b xs \<longleftrightarrow> b \<or> (\<exists>x\<in>set xs. P x)"
  by (induction xs arbitrary: b) auto

lemma isExistInit_run:
  assumes "apiList (changePodApi env) (changePodsOf workload) (wExt w) = (Inr cps, e)"
  shows "isExistInitStatusChangePod env workload w =
    (Ok (\<exists>cp\<in>set cps. changePodState cp = ExecuteInit, int (length cps)), w\<lparr>wExt := e\<rparr>)"
  using assms by (simp add: isExistInitStatusChangePod_def getAllChangePodsByWorkload_def changePodsOf_def
      bindM_def call_def ret_def foldl_exists)

lemma necessary_run:
  assumes "apiList (podApi env) (podsOf workload) (wExt w) = (Inr ps, e)"
  shows "(if b then isDefensePreparingPodsThresholdReached env workload
      else isDefensePreparingPodsExist env workload) w = (Ok (necessary b workload ps), w\<lparr>wExt := e\<rparr>)"
proof -
  have "getFinishedWithoutDefensedPodsByWorkload env workload w = (Ok (filter preparing ps), w\<lparr>wExt := e\<rparr>)"
    using assms by (simp add: getFinishedWithoutDefensedPodsByWorkload_def getAllPodsByWorkload_def
        getAllPodsByVersion_def podsOf_def bindM_def call_def ret_def filterPreparing_eq)
  then show ?thesis
    by (simp add: isDefensePreparingPodsThresholdReached_def isDefensePreparingPodsExist_def bindM_def
        attempt_def ret_def necessary_def NumberZero_def)
qed

text \<open>
  Given the two lists it reads, \<open>ensureInit\<close> creates nothing while one of the ChangePods is in
  \<open>ExecuteInit\<close> or too few pods wait; otherwise it creates the ChangePod numbered by how many
  there are and stamps the entry time.
\<close>

lemma ensureInit_run:
  assumes "apiList (changePodApi env) (changePodsOf workload) (wExt w) = (Inr cps, e)"
    and "apiList (podApi env) (podsOf workload) e = (Inr ps, e')"
  shows "ensureInitChangePodCreatedIfNecessary env workload b w =
    (if \<exists>cp\<in>set cps. changePodState cp = ExecuteInit then (Ok (None, workload), w\<lparr>wExt := e\<rparr>)
     else if \<not> necessary b workload ps then (Ok (None, workload), w\<lparr>wExt := e'\<rparr>)
     else bindM (createNewChangePod env workload (int (length cps))) (\<lambda>newChangePod.
            bindM (patchWorkloadEntryTime env workload) (\<lambda>workload. ret (Some newChangePod, workload)))
          (w\<lparr>wExt := e'\<rparr>))"
proof -
  note exist = isExistInit_run [OF assms(1)]
  have necessary: "(if b then isDefensePreparingPodsThresholdReached env workload
      else isDefensePreparingPodsExist env workload) (w\<lparr>wExt := e\<rparr>) =
      (Ok (necessary b workload ps), w\<lparr>wExt := e'\<rparr>)"
    using necessary_run [of env workload "w\<lparr>wExt := e\<rparr>" ps e' b] assms(2) by simp
  show ?thesis
    unfolding ensureInitChangePodCreatedIfNecessary_def bindM_eval(1) [where m = "isExistInitStatusChangePod env workload", OF exist]
    by (simp only: prod.case if_distribR ret_eval
        bindM_eval(1) [where m = "if b then isDefensePreparingPodsThresholdReached env workload
          else isDefensePreparingPodsExist env workload", OF necessary])
      simp
qed

lemma sample_workload_lists:
  "apiList (changePodApi clusterEnv) (changePodsOf (sampleWorkload st)) (wExt (worldOf (sampleCluster cst infos))) =
     (Inr [sampleChangePod cst infos 0], sampleCluster cst infos)"
  "apiList (podApi clusterEnv) (podsOf (sampleWorkload st)) (sampleCluster cst infos) =
     (Inr [samplePod ''p0'' 0, samplePod ''p1'' 1], sampleCluster cst infos)"
  by (simp_all add: onPart_def sample_defs changePodsOf_def podsOf_def selected_def anyOpts_def get_label_def
      lookup_label_def changePodKind_def podKind_def changePodIndex_def ChangePodFieldStatus_def
      ChangePodFieldChangePodId_def ChangePodFieldChangeWorkloadId_def)

lemma cluster_create:
  assumes "findObj (obj_key cp) (shStored (clChangePods (wExt w))) = Some old"
  shows "call (apiCreate (changePodApi clusterEnv) cp) w = (Err (existsError (obj_key cp)), w)"
  using assms by (simp add: call_def onPart_def shelfApi_def)

text \<open>The creation is refused when the next number is taken.\<close>

lemma create_refused:
  assumes "findObj \<lparr>nnNamespace = Namespace workload,
      nnName = Name workload @ MetaMark @ itoa (n + 1)\<rparr> (shStored (clChangePods (wExt w))) = Some old"
  shows "createNewChangePod clusterEnv workload n w =
    (Err (existsError \<lparr>nnNamespace = Namespace workload, nnName = Name workload @ MetaMark @ itoa (n + 1)\<rparr>), w)"
proof -
  obtain cp e where made: "ChangePodFactory_NewInstance clusterEnv
      \<lparr>facChangeWorkload = workload, facChangePodNum = n\<rparr> w = (Ok cp, w\<lparr>wExt := e\<rparr>)"
    by (rule ChangePodFactory_returns)
  have "preserves (\<lambda>v. v = w) (ChangePodFactory_NewInstance clusterEnv
      \<lparr>facChangeWorkload = workload, facChangePodNum = n\<rparr>)"
    unfolding ChangePodFactory_NewInstance_def Let_def by (intro preserves_intros preserves_cluster_clock)
  then have w: "w\<lparr>wExt := e\<rparr> = w"
    using made by (auto dest!: preservesD)
  have key: "obj_key cp = \<lparr>nnNamespace = Namespace workload, nnName = Name workload @ MetaMark @ itoa (n + 1)\<rparr>"
    using made by (auto simp: obj_key_def zero_defs elim!: ChangePodFactory_result)
  let ?cp = "cp\<lparr>OwnerReferences := [\<lparr>refKind = ''ChangeWorkload'', refName = Name workload\<rparr>]\<rparr>"
  have "call (apiCreate (changePodApi clusterEnv) ?cp) w = (Err (existsError (obj_key cp)), w)"
    using cluster_create [of ?cp w old] assms key by simp
  then show ?thesis
    using made w key by (simp add: createNewChangePod_def bindM_def)
qed

subsection \<open>Collecting verdicts\<close>

text \<open>The pods a finished ChangePod counts as passed and as failed.\<close>

definition passedBy :: "changePod \<Rightarrow> podSummary list" where
  "passedBy cp =
     (if cpMessage (cpStatus cp) \<in> {PreTimeout, PreFailed, PostFailed, PostTimeout} then cpPodInfos (cpSpec cp)
      else if cpMessage (cpStatus cp) = PostFinish
      then filter (\<lambda>p. psVerdict p = ChangePodVerdictPass) (cpPodResults (cpStatus cp))
      else [])"

definition failedBy :: "changePod \<Rightarrow> podSummary list" where
  "failedBy cp =
     (if cpMessage (cpStatus cp) = PostFinish
      then filter (\<lambda>p. psVerdict p \<noteq> ChangePodVerdictPass) (cpPodResults (cpStatus cp)) else [])"

lemma passAndFailed_eq:
  "getPassAndFailedPodsByPostFinishChangePod cp =
     (filter (\<lambda>p. psVerdict p = ChangePodVerdictPass) (cpPodResults (cpStatus cp)),
      filter (\<lambda>p. psVerdict p \<noteq> ChangePodVerdictPass) (cpPodResults (cpStatus cp)))"
proof -
  have "foldl (\<lambda>(passPods, failedPods) podResult.
         if psVerdict podResult = ChangePodVerdictPass then (passPods @ [podResult], failedPods)
         else (passPods, failedPods @ [podResult])) (a, b) ps =
      (a @ filter (\<lambda>p. psVerdict p = ChangePodVerdictPass) ps,
       b @ filter (\<lambda>p. psVerdict p \<noteq> ChangePodVerdictPass) ps)" for a b ps
    by (induction ps arbitrary: a b) auto
  from this [of "[]" "[]" "cpPodResults (cpStatus cp)"] show ?thesis
    by (simp add: getPassAndFailedPodsByPostFinishChangePod_def)
qed

lemma collectVerdicts_eq: "collectVerdicts (a, b) cp = (a @ passedBy cp, b @ failedBy cp)"
  by (auto simp: collectVerdicts_def passedBy_def failedBy_def passAndFailed_eq changePod_status_defs)

lemma collectVerdicts_fold:
  "foldl collectVerdicts (a, b) cps = (a @ concat (map passedBy cps), b @ concat (map failedBy cps))"
  by (induction cps arbitrary: a b) (simp_all add: collectVerdicts_eq)

text \<open>
  C16 (functional). The loop over the finished ChangePods counts every
  pod of a ChangePod that timed out or could not be announced as passed, and fails a pod only on
  an explicit verdict other than \<open>pass\<close> of a ChangePod that finished its post-check.
\<close>

theorem collectVerdicts_fail_open:
  "foldl collectVerdicts ([], []) cps = (concat (map passedBy cps), concat (map failedBy cps)) \<and>
   (\<forall>p. p \<in> set (snd (foldl collectVerdicts ([], []) cps)) \<longleftrightarrow>
      (\<exists>cp\<in>set cps. cpMessage (cpStatus cp) = PostFinish \<and> p \<in> set (cpPodResults (cpStatus cp)) \<and>
         psVerdict p \<noteq> ChangePodVerdictPass))"
  by (auto simp: collectVerdicts_fold failedBy_def split: if_splits)

subsection \<open>Judging\<close>

text \<open>The status that the collected verdicts give, when the Deployment wants \<open>replicas\<close> pods.\<close>

definition judgement :: "changeWorkload \<Rightarrow> int \<Rightarrow> pod list \<Rightarrow> string" where
  "judgement workload replicas finishedPods =
     (if cwDefenseCheckFailPods (cwStatus workload) \<noteq> [] then Suspend
      else if int (length finishedPods) \<ge> replicas \<and>
              int (length (cwDefenseCheckPassPods (cwStatus workload))) = replicas then Success
      else changeWorkloadState workload)"

text \<open>
  Once the Deployment, the finished pods and the suspend label
  are dealt with, the ChangeWorkload is written with the judgement: suspended as soon as one pod
  failed, else successful when all replicas are finished and passed, else as it was. A
  ChangeWorkload without an owning Deployment makes the handler panic, because the zero
  Deployment has no replica count.
\<close>

lemma validate_run:
  assumes "getDeploymentByWorkload env workload w = (Ok d, w1)"
  shows "validateChangeWorkloadSuccessOrSuspend env workload w =
    (case depReplicas d of
       None \<Rightarrow> (Panic, w1)
     | Some replicas \<Rightarrow>
         bindM (getFinishedPodsByWorkload env workload) (\<lambda>finishedPods.
         bindM (addOrRemoveDeploymentSuspendLabel env d (cwDefenseCheckFailPods (cwStatus workload) \<noteq> [])) (\<lambda>_.
         bindM (updateWorkloadStatus env (workload\<lparr>cwStatus := (cwStatus workload)
           \<lparr>cwStatusStatus := judgement workload replicas finishedPods\<rparr>\<rparr>)) (\<lambda>_. ret ()))) w1) \<and>
    (firstOwner DeploymentKind (OwnerReferences workload) = None \<longrightarrow>
       fst (validateChangeWorkloadSuccessOrSuspend env workload w) = Panic)"
proof -
  have same: "workload\<lparr>cwStatus := (cwStatus workload)\<lparr>cwStatusStatus := changeWorkloadState workload\<rparr>\<rparr> = workload"
    by simp
  have run: "validateChangeWorkloadSuccessOrSuspend env workload w =
    (case depReplicas d of
       None \<Rightarrow> (Panic, w1)
     | Some replicas \<Rightarrow>
         bindM (getFinishedPodsByWorkload env workload) (\<lambda>finishedPods.
         bindM (addOrRemoveDeploymentSuspendLabel env d (cwDefenseCheckFailPods (cwStatus workload) \<noteq> [])) (\<lambda>_.
         bindM (updateWorkloadStatus env (workload\<lparr>cwStatus := (cwStatus workload)
           \<lparr>cwStatusStatus := judgement workload replicas finishedPods\<rparr>\<rparr>)) (\<lambda>_. ret ()))) w1)"
    unfolding validateChangeWorkloadSuccessOrSuspend_def
      bindM_eval(1) [where m = "getDeploymentByWorkload env workload", OF assms]
    by (auto simp: Let_def NumberZero_def judgement_def crash_eval same split: option.split
        intro!: arg_cong [where f = "\<lambda>f. bindM m f x" for m x] ext)
  moreover have "depReplicas d = None" if "firstOwner DeploymentKind (OwnerReferences workload) = None"
    using assms that by (auto simp: getDeploymentByWorkload_def ret_def zero_defs)
  ultimately show ?thesis by simp
qed

lemma sample_getDeployment:
  "getDeploymentByWorkload clusterEnv (sampleWorkload st) (worldOf (sampleCluster cst infos)) =
     (Ok (sampleDeployment sampleLabels), worldOf (sampleCluster cst infos))"
proof -
  have "findObj \<lparr>nnNamespace = Namespace (sampleWorkload st), nnName = ''app''\<rparr>
      (shCached (clDeployments (wExt (worldOf (sampleCluster cst infos))))) = Some (sampleDeployment sampleLabels)"
    by (simp add: sampleCluster_def worldOf_def shelfOf_def sampleWorkload_def sampleDeployment_def obj_key_def)
  then show ?thesis
    by (simp add: getDeploymentByWorkload_def cluster_simps sampleWorkload_def)
qed

lemma validate_example:
  "validateChangeWorkloadSuccessOrSuspend clusterEnv (sampleWorkload Running) (worldOf (sampleCluster PreWait [])) =
     bindM (getFinishedPodsByWorkload clusterEnv (sampleWorkload Running)) (\<lambda>finishedPods.
     bindM (addOrRemoveDeploymentSuspendLabel clusterEnv (sampleDeployment sampleLabels) False) (\<lambda>_.
     bindM (updateWorkloadStatus clusterEnv ((sampleWorkload Running)\<lparr>cwStatus :=
       (cwStatus (sampleWorkload Running))\<lparr>cwStatusStatus := Running\<rparr>\<rparr>)) (\<lambda>_. ret ())))
     (worldOf (sampleCluster PreWait []))"
proof -
  have "depReplicas (sampleDeployment sampleLabels) = Some 2" "cwDefenseCheckFailPods (cwStatus (sampleWorkload Running)) = []"
    "judgement (sampleWorkload Running) 2 ps = Running" for ps
    by (simp_all add: sampleDeployment_def sampleWorkload_def zeroChangeWorkloadStatus_def judgement_def)
  then show ?thesis
    using conjunct1 [OF validate_run [OF sample_getDeployment [of Running PreWait "[]"]]] by simp
qed

lemma sync_run:
  assumes "apiList (changePodApi env) (changePodsOf workload) (wExt w) = (Inr cps, e)"
    and "apiList (podApi env) (podsOf workload) e = (Inr ps, e')"
  defines "finished \<equiv> filter (\<lambda>cp. changePodState cp = ExecuteDone) cps"
  defines "passed \<equiv> RemoveDuplicatePod (concat (map passedBy finished)) (podMapOf ps)"
  defines "failed \<equiv> RemoveDuplicatePod (concat (map failedBy finished)) (podMapOf ps)"
  shows "syncChangeWorkloadStatus env workload w =
    (if finished = [] \<or>
        (IsPodSummarySliceEqual passed (cwDefenseCheckPassPods (cwStatus workload)) \<and>
         IsPodSummarySliceEqual failed (cwDefenseCheckFailPods (cwStatus workload)))
     then (Ok (), w\<lparr>wExt := e'\<rparr>)
     else validateChangeWorkloadSuccessOrSuspend env
       (workload\<lparr>cwStatus := (cwStatus workload)
          \<lparr>cwDefenseCheckPassPods := passed, cwDefenseCheckFailPods := failed\<rparr>\<rparr>) (w\<lparr>wExt := e'\<rparr>))"
proof -
  have only: "onlyExecuteDone cps = finished"
    unfolding finished_def by (induction cps) simp_all
  have 1: "getFinishedChangePodsByWorkload env workload w = (Ok finished, w\<lparr>wExt := e\<rparr>)"
    using assms(1) by (simp add: getFinishedChangePodsByWorkload_def getAllChangePodsByWorkload_def
        changePodsOf_def bindM_def call_def ret_def only)
  have 2: "getAllPodMapByWorkload env workload (w\<lparr>wExt := e\<rparr>) = (Ok (podMapOf ps), w\<lparr>wExt := e'\<rparr>)"
    using assms(2) by (simp add: getAllPodMapByWorkload_def getAllPodsByVersion_def podsOf_def bindM_def
        call_def ret_def)
  show ?thesis
    unfolding syncChangeWorkloadStatus_def
      bindM_eval(1) [where m = "getFinishedChangePodsByWorkload env workload", OF 1]
      bindM_eval(1) [where m = "getAllPodMapByWorkload env workload", OF 2]
    by (auto simp: collectVerdicts_fold passed_def failed_def Let_def ret_def)
qed

subsection \<open>Deleting the ChangeWorkloads of earlier versions\<close>

lemma cluster_delete_workload:
  "\<exists>t. logged (call (apiDelete (changeWorkloadApi clusterEnv) old)) w = (Ok (), t) \<and>
     (\<forall>k. findObj k (shStored (clWorkloads (wExt t))) =
       (if k = obj_key old then None else findObj k (shStored (clWorkloads (wExt w)))))"
  by (cases "findObj (obj_key old) (shStored (clWorkloads (wExt w)))")
    (auto simp: logged_def bindM_def attempt_def call_def onPart_def shelf_writes ret_def findObj_drop)

lemma cluster_delete_workloads:
  "\<exists>t. forEach items (\<lambda>old. if Name old \<noteq> n
      then logged (call (apiDelete (changeWorkloadApi clusterEnv) old)) else ret ()) w = (Ok (), t) \<and>
     (\<forall>k. findObj k (shStored (clWorkloads (wExt t))) =
       (if k \<in> obj_key ` {old \<in> set items. Name old \<noteq> n} then None
        else findObj k (shStored (clWorkloads (wExt w)))))"
proof (induction items arbitrary: w)
  case Nil
  then show ?case by (simp add: ret_def)
next
  case (Cons old items)
  show ?case
  proof (cases "Name old = n")
    case True
    then show ?thesis using Cons.IH [of w] by (auto simp: bindM_def ret_def)
  next
    case False
    obtain u where u: "logged (call (apiDelete (changeWorkloadApi clusterEnv) old)) w = (Ok (), u)"
      "\<And>k. findObj k (shStored (clWorkloads (wExt u))) =
        (if k = obj_key old then None else findObj k (shStored (clWorkloads (wExt w))))"
      using cluster_delete_workload [of old w] by blast
    obtain t where "forEach items (\<lambda>old. if Name old \<noteq> n
        then logged (call (apiDelete (changeWorkloadApi clusterEnv) old)) else ret ()) u = (Ok (), t)"
      "\<And>k. findObj k (shStored (clWorkloads (wExt t))) =
         (if k \<in> obj_key ` {old \<in> set items. Name old \<noteq> n} then None
          else findObj k (shStored (clWorkloads (wExt u))))"
      using Cons.IH [of u] by blast
    then show ?thesis
      using False u(2)
      by (simp only: forEach.simps if_True not_False_eq_True
          bindM_eval(1) [where m = "logged (call (apiDelete (changeWorkloadApi clusterEnv) old))", OF u(1)])
        (intro exI [of _ t], auto)
  qed
qed

text \<open>The handler after its two reads: nothing, or the deletions.\<close>

lemma deleteOld_run:
  assumes "findObj \<lparr>nnNamespace = Namespace workload,
      nnName = get_label (Labels workload) DeploymentNameLabel\<rparr> (shCached (clDeployments (wExt w))) = Some d"
  defines "items \<equiv> filter (selected changeWorkloadIndex (anyOpts\<lparr>inNamespace := Some (Namespace workload),
      matchingLabels := [(DeploymentNameLabel, Name d)]\<rparr>)) (shCached (clWorkloads (wExt w)))"
  shows "deleteOldChangeWorkload clusterEnv workload w =
    (if get_label (Labels d) AdmissionWebhookVersionLabel = get_label (Labels workload) AdmissionWebhookVersionLabel
     then forEach items (\<lambda>old. if Name old \<noteq> Name workload
       then logged (call (apiDelete (changeWorkloadApi clusterEnv) old)) else ret ()) w
     else (Ok (), w))"
proof -
  let ?opts = "anyOpts\<lparr>inNamespace := Some (Namespace workload), matchingLabels := [(DeploymentNameLabel, Name d)]\<rparr>"
  have get: "attempt (call (apiGet (deploymentApi clusterEnv) \<lparr>nnNamespace = Namespace workload,
      nnName = get_label (Labels workload) DeploymentNameLabel\<rparr>)) w = (Ok (Inr d), w)"
    using assms(1) by (simp add: attempt_def cluster_simps)
  have list: "attempt (call (apiList (changeWorkloadApi clusterEnv) ?opts)) w = (Ok (Inr items), w)"
    by (simp add: attempt_def cluster_simps items_def)
  show ?thesis
    unfolding deleteOldChangeWorkload_def
      bindM_eval(1) [where m = "attempt (call (apiGet (deploymentApi clusterEnv) k))" for k, OF get]
    by (simp add: bindM_eval(1) [where m = "attempt (call (apiList (changeWorkloadApi clusterEnv) ?opts))", OF list]
        ret_def del: cluster_api)
qed

text \<open>
  C25 (safety). On the reference cluster \<open>deleteOldChangeWorkload\<close> deletes
  exactly the other ChangeWorkloads of the Deployment that its cache shows, and only when the
  Deployment is at the version of the successful ChangeWorkload; that one is always kept.
\<close>

theorem deleteOld_scope:
  assumes "findObj \<lparr>nnNamespace = Namespace workload,
      nnName = get_label (Labels workload) DeploymentNameLabel\<rparr> (shCached (clDeployments (wExt w))) = Some d"
  defines "others \<equiv> filter (\<lambda>old. selected changeWorkloadIndex (anyOpts\<lparr>inNamespace := Some (Namespace workload),
      matchingLabels := [(DeploymentNameLabel, Name d)]\<rparr>) old \<and> Name old \<noteq> Name workload)
    (shCached (clWorkloads (wExt w)))"
  shows "\<exists>t. deleteOldChangeWorkload clusterEnv workload w = (Ok (), t) \<and>
    (\<forall>k. findObj k (shStored (clWorkloads (wExt t))) =
      (if get_label (Labels d) AdmissionWebhookVersionLabel = get_label (Labels workload) AdmissionWebhookVersionLabel \<and>
          k \<in> set (map obj_key others)
       then None else findObj k (shStored (clWorkloads (wExt w))))) \<and>
    obj_key workload \<notin> set (map obj_key others)"
proof -
  let ?items = "filter (selected changeWorkloadIndex (anyOpts\<lparr>inNamespace := Some (Namespace workload),
      matchingLabels := [(DeploymentNameLabel, Name d)]\<rparr>)) (shCached (clWorkloads (wExt w)))"
  have keys: "obj_key ` {old \<in> set ?items. Name old \<noteq> Name workload} = set (map obj_key others)"
    by (auto simp: others_def)
  have kept: "obj_key workload \<notin> set (map obj_key others)"
    by (auto simp: others_def obj_key_def)
  show ?thesis
    using cluster_delete_workloads [of ?items "Name workload" w] kept
    unfolding deleteOld_run [OF assms(1)] keys by auto
qed

theorem deleteOld_scope_witness:
  "\<exists>t. deleteOldChangeWorkload clusterEnv (sampleWorkload Success) (worldOf (sampleCluster PreWait [])) = (Ok (), t) \<and>
     findObj (obj_key (sampleWorkload Success)) (shStored (clWorkloads (wExt t))) \<noteq> None"
proof -
  have d: "findObj \<lparr>nnNamespace = Namespace (sampleWorkload Success),
      nnName = get_label (Labels (sampleWorkload Success)) DeploymentNameLabel\<rparr>
      (shCached (clDeployments (wExt (worldOf (sampleCluster PreWait []))))) = Some (sampleDeployment sampleLabels)"
    by (simp add: sampleCluster_def worldOf_def shelfOf_def sampleWorkload_def sampleDeployment_def obj_key_def
        sampleLabels_def get_label_def)
  have "findObj (obj_key (sampleWorkload Success)) (shStored (clWorkloads (wExt (worldOf (sampleCluster PreWait []))))) =
      Some (sampleWorkload Running)"
    by (simp add: worldOf_def shelfOf_def) (simp add: sampleWorkload_def obj_key_def)
  then show ?thesis
    using deleteOld_scope [OF d] by fastforce
qed

end
