(* ===== verification/Web_Server.thy ===== *)
theory Web_Server
  imports Callback Process_Utils
begin

section \<open>routers/router.go: the web server\<close>

text \<open>
  The gin engine of \<open>SetupRouter\<close> with the \<open>Cors\<close> middleware around every handler. A
  request carries the results of binding its body to the types the handlers bind it to; a reply
  is the headers set and the responses written, in order. What gin does for a path without a
  route is the argument \<open>noRoute\<close>.
\<close>

record webRequest =
  webMethod :: string
  webPath :: string
  webOrigin :: string
  webNamespace :: string
  webCallback :: "error + opsCloudChangeCheckCallbackWrapperRequest"
  webExecOrder :: "error + opsCloudChangeExecOrderSubmitRequest"
  webStartNotify :: "error + opsCloudChangeExecBatchStartNotifyRequest"
  webFinishNotify :: "error + opsCloudChangeFinishNotifyRequest"

record webReply =
  webHeaders :: "(string \<times> string) list"
  webResponses :: "response list"

subsection \<open>Cors\<close>

definition corsHeaders :: "(string \<times> string) list" where
  "corsHeaders =
     [(''Access-Control-Allow-Origin'', ''*''),
      (''Access-Control-Allow-Methods'', ''POST, GET, OPTIONS, PUT, DELETE,UPDATE''),
      (''Access-Control-Allow-Headers'', ''Authorization, Content-Length, X-CSRF-Token, Token,session,X_Requested_With,Accept, Origin, Host, Connection, Accept-Encoding, Accept-Language,DNT, X-CustomHeader, Keep-Alive, User-Agent, X-Requested-With, If-Modified-Since, Cache-Control, Content-Type, Pragma''),
      (''Access-Control-Expose-Headers'', ''Content-Length, Access-Control-Allow-Origin, Access-Control-Allow-Headers,Cache-Control,Content-Language,Content-Type,Expires,Last-Modified,Pragma,FooBar''),
      (''Access-Control-Max-Age'', ''172800''),
      (''Access-Control-Allow-Credentials'', ''false'')]"

text \<open>
  The deferred \<open>recover\<close> ends a panic with a log message. The only handler that panics does so
  before it writes (\<open>callback_returns\<close> below covers the one that writes first), so nothing has
  been written then.
\<close>

definition recovered :: "('s, 'a list) prog \<Rightarrow> ('s, 'a list) prog" where
  "recovered m = (\<lambda>s. case m s of (Panic, t) \<Rightarrow> (Ok [], t) | r \<Rightarrow> r)"

definition Cors :: "webRequest \<Rightarrow> ('s, response list) prog \<Rightarrow> ('s, webReply) prog" where
  "Cors req handle =
     (let headers = (if webOrigin req \<noteq> '''' then corsHeaders else []);
          early = (if webMethod req = ''OPTIONS'' then [(200, JsonText ''ok!'')] else [])
      in bindM (recovered handle) (\<lambda>late. ret \<lparr>webHeaders = headers, webResponses = early @ late\<rparr>))"

subsection \<open>The engine\<close>

definition routeHandler :: "'e env \<Rightarrow> webRequest \<Rightarrow> route \<Rightarrow> ('e world, response list) prog" where
  "routeHandler env req route = (case route of
       CallbackRoute \<Rightarrow> CheckCallBackHandler env (webCallback req)
     | LiveTestRoute \<Rightarrow> ret LiveTest
     | SuspendDeploymentRoute \<Rightarrow> GetSuspendDeployment env (webNamespace req)
     | RollbackRoute \<Rightarrow> ret DeploymentRollback
     | ExecOrderWebRoute \<Rightarrow> SubmitChangeExecOrderWeb env (webExecOrder req)
     | StartNotifyWebRoute \<Rightarrow> SubmitChangeStartNotifyWeb env (webStartNotify req)
     | FinishNotifyWebRoute \<Rightarrow> SubmitChangeFinishNotifyWeb env (webFinishNotify req))"

definition serve ::
  "'e env \<Rightarrow> ('e world, response list) prog \<Rightarrow> webRequest \<Rightarrow> ('e world, webReply) prog" where
  "serve env noRoute req =
     Cors req (case SetupRouter (webMethod req) (webPath req) of
        Some route \<Rightarrow> routeHandler env req route
      | None \<Rightarrow> noRoute)"

text \<open>The status of the reply: the first response fixes it, and without one gin answers 200.\<close>

definition replyStatus :: "webReply \<Rightarrow> int" where
  "replyStatus reply = (case webResponses reply of [] \<Rightarrow> 200 | (c, _) # _ \<Rightarrow> c)"

subsection \<open>Panics\<close>

lemma call_no_panic [simp]: "fst (call op w) \<noteq> Panic" "fst (call op w) \<noteq> Hang"
  by (auto simp: call_def split: prod.split sum.split)

lemma returned_call [returned_intros]: "returned (fst (call op w))"
  by (auto simp: call_def split: prod.split sum.split)

lemma returned_clock [returned_intros]: "returned (fst (nowUnix env w))" "returned (fst (GetNowTime env w))"
  by (auto simp: nowUnix_def GetNowTime_def timeNow_def bindM_def ret_def split: prod.split)

text \<open>The callback neither panics nor hangs, also after its early response.\<close>

lemma callbackStage_returns: "returned (fst (callbackStage env req cp w))"
  unfolding callbackStage_def callbackPre_def callbackPost_def patchChangePodStatus_def Let_def
  by (auto intro!: returned_intros split: sum.split)

lemma callback_returns: "returned (fst (CheckCallBackHandler env bound w))"
  unfolding CheckCallBackHandler_def Let_def
  by (auto intro!: returned_intros callbackStage_returns split: sum.split list.split)

lemma recovered_no_panic: "fst (recovered m s) \<noteq> Panic"
  by (auto simp: recovered_def split: prod.split outcome.split)

lemma Cors_panic:
  assumes "handle s = (Panic, t)" "webMethod req \<noteq> ''OPTIONS''"
  shows "Cors req handle s =
    (Ok \<lparr>webHeaders = (if webOrigin req \<noteq> '''' then corsHeaders else []), webResponses = []\<rparr>, t)"
  using assms by (simp add: Cors_def recovered_def bindM_def ret_def Let_def)

text \<open>No request ends the server: every panic stops at the middleware.\<close>

lemma Cors_no_panic: "fst (Cors req handle s) \<noteq> Panic"
proof (cases "recovered handle s")
  case (Pair r t)
  then show ?thesis
    using recovered_no_panic [of handle s] by (cases r) (simp_all add: Cors_def bindM_def ret_def Let_def)
qed

lemma serve_no_panic: "fst (serve env noRoute req w) \<noteq> Panic"
  unfolding serve_def by (rule Cors_no_panic)

end
