(* ===== verification/Runtime_Properties.thy ===== *)
theory Runtime_Properties
  imports Cluster_Runs Web_Server
begin

section \<open>Properties of the remaining controllers, the goroutines and the web handlers\<close>

subsection \<open>Pods\<close>

lemma cluster_pod_update:
  assumes "findObj (obj_key p) (shStored (clPods (wExt w))) = Some cur" "ResourceVersion cur = ResourceVersion p"
  shows "\<exists>t. call (apiUpdate (podApi clusterEnv) p) w = (Ok (p\<lparr>podPhase := podPhase cur, podIP := podIP cur,
      podStartTime := podStartTime cur, ResourceVersion := shVersion (clPods (wExt w))\<rparr>), t) \<and>
    findObj (obj_key p) (shStored (clPods (wExt t))) = Some (p\<lparr>podPhase := podPhase cur, podIP := podIP cur,
      podStartTime := podStartTime cur, ResourceVersion := shVersion (clPods (wExt w))\<rparr>)"
  using assms
  by (simp add: call_def onPart_def shelf_writes putIfCurrent_def podKind_def storeObj_def Let_def findObj_put
      obj_key_def)

text \<open>
  C26 (functional). A pod whose creation event passes the filter is marked as
  finished by its reconcile, which does not panic on it; no other label changes, the filter lets
  no further event of the pod through, and its ChangeWorkload is asked for until it is defensed.
\<close>

theorem pod_event_marks:
  assumes "Pod_handleCreateEvent (PodObject p)"
    and "findObj req (shCached (clPods (wExt w))) = Some p" "findObj req (shStored (clPods (wExt w))) = Some p"
  shows "\<exists>t p'. Pod_Reconcile clusterEnv req w = (Ok (), t) \<and>
    findObj req (shStored (clPods (wExt t))) = Some p' \<and> isFinished p' \<and>
    (\<forall>k. k = OperateFinishedLabel \<or> lookup_label (Labels p') k = lookup_label (Labels p) k) \<and>
    \<not> Pod_handleCreateEvent (PodObject p') \<and> \<not> Pod_handleUpdateEvent (PodObject q) (PodObject p') \<and>
    (watchPodEventHandler (PodObject p') = [] \<longleftrightarrow> isDefensed (Labels p))"
proof -
  have p: "\<not> isFinished p" "Labels p \<noteq> None"
    using assms(1) isHasVersion_alloc [of p] by (auto split: if_splits)
  define p1 where "p1 = p\<lparr>Labels := put_label OperateFinishedLabel (itoa (time_unix (clNow (wExt w)))) (Labels p)\<rparr>"
  have key: "obj_key p1 = req" "obj_key p = req" "ResourceVersion p = ResourceVersion p1"
    using findObj_key [OF assms(3)] by (simp_all add: p1_def)
  obtain t where t: "call (apiUpdate (podApi clusterEnv) p1) w = (Ok (p1\<lparr>podPhase := podPhase p, podIP := podIP p,
      podStartTime := podStartTime p, ResourceVersion := shVersion (clPods (wExt w))\<rparr>), t)"
    "findObj (obj_key p1) (shStored (clPods (wExt t))) = Some (p1\<lparr>podPhase := podPhase p, podIP := podIP p,
      podStartTime := podStartTime p, ResourceVersion := shVersion (clPods (wExt w))\<rparr>)"
    using cluster_pod_update [of p1 w p] assms(3) key by auto
  have run: "Pod_Reconcile clusterEnv req w = (Ok (), t)"
    using assms(2) p t(1)
    by (simp add: Pod_Reconcile_def markAsFinished_def bindM_def attempt_def cluster_simps set_label_Ok
        p1_def [symmetric] ret_def)
  have "lookup_label (Labels p1) k = (if k = OperateFinishedLabel then Some (itoa (time_unix (clNow (wExt w))))
      else lookup_label (Labels p) k)" for k
    using p(2) by (simp add: p1_def)
  then have "isFinished p1" "isDefensed (Labels p1) = isDefensed (Labels p)"
    "\<forall>k. k = OperateFinishedLabel \<or> lookup_label (Labels p1) k = lookup_label (Labels p) k"
    by (simp_all add: isFinished_def isDefensed_def has_label_def)
  then show ?thesis
    using run t(2) key(1) by (auto simp: isFinished_def)
qed

definition unmarkedPod :: pod where
  "unmarkedPod = (samplePod ''p2'' 2)\<lparr>Labels := Some [AdmissionWebhookVersionLabel \<mapsto> ''v1'']\<rparr>"

theorem pod_event_marks_witness:
  "\<exists>t. Pod_Reconcile clusterEnv \<lparr>nnNamespace = ''default'', nnName = ''p2''\<rparr>
      (worldOf (emptyCluster\<lparr>clPods := shelfOf [unmarkedPod]\<rparr>)) = (Ok (), t) \<and>
    (case findObj \<lparr>nnNamespace = ''default'', nnName = ''p2''\<rparr> (shStored (clPods (wExt t))) of
       None \<Rightarrow> False | Some p \<Rightarrow> isFinished p)"
proof -
  have p: "Pod_handleCreateEvent (PodObject unmarkedPod)"
    "obj_key unmarkedPod = \<lparr>nnNamespace = ''default'', nnName = ''p2''\<rparr>"
    by (simp_all add: unmarkedPod_def isFinished_def isRunning_def isHasVersion_def has_label_def samplePod_def
        objectMeta.extend_def obj_key_def)
  then show ?thesis
    using pod_event_marks [OF p(1), of "\<lparr>nnNamespace = ''default'', nnName = ''p2''\<rparr>"
        "worldOf (emptyCluster\<lparr>clPods := shelfOf [unmarkedPod]\<rparr>)" unmarkedPod]
    by (auto simp: worldOf_def shelfOf_def)
qed

subsection \<open>Deployments\<close>

text \<open>
  After a reconcile of an unmarked Deployment that
  returns without an error, a ChangeWorkload with the name of the Deployment's version has been
  stored in its namespace, found or created.
\<close>

theorem deployment_has_workload:
  assumes "workload_world env rely good stored known"
    and "\<And>cw cw'. refChangeWorkload env d cw = Inr cw' \<Longrightarrow> obj_key cw' = obj_key cw"
    and "good (wExt w)" "apiGet (deploymentApi env) req (wExt w) = (Inr d, e)"
    and "\<not> isDefensed (Labels d)" "Deployment_Reconcile env req w = (Ok (), t)"
  shows "\<exists>cw\<in>known (wExt t). obj_key cw =
    \<lparr>nnNamespace = Namespace d, nnName = GetChangeWorkloadNameByDeployment d\<rparr>"
  by (rule workload_world.Deployment_workload_known [OF assms])

lemma sample_deployment_get:
  "apiGet (deploymentApi clusterEnv) \<lparr>nnNamespace = ''default'', nnName = ''app''\<rparr>
     (wExt (worldOf (sampleCluster cst infos))) = (Inr (sampleDeployment sampleLabels), sampleCluster cst infos)"
  by (simp add: onPart_def sampleCluster_def worldOf_def shelfOf_def sampleDeployment_def obj_key_def)

lemma sample_deployment_name:
  "Namespace (sampleDeployment sampleLabels) = ''default''"
  "GetChangeWorkloadNameByDeployment (sampleDeployment sampleLabels) = ''app--x--v1''"
  "\<not> isDefensed (Labels (sampleDeployment sampleLabels))"
  by (simp_all add: GetChangeWorkloadNameByDeployment_def CombineString_def MetaMark_def sampleDeployment_def
      sampleLabels_def get_label_def isDefensed_def has_label_def)

lemma cluster_markDeployment:
  assumes "findObj (obj_key d) (shStored (clDeployments (wExt w))) = Some cur" "Labels d \<noteq> None"
  shows "\<exists>t. defenseProcessedDeployment clusterEnv d w = (Ok (), t)"
  using assms
  by (simp add: defenseProcessedDeployment_def set_label_Ok bindM_def call_def onPart_def shelf_writes
      putOver_def storeObj_def Let_def ret_def)

lemma sample_deployment_run:
  "\<exists>t. Deployment_Reconcile clusterEnv \<lparr>nnNamespace = ''default'', nnName = ''app''\<rparr>
     (worldOf (sampleCluster PreWait [])) = (Ok (), t)"
proof -
  let ?w = "worldOf (sampleCluster PreWait [])"
  let ?d = "sampleDeployment sampleLabels"
  have w: "?w\<lparr>wExt := sampleCluster PreWait []\<rparr> = ?w" by (simp add: worldOf_def)
  have "findObj \<lparr>nnNamespace = ''default'', nnName = ''app--x--v1''\<rparr> (shCached (clWorkloads (wExt ?w))) =
      Some (sampleWorkload Running)"
    by (simp add: worldOf_def shelfOf_def) (simp add: sampleWorkload_def obj_key_def)
  then have "getOrCreateChangeWorkload clusterEnv ?d ?w = (Ok (sampleWorkload Running), ?w)"
    by (simp add: getOrCreateChangeWorkload_def getChangeWorkloadByDeployment'_def sample_deployment_name
        bindM_def attempt_def cluster_simps ret_def)
  moreover have "attempt (call (apiGet (deploymentApi clusterEnv) \<lparr>nnNamespace = ''default'', nnName = ''app''\<rparr>)) ?w =
      (Ok (Inr ?d), ?w)"
    using sample_deployment_get [of PreWait "[]"] w by (simp add: attempt_def call_def del: cluster_api)
  moreover have "\<exists>t. defenseProcessedDeployment clusterEnv ?d ?w = (Ok (), t)"
    by (rule cluster_markDeployment [of _ _ ?d])
      (simp_all add: sampleCluster_def worldOf_def shelfOf_def sampleLabels_def)
  ultimately show ?thesis
    using sample_deployment_name(3) by (simp add: Deployment_Reconcile_def bindM_def del: cluster_api)
qed

theorem deployment_has_workload_witness:
  "\<exists>t. Deployment_Reconcile clusterEnv \<lparr>nnNamespace = ''default'', nnName = ''app''\<rparr>
      (worldOf (sampleCluster PreWait [])) = (Ok (), t) \<and>
    (\<exists>cw\<in>shelfKnown (clWorkloads (wExt t)). Name cw = ''app--x--v1'')"
proof -
  obtain t where t: "Deployment_Reconcile clusterEnv \<lparr>nnNamespace = ''default'', nnName = ''app''\<rparr>
      (worldOf (sampleCluster PreWait [])) = (Ok (), t)"
    using sample_deployment_run by blast
  have "\<exists>cw\<in>shelfKnown (clWorkloads (wExt t)). obj_key cw =
      \<lparr>nnNamespace = ''default'', nnName = ''app--x--v1''\<rparr>"
    using deployment_has_workload [OF clusterWorkloads.workload_world_axioms _ _
        sample_deployment_get sample_deployment_name(3) t]
    by (auto simp: worldOf_def sample_deployment_name)
  then show ?thesis
    using t by (auto simp: obj_key_def)
qed

subsection \<open>Timeouts\<close>

text \<open>The condition of the two expiry loops, in 64-bit arithmetic.\<close>

definition overdue :: "int \<Rightarrow> int \<Rightarrow> int \<Rightarrow> bool" where
  "overdue now since threshold \<longleftrightarrow> sub64 now since > threshold"

definition expiredBy :: "string \<Rightarrow> changePod \<Rightarrow> cluster world \<Rightarrow> cluster world \<Rightarrow> bool" where
  "expiredBy st cp w t \<longleftrightarrow> (\<exists>new. findObj (obj_key cp) (shStored (clChangePods (wExt t))) = Some new \<and>
     changePodState new = st \<and> cpSpec new = cpSpec cp \<and>
     statusStep (cpStatus cp) (cpStatus new))"

lemma cluster_expire:
  assumes stored: "findObj (obj_key cp) (shStored (clChangePods (wExt w))) = Some cur"
    and version: "ResourceVersion cur = ResourceVersion cp \<longrightarrow> cur = cp"
    and step: "\<And>now unix. statusStep (cpStatus cp) ((cpStatus cp)
      \<lparr>cpStatusStatus := st, cpUpdateTime := now, cpUpdateTimeUnix := unix\<rparr>)"
  shows "\<exists>t. bindM (GetNowTime clusterEnv) (\<lambda>now. bindM (nowUnix clusterEnv) (\<lambda>unix.
      logged (call (apiStatusUpdate (changePodApi clusterEnv)
        (cp\<lparr>cpStatus := (cpStatus cp)
           \<lparr>cpStatusStatus := st, cpUpdateTime := now, cpUpdateTimeUnix := unix\<rparr>\<rparr>))))) w = (Ok (), t) \<and>
    (if cur = cp then expiredBy st cp w t else t = w)"
proof -
  obtain now where now: "GetNowTime clusterEnv w = (Ok now, w)" by (rule cluster_GetNowTime)
  have key: "obj_key cur = obj_key cp"
    using findObj_key [OF stored] by simp
  show ?thesis
    using stored key step version
    by (auto simp: bindM_def now cluster_simps logged_def attempt_def ret_def expiredBy_def putChangePod_stored
        cong: if_cong)
qed

lemma cluster_expiry:
  assumes "findObj (obj_key cp) (shStored (clChangePods (wExt w))) = Some cur"
    and "ResourceVersion cur = ResourceVersion cp \<longrightarrow> cur = cp"
    and "\<And>now unix. changePodState cp = submitted \<Longrightarrow> statusStep (cpStatus cp) ((cpStatus cp)
      \<lparr>cpStatusStatus := st, cpUpdateTime := now, cpUpdateTimeUnix := unix\<rparr>)"
  shows "\<exists>t. (if changePodState cp = submitted then
        bindM (nowUnix clusterEnv) (\<lambda>t.
          if sub64 t since > threshold then
            bindM (GetNowTime clusterEnv) (\<lambda>now. bindM (nowUnix clusterEnv) (\<lambda>unix.
              logged (call (apiStatusUpdate (changePodApi clusterEnv)
                (cp\<lparr>cpStatus := (cpStatus cp)
                   \<lparr>cpStatusStatus := st, cpUpdateTime := now, cpUpdateTimeUnix := unix\<rparr>\<rparr>)))))
          else ret ())
      else ret ()) w = (Ok (), t) \<and>
    (if changePodState cp = submitted \<and> overdue (time_unix (clNow (wExt w))) since threshold \<and> cur = cp
     then expiredBy st cp w t else t = w)"
proof (cases "changePodState cp = submitted \<and> overdue (time_unix (clNow (wExt w))) since threshold")
  case True
  then show ?thesis
    using cluster_expire [OF assms(1,2), of st] assms(3)
    by (cases "cur = cp")
      (simp_all add: overdue_def bindM_eval(1) [where m = "nowUnix clusterEnv", OF cluster_clock(2)] del: cluster_api)
next
  case False
  then show ?thesis
    by (auto simp: overdue_def ret_def bindM_eval(1) [where m = "nowUnix clusterEnv", OF cluster_clock(2)])
qed

text \<open>
  C20 (safety). On the reference cluster, for a ChangePod that is still stored, in the
  version that was read or in another one, the body of the two expiry loops returns; it changes the
  cluster only for a ChangePod that is submitted, overdue by the clock of that moment and
  still at the stored version, and then it stores the timeout as a step of the life cycle.
\<close>

theorem expiry_only_overdue:
  assumes "findObj (obj_key cp) (shStored (clChangePods (wExt w))) = Some cur"
    and "ResourceVersion cur = ResourceVersion cp \<longrightarrow> cur = cp"
  defines "now \<equiv> time_unix (clNow (wExt w))"
  shows "(\<exists>t. expirePreSubmitted clusterEnv cp w = (Ok (), t) \<and>
      (if changePodState cp = PreSubmitted \<and>
          overdue now (cpPreSubmitTimeUnix (cpStatus cp)) (cpPreTimeoutThreshold (cpStatus cp)) \<and> cur = cp
       then expiredBy PreTimeout cp w t else t = w)) \<and>
    (\<exists>t. expirePostSubmitted clusterEnv cp w = (Ok (), t) \<and>
      (if changePodState cp = PostSubmitted \<and>
          overdue now (cpPostSubmitTimeUnix (cpStatus cp)) (cpPostTimeoutThreshold (cpStatus cp)) \<and> cur = cp
       then expiredBy PostTimeout cp w t else t = w))"
  unfolding expirePreSubmitted_def expirePostSubmitted_def now_def
  by (intro conjI cluster_expiry [OF assms(1,2)]) (simp_all add: statusStep.pre_timeout statusStep.post_timeout)

theorem expiry_only_overdue_witness:
  "\<exists>t. expirePreSubmitted clusterEnv (sampleChangePod PreSubmitted [] 0) (worldOf (sampleCluster PreSubmitted [])) =
      (Ok (), t) \<and>
    expiredBy PreTimeout (sampleChangePod PreSubmitted [] 0) (worldOf (sampleCluster PreSubmitted [])) t"
proof -
  have "findObj (obj_key (sampleChangePod PreSubmitted [] 0))
      (shStored (clChangePods (wExt (worldOf (sampleCluster PreSubmitted []))))) = Some (sampleChangePod PreSubmitted [] 0)"
    by (simp add: worldOf_def shelfOf_def)
  moreover have "overdue (time_unix (clNow (wExt (worldOf (sampleCluster PreSubmitted [])))))
      (cpPreSubmitTimeUnix (cpStatus (sampleChangePod PreSubmitted [] 0)))
      (cpPreTimeoutThreshold (cpStatus (sampleChangePod PreSubmitted [] 0)))"
    by (simp add: overdue_def worldOf_def sampleCluster_def emptyCluster_def sampleChangePod_def
        zeroChangePodStatus_def time_unix_def second_def sub64_def wrap64_def)
  moreover have "changePodState (sampleChangePod PreSubmitted [] 0) = PreSubmitted"
    by (simp add: sampleChangePod_def)
  ultimately show ?thesis
    using conjunct1 [OF expiry_only_overdue [of "sampleChangePod PreSubmitted [] 0"
        "worldOf (sampleCluster PreSubmitted [])" "sampleChangePod PreSubmitted [] 0"]] by simp
qed

subsection \<open>Rollback\<close>

definition templateOf :: "replicaSet \<Rightarrow> podTemplate" where
  "templateOf rs = (rsTemplate rs)\<lparr>tmplLabels := delete_label ''pod-template-hash'' (tmplLabels (rsTemplate rs))\<rparr>"

text \<open>The first owner of the kind, as the cache has it.\<close>

definition cachedOwner :: "string \<Rightarrow> 'a objectMeta_scheme \<Rightarrow> 'b objectMeta_scheme shelf \<Rightarrow> 'b objectMeta_scheme option" where
  "cachedOwner kind ob sh = (case firstOwner kind (OwnerReferences ob) of
     None \<Rightarrow> None
   | Some owner \<Rightarrow> findObj \<lparr>nnNamespace = Namespace ob, nnName = refName owner\<rparr> (shCached sh))"

lemma cachedOwner_in: "cachedOwner kind ob sh = Some x \<Longrightarrow> x \<in> set (shCached sh)"
  by (auto simp: cachedOwner_def dest: findObj_key split: option.splits)

lemma cluster_orElse:
  assumes "\<And>e. upd (\<lambda>_. part e) e = e"
  shows "orElse z (call (onPart part upd (apiGet (shelfApi ks) k))) w =
    (Ok (case findObj k (shCached (part (wExt w))) of None \<Rightarrow> z | Some ob \<Rightarrow> ob), w)"
  using assms by (simp add: orElse_def bindM_def attempt_def cluster_get ret_def split: option.split)

lemma cluster_owners:
  "getPodOwnsReplicaSet clusterEnv p w =
     (Ok (case cachedOwner ReplicaSetKind p (clReplicaSets (wExt w)) of None \<Rightarrow> zeroReplicaSet | Some rs \<Rightarrow> rs), w)"
  "getReplicaSetOwnsDeployment clusterEnv rs w =
     (Ok (case cachedOwner DeploymentKind rs (clDeployments (wExt w)) of None \<Rightarrow> zeroDeployment | Some d \<Rightarrow> d), w)"
  by (simp_all add: getPodOwnsReplicaSet_def getReplicaSetOwnsDeployment_def cachedOwner_def cluster_orElse ret_def
      split: option.split)

text \<open>
  C28 (safety). One broken pod whose Deployment is healthy ends the rollback goroutine for
  good: on the reference cluster, after any number of turns, the namespaces and pods that a turn
  visits before it notwithstanding, the loop returns as soon as it meets a pod whose ReplicaSet is
  owned by a Deployment with matching replica counts. The run is over in the state that the turn
  has reached, so that neither the other pods, nor the other namespaces, nor any later turn are
  looked at, whatever is broken there.
\<close>

theorem rollback_stops:
  assumes "rollbackTurns clusterEnv n w = Some v"
    and "getAllWebhookNamespace clusterEnv (sleepFor clusterEnv second v) = (Ok (nss @ ns # nss'), v1)"
    and "untilReturn (rollbackNamespace clusterEnv) nss v1 = (Ok Continue, v2)"
    and "getNonRunningPods clusterEnv (Name ns) v2 = (Ok (ps @ p # ps'), v3)"
    and "untilReturn (rollbackPod clusterEnv) ps v3 = (Ok Continue, t)"
    and "cachedOwner ReplicaSetKind p (clReplicaSets (wExt t)) = Some rs" "Name rs \<noteq> ''''"
    and "cachedOwner DeploymentKind rs (clDeployments (wExt t)) = Some d" "Name d \<noteq> ''''"
    and "depStatusReplicas d = depStatusReady d" "depStatusReady d = depStatusAvailable d"
      "depStatusAvailable d = depStatusUpdated d"
  shows "DeploymentStatusRollBackRun clusterEnv w = Some (Ok (), t)"
proof -
  have "rollbackPod clusterEnv p t = (Ok Return, t)"
    using assms(6-12) by (simp add: rollbackPod_def bindM_def cluster_owners checkDeploymentStatus_def ret_def)
  then have "untilReturn (rollbackPod clusterEnv) (ps @ p # ps') v3 = (Ok Return, t)"
    using assms(5) by (simp add: untilReturn_append bindM_def ret_def)
  then have "rollbackNamespace clusterEnv ns v2 = (Ok Return, t)"
    using assms(4) by (simp add: rollbackNamespace_def bindM_def)
  then have "untilReturn (rollbackNamespace clusterEnv) (nss @ ns # nss') v1 = (Ok Return, t)"
    using assms(3) by (simp add: untilReturn_append bindM_def ret_def)
  then have "DeploymentStatusRollBack_turn clusterEnv v = (Ok Return, t)"
    using assms(2) by (simp add: DeploymentStatusRollBack_turn_def thenM_def bindM_def goSleep_def)
  then show ?thesis
    unfolding rollbackTurns_run [OF assms(1)] by (subst DeploymentStatusRollBackRun.simps) simp
qed

definition ownedReplicaSet :: replicaSet where
  "ownedReplicaSet = zeroReplicaSet\<lparr>Namespace := ''default'', Name := ''app-1'',
     OwnerReferences := [\<lparr>refKind = DeploymentKind, refName = ''app''\<rparr>],
     rsTemplate := \<lparr>tmplLabels = None, tmplBody = ''image: app:1''\<rparr>,
     rsStatusReplicas := 1, rsStatusReady := 1, rsStatusAvailable := 1\<rparr>"

definition brokenPod :: pod where
  "brokenPod = (samplePod ''p3'' 3)\<lparr>podPhase := ''Failed'',
     OwnerReferences := [\<lparr>refKind = ReplicaSetKind, refName = ''app-1''\<rparr>]\<rparr>"

lemma brokenPod_sel:
  "Namespace brokenPod = ''default''" "podPhase brokenPod = ''Failed''" "podStartTime brokenPod = Some 0"
  "OwnerReferences brokenPod = [\<lparr>refKind = ReplicaSetKind, refName = ''app-1''\<rparr>]"
  "has_label (Labels brokenPod) AdmissionWebhookVersionLabel"
  by (simp_all add: brokenPod_def samplePod_def objectMeta.extend_def has_label_def)

lemma ownedReplicaSet_sel:
  "Namespace ownedReplicaSet = ''default''" "Name ownedReplicaSet = ''app-1''"
  "OwnerReferences ownedReplicaSet = [\<lparr>refKind = DeploymentKind, refName = ''app''\<rparr>]"
  by (simp_all add: ownedReplicaSet_def zero_defs)

lemma nonRunning_brokenPod:
  assumes "shCached (clPods (wExt w)) = [brokenPod]" "clNow (wExt w) = 1001 * second"
  shows "getNonRunningPods clusterEnv ''default'' w = (Ok [brokenPod], w)"
proof -
  have "collectNonRunning clusterEnv [brokenPod] [] w = (Ok [(''app-1'', brokenPod)], w)"
    using assms(2) by (simp add: bindM_def cluster_clock ret_def brokenPod_sel startedBefore_def rollbackTimeout_def
        second_def putPod_def PodStatusRunning_def PodStatusTerminating_def)
  then show ?thesis
    using assms(1) by (simp add: getNonRunningPods_def bindM_def attempt_def cluster_simps selected_def anyOpts_def
        brokenPod_sel ret_def map_filter_def del: collectNonRunning.simps)
qed

text \<open>The namespace \<open>other\<close>, after \<open>default\<close>, is not looked at.\<close>

definition watchedNamespace :: "string \<Rightarrow> namespaceObj" where
  "watchedNamespace n = zeroMeta\<lparr>Name := n, Labels := Some [AdmissionWebhookNamespaceLabel \<mapsto> Enabled]\<rparr>"

theorem rollback_stops_witness:
  fixes e :: cluster
  defines "e \<equiv> emptyCluster\<lparr>clReplicaSets := shelfOf [ownedReplicaSet], clPods := shelfOf [brokenPod],
    clDeployments := shelfOf [sampleDeployment sampleLabels],
    clNamespaces := shelfOf [watchedNamespace ''default'', watchedNamespace ''other'']\<rparr>"
  shows "\<exists>t. DeploymentStatusRollBackRun clusterEnv (worldOf e) = Some (Ok (), t) \<and>
    shStored (clDeployments (wExt t)) = shStored (clDeployments e)"
proof -
  let ?v = "sleepFor clusterEnv second (worldOf e)"
  have v: "clNow (wExt ?v) = 1001 * second" "clPods (wExt ?v) = syncShelf (shelfOf [brokenPod])"
    "clReplicaSets (wExt ?v) = syncShelf (shelfOf [ownedReplicaSet])"
    "clDeployments (wExt ?v) = syncShelf (shelfOf [sampleDeployment sampleLabels])"
    "clNamespaces (wExt ?v) = syncShelf (shelfOf [watchedNamespace ''default'', watchedNamespace ''other''])"
    by (simp_all add: clusterEnv_def syncCluster_def worldOf_def e_def emptyCluster_def second_def)
  have "getAllWebhookNamespace clusterEnv ?v = (Ok [watchedNamespace ''default'', watchedNamespace ''other''], ?v)"
    by (simp add: getAllWebhookNamespace_def listOrEmpty_def bindM_def attempt_def cluster_simps ret_def v syncShelf_def
        shelfOf_def selected_def anyOpts_def watchedNamespace_def lookup_label_def)
  then have ns: "getAllWebhookNamespace clusterEnv ?v =
      (Ok ([] @ watchedNamespace ''default'' # [watchedNamespace ''other'']), ?v)"
    by simp
  have "getNonRunningPods clusterEnv (Name (watchedNamespace ''default'')) ?v = (Ok [brokenPod], ?v)"
    using nonRunning_brokenPod [of ?v] v by (simp add: syncShelf_def shelfOf_def watchedNamespace_def)
  then have pods: "getNonRunningPods clusterEnv (Name (watchedNamespace ''default'')) ?v = (Ok ([] @ brokenPod # []), ?v)"
    by simp
  have rs: "cachedOwner ReplicaSetKind brokenPod (clReplicaSets (wExt ?v)) = Some ownedReplicaSet"
    by (simp add: cachedOwner_def brokenPod_sel v syncShelf_def shelfOf_def obj_key_def ownedReplicaSet_sel)
  have d: "cachedOwner DeploymentKind ownedReplicaSet (clDeployments (wExt ?v)) = Some (sampleDeployment sampleLabels)"
    by (simp add: cachedOwner_def ownedReplicaSet_sel v syncShelf_def shelfOf_def)
      (simp add: sampleDeployment_def obj_key_def)
  have healthy: "Name (sampleDeployment sampleLabels) \<noteq> ''''"
    "depStatusReplicas (sampleDeployment sampleLabels) = depStatusReady (sampleDeployment sampleLabels)"
    "depStatusReady (sampleDeployment sampleLabels) = depStatusAvailable (sampleDeployment sampleLabels)"
    "depStatusAvailable (sampleDeployment sampleLabels) = depStatusUpdated (sampleDeployment sampleLabels)"
    by (simp_all add: sampleDeployment_def zero_defs)
  have "Name ownedReplicaSet \<noteq> ''''" "rollbackTurns clusterEnv 0 (worldOf e) = Some (worldOf e)"
    by (simp_all add: ownedReplicaSet_sel)
  from rollback_stops [OF this(2) ns _ pods _ rs this(1) d healthy]
  show ?thesis
    using v(4) by (simp add: ret_def syncShelf_def e_def)
qed

lemma firstNormal_found:
  "Name (firstNormal owns rss) \<noteq> '''' \<Longrightarrow>
    firstNormal owns rss \<in> set rss \<and> normalReplicaSet owns (firstNormal owns rss)"
  by (induction rss) (auto simp: zero_defs split: if_splits)

lemma cluster_normal:
  assumes "depMatchLabels d \<noteq> None"
  obtains rs where "getNormalReplicaSetByDeployment clusterEnv d owns w = (Ok rs, w)"
    "Name rs \<noteq> '''' \<Longrightarrow> rs \<in> set (shCached (clReplicaSets (wExt w))) \<and> normalReplicaSet owns rs \<and>
       selected (ksIndex replicaSetKind) (anyOpts\<lparr>inNamespace := Some (Namespace d), matchingLabels := the (depMatchLabels d)\<rparr>) rs"
proof -
  obtain ml where ml: "depMatchLabels d = Some ml" using assms by blast
  let ?items = "filter (selected (ksIndex replicaSetKind) (anyOpts\<lparr>inNamespace := Some (Namespace d), matchingLabels := ml\<rparr>))
    (shCached (clReplicaSets (wExt w)))"
  have "getNormalReplicaSetByDeployment clusterEnv d owns w =
      (Ok (if length ?items \<le> 1 then zeroReplicaSet else firstNormal owns ?items), w)"
    by (simp add: getNormalReplicaSetByDeployment_def ml listOrEmpty_def bindM_def attempt_def cluster_list ret_def)
  then show ?thesis
    using firstNormal_found [of owns ?items]
    by (intro that) (auto simp: ml zero_defs split: if_splits)
qed

lemma cluster_update_deployment:
  "\<exists>t. logged (call (apiUpdate (deploymentApi clusterEnv) d)) w = (Ok (), t) \<and>
     (\<forall>k. findObj k (shStored (clDeployments (wExt t))) = findObj k (shStored (clDeployments (wExt w))) \<or>
       k = obj_key d \<and> (\<exists>new. findObj k (shStored (clDeployments (wExt t))) = Some new \<and>
         depTemplate new = depTemplate d \<and> Labels new = Labels d \<and> depReplicas new = depReplicas d))"
  by (cases "findObj (obj_key d) (shStored (clDeployments (wExt w)))")
    (auto simp: logged_def bindM_def attempt_def call_def onPart_def shelf_writes putIfCurrent_def
      deploymentKind_def storeObj_def Let_def findObj_put ret_def obj_key_def)

text \<open>
  C27 (safety). On the reference cluster a turn of the rollback for one pod
  changes no Deployment but the one that owns the ReplicaSet that owns the pod, and that one only
  when its cached replica counts do not match. It then gets the template, without the label
  \<open>pod-template-hash\<close>, of another ReplicaSet: one with a name other than that of the pod's
  ReplicaSet, in the namespace and with the match labels of the Deployment, and with a positive
  number of replicas that are all ready and available. Labels and replica count are those of the
  cached Deployment.
\<close>

theorem rollback_target:
  assumes "rollbackPod clusterEnv p w = (r, t)"
    and "findObj k (shStored (clDeployments (wExt t))) \<noteq> findObj k (shStored (clDeployments (wExt w)))"
  shows "\<exists>owns d rs new ml. cachedOwner ReplicaSetKind p (clReplicaSets (wExt w)) = Some owns \<and>
    cachedOwner DeploymentKind owns (clDeployments (wExt w)) = Some d \<and> obj_key d = k \<and>
    \<not> (depStatusReplicas d = depStatusReady d \<and> depStatusReady d = depStatusAvailable d \<and>
       depStatusAvailable d = depStatusUpdated d) \<and>
    rs \<in> set (shCached (clReplicaSets (wExt w))) \<and> Name rs \<noteq> Name owns \<and>
    (Namespace d = '''' \<or> Namespace rs = Namespace d) \<and> depMatchLabels d = Some ml \<and>
    list_all (\<lambda>(l, v). lookup_label (Labels rs) l = Some v) ml \<and>
    rsStatusReplicas rs \<noteq> 0 \<and> rsStatusReady rs = rsStatusReplicas rs \<and> rsStatusAvailable rs = rsStatusReplicas rs \<and>
    findObj k (shStored (clDeployments (wExt t))) = Some new \<and> depTemplate new = templateOf rs \<and>
    Labels new = Labels d \<and> depReplicas new = depReplicas d"
proof -
  define owns where "owns = (case cachedOwner ReplicaSetKind p (clReplicaSets (wExt w)) of None \<Rightarrow> zeroReplicaSet | Some rs \<Rightarrow> rs)"
  define d where "d = (case cachedOwner DeploymentKind owns (clDeployments (wExt w)) of None \<Rightarrow> zeroDeployment | Some d \<Rightarrow> d)"
  note reads = cluster_owners(1) [of p w, folded owns_def] cluster_owners(2) [of owns w, folded d_def]
  have "t = w" if "depMatchLabels d = None"
    using assms(1) reads that
    by (auto simp: rollbackPod_def bindM_def ret_def getNormalReplicaSetByDeployment_def crash_def split: if_splits)
  then have changed: "Name owns \<noteq> ''''" "Name d \<noteq> ''''" "\<not> checkDeploymentStatus d" "depMatchLabels d \<noteq> None"
    using assms reads by (auto simp: rollbackPod_def bindM_def ret_def split: if_splits)
  then have found: "cachedOwner ReplicaSetKind p (clReplicaSets (wExt w)) = Some owns"
    "cachedOwner DeploymentKind owns (clDeployments (wExt w)) = Some d"
    by (auto simp: owns_def d_def zero_defs split: option.splits)
  obtain rs where rs: "getNormalReplicaSetByDeployment clusterEnv d owns w = (Ok rs, w)"
    "Name rs \<noteq> '''' \<Longrightarrow> rs \<in> set (shCached (clReplicaSets (wExt w))) \<and> normalReplicaSet owns rs \<and>
       selected (ksIndex replicaSetKind) (anyOpts\<lparr>inNamespace := Some (Namespace d), matchingLabels := the (depMatchLabels d)\<rparr>) rs"
    using cluster_normal [OF changed(4)] by blast
  have name: "Name rs \<noteq> ''''"
    using assms reads rs(1) changed by (auto simp: rollbackPod_def bindM_def ret_def split: if_splits)
  let ?d = "d\<lparr>depTemplate := templateOf rs\<rparr>"
  obtain t' where t': "logged (call (apiUpdate (deploymentApi clusterEnv) ?d)) w = (Ok (), t')"
    "\<And>k. findObj k (shStored (clDeployments (wExt t'))) = findObj k (shStored (clDeployments (wExt w))) \<or>
       k = obj_key ?d \<and> (\<exists>new. findObj k (shStored (clDeployments (wExt t'))) = Some new \<and>
         depTemplate new = depTemplate ?d \<and> Labels new = Labels ?d \<and> depReplicas new = depReplicas ?d)"
    using cluster_update_deployment [of ?d w] by blast
  have "t' = t"
    using assms(1) reads rs(1) changed name t'(1)
    by (simp add: rollbackPod_def bindM_def ret_def Let_def templateOf_def del: cluster_api)
  then show ?thesis
    using assms(2) t'(2) [of k] changed(3,4) found rs(2) [OF name]
    by (auto simp: obj_key_def normalReplicaSet_def NumberZero_def checkDeploymentStatus_def selected_def anyOpts_def)
qed

definition brokenDeployment :: deployment where
  "brokenDeployment = zeroDeployment\<lparr>Namespace := ''default'', Name := ''app'',
     depMatchLabels := Some [], depStatusReplicas := 2\<rparr>"

definition healthyReplicaSet :: replicaSet where
  "healthyReplicaSet = zeroReplicaSet\<lparr>Namespace := ''default'', Name := ''app-0'',
     rsTemplate := \<lparr>tmplLabels = None, tmplBody = ''image: app:0''\<rparr>,
     rsStatusReplicas := 1, rsStatusReady := 1, rsStatusAvailable := 1\<rparr>"

definition brokenCluster :: cluster where
  "brokenCluster = emptyCluster\<lparr>clDeployments := shelfOf [brokenDeployment],
     clReplicaSets := shelfOf [ownedReplicaSet, healthyReplicaSet]\<rparr>"

lemma brokenCluster_simps:
  "clReplicaSets (wExt (worldOf brokenCluster)) = shelfOf [ownedReplicaSet, healthyReplicaSet]"
  "clDeployments (wExt (worldOf brokenCluster)) = shelfOf [brokenDeployment]"
  by (simp_all add: brokenCluster_def worldOf_def)

lemma broken_run:
  "\<exists>t. rollbackPod clusterEnv brokenPod (worldOf brokenCluster) = (Ok Continue, t) \<and>
     findObj \<lparr>nnNamespace = ''default'', nnName = ''app''\<rparr> (shStored (clDeployments (wExt t))) \<noteq> Some brokenDeployment"
proof -
  let ?w = "worldOf brokenCluster"
  have owns: "getPodOwnsReplicaSet clusterEnv brokenPod ?w = (Ok ownedReplicaSet, ?w)"
    by (simp add: cluster_owners cachedOwner_def brokenPod_sel brokenCluster_simps shelfOf_def obj_key_def ownedReplicaSet_sel)
  have d: "getReplicaSetOwnsDeployment clusterEnv ownedReplicaSet ?w = (Ok brokenDeployment, ?w)"
    by (simp add: cluster_owners cachedOwner_def ownedReplicaSet_sel brokenCluster_simps shelfOf_def)
      (simp add: brokenDeployment_def obj_key_def zero_defs)
  have rs: "getNormalReplicaSetByDeployment clusterEnv brokenDeployment ownedReplicaSet ?w = (Ok healthyReplicaSet, ?w)"
    by (simp add: getNormalReplicaSetByDeployment_def brokenDeployment_def listOrEmpty_def bindM_def attempt_def
        cluster_list ret_def brokenCluster_simps shelfOf_def selected_def anyOpts_def
        ownedReplicaSet_def healthyReplicaSet_def normalReplicaSet_def zero_defs NumberZero_def)
  let ?d = "brokenDeployment\<lparr>depTemplate := templateOf healthyReplicaSet\<rparr>"
  have names: "Name ownedReplicaSet \<noteq> ''''" "Name brokenDeployment \<noteq> ''''" "\<not> checkDeploymentStatus brokenDeployment"
    "Name healthyReplicaSet \<noteq> ''''"
    by (simp_all add: ownedReplicaSet_def brokenDeployment_def healthyReplicaSet_def checkDeploymentStatus_def zero_defs)
  have "\<exists>t. logged (call (apiUpdate (deploymentApi clusterEnv) ?d)) ?w = (Ok (), t) \<and>
      findObj \<lparr>nnNamespace = ''default'', nnName = ''app''\<rparr> (shStored (clDeployments (wExt t))) \<noteq> Some brokenDeployment"
    by (simp add: logged_def bindM_def attempt_def call_def onPart_def shelf_writes putIfCurrent_def
        deploymentKind_def storeObj_def Let_def ret_def brokenCluster_def worldOf_def shelfOf_def)
      (simp add: brokenDeployment_def obj_key_def zero_defs)
  then show ?thesis
    using owns d rs names
    by (auto simp: rollbackPod_def bindM_def ret_def Let_def templateOf_def simp del: cluster_api)
qed

theorem rollback_target_witness:
  "\<exists>t new. rollbackPod clusterEnv brokenPod (worldOf brokenCluster) = (Ok Continue, t) \<and>
     findObj \<lparr>nnNamespace = ''default'', nnName = ''app''\<rparr> (shStored (clDeployments (wExt t))) = Some new \<and>
     depTemplate new = templateOf healthyReplicaSet"
proof -
  obtain t where t: "rollbackPod clusterEnv brokenPod (worldOf brokenCluster) = (Ok Continue, t)"
    "findObj \<lparr>nnNamespace = ''default'', nnName = ''app''\<rparr> (shStored (clDeployments (wExt t))) \<noteq> Some brokenDeployment"
    using broken_run by blast
  have before: "findObj \<lparr>nnNamespace = ''default'', nnName = ''app''\<rparr>
      (shStored (clDeployments (wExt (worldOf brokenCluster)))) = Some brokenDeployment"
    by (simp add: brokenCluster_simps shelfOf_def) (simp add: brokenDeployment_def obj_key_def)
  have sets: "set (shCached (clReplicaSets (wExt (worldOf brokenCluster)))) = {ownedReplicaSet, healthyReplicaSet}"
    by (simp add: brokenCluster_simps shelfOf_def)
  have owns: "cachedOwner ReplicaSetKind brokenPod (clReplicaSets (wExt (worldOf brokenCluster))) = Some ownedReplicaSet"
    by (simp add: cachedOwner_def brokenPod_sel brokenCluster_simps shelfOf_def obj_key_def ownedReplicaSet_sel)
  show ?thesis
    using rollback_target [OF t(1), of "\<lparr>nnNamespace = ''default'', nnName = ''app''\<rparr>"] t
    unfolding before sets owns by auto
qed

subsection \<open>Web handlers\<close>

lemma submitWeb_once:
  assumes "\<And>x v. returned (fst (submit x v))"
  shows "\<exists>c b t. submitWeb submit bound w = (Ok [(c, b)], t) \<and> (c = 400 \<longleftrightarrow> isl bound) \<and> c \<in> {200, 400, 500}"
proof (cases bound)
  case (Inl e)
  then show ?thesis by (simp add: submitWeb_def ret_def)
next
  case (Inr x)
  then show ?thesis
    using assms [of x w]
    by (auto simp: submitWeb_def bindM_def attempt_def ret_def returned_def split: prod.splits outcome.splits)
qed

text \<open>
  The three handlers that forward a request to the control
  plane return, without a panic, and write exactly one response: 400 when the body does not
  bind, otherwise 500 or 200 with the result.
\<close>

theorem web_answers_once:
  "(\<exists>c b t. SubmitChangeExecOrderWeb env b1 w = (Ok [(c, b)], t) \<and> (c = 400 \<longleftrightarrow> isl b1) \<and> c \<in> {200, 400, 500}) \<and>
   (\<exists>c b t. SubmitChangeStartNotifyWeb env b2 w = (Ok [(c, b)], t) \<and> (c = 400 \<longleftrightarrow> isl b2) \<and> c \<in> {200, 400, 500}) \<and>
   (\<exists>c b t. SubmitChangeFinishNotifyWeb env b3 w = (Ok [(c, b)], t) \<and> (c = 400 \<longleftrightarrow> isl b3) \<and> c \<in> {200, 400, 500})"
  unfolding SubmitChangeExecOrderWeb_def SubmitChangeStartNotifyWeb_def SubmitChangeFinishNotifyWeb_def
  by (intro conjI submitWeb_once)
    (simp_all add: SubmitChangeExecOrder_def SubmitChangeStartNotify_def SubmitChangeFinishNotify_def
      serviceTemplate_returns)

text \<open>
  The search for the ReplicaSet of a Deployment never changes the state; it panics exactly when
  it meets a ReplicaSet without owner before one whose first owner has the wanted name.
\<close>

definition ownedFirst :: "string \<Rightarrow> replicaSet \<Rightarrow> bool" where
  "ownedFirst n rs \<longleftrightarrow> OwnerReferences rs \<noteq> [] \<and> refName (hd (OwnerReferences rs)) = n"

lemma ownedBy_outcome:
  "ownedBy n rss w =
    (case List.find (\<lambda>rs. OwnerReferences rs = [] \<or> ownedFirst n rs) rss of
       None \<Rightarrow> (Ok zeroReplicaSet, w)
     | Some rs \<Rightarrow> if OwnerReferences rs = [] then (Panic, w) else (Ok rs, w))"
  by (induction rss) (auto simp: ownedFirst_def ret_def crash_def split: list.splits)

definition versionedIn :: "deployment \<Rightarrow> listOpts" where
  "versionedIn d = anyOpts\<lparr>inNamespace := Some (Namespace d),
     matchingLabels := [(AdmissionWebhookVersionLabel, get_label (Labels d) AdmissionWebhookVersionLabel)]\<rparr>"

text \<open>
  C39 (error). A single ReplicaSet without an owner, of the version of the first suspended
  Deployment and listed before the right one, makes the handler of the suspended Deployments
  panic; the middleware hides the panic and the caller gets status 200 with an empty body, as if
  nothing were suspended.
\<close>

theorem suspended_panic_hidden:
  assumes "webMethod req = ''GET''" "webPath req = ''/openapi/altershield/suspend/deployment''"
    and "apiList (deploymentApi env) (anyOpts\<lparr>inNamespace := Some (webNamespace req), hasLabels := [SuspendLabel]\<rparr>)
      (wExt w) = (Inr (d # ds), e)"
    and "apiList (replicaSetApi env) (versionedIn d) e = (Inr rss, e')"
    and "List.find (\<lambda>rs. OwnerReferences rs = [] \<or> ownedFirst (Name d) rs) rss = Some rs" "OwnerReferences rs = []"
  shows "\<exists>reply. serve env noRoute req w = (Ok reply, w\<lparr>wExt := e'\<rparr>) \<and>
    webResponses reply = [] \<and> replyStatus reply = 200"
proof -
  have "getReplicaSet env (Name d) (Namespace d) (get_label (Labels d) AdmissionWebhookVersionLabel) (w\<lparr>wExt := e\<rparr>) =
      (Panic, w\<lparr>wExt := e'\<rparr>)"
    using assms(4-6) by (simp add: getReplicaSet_def bindM_def call_def versionedIn_def ownedBy_outcome)
  then have "getSuspendDeployment env d (w\<lparr>wExt := e\<rparr>) = (Panic, w\<lparr>wExt := e'\<rparr>)"
    by (simp add: getSuspendDeployment_def bindM_def)
  then have "GetSuspendDeployment env (webNamespace req) w = (Panic, w\<lparr>wExt := e'\<rparr>)"
    using assms(3) by (simp add: GetSuspendDeployment_def bindM_def attempt_def call_def)
  then have "serve env noRoute req w =
      (Ok \<lparr>webHeaders = (if webOrigin req \<noteq> '''' then corsHeaders else []), webResponses = []\<rparr>, w\<lparr>wExt := e'\<rparr>)"
    using assms(1,2) by (simp add: serve_def SetupRouter_def routeTable_def routeHandler_def Cors_panic)
  then show ?thesis
    by (simp add: replyStatus_def)
qed

definition suspendedQuery :: webRequest where
  "suspendedQuery = \<lparr>webMethod = ''GET'', webPath = ''/openapi/altershield/suspend/deployment'', webOrigin = '''',
     webNamespace = ''default'', webCallback = Inl (plain_error ''EOF''), webExecOrder = Inl (plain_error ''EOF''),
     webStartNotify = Inl (plain_error ''EOF''), webFinishNotify = Inl (plain_error ''EOF'')\<rparr>"

definition orphanReplicaSet :: replicaSet where
  "orphanReplicaSet = zeroReplicaSet\<lparr>Namespace := ''default'', Name := ''app-9'', Labels := sampleLabels\<rparr>"

definition suspendedSample :: deployment where
  "suspendedSample = sampleDeployment (put_label SuspendLabel ''1'' sampleLabels)"

definition orphanCluster :: cluster where
  "orphanCluster = emptyCluster\<lparr>clDeployments := shelfOf [suspendedSample],
     clReplicaSets := shelfOf [orphanReplicaSet]\<rparr>"

theorem suspended_panic_hidden_witness:
  "\<exists>reply. serve clusterEnv (ret []) suspendedQuery (worldOf orphanCluster) = (Ok reply, worldOf orphanCluster) \<and>
     webResponses reply = []"
proof -
  have deployments: "apiList (deploymentApi clusterEnv) (anyOpts\<lparr>inNamespace := Some (webNamespace suspendedQuery),
      hasLabels := [SuspendLabel]\<rparr>) (wExt (worldOf orphanCluster)) = (Inr [suspendedSample], orphanCluster)"
    by (simp add: onPart_def orphanCluster_def worldOf_def shelfOf_def selected_def anyOpts_def suspendedQuery_def
        suspendedSample_def sampleLabels_def has_label_def) (simp add: sampleDeployment_def)
  have replicaSets: "apiList (replicaSetApi clusterEnv) (versionedIn suspendedSample) orphanCluster =
      (Inr [orphanReplicaSet], orphanCluster)"
    by (simp add: onPart_def orphanCluster_def shelfOf_def selected_def anyOpts_def versionedIn_def
        suspendedSample_def orphanReplicaSet_def sampleLabels_def get_label_def)
      (simp add: sampleDeployment_def)
  have "OwnerReferences orphanReplicaSet = []"
    by (simp add: orphanReplicaSet_def zero_defs)
  then show ?thesis
    using suspended_panic_hidden [OF _ _ deployments replicaSets, of orphanReplicaSet "ret []"]
    by (auto simp: suspendedQuery_def worldOf_def)
qed

end
