(* ===== verification/Manager.thy ===== *)
theory Manager
  imports Change_Workload Deployment_Controller Runnables Process_Utils
begin

section \<open>main.go: the process and the wiring of the controllers\<close>

text \<open>
  What the process does around the controllers: it registers them, their event filters, watches
  and field indexers and the admission webhook at a controller-runtime manager, starts the
  background goroutines and runs the manager, in an endless loop. The manager is a parameter, a
  record of its operations over a state of its own; an operation that returns a Go error is a
  program that ends in \<open>Err\<close>.
\<close>

subsection \<open>What a controller registers\<close>

datatype objectKind = PodKind | DeploymentObjectKind | ChangeWorkloadKind | ChangePodKind | OpsConfigInfoKind

instantiation objectKind :: enum
begin

definition enum_objectKind :: "objectKind list" where
  "enum_objectKind = [PodKind, DeploymentObjectKind, ChangeWorkloadKind, ChangePodKind, OpsConfigInfoKind]"

definition enum_all_objectKind :: "(objectKind \<Rightarrow> bool) \<Rightarrow> bool" where
  "enum_all_objectKind P \<longleftrightarrow> list_all P Enum.enum"

definition enum_ex_objectKind :: "(objectKind \<Rightarrow> bool) \<Rightarrow> bool" where
  "enum_ex_objectKind P \<longleftrightarrow> list_ex P Enum.enum"

instance
proof
  have "k \<in> set Enum.enum" for k :: objectKind
    by (cases k) (simp_all add: enum_objectKind_def)
  then show univ: "UNIV = set (Enum.enum :: objectKind list)" by auto
  show "distinct (Enum.enum :: objectKind list)"
    by (simp add: enum_objectKind_def)
  show "Enum.enum_all P \<longleftrightarrow> Ball UNIV P" "Enum.enum_ex P \<longleftrightarrow> Bex UNIV P" for P :: "objectKind \<Rightarrow> bool"
    unfolding univ by (simp_all add: enum_all_objectKind_def enum_ex_objectKind_def list_all_iff list_ex_iff)
qed

end

fun kindOf :: "runtimeObject \<Rightarrow> objectKind option" where
  "kindOf (PodObject p) = Some PodKind"
| "kindOf (DeploymentObject d) = Some DeploymentObjectKind"
| "kindOf (ChangeWorkloadObject cw) = Some ChangeWorkloadKind"
| "kindOf (ChangePodObject cp) = Some ChangePodKind"
| "kindOf (OpsConfigInfoObject oci) = Some OpsConfigInfoKind"
| "kindOf _ = None"

text \<open>
  \<open>predicate.Funcs\<close> with the two functions the code sets; an update function may panic, which
  is the value \<open>None\<close>.
\<close>

record predicateFuncs =
  updateFunc :: "runtimeObject \<Rightarrow> runtimeObject \<Rightarrow> bool option"
  createFunc :: "runtimeObject \<Rightarrow> bool"

record controllerSpec =
  ctlFor :: objectKind
  ctlOwns :: "objectKind list"
  ctlWatches :: "(objectKind \<times> (runtimeObject \<Rightarrow> namespacedName list)) list"
  ctlFilter :: "predicateFuncs option"
  ctlWorkers :: "nat option"

definition changePodController :: controllerSpec where
  "changePodController = \<lparr>ctlFor = ChangePodKind, ctlOwns = [], ctlWatches = [],
     ctlFilter = Some \<lparr>updateFunc = (\<lambda>objOld objNew. Some (ChangePod_handleUpdateEvent objOld objNew)),
       createFunc = ChangePod_handleCreateEvent\<rparr>,
     ctlWorkers = Some 20\<rparr>"

definition changeWorkloadController :: controllerSpec where
  "changeWorkloadController = \<lparr>ctlFor = ChangeWorkloadKind, ctlOwns = [],
     ctlWatches = [(PodKind, watchPodEventHandler), (ChangePodKind, watchChangePodEventHandler)],
     ctlFilter = Some \<lparr>updateFunc = ChangeWorkload_handleUpdateEvent,
       createFunc = ChangeWorkload_handleCreateEvent\<rparr>,
     ctlWorkers = Some 5\<rparr>"

definition deploymentController :: controllerSpec where
  "deploymentController = \<lparr>ctlFor = DeploymentObjectKind, ctlOwns = [ChangeWorkloadKind], ctlWatches = [],
     ctlFilter = Some \<lparr>updateFunc = (\<lambda>objOld objNew. Some (Deployment_handleUpdateEvent objOld objNew)),
       createFunc = Deployment_handleCreateEvent\<rparr>,
     ctlWorkers = Some 5\<rparr>"

definition podController :: controllerSpec where
  "podController = \<lparr>ctlFor = PodKind, ctlOwns = [], ctlWatches = [],
     ctlFilter = Some \<lparr>updateFunc = (\<lambda>objOld objNew. Some (Pod_handleUpdateEvent objOld objNew)),
       createFunc = Pod_handleCreateEvent\<rparr>,
     ctlWorkers = Some 5\<rparr>"

definition opsConfigInfoController :: controllerSpec where
  "opsConfigInfoController = \<lparr>ctlFor = OpsConfigInfoKind, ctlOwns = [], ctlWatches = [],
     ctlFilter = None, ctlWorkers = None\<rparr>"

subsection \<open>The manager's operations\<close>

record managerOptions =
  moMetricsBindAddress :: string
  moPort :: int
  moHealthProbeBindAddress :: string
  moLeaderElection :: bool
  moLeaderElectionID :: string
  moCertDir :: string

text \<open>
  The structs behind the two webhooks: whether their recorder and decoder are set, that is not
  nil.
\<close>

record deploymentValidator =
  dvRecorder :: bool
  dvDecoder :: bool

record deploymentMutator =
  dmRecorder :: bool
  dmDecoder :: bool

datatype webhookHandler = ValidatorWebhook deploymentValidator | MutatorWebhook deploymentMutator

datatype goroutine = RouterLoop | ConfigLoop | WorkloadTimeoutLoop | PodTimeoutLoop | RollbackLoop

text \<open>
  \<open>setupSignalHandler\<close> tells whether the call returned; it panics otherwise.
  \<open>spawn\<close> is the \<open>go\<close> statement.
\<close>

record 's managerOps =
  newManager :: "managerOptions \<Rightarrow> ('s, unit) prog"
  newClientset :: "('s, unit) prog"
  indexField :: "objectKind \<Rightarrow> string \<Rightarrow> (runtimeObject \<Rightarrow> string list) \<Rightarrow> ('s, unit) prog"
  completeController :: "controllerSpec \<Rightarrow> ('s, unit) prog"
  newDecoder :: "('s, unit) prog"
  registerWebhook :: "string \<Rightarrow> webhookHandler \<Rightarrow> 's \<Rightarrow> 's"
  addHealthzCheck :: "string \<Rightarrow> ('s, unit) prog"
  addReadyzCheck :: "string \<Rightarrow> ('s, unit) prog"
  setupSignalHandler :: "'s \<Rightarrow> bool \<times> 's"
  spawn :: "goroutine \<Rightarrow> 's \<Rightarrow> 's"
  startManager :: "('s, unit) prog"

definition effect :: "('s \<Rightarrow> 's) \<Rightarrow> ('s, unit) prog" where
  "effect f = (\<lambda>s. (Ok (), f s))"

subsection \<open>SetupWithManager\<close>

fun changePodIndexer :: "string \<Rightarrow> runtimeObject \<Rightarrow> string list" where
  "changePodIndexer field (ChangePodObject cp) = changePodIndex field cp"
| "changePodIndexer field _ = []"

fun changeWorkloadIndexer :: "string \<Rightarrow> runtimeObject \<Rightarrow> string list" where
  "changeWorkloadIndexer field (ChangeWorkloadObject cw) = changeWorkloadIndex field cw"
| "changeWorkloadIndexer field _ = []"

definition setChangePodFieldIndex :: "'s managerOps \<Rightarrow> ('s, unit) prog" where
  "setChangePodFieldIndex ops =
     thenM (indexField ops ChangePodKind ChangePodFieldStatus (changePodIndexer ChangePodFieldStatus))
     (thenM (indexField ops ChangePodKind ChangePodFieldChangePodId (changePodIndexer ChangePodFieldChangePodId))
      (indexField ops ChangePodKind ChangePodFieldChangeWorkloadId
         (changePodIndexer ChangePodFieldChangeWorkloadId)))"

definition ChangePod_SetupWithManager :: "'s managerOps \<Rightarrow> ('s, unit) prog" where
  "ChangePod_SetupWithManager ops =
     thenM (setChangePodFieldIndex ops) (completeController ops changePodController)"

definition setChangeWorkloadFieldIndex :: "'s managerOps \<Rightarrow> ('s, unit) prog" where
  "setChangeWorkloadFieldIndex ops =
     indexField ops ChangeWorkloadKind ChangeWorkloadFieldStatus (changeWorkloadIndexer ChangeWorkloadFieldStatus)"

definition ChangeWorkload_SetupWithManager :: "'s managerOps \<Rightarrow> ('s, unit) prog" where
  "ChangeWorkload_SetupWithManager ops =
     thenM (setChangeWorkloadFieldIndex ops) (completeController ops changeWorkloadController)"

definition Deployment_SetupWithManager :: "'s managerOps \<Rightarrow> ('s, unit) prog" where
  "Deployment_SetupWithManager ops = completeController ops deploymentController"

definition Pod_SetupWithManager :: "'s managerOps \<Rightarrow> ('s, unit) prog" where
  "Pod_SetupWithManager ops = completeController ops podController"

definition OpsConfigInfo_SetupWithManager :: "'s managerOps \<Rightarrow> ('s, unit) prog" where
  "OpsConfigInfo_SetupWithManager ops = completeController ops opsConfigInfoController"

definition Validator_InjectDecoder :: "'s managerOps \<Rightarrow> deploymentValidator \<Rightarrow> ('s, deploymentValidator) prog" where
  "Validator_InjectDecoder ops v = bindM (newDecoder ops) (\<lambda>_. ret (v\<lparr>dvDecoder := True\<rparr>))"

definition Validator_InjectRecorder :: "deploymentValidator \<Rightarrow> deploymentValidator" where
  "Validator_InjectRecorder v = v\<lparr>dvRecorder := True\<rparr>"

definition Mutator_InjectDecoder :: "'s managerOps \<Rightarrow> deploymentMutator \<Rightarrow> ('s, deploymentMutator) prog" where
  "Mutator_InjectDecoder ops m = bindM (newDecoder ops) (\<lambda>_. ret (m\<lparr>dmDecoder := True\<rparr>))"

definition Mutator_InjectRecorder :: "deploymentMutator \<Rightarrow> deploymentMutator" where
  "Mutator_InjectRecorder m = m\<lparr>dmRecorder := True\<rparr>"

definition SetupWebhookWithManager :: "'s managerOps \<Rightarrow> ('s, unit) prog" where
  "SetupWebhookWithManager ops =
     bindM (Validator_InjectDecoder ops \<lparr>dvRecorder = False, dvDecoder = False\<rparr>) (\<lambda>v.
       let v = Validator_InjectRecorder v
       in bindM (Mutator_InjectDecoder ops \<lparr>dmRecorder = False, dmDecoder = False\<rparr>) (\<lambda>m.
            let m = Mutator_InjectRecorder m
            in thenM (effect (registerWebhook ops ''/validate-apps-v1-deployment'' (ValidatorWebhook v)))
                 (effect (registerWebhook ops ''/mutate-apps-v1-deployment'' (MutatorWebhook m)))))"

subsection \<open>main\<close>

definition NewApp :: "'s managerOps \<Rightarrow> ('s, unit) prog" where
  "NewApp ops = bindM (attempt (newClientset ops)) (\<lambda>r. case r of Inl err \<Rightarrow> crash | Inr _ \<Rightarrow> ret ())"

datatype turnEnd = Exit int | Again

text \<open>\<open>if err != nil { ...; os.Exit(1) }\<close>, and the rest of the turn.\<close>

definition orExit :: "('s, unit) prog \<Rightarrow> ('s, turnEnd) prog \<Rightarrow> ('s, turnEnd) prog" where
  "orExit m rest = bindM (attempt m) (\<lambda>r. case r of Inl err \<Rightarrow> ret (Exit 1) | Inr _ \<Rightarrow> rest)"

definition backgroundLoops :: "goroutine list" where
  "backgroundLoops = [ConfigLoop, WorkloadTimeoutLoop, PodTimeoutLoop, RollbackLoop]"

definition runManager :: "'s managerOps \<Rightarrow> ('s, turnEnd) prog" where
  "runManager ops =
     bindM (forEach backgroundLoops (\<lambda>g. effect (spawn ops g))) (\<lambda>_ s.
       case setupSignalHandler ops s of
         (False, s) \<Rightarrow> (Panic, s)
       | (True, s) \<Rightarrow>
           bindM (attempt (startManager ops)) (\<lambda>r. case r of
             Inl err \<Rightarrow> ret Again
           | Inr _ \<Rightarrow> ret (Exit 1)) s)"

text \<open>One turn of the \<open>for\<close> loop.\<close>

definition main_turn :: "'s managerOps \<Rightarrow> managerOptions \<Rightarrow> ('s, turnEnd) prog" where
  "main_turn ops options =
     bindM (attempt (newManager ops options)) (\<lambda>r. case r of
       Inl err \<Rightarrow> ret Again
     | Inr _ \<Rightarrow>
         bindM (NewApp ops) (\<lambda>_.
           orExit (Deployment_SetupWithManager ops)
           (orExit (Pod_SetupWithManager ops)
           (orExit (OpsConfigInfo_SetupWithManager ops)
           (orExit (ChangeWorkload_SetupWithManager ops)
           (orExit (ChangePod_SetupWithManager ops)
           (orExit (SetupWebhookWithManager ops)
           (orExit (addHealthzCheck ops ''healthz'')
           (orExit (addReadyzCheck ops ''readyz'')
             (runManager ops))))))))))"

text \<open>How the process ends. A loop that does not end, or a manager that runs on, is \<open>None\<close>.\<close>

datatype processEnd = Exited int | Crashed

partial_function (option) main_loop ::
  "'s managerOps \<Rightarrow> managerOptions \<Rightarrow> 's \<Rightarrow> (processEnd \<times> 's) option" where
  "main_loop ops options s = (case main_turn ops options s of (r, t) \<Rightarrow>
     (case r of
        Ok (Exit code) \<Rightarrow> Some (Exited code, t)
      | Ok Again \<Rightarrow> main_loop ops options t
      | Err err \<Rightarrow> Some (Crashed, t)
      | Panic \<Rightarrow> Some (Crashed, t)
      | Hang \<Rightarrow> None))"

text \<open>
  The start of \<open>main\<close>. The flags are declared but no command line is parsed, so their
  variables have the default values. The environment, the working directory and the outcome of
  \<open>GetConfigOrDie\<close>, which itself exits with 1, are arguments.
\<close>

definition main_flags :: "(string list, unit) prog" where
  "main_flags = forEach [''metrics-bind-address'', ''health-probe-bind-address'', ''leader-elect''] registerFlag"

definition main_options :: "(string \<Rightarrow> string) \<Rightarrow> error + string \<Rightarrow> managerOptions option" where
  "main_options getenv wd =
     (let options = \<lparr>moMetricsBindAddress = '':8089'', moPort = 1443, moHealthProbeBindAddress = '':8088'',
            moLeaderElection = False, moLeaderElectionID = ''9f3eb48e.ops.cloud.alipay.com'', moCertDir = ''''\<rparr>
      in if getenv ''ENVIRONMENT'' = ''DEV'' then
           (case wd of Inl err \<Rightarrow> None | Inr path \<Rightarrow> Some (options\<lparr>moCertDir := path @ ''/certs''\<rparr>))
         else Some options)"

definition main ::
  "'s managerOps \<Rightarrow> logFlags \<Rightarrow> string list \<Rightarrow> (string \<Rightarrow> string) \<Rightarrow> error + string \<Rightarrow> bool \<Rightarrow> 's
     \<Rightarrow> (processEnd \<times> 's) option" where
  "main ops logging flags getenv wd configFound s =
     (case thenM main_flags (LogInit logging) flags of
        (Ok (Inr spec), _) \<Rightarrow>
          (let s = spawn ops RouterLoop s
           in if \<not> configFound then Some (Exited 1, s)
              else (case main_options getenv wd of
                      None \<Rightarrow> Some (Exited 1, s)
                    | Some options \<Rightarrow> main_loop ops options s))
      | (Ok (Inl err), _) \<Rightarrow> Some (Exited 1, s)
      | _ \<Rightarrow> Some (Crashed, s))"

subsection \<open>Package initialisation\<close>

text \<open>
  Before \<open>main\<close>, Go runs the \<open>init\<close> functions: those of the packages it imports, file by file,
  then its own. The scheme builder and the schemes belong to controller-runtime, apimachinery
  and client-go; \<open>utilruntime.Must\<close> panics on an error.
\<close>

datatype schemeType =
    ChangePodType | ChangePodListType
  | ChangeWorkloadType | ChangeWorkloadListType
  | OpsConfigInfoType | OpsConfigInfoListType

definition GroupVersion :: "string \<times> string" where
  "GroupVersion = (''app.ops.cloud.alipay.com'', ''v1alpha1'')"

record 's schemeOps =
  schemeRegister :: "string \<times> string \<Rightarrow> schemeType list \<Rightarrow> 's \<Rightarrow> 's"
  AddToScheme :: "string \<times> string \<Rightarrow> ('s, unit) prog"
  clientgoAddToScheme :: "('s, unit) prog"

definition changePod_types_init :: "'s schemeOps \<Rightarrow> ('s, unit) prog" where
  "changePod_types_init sch = effect (schemeRegister sch GroupVersion [ChangePodType, ChangePodListType])"

definition changeWorkload_types_init :: "'s schemeOps \<Rightarrow> ('s, unit) prog" where
  "changeWorkload_types_init sch =
     effect (schemeRegister sch GroupVersion [ChangeWorkloadType, ChangeWorkloadListType])"

definition opsConfigInfo_types_init :: "'s schemeOps \<Rightarrow> ('s, unit) prog" where
  "opsConfigInfo_types_init sch =
     effect (schemeRegister sch GroupVersion [OpsConfigInfoType, OpsConfigInfoListType])"

definition must :: "('s, unit) prog \<Rightarrow> ('s, unit) prog" where
  "must m = bindM (attempt m) (\<lambda>r. case r of Inl err \<Rightarrow> crash | Inr _ \<Rightarrow> ret ())"

definition main_init :: "'s schemeOps \<Rightarrow> ('s, unit) prog" where
  "main_init sch = thenM (must (clientgoAddToScheme sch)) (must (AddToScheme sch GroupVersion))"

definition process_init :: "'s schemeOps \<Rightarrow> ('s, unit) prog" where
  "process_init sch = thenM (changePod_types_init sch) (thenM (changeWorkload_types_init sch)
     (thenM (opsConfigInfo_types_init sch) (main_init sch)))"

definition process ::
  "'s schemeOps \<Rightarrow> 's managerOps \<Rightarrow> logFlags \<Rightarrow> string list \<Rightarrow> (string \<Rightarrow> string) \<Rightarrow> error + string \<Rightarrow> bool \<Rightarrow> 's
     \<Rightarrow> (processEnd \<times> 's) option" where
  "process sch ops logging flags getenv wd configFound s =
     (case process_init sch s of
        (Ok _, t) \<Rightarrow> main ops logging flags getenv wd configFound t
      | (Hang, t) \<Rightarrow> None
      | (_, t) \<Rightarrow> Some (Crashed, t))"

end
