(* ===== verification/Process_Properties.thy ===== *)
theory Process_Properties
  imports Manager Cluster_Runs
begin

section \<open>Properties of the process and of the wiring\<close>

text \<open>
  What the operator relies on at controller-runtime is stated as two locales: which requests an
  event enqueues at a controller with given filters and watches (\<open>event_source\<close>), and that the
  signal handler can be installed once (\<open>manager_runtime\<close>). Both have a reference instance.
\<close>

subsection \<open>Events\<close>

datatype event =
    CreateEvent runtimeObject
  | UpdateEvent runtimeObject runtimeObject
  | DeleteEvent runtimeObject
  | GenericEvent runtimeObject

primrec eventObject :: "event \<Rightarrow> runtimeObject" where
  "eventObject (CreateEvent ob) = ob"
| "eventObject (UpdateEvent objOld objNew) = objNew"
| "eventObject (DeleteEvent ob) = ob"
| "eventObject (GenericEvent ob) = ob"

fun objectKey :: "runtimeObject \<Rightarrow> namespacedName" where
  "objectKey (PodObject p) = obj_key p"
| "objectKey (DeploymentObject d) = obj_key d"
| "objectKey (ReplicaSetObject rs) = obj_key rs"
| "objectKey (ChangeWorkloadObject cw) = obj_key cw"
| "objectKey (ChangePodObject cp) = obj_key cp"
| "objectKey (OpsConfigInfoObject oci) = obj_key oci"
| "objectKey OtherObject = \<lparr>nnNamespace = '''', nnName = ''''\<rparr>"

text \<open>The filter applies to all sources of a controller; a function it does not set passes.\<close>

definition passes :: "controllerSpec \<Rightarrow> event \<Rightarrow> bool" where
  "passes spec ev = (case ctlFilter spec of
       None \<Rightarrow> True
     | Some fs \<Rightarrow> (case ev of
           CreateEvent ob \<Rightarrow> createFunc fs ob
         | UpdateEvent objOld objNew \<Rightarrow> updateFunc fs objOld objNew = Some True
         | DeleteEvent ob \<Rightarrow> True
         | GenericEvent ob \<Rightarrow> True))"

text \<open>
  The requests of one event: the key of an object of the controller's own kind, what the maps of
  the watches give for the object, and, for an object of an owned kind, its owner.
\<close>

locale event_source =
  fixes enqueued :: "controllerSpec \<Rightarrow> event \<Rightarrow> namespacedName set"
  assumes own: "passes spec ev \<Longrightarrow> kindOf (eventObject ev) = Some (ctlFor spec) \<Longrightarrow>
      objectKey (eventObject ev) \<in> enqueued spec ev"
    and watched: "passes spec ev \<Longrightarrow> (k, f) \<in> set (ctlWatches spec) \<Longrightarrow> kindOf (eventObject ev) = Some k \<Longrightarrow>
      req \<in> set (f (eventObject ev)) \<Longrightarrow> req \<in> enqueued spec ev"
    and only_passed: "req \<in> enqueued spec ev \<Longrightarrow> passes spec ev"
    and only_kinds: "req \<in> enqueued spec ev \<Longrightarrow> kindOf (eventObject ev) = Some k \<Longrightarrow>
      k = ctlFor spec \<or> k \<in> fst ` set (ctlWatches spec) \<or> k \<in> set (ctlOwns spec)"
begin

lemma own_iff:
  assumes "kindOf (eventObject ev) = Some (ctlFor spec)"
  shows "objectKey (eventObject ev) \<in> enqueued spec ev \<longleftrightarrow> passes spec ev"
  using own [OF _ assms] only_passed by blast

end

definition delivered :: "controllerSpec \<Rightarrow> event \<Rightarrow> namespacedName set" where
  "delivered spec ev =
     (let ob = eventObject ev
      in if \<not> passes spec ev then {}
         else (if kindOf ob = Some (ctlFor spec) then {objectKey ob} else {}) \<union>
           (\<Union>(k, f)\<in>set (ctlWatches spec). if kindOf ob = Some k then set (f ob) else {}))"

interpretation delivered: event_source delivered
  by unfold_locales (force simp: delivered_def Let_def split: if_splits)+

lemmas controller_defs = changePodController_def changeWorkloadController_def deploymentController_def
  podController_def opsConfigInfoController_def

text \<open>The controllers that \<open>main\<close> sets up: one for every kind.\<close>

definition controllers :: "controllerSpec list" where
  "controllers = [deploymentController, podController, opsConfigInfoController, changeWorkloadController,
     changePodController]"

lemma one_controller: "\<forall>k. map ctlFor (filter (\<lambda>spec. ctlFor spec = k) controllers) = [k]"
  unfolding all_code enum_all_objectKind_def enum_objectKind_def
  by (simp add: controllers_def controller_defs)

text \<open>The event that shows a new version of an object.\<close>

definition seen :: "runtimeObject option \<Rightarrow> runtimeObject \<Rightarrow> event" where
  "seen old new = (case old of None \<Rightarrow> CreateEvent new | Some ob \<Rightarrow> UpdateEvent ob new)"

lemma eventObject_seen [simp]: "eventObject (seen old new) = new"
  by (simp add: seen_def split: option.split)

lemma passes_changePod:
  "passes changePodController (seen (map_option ChangePodObject old) (ChangePodObject cp)) \<longleftrightarrow>
     changePodState cp \<noteq> ExecuteDone"
  by (simp add: passes_def seen_def controller_defs ChangePod_handleEvent_def split: option.split)

fun_cases ChangePod_updateE: "ChangePod_handleUpdateEvent objOld objNew"
fun_cases ChangePod_createE: "ChangePod_handleCreateEvent ob"

lemma passes_changePod_only:
  "passes changePodController (seen old ob) \<Longrightarrow>
     \<exists>cp. ob = ChangePodObject cp \<and> changePodState cp \<noteq> ExecuteDone"
  by (auto simp: passes_def seen_def controller_defs ChangePod_handleEvent_def split: option.splits
      elim!: ChangePod_updateE ChangePod_createE)

lemma passes_done:
  "changePodState cp = ExecuteDone \<Longrightarrow>
     passes changeWorkloadController (seen (map_option ChangePodObject old) (ChangePodObject cp))"
  by (simp add: passes_def seen_def controller_defs changePodUpdateHandleEvent_def
      changePodCreateHandleEvent_def split: option.split)

lemma passes_workload:
  "passes changeWorkloadController (seen (map_option ChangeWorkloadObject old) (ChangeWorkloadObject cw)) \<longleftrightarrow>
     changeWorkloadState cw \<notin> {Init, Failed}"
  by (simp add: passes_def seen_def controller_defs changeWorkloadHandleEvent_def Let_def
      isInitStatusChangeWorkload_def isFailedStatusChangeWorkload_def split: option.split)

lemma passes_pod:
  "preparing p \<Longrightarrow> passes changeWorkloadController (seen (map_option PodObject old) (PodObject p))"
  by (simp add: passes_def seen_def controller_defs podHandleEvent_def preparing_def Let_def split: option.split)

text \<open>The request of a ChangePod event makes the ChangeWorkload reconciler read that ChangePod.\<close>

definition reconcileVia ::
  "'e env \<Rightarrow> ('e world, changeWorkload option) prog \<Rightarrow> ('e world, unit) prog" where
  "reconcileVia env found = bindM (attempt found) (\<lambda>r. case r of
       Inl err \<Rightarrow> ignoreNotFound err (ret ())
     | Inr None \<Rightarrow> ret ()
     | Inr (Some workload) \<Rightarrow> ChangeWorkload_dispatch env workload)"

lemma Reconcile_via_changePod:
  "ChangeWorkload_Reconcile env (GetChangePodNameSpaceNameFromChangePod cp) =
     reconcileVia env (changePodReconcile env (obj_key cp))"
  by (simp add: ChangeWorkload_Reconcile_def reconcileVia_def podRequest_of_changePod resourceType_of_changePod
      IsPodResourceType_def IsChangePodResourceType_def resourceTypes_differ [symmetric] Let_def)

lemma Reconcile_via_pod:
  "ChangeWorkload_Reconcile env (GetPodNameSpaceNameFromPod p) = reconcileVia env (podReconcile env (obj_key p))"
  by (simp add: ChangeWorkload_Reconcile_def reconcileVia_def podRequest_of_pod resourceType_of_pod
      IsPodResourceType_def Let_def)

text \<open>
  C23 (liveness). Every new version of a ChangePod, also the first one seen after a
  restart, wakes up whoever has to act on it: its own controller unless it is closed, and when it
  is closed the ChangeWorkload controller, with a request that reads exactly this ChangePod;
  nothing but a version that is not closed wakes up the ChangePod controller.
  The same holds for a finished pod that is not defensed yet. A ChangeWorkload wakes up its
  controller exactly when it is neither initial nor failed: an initial one waits for the event of
  a pod or ChangePod of its own.
\<close>

theorem no_lost_wakeups:
  assumes "event_source enqueued"
  defines "podSeen \<equiv> \<lambda>old (p :: pod). seen (map_option PodObject old) (PodObject p)"
    and "changeSeen \<equiv> \<lambda>old (cp :: changePod). seen (map_option ChangePodObject old) (ChangePodObject cp)"
    and "workloadSeen \<equiv> \<lambda>old (cw :: changeWorkload). seen (map_option ChangeWorkloadObject old) (ChangeWorkloadObject cw)"
  shows "(if changePodState cp = ExecuteDone
      then GetChangePodNameSpaceNameFromChangePod cp \<in> enqueued changeWorkloadController (changeSeen oldCp cp)
      else obj_key cp \<in> enqueued changePodController (changeSeen oldCp cp)) \<and>
    (req \<in> enqueued changePodController (seen old ob) \<longrightarrow>
       (\<exists>cp'. ob = ChangePodObject cp' \<and> changePodState cp' \<noteq> ExecuteDone)) \<and>
    (preparing p \<longrightarrow> GetPodNameSpaceNameFromPod p \<in> enqueued changeWorkloadController (podSeen oldP p)) \<and>
    (obj_key cw \<in> enqueued changeWorkloadController (workloadSeen oldCw cw) \<longleftrightarrow>
       changeWorkloadState cw \<notin> {Init, Failed}) \<and>
    ChangeWorkload_Reconcile env (GetChangePodNameSpaceNameFromChangePod cp) =
      reconcileVia env (changePodReconcile env (obj_key cp)) \<and>
    ChangeWorkload_Reconcile env (GetPodNameSpaceNameFromPod p) =
      reconcileVia env (podReconcile env (obj_key p))"
proof -
  have "obj_key cp \<in> enqueued changePodController (changeSeen oldCp cp)" if "changePodState cp \<noteq> ExecuteDone"
    using event_source.own [OF assms(1), of changePodController "changeSeen oldCp cp"] that
    by (simp add: changeSeen_def passes_changePod) (simp add: controller_defs)
  moreover have "GetChangePodNameSpaceNameFromChangePod cp \<in> enqueued changeWorkloadController (changeSeen oldCp cp)"
    if "changePodState cp = ExecuteDone"
    using that unfolding changeSeen_def
    by (intro event_source.watched [OF assms(1) passes_done, where k = ChangePodKind and f = watchChangePodEventHandler])
      (simp_all add: controller_defs changePod_status_defs)
  moreover have "GetPodNameSpaceNameFromPod p \<in> enqueued changeWorkloadController (podSeen oldP p)" if "preparing p"
    using that unfolding podSeen_def
    by (intro event_source.watched [OF assms(1) passes_pod, where k = PodKind and f = watchPodEventHandler])
      (simp_all add: controller_defs preparing_def)
  moreover have "obj_key cw \<in> enqueued changeWorkloadController (workloadSeen oldCw cw) \<longleftrightarrow>
      changeWorkloadState cw \<notin> {Init, Failed}"
    using event_source.own_iff [OF assms(1), of "workloadSeen oldCw cw" changeWorkloadController]
    by (simp add: workloadSeen_def passes_workload) (simp add: controller_defs)
  moreover have "\<exists>cp'. ob = ChangePodObject cp' \<and> changePodState cp' \<noteq> ExecuteDone"
    if "req \<in> enqueued changePodController (seen old ob)"
    using passes_changePod_only [OF event_source.only_passed [OF assms(1) that]] .
  ultimately show ?thesis
    by (simp add: Reconcile_via_changePod Reconcile_via_pod)
qed

theorem no_lost_wakeups_witness:
  "sampleKey \<in> delivered changePodController
      (UpdateEvent (ChangePodObject (sampleChangePod PreSubmitted [] 0)) (ChangePodObject (sampleChangePod PostWait [] 1)))"
proof -
  let ?cp = "sampleChangePod PostWait [] 1"
  have cp: "changePodState ?cp \<noteq> ExecuteDone" "obj_key ?cp = sampleKey"
    by (simp_all add: sampleChangePod_def changePod_status_defs sampleKey_def obj_key_def)
  show ?thesis
    using conjunct1 [OF no_lost_wakeups [OF delivered.event_source_axioms,
          where cp = ?cp and oldCp = "Some (sampleChangePod PreSubmitted [] 0)"]] cp
    by (simp add: seen_def)
qed

subsection \<open>Starting again\<close>

text \<open>
  \<open>signals\<close> counts the installed signal handlers and \<open>started\<close> lists the goroutines. Only
  \<open>SetupSignalHandler\<close> changes the first, and it panics the second time; only \<open>go\<close>
  changes the second.
\<close>

definition quiet :: "('s \<Rightarrow> nat) \<Rightarrow> ('s \<Rightarrow> goroutine list) \<Rightarrow> ('s, 'a) prog \<Rightarrow> bool" where
  "quiet signals started m \<longleftrightarrow> (\<forall>n gs. preserves (\<lambda>s. signals s = n \<and> started s = gs) m)"

lemma quiet_run: "quiet sg st m \<Longrightarrow> m s = (r, t) \<Longrightarrow> sg t = sg s \<and> st t = st s"
  unfolding quiet_def using preserves_run by fastforce

text \<open>
  What a turn of the loop can be: it ends before anything is started, or it starts all loops
  once and installs the handler, which panics when there is one already. It exits with 1 only.
\<close>

definition turnOf ::
  "('s \<Rightarrow> nat) \<Rightarrow> ('s \<Rightarrow> goroutine list) \<Rightarrow> 's \<Rightarrow> turnEnd outcome \<times> 's \<Rightarrow> bool" where
  "turnOf sg st s rt \<longleftrightarrow>
     (\<forall>c. fst rt = Ok (Exit c) \<longrightarrow> c = 1) \<and>
     (sg (snd rt) = sg s \<and> st (snd rt) = st s \<or>
      sg (snd rt) = Suc (sg s) \<and> st (snd rt) = st s @ backgroundLoops \<and> (sg s \<noteq> 0 \<longrightarrow> fst rt = Panic))"

lemma turnOf_bindM:
  assumes "quiet sg st m" "\<And>a s. turnOf sg st s (f a s)"
  shows "turnOf sg st s (bindM m f s)"
proof -
  obtain r t where rt: "m s = (r, t)" by (cases "m s")
  then have "sg t = sg s" "st t = st s"
    using quiet_run [OF assms(1)] by auto
  then show ?thesis
    using assms(2) [of t] rt by (cases r) (simp_all add: bindM_def turnOf_def)
qed

lemma turnOf_ret [simp]: "turnOf sg st s (ret a s) \<longleftrightarrow> (\<forall>c. a = Exit c \<longrightarrow> c = 1)"
  by (auto simp: turnOf_def ret_def)

lemma quiet_attempt: "quiet sg st m \<Longrightarrow> quiet sg st (attempt m)"
  by (auto simp: quiet_def intro: preserves_intros)

lemma turnOf_orExit:
  assumes "quiet sg st m" "\<And>s. turnOf sg st s (rest s)"
  shows "turnOf sg st s (orExit m rest s)"
  unfolding orExit_def by (rule turnOf_bindM [OF quiet_attempt [OF assms(1)]]) (simp add: assms(2) split: sum.split)

text \<open>
  How the loop ends, seen from a state with at most one handler: with so many set-ups that the
  handler was installed at most twice, and with a crash if it was.
\<close>

definition runEnds ::
  "('s \<Rightarrow> nat) \<Rightarrow> ('s \<Rightarrow> goroutine list) \<Rightarrow> 's \<Rightarrow> processEnd \<times> 's \<Rightarrow> bool" where
  "runEnds sg st s r \<longleftrightarrow> (sg s \<le> 1 \<longrightarrow>
     (\<exists>n. st (snd r) = st s @ concat (replicate n backgroundLoops) \<and> sg s + n \<le> 2 \<and>
        (sg s + n = 2 \<longrightarrow> fst r = Crashed) \<and> fst r \<in> {Exited 1, Crashed}))"

lemma runEnds_again:
  assumes "turnOf sg st s (Ok Again, u)" "runEnds sg st u r"
  shows "runEnds sg st s r"
proof (cases "sg u = sg s \<and> st u = st s")
  case True
  then show ?thesis using assms(2) by (simp add: runEnds_def)
next
  case False
  then have u: "sg s = 0" "sg u = 1" "st u = st s @ backgroundLoops"
    using assms(1) by (auto simp: turnOf_def)
  then obtain n where "st (snd r) = st u @ concat (replicate n backgroundLoops)" "1 + n \<le> 2"
    "1 + n = 2 \<longrightarrow> fst r = Crashed" "fst r \<in> {Exited 1, Crashed}"
    using assms(2) by (auto simp: runEnds_def)
  then show ?thesis
    using u unfolding runEnds_def by (intro impI exI [of _ "Suc n"]) simp
qed

lemma runEnds_stop:
  assumes "turnOf sg st s (q, u)" "e \<in> {Exited 1, Crashed}" "q = Panic \<longrightarrow> e = Crashed"
  shows "runEnds sg st s (e, u)"
proof (cases "sg u = sg s \<and> st u = st s")
  case True
  then show ?thesis
    using assms(2) unfolding runEnds_def by (intro impI exI [of _ 0]) auto
next
  case False
  then show ?thesis
    using assms unfolding runEnds_def by (intro impI exI [of _ 1]) (auto simp: turnOf_def)
qed

locale manager_runtime =
  fixes ops :: "'s managerOps" and signals :: "'s \<Rightarrow> nat" and started :: "'s \<Rightarrow> goroutine list"
  assumes handler: "fst (setupSignalHandler ops s) \<longleftrightarrow> signals s = 0"
      "signals (snd (setupSignalHandler ops s)) = Suc (signals s)"
      "started (snd (setupSignalHandler ops s)) = started s"
    and spawned: "started (spawn ops g s) = started s @ [g]" "signals (spawn ops g s) = signals s"
    and quiet_ops: "quiet signals started (newManager ops options)" "quiet signals started (newClientset ops)"
      "quiet signals started (indexField ops k f ix)" "quiet signals started (completeController ops spec)"
      "quiet signals started (newDecoder ops)" "quiet signals started (effect (registerWebhook ops path h))"
      "quiet signals started (addHealthzCheck ops n)" "quiet signals started (addReadyzCheck ops n)"
      "quiet signals started (startManager ops)"
begin

lemma quiet_setups:
  "quiet signals started (NewApp ops)" "quiet signals started (Deployment_SetupWithManager ops)"
  "quiet signals started (Pod_SetupWithManager ops)" "quiet signals started (OpsConfigInfo_SetupWithManager ops)"
  "quiet signals started (ChangeWorkload_SetupWithManager ops)" "quiet signals started (ChangePod_SetupWithManager ops)"
  "quiet signals started (SetupWebhookWithManager ops)"
  using quiet_ops
  unfolding NewApp_def Deployment_SetupWithManager_def Pod_SetupWithManager_def OpsConfigInfo_SetupWithManager_def
    ChangeWorkload_SetupWithManager_def setChangeWorkloadFieldIndex_def ChangePod_SetupWithManager_def
    setChangePodFieldIndex_def SetupWebhookWithManager_def Validator_InjectDecoder_def Mutator_InjectDecoder_def
    quiet_def
  by (auto intro!: preserves_intros)

lemma spawn_all:
  "\<exists>t. forEach gs (\<lambda>g. effect (spawn ops g)) s = (Ok (), t) \<and> signals t = signals s \<and> started t = started s @ gs"
proof (induction gs arbitrary: s)
  case Nil
  then show ?case by (simp add: ret_def)
next
  case (Cons g gs)
  then show ?case
    using Cons.IH [of "spawn ops g s"] by (auto simp: bindM_def effect_def spawned)
qed

lemma turnOf_runManager: "turnOf signals started s (runManager ops s)"
proof -
  obtain t where t: "forEach backgroundLoops (\<lambda>g. effect (spawn ops g)) s = (Ok (), t)"
    "signals t = signals s" "started t = started s @ backgroundLoops"
    using spawn_all by blast
  obtain ok u where u: "setupSignalHandler ops t = (ok, u)" by (cases "setupSignalHandler ops t")
  obtain r v where v: "startManager ops u = (r, v)" by (cases "startManager ops u")
  have "ok \<longleftrightarrow> signals s = 0" "signals u = Suc (signals s)" "started u = started s @ backgroundLoops"
    using handler [of t] u t by auto
  moreover have "signals v = signals u" "started v = started u"
    using quiet_run [OF quiet_ops(9) v] by auto
  ultimately show ?thesis
    using t(1) u v
    by (cases ok; cases r) (simp_all add: runManager_def bindM_def attempt_def ret_def turnOf_def)
qed

lemma turnOf_main: "turnOf signals started s (main_turn ops options s)"
  unfolding main_turn_def
  by (auto intro!: turnOf_bindM quiet_attempt turnOf_orExit turnOf_runManager quiet_ops quiet_setups split: sum.split)

text \<open>
  However the loop ends, it has set up everything at most twice, and the second time ended in
  a crash.
\<close>

lemma main_loop_ends:
  assumes "main_loop ops options s = Some r"
  shows "runEnds signals started s r"
proof -
  let ?P = "\<lambda>(o' :: 's managerOps) (opts :: managerOptions) s (r :: processEnd \<times> 's).
    o' = ops \<longrightarrow> runEnds signals started s r"
  have "?P ops options s r"
  proof (rule main_loop.raw_induct [where P = ?P, OF _ assms], rule impI)
    fix loop :: "'s managerOps \<Rightarrow> managerOptions \<Rightarrow> 's \<Rightarrow> (processEnd \<times> 's) option"
    fix o' :: "'s managerOps" and opts s and r :: "processEnd \<times> 's"
    assume IH: "\<And>o' opts s r. loop o' opts s = Some r \<Longrightarrow> ?P o' opts s r"
      and eq: "(case main_turn o' opts s of (r, t) \<Rightarrow> (case r of
           Ok (Exit code) \<Rightarrow> Some (Exited code, t) | Ok Again \<Rightarrow> loop o' opts t
         | Err err \<Rightarrow> Some (Crashed, t) | Panic \<Rightarrow> Some (Crashed, t) | Hang \<Rightarrow> None)) = Some r"
      and ops: "o' = ops"
    obtain q u where turn: "main_turn ops opts s = (q, u)" by (cases "main_turn ops opts s")
    then have t: "turnOf signals started s (q, u)"
      using turnOf_main [of s opts] by simp
    show "runEnds signals started s r"
    proof (cases "q = Ok Again")
      case True
      then have "loop o' opts u = Some r" using eq ops turn by simp
      then show ?thesis
        using IH [of o' opts u r] ops runEnds_again [OF t [unfolded True], of r] by simp
    next
      case False
      then obtain e where "r = (e, u)" "e \<in> {Exited 1, Crashed}" "q = Panic \<longrightarrow> e = Crashed"
        using eq ops turn t by (auto simp: turnOf_def split: outcome.splits turnEnd.splits)
      then show ?thesis using runEnds_stop [OF t] by simp
    qed
  qed
  then show ?thesis by simp
qed

end

subsection \<open>A reference manager\<close>

text \<open>
  Every registration succeeds; the signal handler can be installed once; \<open>trStarts\<close> are the
  results of the calls of \<open>Start\<close>, and a manager without a further result runs on.
\<close>

record tracedManager =
  trSignals :: nat
  trStarted :: "goroutine list"
  trStarts :: "bool list"

definition tracedOps :: "tracedManager managerOps" where
  "tracedOps = \<lparr>newManager = (\<lambda>_. ret ()), newClientset = ret (), indexField = (\<lambda>_ _ _. ret ()),
     completeController = (\<lambda>_. ret ()), newDecoder = ret (), registerWebhook = (\<lambda>_ _ s. s),
     addHealthzCheck = (\<lambda>_. ret ()), addReadyzCheck = (\<lambda>_. ret ()),
     setupSignalHandler = (\<lambda>s. (trSignals s = 0, s\<lparr>trSignals := Suc (trSignals s)\<rparr>)),
     spawn = (\<lambda>g s. s\<lparr>trStarted := trStarted s @ [g]\<rparr>),
     startManager = (\<lambda>s. case trStarts s of
         [] \<Rightarrow> (Hang, s)
       | ok # oks \<Rightarrow> (if ok then Ok () else Err (plain_error ''cannot start''), s\<lparr>trStarts := oks\<rparr>))\<rparr>"

interpretation traced: manager_runtime tracedOps trSignals trStarted
  by unfold_locales
    (auto simp: tracedOps_def quiet_def effect_def preserves_def ret_def split: list.split)

lemma traced_setups:
  "NewApp tracedOps = ret ()" "Deployment_SetupWithManager tracedOps = ret ()"
  "Pod_SetupWithManager tracedOps = ret ()" "OpsConfigInfo_SetupWithManager tracedOps = ret ()"
  "ChangeWorkload_SetupWithManager tracedOps = ret ()" "ChangePod_SetupWithManager tracedOps = ret ()"
  "SetupWebhookWithManager tracedOps = ret ()" "newManager tracedOps options = ret ()"
  "addHealthzCheck tracedOps n = ret ()" "addReadyzCheck tracedOps n = ret ()"
  by (simp_all add: NewApp_def Deployment_SetupWithManager_def Pod_SetupWithManager_def
      OpsConfigInfo_SetupWithManager_def ChangeWorkload_SetupWithManager_def setChangeWorkloadFieldIndex_def
      ChangePod_SetupWithManager_def setChangePodFieldIndex_def SetupWebhookWithManager_def
      Validator_InjectDecoder_def Mutator_InjectDecoder_def tracedOps_def
      thenM_def effect_def ret_def [symmetric])

lemma traced_turn: "main_turn tracedOps options = runManager tracedOps"
  by (simp add: main_turn_def orExit_def traced_setups)

lemma traced_run:
  "runManager tracedOps s =
     (if trSignals s \<noteq> 0 then (Panic, s\<lparr>trSignals := Suc (trSignals s), trStarted := trStarted s @ backgroundLoops\<rparr>)
      else case trStarts s of
        [] \<Rightarrow> (Hang, s\<lparr>trSignals := 1, trStarted := trStarted s @ backgroundLoops\<rparr>)
      | ok # oks \<Rightarrow> (Ok (if ok then Exit 1 else Again),
          s\<lparr>trSignals := 1, trStarted := trStarted s @ backgroundLoops, trStarts := oks\<rparr>))"
  by (simp add: runManager_def backgroundLoops_def bindM_def effect_def ret_def tracedOps_def attempt_def
      split: list.split)

lemma main_cases:
  assumes "main ops logging flags getenv wd configFound s = Some (e, t)"
  obtains (failed) "t = s" "e \<in> {Exited 1, Crashed}"
  | (served) "t = spawn ops RouterLoop s" "e = Exited 1"
  | (looped) options where "main_loop ops options (spawn ops RouterLoop s) = Some (e, t)"
proof (cases "thenM main_flags (LogInit logging) flags")
  case (Pair r fs)
  show ?thesis
  proof (cases "\<exists>spec. r = Ok (Inr spec)")
    case True
    then show ?thesis
      using assms Pair by (auto simp: main_def Let_def intro: served looped split: if_splits option.splits)
  next
    case False
    then show ?thesis
      using assms Pair by (cases r) (auto simp: main_def intro: failed split: sum.splits)
  qed
qed

text \<open>
  C40 (safety). However the process ends, it ends by \<open>os.Exit(1)\<close> or by a
  crash, never with success; and it has set up the operator at most twice. A second time always
  ends in the crash of \<open>SetupSignalHandler\<close>, after all background loops were started again: the
  loop of \<open>main\<close> that is meant to restart a failed manager cannot do so.
\<close>

theorem starts_at_most_twice:
  assumes "manager_runtime ops signals started" "signals s = 0"
    and "main ops logging flags getenv wd configFound s = Some (e, t)"
  shows "e \<in> {Exited 1, Crashed} \<and>
    (started t = started s \<or>
     (\<exists>n\<le>2. started t = started s @ RouterLoop # concat (replicate n backgroundLoops) \<and>
        (n = 2 \<longrightarrow> e = Crashed)))"
proof -
  let ?s = "spawn ops RouterLoop s"
  have spawned: "started ?s = started s @ [RouterLoop]" "signals ?s = 0"
    using manager_runtime.spawned [OF assms(1), of RouterLoop s] assms(2) by auto
  from assms(3) show ?thesis
  proof (cases rule: main_cases)
    case failed
    then show ?thesis by simp
  next
    case served
    then show ?thesis using spawned(1) by (auto intro: exI [of _ 0])
  next
    case (looped options)
    obtain n where "started t = started ?s @ concat (replicate n backgroundLoops)" "n \<le> 2"
      "n = 2 \<longrightarrow> e = Crashed" "e \<in> {Exited 1, Crashed}"
      using manager_runtime.main_loop_ends [OF assms(1) looped] spawned(2) by (auto simp: runEnds_def)
    then show ?thesis
      using spawned(1) by (auto intro!: exI [of _ n])
  qed
qed

theorem starts_at_most_twice_witness:
  defines "m \<equiv> main tracedOps (snd (log_init (Inr (''op'', ''/root'')))) [] (\<lambda>_. '''') (Inr ''/'') True
    \<lparr>trSignals = 0, trStarted = [], trStarts = [False]\<rparr>"
  shows "\<exists>t n. m = Some (Crashed, t) \<and> n \<le> 2 \<and>
    trStarted t = RouterLoop # concat (replicate n backgroundLoops)"
proof -
  let ?f = "snd (log_init (Inr (''op'', ''/root'')))"
  let ?flags = "[''metrics-bind-address'', ''health-probe-bind-address'', ''leader-elect'']"
  have flags: "main_flags [] = (Ok (), ?flags)"
    unfolding main_flags_def by (subst registerFlags_fresh) simp_all
  have "validate ?f = None"
    by (simp add: log_init_def validate_def levelMap_def)
  moreover have "set logFlagNames \<inter> set ?flags = {}"
    by (simp add: logFlagNames_def)
  ultimately obtain spec where "LogInit ?f ?flags = (Ok (Inr spec), ?flags @ logFlagNames)"
    using LogInit_fresh by blast
  then have set_up: "thenM main_flags (LogInit ?f) [] = (Ok (Inr spec), ?flags @ logFlagNames)"
    using flags by (simp add: thenM_def bindM_def)
  obtain options where options: "main_options (\<lambda>_. '''') (Inr ''/'') = Some options"
    by (simp add: main_options_def)
  have spawn: "spawn tracedOps g s = s\<lparr>trStarted := trStarted s @ [g]\<rparr>" for g s
    by (simp add: tracedOps_def)
  have "\<exists>t. m = Some (Crashed, t) \<and> trStarted t \<noteq> []"
    unfolding m_def main_def set_up by (simp add: options spawn main_loop.simps traced_turn traced_run)
  then obtain t where t: "m = Some (Crashed, t)" "trStarted t \<noteq> []" by blast
  then show ?thesis
    using starts_at_most_twice [OF traced.manager_runtime_axioms _ t(1) [unfolded m_def]] by auto
qed

end
