(* ===== verification/Life_Run.thy ===== *)
theory Life_Run
  imports Cluster_Runs
begin

section \<open>One ChangePod from its creation to its end\<close>

text \<open>
  The handlers of the life cycle in sequence on the reference cluster, with the caches up to date
  when each of them starts: the reconciles pick the pods, announce the batch and its end to the
  control plane and close the ChangePod, and the two verdicts arrive in between.
\<close>

subsection \<open>A cluster on which one ChangePod is on its way\<close>

text \<open>
  What is around a ChangePod while it is on its way: the other ChangePods, with a gap at its own
  place, and the Deployments, which stay as they are, and what is known of the pods.
\<close>

type_synonym surroundings = "changePod option list \<times> deployment list \<times> (pod list \<Rightarrow> bool)"

definition othersThan :: "namespacedName \<Rightarrow> changePod list \<Rightarrow> changePod option list" where
  "othersThan req = map (\<lambda>ob. if obj_key ob = req then None else Some ob)"

definition around :: "namespacedName \<Rightarrow> surroundings \<Rightarrow> cluster \<Rightarrow> bool" where
  "around req fr e \<longleftrightarrow> (case fr of (cps, ds, P) \<Rightarrow>
     othersThan req (shStored (clChangePods e)) = cps \<and>
     shStored (clDeployments e) = ds \<and> P (shStored (clPods e)))"

text \<open>
  The ChangePod stored under \<open>req\<close> satisfies \<open>Q\<close>, its ChangeWorkload is \<open>cw\<close>, no
  other ChangePod has the node id, \<open>fr\<close> is around, and \<open>as\<close> are the answers to come.
\<close>

definition onItsWay ::
  "namespacedName \<Rightarrow> string \<Rightarrow> changeWorkload \<Rightarrow> surroundings \<Rightarrow>
   (changePod \<Rightarrow> bool) \<Rightarrow> (error + (error + string)) list \<Rightarrow> cluster \<Rightarrow> bool" where
  "onItsWay req node cw fr Q as e \<longleftrightarrow>
     (\<exists>cp. findObj req (shStored (clChangePods e)) = Some cp \<and> Q cp \<and>
        findObj \<lparr>nnNamespace = nnNamespace req, nnName = cpChangeWorkloadId (cpSpec cp)\<rparr>
          (shStored (clWorkloads e)) = Some cw) \<and>
     (\<forall>ob\<in>set (shStored (clChangePods e)). cpChangePodId (cpStatus ob) = node \<longrightarrow> obj_key ob = req) \<and>
     around req fr e \<and> clHttp e = as"

text \<open>The caches show what is stored.\<close>

definition inSync :: "cluster \<Rightarrow> bool" where
  "inSync e \<longleftrightarrow> syncCluster e = e"

lemma inSync_sync [simp]: "inSync (syncCluster e)"
  by (simp add: inSync_def syncCluster_def syncShelf_def)

lemma shelf_inSync: "syncShelf sh = sh \<Longrightarrow> shCached sh = shStored sh"
  by (metis shelf.select_convs(2) shelf.surjective shelf.update_convs(2) syncShelf_def)

lemma inSync_cached:
  assumes "inSync e"
  shows "shCached (clChangePods e) = shStored (clChangePods e)"
    "shCached (clWorkloads e) = shStored (clWorkloads e)" "shCached (clPods e) = shStored (clPods e)"
    "shCached (clDeployments e) = shStored (clDeployments e)"
proof -
  have "clChangePods (syncCluster e) = clChangePods e" "clWorkloads (syncCluster e) = clWorkloads e"
    "clPods (syncCluster e) = clPods e" "clDeployments (syncCluster e) = clDeployments e"
    using assms by (simp_all add: inSync_def)
  then show "shCached (clChangePods e) = shStored (clChangePods e)"
    "shCached (clWorkloads e) = shStored (clWorkloads e)" "shCached (clPods e) = shStored (clPods e)"
    "shCached (clDeployments e) = shStored (clDeployments e)"
    by (simp_all add: syncCluster_def shelf_inSync)
qed

lemma onItsWay_sync [simp]: "onItsWay req node cw fr Q as (syncCluster e) \<longleftrightarrow> onItsWay req node cw fr Q as e"
  by (simp add: onItsWay_def around_def syncCluster_def syncShelf_def)

text \<open>A new status of the ChangePod itself.\<close>

lemma map_putObj: "findObj (obj_key ob) obs = Some cur \<Longrightarrow> f ob = f cur \<Longrightarrow> map f (putObj ob obs) = map f obs"
  by (induction obs) (auto split: if_splits)

lemma around_put:
  assumes "findObj (obj_key new) (shStored (clChangePods e)) = Some cur"
  shows "around (obj_key new) fr (putChangePod new e) = around (obj_key new) fr e"
  using map_putObj [of "new\<lparr>ResourceVersion := shVersion (clChangePods e)\<rparr>" "shStored (clChangePods e)" cur
      "\<lambda>ob. if obj_key ob = obj_key new then None else Some ob"] assms findObj_key [OF assms]
  by (simp add: around_def othersThan_def putChangePod_def storeObj_def Let_def)

lemma onItsWay_put:
  assumes "onItsWay req node cw fr Q as e" "findObj req (shStored (clChangePods e)) = Some cur"
    and "obj_key new = req" "cpChangeWorkloadId (cpSpec new) = cpChangeWorkloadId (cpSpec cur)"
    and "\<And>v. Q' (new\<lparr>ResourceVersion := v\<rparr>)"
  shows "onItsWay req node cw fr Q' as (putChangePod new e)"
proof -
  have "set (shStored (clChangePods (putChangePod new e)))
      \<subseteq> insert (new\<lparr>ResourceVersion := shVersion (clChangePods e)\<rparr>) (set (shStored (clChangePods e)))"
    using set_putObj by (auto simp: putChangePod_def storeObj_def Let_def)
  moreover have "clWorkloads (putChangePod new e) = clWorkloads e" "clHttp (putChangePod new e) = clHttp e"
    by (simp_all add: putChangePod_def)
  ultimately show ?thesis
    using assms around_put [of new e cur fr] by (auto simp: onItsWay_def putChangePod_stored)
qed

subsection \<open>The control plane answers\<close>

text \<open>
  Up to four refused attempts are made up for by the retries. Between the attempts the client
  sleeps, which changes nothing on a cluster that is in sync.
\<close>

definition nodeAnswer :: "string \<Rightarrow> error + (error + string)" where
  "nodeAnswer i = Inr (Inr (''node:'' @ i))"

lemma sync_http [simp]:
  "inSync e \<Longrightarrow> inSync (e\<lparr>clHttp := as, clSent := sent, clNow := now\<rparr>)"
  "inSync e \<Longrightarrow> syncCluster (e\<lparr>clHttp := as, clSent := sent\<rparr>) = e\<lparr>clHttp := as, clSent := sent\<rparr>"
  by (cases e; simp add: inSync_def syncCluster_def)+

lemma cluster_postLoop:
  assumes "inSync (wExt w)" "clHttp (wExt w) = replicate m (Inl err) @ nodeAnswer i # as" "m + r \<le> 4"
  shows "\<exists>sent now. postLoop clusterEnv rq r w =
    (Ok (Inr (''node:'' @ i)), w\<lparr>wExt := (wExt w)\<lparr>clHttp := as, clSent := sent, clNow := now\<rparr>\<rparr>)"
  using assms
proof (induction m arbitrary: r w)
  case 0
  then have "httpDo clusterEnv rq (wExt w) =
      (Inr (Inr (''node:'' @ i)), (wExt w)\<lparr>clHttp := as, clSent := clSent (wExt w) @ [rq], clNow := clNow (wExt w)\<rparr>)"
    by (simp add: clusterEnv_def clusterHttp_def nodeAnswer_def Let_def)
  from postLoop_success [OF this] show ?case by blast
next
  case (Suc m)
  let ?e = "(wExt w)\<lparr>clHttp := replicate m (Inl err) @ nodeAnswer i # as, clSent := clSent (wExt w) @ [rq],
      clNow := clNow (wExt w)\<rparr>"
  let ?v = "w\<lparr>wExt := ?e\<lparr>clNow := clNow (wExt w) + RetryInterval\<rparr>\<rparr>"
  have "httpDo clusterEnv rq (wExt w) = (Inl err, ?e)"
    using Suc.prems(2) by (simp add: clusterEnv_def clusterHttp_def Let_def)
  moreover have "sleepFor clusterEnv RetryInterval (w\<lparr>wExt := ?e\<rparr>) = ?v"
    using Suc.prems(1) by (simp add: clusterEnv_def)
  ultimately have "postLoop clusterEnv rq r w = postLoop clusterEnv rq (Suc r) ?v"
    using Suc.prems(3) by (simp add: postLoop_step [of clusterEnv rq r w] MaxRetryCount_def)
  moreover have "inSync (wExt ?v)"
    using sync_http(1) [OF Suc.prems(1)] by simp
  ultimately show ?case
    using Suc.IH [of ?v "Suc r"] Suc.prems(3) by auto
qed

definition answered :: "(error + (error + string)) list \<Rightarrow> cluster world \<Rightarrow> cluster world \<Rightarrow> bool" where
  "answered as w t \<longleftrightarrow> (\<exists>sent now. t = w\<lparr>wExt := (wExt w)\<lparr>clHttp := as, clSent := sent, clNow := now\<rparr>\<rparr>)"

lemma cluster_service:
  assumes "inSync (wExt w)" "clHttp (wExt w) = replicate m (Inl err) @ nodeAnswer i # as" "m \<le> 4"
  shows "\<exists>res t. serviceTemplate clusterEnv request action w = (Ok res, t) \<and> answered as w t \<and>
    resDomain res = GMap [(''nodeId'', GString i)]"
proof -
  let ?rq = "\<lparr>reqMethod = ''POST'', reqUri = buildUri action,
      reqHeaders = [(HttpHeaderPlatformKey, Platform), (HttpHeaderTimestampKey, itoa (time_unix (clNow (wExt w)))),
        (HttpHeaderSignKey, sign (time_unix (clNow (wExt w))) (json_encode request)),
        (''Content-Type'', ''application/json'')],
      reqBody = json_encode request\<rparr>"
  obtain t where t: "postLoop clusterEnv ?rq 0 w = (Ok (Inr (''node:'' @ i)), t)" "answered as w t"
    using cluster_postLoop [OF assms(1,2), of 0 ?rq] assms(3) unfolding answered_def by auto
  have "unmarshalResult clusterEnv (''node:'' @ i) =
      (\<lparr>resSuccess = True, resResultCode = '''', resMsg = '''', resDomain = GMap [(''nodeId'', GString i)]\<rparr>, None)"
    by (simp add: clusterEnv_def clusterUnmarshal_def del: append_Cons)
  then show ?thesis
    using t by (simp add: serviceTemplate_def doPost_def bindM_def cluster_clock ret_def Let_def del: append_Cons)
qed

subsection \<open>One reconcile\<close>

definition inPhase :: "string \<Rightarrow> podSummary list \<Rightarrow> (changePodStatus \<Rightarrow> bool) \<Rightarrow> changePod \<Rightarrow> bool" where
  "inPhase st infos R cp \<longleftrightarrow> changePodState cp = st \<and> cpPodInfos (cpSpec cp) = infos \<and> R (cpStatus cp)"

lemma way_Reconcile:
  fixes w :: "cluster world"
  assumes "onItsWay req node cw fr Q as (wExt w)" "inSync (wExt w)"
  obtains cp where "findObj req (shStored (clChangePods (wExt w))) = Some cp" "obj_key cp = req" "Q cp"
    "ChangePod_Reconcile clusterEnv req w =
      (let status = changePodState cp
       in if status = ExecuteInit then executeInitChangePodHandle clusterEnv cp cw w
          else if status = PreWait then preWaitChangePodHandle clusterEnv cp w
          else if status = PostWait then postWaitChangePodHandle clusterEnv cp w
          else if status \<in> set endings then handleFinishedChangePod clusterEnv cp w
          else (Ok (), w))"
proof -
  obtain cp where cp: "findObj req (shStored (clChangePods (wExt w))) = Some cp" "Q cp"
    "findObj \<lparr>nnNamespace = nnNamespace req, nnName = cpChangeWorkloadId (cpSpec cp)\<rparr>
      (shStored (clWorkloads (wExt w))) = Some cw"
    using assms(1) by (auto simp: onItsWay_def)
  have key: "obj_key cp = req" using findObj_key [OF cp(1)] by simp
  then have "Namespace cp = nnNamespace req" by (auto simp: obj_key_def)
  then have "apiGet (changePodApi clusterEnv) req (wExt w) = (Inr cp, wExt w)"
    "apiGet (changeWorkloadApi clusterEnv)
      \<lparr>nnNamespace = Namespace cp, nnName = cpChangeWorkloadId (cpSpec cp)\<rparr> (wExt w) = (Inr cw, wExt w)"
    using cp inSync_cached [OF assms(2)] by (simp_all add: onPart_def)
  from clusterPods.Reconcile_run [OF this] show ?thesis
    using that [OF cp(1) key cp(2)] by (simp add: Let_def)
qed

lemma way_setStatus:
  "\<exists>now unix. setChangePodStatus clusterEnv st cp w =
     (Ok (cp\<lparr>cpStatus := (cpStatus cp)\<lparr>cpStatusStatus := st, cpUpdateTime := now, cpUpdateTimeUnix := unix\<rparr>\<rparr>), w)"
  by (rule cluster_GetNowTime [of w]) (simp add: setChangePodStatus_def bindM_def cluster_clock ret_def, blast)

lemma way_setSubmitted:
  "\<exists>s. setChangePodPreSubmittedStatus clusterEnv cp w = (Ok (cp\<lparr>cpStatus := s\<rparr>), w) \<and>
     cpStatusStatus s = PreSubmitted \<and> cpChangePodId s = cpChangePodId (cpStatus cp)"
  "\<exists>s. setChangePodPostSubmittedStatus clusterEnv cp w = (Ok (cp\<lparr>cpStatus := s\<rparr>), w) \<and>
     cpStatusStatus s = PostSubmitted \<and> cpChangePodId s = cpChangePodId (cpStatus cp)"
proof -
  obtain now where "GetNowTime clusterEnv w = (Ok now, w)" by (rule cluster_GetNowTime)
  then show "\<exists>s. setChangePodPreSubmittedStatus clusterEnv cp w = (Ok (cp\<lparr>cpStatus := s\<rparr>), w) \<and>
      cpStatusStatus s = PreSubmitted \<and> cpChangePodId s = cpChangePodId (cpStatus cp)"
    "\<exists>s. setChangePodPostSubmittedStatus clusterEnv cp w = (Ok (cp\<lparr>cpStatus := s\<rparr>), w) \<and>
      cpStatusStatus s = PostSubmitted \<and> cpChangePodId s = cpChangePodId (cpStatus cp)"
    by (auto simp: setChangePodPreSubmittedStatus_def setChangePodPostSubmittedStatus_def
        setChangePodStatus_def bindM_def cluster_clock ret_def)
qed

lemma way_update:
  assumes "onItsWay req node cw fr Q as (wExt w)" "findObj req (shStored (clChangePods (wExt w))) = Some cp"
    and "obj_key cp = req" "\<And>v. Q' (cp\<lparr>cpStatus := s, ResourceVersion := v\<rparr>)"
  shows "\<exists>t. updateChangePodStatus clusterEnv (cp\<lparr>cpStatus := s\<rparr>) w = (Ok (), t) \<and>
    onItsWay req node cw fr Q' as (wExt t)"
proof -
  have "onItsWay req node cw fr Q' as (putChangePod (cp\<lparr>cpStatus := s\<rparr>) (wExt w))"
    by (rule onItsWay_put [OF assms(1,2)]) (use assms(3,4) in simp_all)
  then show ?thesis
    using assms(2,3) by (simp add: updateChangePodStatus_def bindM_def cluster_simps ret_def)
qed

lemma way_answered:
  assumes "answered as' w t" "onItsWay req node cw fr Q as (wExt w)"
  shows "onItsWay req node cw fr Q as' (wExt t)" "clChangePods (wExt t) = clChangePods (wExt w)"
  using assms by (auto simp: answered_def onItsWay_def around_def)

text \<open>A new status after the answer of the control plane.\<close>

lemma way_advance:
  assumes "onItsWay req node cw fr Q as (wExt w)" "answered as' w t"
    and "findObj req (shStored (clChangePods (wExt w))) = Some cp" "obj_key cp = req"
    and "cpStatusStatus s = st" "R s" "cpPodInfos (cpSpec cp) = infos"
  shows "\<exists>u. updateChangePodStatus clusterEnv (cp\<lparr>cpStatus := s\<rparr>) t = (Ok (), u) \<and>
    onItsWay req node cw fr (inPhase st infos R) as' (wExt u)"
  using assms way_answered [OF assms(2,1)]
  by (intro way_update [where Q = Q]) (simp_all add: inPhase_def)

lemma answered_self: "clHttp (wExt w) = as \<Longrightarrow> answered as w w"
  unfolding answered_def by (rule exI [of _ "clSent (wExt w)"], rule exI [of _ "clNow (wExt w)"]) auto

lemma reconcile_PreWait:
  assumes "m \<le> 4"
  shows "runs (\<lambda>w. inSync (wExt w) \<and> onItsWay req node cw fr (inPhase PreWait infos (\<lambda>_. True))
        (replicate m (Inl err) @ nodeAnswer node # as) (wExt w))
      (ChangePod_Reconcile clusterEnv req)
      (\<lambda>_ t. onItsWay req node cw fr (inPhase PreSubmitted infos (\<lambda>s. cpChangePodId s = node)) as (wExt t))"
proof (rule runsI, elim conjE)
  fix w :: "cluster world"
  assume sync: "inSync (wExt w)" and w: "onItsWay req node cw fr (inPhase PreWait infos (\<lambda>_. True))
        (replicate m (Inl err) @ nodeAnswer node # as) (wExt w)"
  then obtain cp where cp: "findObj req (shStored (clChangePods (wExt w))) = Some cp" "obj_key cp = req"
    "inPhase PreWait infos (\<lambda>_. True) cp"
    "ChangePod_Reconcile clusterEnv req w = preWaitChangePodHandle clusterEnv cp w"
    by (elim way_Reconcile [rotated]) (auto simp: inPhase_def Let_def changePod_status_defs)
  have "clHttp (wExt w) = replicate m (Inl err) @ nodeAnswer node # as"
    using w by (simp add: onItsWay_def)
  then obtain res t where t: "SubmitChangeStartNotify clusterEnv (buildChangeStartNotifyRequest cp) w = (Ok res, t)"
    "answered as w t" "resDomain res = GMap [(''nodeId'', GString node)]"
    using cluster_service [of w m err node as] sync assms unfolding SubmitChangeStartNotify_def by blast
  let ?cp = "cp\<lparr>cpStatus := (cpStatus cp)\<lparr>cpChangePodId := node\<rparr>\<rparr>"
  obtain s where s: "setChangePodPreSubmittedStatus clusterEnv ?cp t = (Ok (?cp\<lparr>cpStatus := s\<rparr>), t)"
    "cpStatusStatus s = PreSubmitted" "cpChangePodId s = node"
    using way_setSubmitted(1) [of ?cp t] by auto
  show "\<exists>a t. ChangePod_Reconcile clusterEnv req w = (Ok a, t) \<and>
      onItsWay req node cw fr (inPhase PreSubmitted infos (\<lambda>s. cpChangePodId s = node)) as (wExt t)"
    using way_advance [OF w t(2) cp(1,2) s(2), of "\<lambda>s. cpChangePodId s = node" infos] cp(3,4) s(1,3) t(1,3)
    by (auto simp: inPhase_def preWaitChangePodHandle_def submitChangeStartNotifyAndGetNodeId_def bindM_def
        attempt_def ret_def)
qed

lemma reconcile_PostWait:
  assumes "m \<le> 4"
  shows "runs (\<lambda>w. inSync (wExt w) \<and> onItsWay req node cw fr (inPhase PostWait infos (\<lambda>s. cpChangePodId s = node))
        (replicate m (Inl err) @ nodeAnswer i # as) (wExt w))
      (ChangePod_Reconcile clusterEnv req)
      (\<lambda>_ t. onItsWay req node cw fr (inPhase PostSubmitted infos (\<lambda>s. cpChangePodId s = node)) as (wExt t))"
proof (rule runsI, elim conjE)
  fix w :: "cluster world"
  assume sync: "inSync (wExt w)" and w: "onItsWay req node cw fr (inPhase PostWait infos (\<lambda>s. cpChangePodId s = node))
        (replicate m (Inl err) @ nodeAnswer i # as) (wExt w)"
  then obtain cp where cp: "findObj req (shStored (clChangePods (wExt w))) = Some cp" "obj_key cp = req"
    "inPhase PostWait infos (\<lambda>s. cpChangePodId s = node) cp"
    "ChangePod_Reconcile clusterEnv req w = postWaitChangePodHandle clusterEnv cp w"
    by (elim way_Reconcile [rotated]) (auto simp: inPhase_def Let_def changePod_status_defs)
  have "clHttp (wExt w) = replicate m (Inl err) @ nodeAnswer i # as"
    using w by (simp add: onItsWay_def)
  then obtain res t where t: "SubmitChangeFinishNotify clusterEnv (buildChangeFinishNotifyRequest cp) w = (Ok res, t)"
    "answered as w t"
    using cluster_service [of w m err i as] sync assms unfolding SubmitChangeFinishNotify_def by blast
  obtain s where s: "setChangePodPostSubmittedStatus clusterEnv cp t = (Ok (cp\<lparr>cpStatus := s\<rparr>), t)"
    "cpStatusStatus s = PostSubmitted" "cpChangePodId s = node"
    using way_setSubmitted(2) [of cp t] cp(3) by (auto simp: inPhase_def)
  show "\<exists>a t. ChangePod_Reconcile clusterEnv req w = (Ok a, t) \<and>
      onItsWay req node cw fr (inPhase PostSubmitted infos (\<lambda>s. cpChangePodId s = node)) as (wExt t)"
    using way_advance [OF w t(2) cp(1,2) s(2), of "\<lambda>s. cpChangePodId s = node" infos] cp(3,4) s(1,3) t(1)
    by (auto simp: inPhase_def postWaitChangePodHandle_def bindM_def attempt_def ret_def)
qed

lemma reconcile_PostFinish:
  "runs (\<lambda>w. inSync (wExt w) \<and> onItsWay req node cw fr (inPhase PostFinish infos
         (\<lambda>s. cpPodResults s = results \<and> cpChangePodId s = node)) as (wExt w))
      (ChangePod_Reconcile clusterEnv req)
      (\<lambda>_ t. onItsWay req node cw fr (inPhase ExecuteDone infos
         (\<lambda>s. cpMessage s = PostFinish \<and> cpPodResults s = results \<and> cpChangePodId s = node)) as (wExt t))"
proof (rule runsI, elim conjE)
  fix w :: "cluster world"
  assume sync: "inSync (wExt w)"
    and w: "onItsWay req node cw fr (inPhase PostFinish infos
      (\<lambda>s. cpPodResults s = results \<and> cpChangePodId s = node)) as (wExt w)"
  then obtain cp where cp: "findObj req (shStored (clChangePods (wExt w))) = Some cp" "obj_key cp = req"
    "inPhase PostFinish infos (\<lambda>s. cpPodResults s = results \<and> cpChangePodId s = node) cp"
    "ChangePod_Reconcile clusterEnv req w = handleFinishedChangePod clusterEnv cp w"
    by (elim way_Reconcile [rotated]) (auto simp: inPhase_def Let_def changePod_status_defs endings_def)
  let ?cp = "cp\<lparr>cpStatus := (cpStatus cp)\<lparr>cpMessage := changePodState cp\<rparr>\<rparr>"
  obtain s where s: "setChangePodStatus clusterEnv ExecuteDone ?cp w = (Ok (cp\<lparr>cpStatus := s\<rparr>), w)"
    "cpStatusStatus s = ExecuteDone" "cpMessage s = PostFinish \<and> cpPodResults s = results \<and> cpChangePodId s = node"
    using way_setStatus [of ExecuteDone ?cp w] cp(3) by (auto simp: inPhase_def)
  have "answered as w w"
    using w by (simp add: answered_self onItsWay_def)
  then show "\<exists>a t. ChangePod_Reconcile clusterEnv req w = (Ok a, t) \<and>
      onItsWay req node cw fr (inPhase ExecuteDone infos
        (\<lambda>s. cpMessage s = PostFinish \<and> cpPodResults s = results \<and> cpChangePodId s = node)) as (wExt t)"
    using way_advance [OF w _ cp(1,2) s(2), where
        R = "\<lambda>s. cpMessage s = PostFinish \<and> cpPodResults s = results \<and> cpChangePodId s = node",
        OF _ s(3)] cp(3,4) s(1)
    by (auto simp: inPhase_def handleFinishedChangePod_def setChangePodDoneStatus_def bindM_def)
qed

subsection \<open>The verdicts\<close>

lemma filter_findObj:
  assumes "findObj k obs = Some ob" "P ob" "\<forall>x\<in>set obs. P x \<longrightarrow> obj_key x = k"
  shows "\<exists>rest. filter P obs = ob # rest"
  using assms by (induction obs) (auto split: if_splits)

lemma way_selected:
  assumes "onItsWay req node cw fr Q as e" "inSync e" "findObj req (shStored (clChangePods e)) = Some cp"
    and "cpChangePodId (cpStatus cp) = node"
  shows "\<exists>rest. filter (selected changePodIndex (anyOpts\<lparr>matchingFields := [(ChangePodFieldChangePodId, node)]\<rparr>))
    (shCached (clChangePods e)) = cp # rest"
proof -
  have "selected changePodIndex (anyOpts\<lparr>matchingFields := [(ChangePodFieldChangePodId, node)]\<rparr>) =
      (\<lambda>ob. cpChangePodId (cpStatus ob) = node)"
    by (auto simp: selected_def anyOpts_def changePodIndex_def ChangePodFieldStatus_def ChangePodFieldChangePodId_def)
  then show ?thesis
    using filter_findObj [OF assms(3), of "\<lambda>ob. cpChangePodId (cpStatus ob) = node"] assms
    by (simp add: inSync_cached onItsWay_def)
qed

text \<open>The verdict \<open>v\<close> on the batch \<open>node\<close> at a stage.\<close>

definition verdictOf :: "string \<Rightarrow> string \<Rightarrow> opsCloudChangeCheckVerdict \<Rightarrow> opsCloudChangeCheckCallbackWrapperRequest" where
  "verdictOf node stage v =
     \<lparr>cwrChangeCheckType = OpsCloudChangeCheckTypeEnumBatch,
      cwrCallbackRequest = \<lparr>cbNodeId = node, cbChangeSceneKey = ChangeSceneKeyRollingUpdate, cbBizExecOrderId = '''',
        cbVerdict = v, cbDefenseStageEnum = stage\<rparr>\<rparr>"

text \<open>A stage that puts a new status on the ChangePod.\<close>

lemma way_verdict:
  assumes "inSync (wExt w)" "onItsWay req node cw fr (inPhase st infos (\<lambda>s. cpChangePodId s = node)) as (wExt w)"
    and "\<And>cp. findObj (obj_key cp) (shStored (clChangePods (wExt w))) = Some cp \<Longrightarrow> changePodState cp = st \<Longrightarrow>
      cpPodInfos (cpSpec cp) = infos \<Longrightarrow> cpChangePodId (cpStatus cp) = node \<Longrightarrow>
      \<exists>s. callbackStage clusterEnv (cwrCallbackRequest (verdictOf node stage v)) cp w =
        (Ok rs, w\<lparr>wExt := putChangePod (cp\<lparr>cpStatus := s\<rparr>) (wExt w)\<rparr>) \<and> cpStatusStatus s = st' \<and> R s"
  shows "\<exists>rs' t. CheckCallBackHandler clusterEnv (Inr (verdictOf node stage v)) w = (Ok rs', t) \<and>
    rs' = rs \<and> onItsWay req node cw fr (inPhase st' infos R) as (wExt t)"
proof -
  obtain cp where cp: "findObj req (shStored (clChangePods (wExt w))) = Some cp"
    "inPhase st infos (\<lambda>s. cpChangePodId s = node) cp"
    using assms(2) by (auto simp: onItsWay_def)
  have key: "obj_key cp = req" using findObj_key [OF cp(1)] by simp
  obtain s where s: "callbackStage clusterEnv (cwrCallbackRequest (verdictOf node stage v)) cp w =
      (Ok rs, w\<lparr>wExt := putChangePod (cp\<lparr>cpStatus := s\<rparr>) (wExt w)\<rparr>)" "cpStatusStatus s = st'" "R s"
    using assms(3) [of cp] cp key by (auto simp: inPhase_def)
  obtain rest where rest: "filter (selected changePodIndex (anyOpts\<lparr>matchingFields := [(ChangePodFieldChangePodId, node)]\<rparr>))
      (shCached (clChangePods (wExt w))) = cp # rest"
    using way_selected [OF assms(2,1) cp(1)] cp(2) by (auto simp: inPhase_def)
  have "CheckCallBackHandler clusterEnv (Inr (verdictOf node stage v)) w =
      (Ok rs, w\<lparr>wExt := putChangePod (cp\<lparr>cpStatus := s\<rparr>) (wExt w)\<rparr>)"
    by (rule cluster_CheckCallBackHandler [OF _ _ s(1)]) (simp_all add: verdictOf_def rest)
  moreover have "onItsWay req node cw fr (inPhase st' infos R) as (putChangePod (cp\<lparr>cpStatus := s\<rparr>) (wExt w))"
    by (rule onItsWay_put [OF assms(2) cp(1)]) (use cp(2) key s(2,3) in \<open>simp_all add: inPhase_def\<close>)
  ultimately show ?thesis by simp
qed

lemma verdict_Pre:
  "runs (\<lambda>w. inSync (wExt w) \<and> onItsWay req node cw fr (inPhase PreSubmitted infos (\<lambda>s. cpChangePodId s = node)) as (wExt w))
      (CheckCallBackHandler clusterEnv (Inr (verdictOf node DefenseStageEnumPre v)))
      (\<lambda>rs t. rs = [(200, CommonSuccess GetCommonCallbackSuccess)] \<and>
         onItsWay req node cw fr (inPhase PostWait infos (\<lambda>s. cpChangePodId s = node)) as (wExt t))"
proof (rule runsI, elim conjE, rule way_verdict)
  fix w :: "cluster world" and cp
  assume "findObj (obj_key cp) (shStored (clChangePods (wExt w))) = Some cp" "changePodState cp = PreSubmitted"
    "cpChangePodId (cpStatus cp) = node"
  then show "\<exists>s. callbackStage clusterEnv (cwrCallbackRequest (verdictOf node DefenseStageEnumPre v)) cp w =
      (Ok [(200, CommonSuccess GetCommonCallbackSuccess)], w\<lparr>wExt := putChangePod (cp\<lparr>cpStatus := s\<rparr>) (wExt w)\<rparr>) \<and>
      cpStatusStatus s = PostWait \<and> cpChangePodId s = node"
    using cluster_callbackPre [of cp w cp] by (auto simp: callbackStage_def verdictOf_def merge_current)
qed

lemma verdict_Post:
  "runs (\<lambda>w. inSync (wExt w) \<and> onItsWay req node cw fr (inPhase PostSubmitted infos (\<lambda>s. cpChangePodId s = node)) as (wExt w))
      (CheckCallBackHandler clusterEnv (Inr (verdictOf node DefenseStageEnumPost v)))
      (\<lambda>rs t. rs = [] \<and>
         onItsWay req node cw fr (inPhase PostFinish infos
           (\<lambda>s. cpPodResults s = map (judged v) infos \<and> cpChangePodId s = node)) as (wExt t))"
proof (rule runsI, elim conjE, rule way_verdict)
  fix w :: "cluster world" and cp
  assume "findObj (obj_key cp) (shStored (clChangePods (wExt w))) = Some cp" "changePodState cp = PostSubmitted"
    "cpPodInfos (cpSpec cp) = infos" "cpChangePodId (cpStatus cp) = node"
  then show "\<exists>s. callbackStage clusterEnv (cwrCallbackRequest (verdictOf node DefenseStageEnumPost v)) cp w =
      (Ok [], w\<lparr>wExt := putChangePod (cp\<lparr>cpStatus := s\<rparr>) (wExt w)\<rparr>) \<and>
      cpStatusStatus s = PostFinish \<and> cpPodResults s = map (judged v) infos \<and> cpChangePodId s = node"
    using cluster_callbackPost [of cp w cp v, folded judged_def]
    by (auto simp: callbackStage_def verdictOf_def merge_current DefenseStageEnumPre_def DefenseStageEnumPost_def)
qed

subsection \<open>Picking the pods\<close>

text \<open>
  The names, versions and finished marks of the pods, which marking leaves alone; the pods of
  \<open>ps\<close> are marked, and no others.
\<close>

definition podRow :: "pod \<Rightarrow> namespacedName \<times> string option \<times> bool" where
  "podRow p = (obj_key p, lookup_label (Labels p) AdmissionWebhookVersionLabel, isFinished p)"

definition marked :: "pod set \<Rightarrow> pod list \<Rightarrow> pod list \<Rightarrow> bool" where
  "marked ps before after \<longleftrightarrow>
     list_all2 (\<lambda>p q. podRow q = podRow p \<and> (isDefensed (Labels p) \<longrightarrow> isDefensed (Labels q)) \<and>
       (isDefensed (Labels q) \<longrightarrow> isDefensed (Labels p) \<or> obj_key p \<in> obj_key ` ps)) before after \<and>
     (\<forall>p\<in>ps. \<exists>q. findObj (obj_key p) after = Some q \<and> isDefensed (Labels q))"

text \<open>The pods of the list are still stored, those of \<open>D\<close> marked, and nothing else has changed.\<close>

definition onlyPods :: "pod list \<Rightarrow> pod set \<Rightarrow> cluster \<Rightarrow> cluster \<Rightarrow> bool" where
  "onlyPods ps D e e' \<longleftrightarrow> (\<forall>p\<in>set ps. findObj (obj_key p) (shStored (clPods e')) \<noteq> None) \<and>
     marked D (shStored (clPods e)) (shStored (clPods e')) \<and>
     clChangePods e' = clChangePods e \<and> clWorkloads e' = clWorkloads e \<and>
     clDeployments e' = clDeployments e \<and> clHttp e' = clHttp e"

definition withMark :: "pod \<Rightarrow> nat \<Rightarrow> pod \<Rightarrow> pod" where
  "withMark p n q = (ksWithStatus podKind q (ksMerge podKind p
     (p\<lparr>Labels := put_label DefenseStatusLabel DefenseStatusLabelProcessed (Labels p)\<rparr>) q))\<lparr>ResourceVersion := n\<rparr>"

lemma withMark_sel:
  "obj_key (withMark p n q) = obj_key q" "podRow (withMark p n q) = podRow q"
  "preparing p \<Longrightarrow> isDefensed (Labels (withMark p n q))"
  by (cases "Labels p"; cases "Labels q"; simp add: podRow_def podKind_def obj_key_def mergeLabels_def withMark_def
      isFinished_def has_label_def put_label_def labels_neq preparing_def isDefensed_def merged_def)+

lemma list_all2_putObj:
  assumes "list_all2 R xs obs" "findObj (obj_key ob) obs = Some cur"
    and "\<And>x y. R x y \<Longrightarrow> R' x y" "\<And>x. R x cur \<Longrightarrow> R' x ob"
  shows "list_all2 R' xs (putObj ob obs)"
  using assms(1,2)
proof (induction rule: list_all2_induct)
  case (Cons x xs y ys)
  then show ?case
    using assms(3,4) list_all2_mono [OF Cons(2), of R'] by (auto split: if_splits)
qed simp

lemma marked_put:
  assumes "marked D before obs" "findObj (obj_key p) obs = Some q" "preparing p"
  shows "marked (insert p D) before (putObj (withMark p n q) obs)"
proof -
  have key: "obj_key (withMark p n q) = obj_key p"
    using findObj_key [OF assms(2)] by (simp add: withMark_sel)
  have "podRow q = podRow b \<Longrightarrow> obj_key b = obj_key p" for b
    using findObj_key [OF assms(2)] by (simp add: podRow_def)
  note keys = this this [OF sym]
  have "list_all2 (\<lambda>b r. podRow r = podRow b \<and> (isDefensed (Labels b) \<longrightarrow> isDefensed (Labels r)) \<and>
      (isDefensed (Labels r) \<longrightarrow> isDefensed (Labels b) \<or> obj_key b \<in> obj_key ` insert p D))
      before (putObj (withMark p n q) obs)"
    by (rule list_all2_putObj [OF conjunct1 [OF assms(1) [unfolded marked_def]], where cur = q])
      (use assms(2,3) keys in \<open>auto simp: withMark_sel\<close>)
  then show ?thesis
    using assms key by (auto simp: marked_def withMark_sel findObj_put)
qed

lemma preparing_labels: "preparing p \<Longrightarrow> Labels p \<noteq> None"
  by (cases "Labels p") (simp_all add: preparing_def isFinished_def)

lemma runs_markPod:
  assumes "p \<in> set ps" "preparing p"
  shows "runs (\<lambda>w. onlyPods ps D e (wExt w)) (defenseProcessedPod clusterEnv p) (\<lambda>_ w. onlyPods ps (insert p D) e (wExt w))"
proof (rule runsI)
  fix w :: "cluster world"
  assume w: "onlyPods ps D e (wExt w)"
  then obtain q where q: "findObj (obj_key p) (shStored (clPods (wExt w))) = Some q"
    using assms(1) by (auto simp: onlyPods_def)
  have "get_label (Labels p) DefenseStatusLabel \<noteq> DefenseStatusLabelProcessed"
    using assms(2) by (simp add: preparing_def isDefensed_def has_label_def get_label_def DefenseStatusLabelProcessed_def)
  then show "\<exists>a t. defenseProcessedPod clusterEnv p w = (Ok a, t) \<and> onlyPods ps (insert p D) e (wExt t)"
    using w q marked_put [OF _ q assms(2)] findObj_key [OF q] preparing_labels [OF assms(2)]
    by (auto simp: defenseProcessedPod_def set_label_Ok bindM_def call_def onPart_def shelf_writes
        putOver_def storeObj_def Let_def ret_def onlyPods_def findObj_put withMark_def [symmetric])
qed

lemma runs_markPods:
  "set qs \<subseteq> set ps \<Longrightarrow> \<forall>p\<in>set ps. preparing p \<Longrightarrow>
    runs (\<lambda>w. onlyPods ps D e (wExt w)) (forEach qs (defenseProcessedPod clusterEnv))
      (\<lambda>_ w. onlyPods ps (D \<union> set qs) e (wExt w))"
proof (induction qs arbitrary: D)
  case Nil
  then show ?case by (simp add: runs_ret)
next
  case (Cons p qs)
  then show ?case
    using runs_forEach_Cons [OF runs_markPod [of p ps D e] Cons.IH [of "insert p D"]] by simp
qed

definition versionPods :: "changePod \<Rightarrow> cluster \<Rightarrow> pod list" where
  "versionPods cp e = filter (selected (ksIndex podKind) (anyOpts\<lparr>inNamespace := Some (Namespace cp),
     matchingLabels := [(AdmissionWebhookVersionLabel, get_label (Labels cp) AdmissionWebhookVersionLabel)]\<rparr>))
     (shCached (clPods e))"

lemma findObj_member: "ob \<in> set obs \<Longrightarrow> findObj (obj_key ob) obs \<noteq> None"
  by (induction obs) auto

definition pickedPods :: "changePod \<Rightarrow> changeWorkload \<Rightarrow> cluster \<Rightarrow> pod list" where
  "pickedPods cp cw e = take (nat (cwCountThreshold (cwSpec cw))) (filter preparing (versionPods cp e))"

lemma way_recordPods:
  assumes "onItsWay req node cw (cps, ds, \<lambda>pods. pods = pods0) (\<lambda>c. c = cp) as (wExt w)" "obj_key cp = req"
    and "\<forall>p\<in>set ps. findObj (obj_key p) pods0 \<noteq> None" "\<forall>p\<in>set ps. preparing p"
  defines "infos \<equiv> map (\<lambda>p. getPreparingPodSummary p (get_label (Labels cp) DeploymentNameLabel)) ps"
  shows "\<exists>t. clusterPods.recordPods cp ps w = (Ok (), t) \<and>
    onItsWay req node cw (cps, ds, marked (set ps) pods0) (inPhase PreWait infos (\<lambda>_. True)) as (wExt t)"
proof -
  let ?fr = "(cps, ds, \<lambda>pods. pods = pods0)" and ?fr' = "(cps, ds, marked (set ps) pods0)"
  let ?cp = "cp\<lparr>cpSpec := (cpSpec cp)\<lparr>cpPodInfos := infos\<rparr>\<rparr>"
  define cp1 where "cp1 = ?cp\<lparr>ResourceVersion := shVersion (clChangePods (wExt w))\<rparr>"
  define w1 where "w1 = w\<lparr>wExt := putChangePod ?cp (wExt w)\<rparr>"
  have stored: "findObj req (shStored (clChangePods (wExt w))) = Some cp"
    using assms(1) by (auto simp: onItsWay_def)
  have update: "call (apiUpdate (changePodApi clusterEnv) ?cp) w = (Ok cp1, w1)"
    using stored assms(2) by (simp add: cluster_simps cp1_def w1_def)
  have w1: "onItsWay req node cw ?fr (\<lambda>c. c\<lparr>ResourceVersion := 0\<rparr> = ?cp\<lparr>ResourceVersion := 0\<rparr>) as (wExt w1)"
    unfolding w1_def using onItsWay_put [OF assms(1) stored, where new = ?cp] assms(2) by simp
  have pods: "shStored (clPods (wExt w1)) = pods0"
    using w1 by (simp add: onItsWay_def around_def)
  then have "onlyPods ps {} (wExt w1) (wExt w1)"
    using assms(3) by (simp add: onlyPods_def marked_def list_all2_refl)
  then obtain u w2 where w2: "forEach ps (\<lambda>p. defenseProcessedPod clusterEnv p) w1 = (Ok u, w2)"
    "onlyPods ps (set ps) (wExt w1) (wExt w2)"
    using runs_markPods [OF subset_refl assms(4), of "{}" "wExt w1"] by (auto elim: runsE)
  obtain now unix where s: "setChangePodStatus clusterEnv PreWait cp1 w2 =
      (Ok (cp1\<lparr>cpStatus := (cpStatus cp1)\<lparr>cpStatusStatus := PreWait, cpUpdateTime := now,
        cpUpdateTimeUnix := unix\<rparr>\<rparr>), w2)" (is "_ = (Ok (cp1\<lparr>cpStatus := ?s\<rparr>), w2)")
    using way_setStatus by blast
  have "onItsWay req node cw ?fr' (\<lambda>c. c\<lparr>ResourceVersion := 0\<rparr> = ?cp\<lparr>ResourceVersion := 0\<rparr>) as (wExt w2)"
    using w1 w2(2) pods by (simp add: onItsWay_def onlyPods_def around_def)
  moreover have "findObj req (shStored (clChangePods (wExt w2))) = Some cp1"
    using w2(2) assms(2) by (simp add: onlyPods_def w1_def putChangePod_stored cp1_def)
  ultimately obtain t where "updateChangePodStatus clusterEnv (cp1\<lparr>cpStatus := ?s\<rparr>) w2 = (Ok (), t)"
    "onItsWay req node cw ?fr' (inPhase PreWait infos (\<lambda>_. True)) as (wExt t)"
    using way_update [of req node cw ?fr' _ as w2 cp1 "inPhase PreWait infos (\<lambda>_. True)" ?s] assms(2)
    by (auto simp: inPhase_def cp1_def)
  then show ?thesis
    using update w2(1) s
    by (simp add: clusterPods.recordPods_def infos_def [symmetric] bindM_def setChangePodPreWaitStatus_def)
qed

lemma reconcile_ExecuteInit:
  assumes "changePodState cp = ExecuteInit" "cpPodInfos (cpSpec cp) = []" "obj_key cp = req"
    and "0 \<le> cwCountThreshold (cwSpec cw)" "qs \<noteq> []"
  defines "infos \<equiv> map (\<lambda>p. getPreparingPodSummary p (get_label (Labels cp) DeploymentNameLabel))
      (take (nat (cwCountThreshold (cwSpec cw))) qs)"
  shows "runs (\<lambda>w. inSync (wExt w) \<and> onItsWay req node cw (cps, ds, \<lambda>pods. pods = pods0) (\<lambda>c. c = cp) as (wExt w) \<and>
        filter preparing (versionPods cp (wExt w)) = qs)
      (ChangePod_Reconcile clusterEnv req)
      (\<lambda>_ t. onItsWay req node cw (cps, ds, marked (set (take (nat (cwCountThreshold (cwSpec cw))) qs)) pods0)
        (inPhase PreWait infos (\<lambda>_. True)) as (wExt t))"
proof (rule runsI, elim conjE)
  fix w :: "cluster world"
  assume sync: "inSync (wExt w)" and w: "onItsWay req node cw (cps, ds, \<lambda>pods. pods = pods0) (\<lambda>c. c = cp) as (wExt w)"
    and pods: "filter preparing (versionPods cp (wExt w)) = qs"
  let ?ps = "take (nat (cwCountThreshold (cwSpec cw))) qs"
  have "ChangePod_Reconcile clusterEnv req w = executeInitChangePodHandle clusterEnv cp cw w"
    by (rule way_Reconcile [OF w sync]) (simp add: assms(1) Let_def)
  also have "\<dots> = clusterPods.recordPods cp ?ps w"
    using clusterPods.executeInit_eq [OF assms(2), of w "versionPods cp (wExt w)" "wExt w" cw] assms(4,5) pods
    by (simp add: onPart_def versionPods_def)
  finally have run: "ChangePod_Reconcile clusterEnv req w = clusterPods.recordPods cp ?ps w" .
  have sub: "p \<in> set (versionPods cp (wExt w)) \<and> preparing p" if "p \<in> set ?ps" for p
    using in_set_takeD [OF that] pods by auto
  have "p \<in> set pods0" if "p \<in> set ?ps" for p
    using sub [OF that] w by (simp add: versionPods_def inSync_cached(3) [OF sync] onItsWay_def around_def)
  then have stored: "\<forall>p\<in>set ?ps. findObj (obj_key p) pods0 \<noteq> None"
    using findObj_member by blast
  have "\<forall>p\<in>set ?ps. preparing p"
    using sub by blast
  from way_recordPods [OF w assms(3) stored this]
  show "\<exists>a t. ChangePod_Reconcile clusterEnv req w = (Ok a, t) \<and>
      onItsWay req node cw (cps, ds, marked (set (take (nat (cwCountThreshold (cwSpec cw))) qs)) pods0)
        (inPhase PreWait infos (\<lambda>_. True)) as (wExt t)"
    by (simp add: run infos_def)
qed

subsection \<open>The whole life\<close>

definition catchUp :: "(cluster world, unit) prog" where
  "catchUp = (\<lambda>w. (Ok (), w\<lparr>wExt := syncCluster (wExt w)\<rparr>))"

definition inTurn :: "(cluster world, unit) prog list \<Rightarrow> (cluster world, unit) prog" where
  "inTurn ms = forEach ms (\<lambda>m. thenM m catchUp)"

definition wholeLife :: "namespacedName \<Rightarrow> string \<Rightarrow> opsCloudChangeCheckVerdict \<Rightarrow> (cluster world, unit) prog list" where
  "wholeLife req node v =
     [ChangePod_Reconcile clusterEnv req,
      ChangePod_Reconcile clusterEnv req,
      thenM (CheckCallBackHandler clusterEnv (Inr (verdictOf node DefenseStageEnumPre v))) (ret ()),
      ChangePod_Reconcile clusterEnv req,
      thenM (CheckCallBackHandler clusterEnv (Inr (verdictOf node DefenseStageEnumPost v))) (ret ()),
      ChangePod_Reconcile clusterEnv req]"

lemma runs_turn:
  assumes "runs P m (\<lambda>_ t. onItsWay req node cw fr Q as (wExt t))"
    and "runs (\<lambda>w. inSync (wExt w) \<and> onItsWay req node cw fr Q as (wExt w)) (inTurn ms) R"
  shows "runs P (inTurn (m # ms)) R"
  unfolding inTurn_def
proof (rule runs_forEach_Cons [OF runs_thenM [OF assms(1)] assms(2) [unfolded inTurn_def]])
  show "runs (\<lambda>w. onItsWay req node cw fr Q as (wExt w)) catchUp
      (\<lambda>_ w. inSync (wExt w) \<and> onItsWay req node cw fr Q as (wExt w))"
    by (simp add: runs_def catchUp_def)
qed

lemma runs_done: "runs P (inTurn []) (\<lambda>_. P)"
  by (simp add: inTurn_def runs_ret)

lemma runs_ignore: "runs P m (\<lambda>a t. A a \<and> Q t) \<Longrightarrow> runs P (thenM m (ret ())) (\<lambda>_. Q)"
  by (rule runs_thenM [where R = Q], erule runs_conseq) (auto intro: runs_ret)

definition surroundings :: "namespacedName \<Rightarrow> cluster \<Rightarrow> (pod list \<Rightarrow> bool) \<Rightarrow> surroundings" where
  "surroundings req e P = (othersThan req (shStored (clChangePods e)), shStored (clDeployments e), P)"

lemma wholeLife_run:
  fixes w :: "cluster world"
  assumes "inSync (wExt w)" "findObj req (shStored (clChangePods (wExt w))) = Some cp"
    and "changePodState cp = ExecuteInit" "cpPodInfos (cpSpec cp) = []"
    and "findObj \<lparr>nnNamespace = nnNamespace req, nnName = cpChangeWorkloadId (cpSpec cp)\<rparr>
      (shStored (clWorkloads (wExt w))) = Some cw"
    and "0 \<le> cwCountThreshold (cwSpec cw)" "filter preparing (versionPods cp (wExt w)) \<noteq> []"
    and "\<forall>ob\<in>set (shStored (clChangePods (wExt w))). cpChangePodId (cpStatus ob) = node \<longrightarrow> obj_key ob = req"
    and "clHttp (wExt w) = replicate m (Inl err) @ nodeAnswer node # replicate n (Inl err') @ nodeAnswer i # as"
    and "m \<le> 4" "n \<le> 4"
  defines "infos \<equiv> map (\<lambda>p. getPreparingPodSummary p (get_label (Labels cp) DeploymentNameLabel))
      (pickedPods cp cw (wExt w))"
  obtains t where "inTurn (wholeLife req node v) w = (Ok (), t)" "inSync (wExt t)"
    "onItsWay req node cw (surroundings req (wExt w) (marked (set (pickedPods cp cw (wExt w))) (shStored (clPods (wExt w)))))
       (inPhase ExecuteDone infos
       (\<lambda>s. cpMessage s = PostFinish \<and> cpPodResults s = map (judged v) infos \<and> cpChangePodId s = node)) as (wExt t)"
proof -
  let ?way = "\<lambda>P. onItsWay req node cw (surroundings req (wExt w) P)"
  let ?P0 = "\<lambda>pods. pods = shStored (clPods (wExt w))"
  let ?P1 = "marked (set (pickedPods cp cw (wExt w))) (shStored (clPods (wExt w)))"
  have key: "obj_key cp = req" using findObj_key [OF assms(2)] by simp
  note init = reconcile_ExecuteInit [OF assms(3,4) key assms(6,7), folded pickedPods_def, folded infos_def]
  have "runs (\<lambda>u. inSync (wExt u) \<and> ?way ?P0 (\<lambda>c. c = cp) (clHttp (wExt w)) (wExt u) \<and>
        filter preparing (versionPods cp (wExt u)) = filter preparing (versionPods cp (wExt w)))
      (inTurn (wholeLife req node v))
      (\<lambda>_ u. inSync (wExt u) \<and> ?way ?P1 (inPhase ExecuteDone infos
         (\<lambda>s. cpMessage s = PostFinish \<and> cpPodResults s = map (judged v) infos \<and> cpChangePodId s = node)) as (wExt u))"
    unfolding wholeLife_def assms(9) surroundings_def
    by (rule runs_turn init reconcile_PreWait [OF assms(10)] runs_ignore [OF verdict_Pre]
        reconcile_PostWait [OF assms(11)] runs_ignore [OF verdict_Post] reconcile_PostFinish runs_done)+
  moreover have "?way ?P0 (\<lambda>c. c = cp) (clHttp (wExt w)) (wExt w)"
    using assms(2,5,8) by (simp add: onItsWay_def around_def surroundings_def)
  ultimately obtain u t where "inTurn (wholeLife req node v) w = (Ok u, t)" "inSync (wExt t)"
    "?way ?P1 (inPhase ExecuteDone infos
       (\<lambda>s. cpMessage s = PostFinish \<and> cpPodResults s = map (judged v) infos \<and> cpChangePodId s = node)) as (wExt t)"
    using assms(1) by (blast elim: runsE)
  then show ?thesis using that by simp
qed

text \<open>
  C5 (liveness). A ChangePod runs from its creation to its end when nothing
  interferes: on the reference cluster, with caches that are up to date, an undisturbed sequence
  of reconciles and verdicts takes an initial ChangePod of a batch of finished pods to
  \<open>ExecuteDone\<close> without an error, even when up to four attempts of each announcement are
  refused. It is closed with the message \<open>PostFinish\<close>, names the pods of the batch, and
  carries the verdict of the control plane for each of them.
\<close>

theorem changePod_completes:
  fixes w :: "cluster world"
  assumes "inSync (wExt w)" "findObj req (shStored (clChangePods (wExt w))) = Some cp"
    and "changePodState cp = ExecuteInit" "cpPodInfos (cpSpec cp) = []"
    and "findObj \<lparr>nnNamespace = nnNamespace req, nnName = cpChangeWorkloadId (cpSpec cp)\<rparr>
      (shStored (clWorkloads (wExt w))) = Some cw"
    and "0 \<le> cwCountThreshold (cwSpec cw)" "filter preparing (versionPods cp (wExt w)) \<noteq> []"
    and "\<forall>ob\<in>set (shStored (clChangePods (wExt w))). cpChangePodId (cpStatus ob) = node \<longrightarrow> obj_key ob = req"
    and "clHttp (wExt w) = replicate m (Inl err) @ nodeAnswer node # replicate n (Inl err') @ nodeAnswer i # as"
    and "m \<le> 4" "n \<le> 4"
  defines "infos \<equiv> map (\<lambda>p. getPreparingPodSummary p (get_label (Labels cp) DeploymentNameLabel))
      (pickedPods cp cw (wExt w))"
  shows "\<exists>t cp'. inTurn (wholeLife req node v) w = (Ok (), t) \<and>
    findObj req (shStored (clChangePods (wExt t))) = Some cp' \<and>
    changePodState cp' = ExecuteDone \<and> cpMessage (cpStatus cp') = PostFinish \<and>
    cpPodInfos (cpSpec cp') = infos \<and> cpPodResults (cpStatus cp') = map (judged v) infos"
  by (rule wholeLife_run [OF assms(1-11), of v])
    (auto simp: onItsWay_def inPhase_def infos_def)

text \<open>The sample cluster, with a control plane that refuses the first attempt.\<close>

definition answeringCluster :: cluster where
  "answeringCluster = (sampleCluster ExecuteInit [])
     \<lparr>clHttp := [Inl refusedError, nodeAnswer ''7'', nodeAnswer ''8'']\<rparr>"

lemma shelfOf_inSync [simp]: "syncShelf (shelfOf obs) = shelfOf obs"
  by (simp add: syncShelf_def shelfOf_def)

lemma answeringCluster_simps [simp]:
  "inSync answeringCluster"
  "clChangePods answeringCluster = shelfOf [sampleChangePod ExecuteInit [] 0]"
  "clWorkloads answeringCluster = shelfOf [sampleWorkload Running]"
  "clHttp answeringCluster = [Inl refusedError, nodeAnswer ''7'', nodeAnswer ''8'']"
  by (simp_all add: answeringCluster_def inSync_def syncCluster_def sampleCluster_def emptyCluster_def)

lemma answering_pods:
  "versionPods (sampleChangePod ExecuteInit [] 0) answeringCluster = [samplePod ''p0'' 0, samplePod ''p1'' 1]"
  by (simp add: versionPods_def answeringCluster_def sample_defs podKind_def selected_def anyOpts_def
      get_label_def lookup_label_def)

definition sampleVerdict :: opsCloudChangeCheckVerdict where
  "sampleVerdict = \<lparr>cvVerdict = ''FAIL'', cvMsg = ''latency'', cvNodeId = ''7''\<rparr>"

theorem changePod_completes_witness:
  "\<exists>t cp. inTurn (wholeLife sampleKey ''7'' sampleVerdict) (worldOf answeringCluster) = (Ok (), t) \<and>
     findObj sampleKey (shStored (clChangePods (wExt t))) = Some cp \<and> changePodState cp = ExecuteDone \<and>
     map psPod (cpPodResults (cpStatus cp)) = [''p0''] \<and> map psVerdict (cpPodResults (cpStatus cp)) = [''FAIL'']"
proof -
  let ?cp = "sampleChangePod ExecuteInit [] 0"
  have preparing: "preparing (samplePod n v)" for n v
    by (simp add: preparing_def isFinished_def isDefensed_def samplePod_def has_label_def objectMeta.extend_def)
  have cp: "findObj sampleKey (shStored (clChangePods (wExt (worldOf answeringCluster)))) = Some ?cp"
    "changePodState ?cp = ExecuteInit" "cpPodInfos (cpSpec ?cp) = []" "obj_key ?cp = sampleKey"
    by (simp_all add: worldOf_def shelfOf_def) (simp_all add: sampleChangePod_def obj_key_def sampleKey_def)
  have cw: "findObj \<lparr>nnNamespace = nnNamespace sampleKey, nnName = cpChangeWorkloadId (cpSpec ?cp)\<rparr>
      (shStored (clWorkloads (wExt (worldOf answeringCluster)))) = Some (sampleWorkload Running)"
    "cwCountThreshold (cwSpec (sampleWorkload Running)) = 1"
    by (simp_all add: worldOf_def shelfOf_def) (simp_all add: sampleWorkload_def sampleChangePod_def obj_key_def sampleKey_def)
  have "Name (samplePod n v) = n" for n v
    by (simp add: samplePod_def objectMeta.extend_def)
  then show ?thesis
    using changePod_completes [where w = "worldOf answeringCluster" and req = sampleKey and cp = ?cp and
        cw = "sampleWorkload Running" and node = "''7''" and m = 1 and err = refusedError and n = 0 and
        err' = refusedError and i = "''8''" and as = "[]" and v = sampleVerdict, OF _ cp(1-3) cw(1)] cw(2) cp(4)
    by (auto simp: worldOf_def answering_pods preparing pickedPods_def judged_def getPreparingPodSummary_def shelfOf_def
        sampleVerdict_def)
qed

end
