(* ===== verification/Suspend_Run.thy ===== *)
theory Suspend_Run
  imports Life_Run Workload_Properties Webhook_Properties Process_Properties
begin

section \<open>From a failed verdict to a refused update\<close>

text \<open>
  What the end of a ChangePod does to its ChangeWorkload and its Deployment on the reference
  cluster: one reconcile carries a failed verdict into both, and from then on the webhook refuses
  updates of the Deployment.
\<close>

subsection \<open>Two writes\<close>

text \<open>A ChangeWorkload without what the status writes change.\<close>

definition cwIdentity :: "changeWorkload \<Rightarrow> changeWorkload" where
  "cwIdentity cw = cw\<lparr>cwStatus := zeroChangeWorkloadStatus, ResourceVersion := 0\<rparr>"

lemma cwIdentity_sel:
  "Name (cwIdentity cw) = Name cw" "Namespace (cwIdentity cw) = Namespace cw" "Labels (cwIdentity cw) = Labels cw"
  "OwnerReferences (cwIdentity cw) = OwnerReferences cw" "cwSpec (cwIdentity cw) = cwSpec cw"
  "obj_key (cwIdentity cw) = obj_key cw" "cwIdentity (cw\<lparr>cwStatus := s\<rparr>) = cwIdentity cw"
  "cwIdentity (cw\<lparr>ResourceVersion := v\<rparr>) = cwIdentity cw"
  by (simp_all add: cwIdentity_def obj_key_def)

lemma cwIdentityD:
  assumes "cwIdentity cw = cwIdentity cw'"
  shows "Name cw = Name cw'" "Namespace cw = Namespace cw'" "Labels cw = Labels cw'"
    "OwnerReferences cw = OwnerReferences cw'" "cwSpec cw = cwSpec cw'" "obj_key cw = obj_key cw'"
  by (metis assms cwIdentity_sel)+

text \<open>The stored ChangeWorkload that a status write leaves behind.\<close>

definition statusWritten :: "changeWorkload \<Rightarrow> changeWorkload \<Rightarrow> changeWorkload shelf \<Rightarrow> bool" where
  "statusWritten cw cur ws \<longleftrightarrow> (\<exists>cw'. findObj (obj_key cw) (shStored ws) = Some cw' \<and> cwIdentity cw' = cwIdentity cur \<and>
     changeWorkloadState cw' = changeWorkloadState cw \<and>
     cwDefenseCheckPassPods (cwStatus cw') = cwDefenseCheckPassPods (cwStatus cw) \<and>
     cwDefenseCheckFailPods (cwStatus cw') = cwDefenseCheckFailPods (cwStatus cw))"

lemma cluster_updateWorkloadStatus:
  assumes "findObj (obj_key cw) (shStored (clWorkloads (wExt w))) = Some cur" "ResourceVersion cur = ResourceVersion cw"
  shows "\<exists>r ws. updateWorkloadStatus clusterEnv cw w = (Ok r, w\<lparr>wExt := (wExt w)\<lparr>clWorkloads := ws\<rparr>\<rparr>) \<and>
    statusWritten cw cur ws"
proof -
  obtain now where now: "GetNowTime clusterEnv w = (Ok now, w)" by (rule cluster_GetNowTime)
  have key: "obj_key cur = obj_key cw" using findObj_key [OF assms(1)] by simp
  show ?thesis
    using assms key
    by (simp add: updateWorkloadStatus_def bindM_def now cluster_clock call_def onPart_def shelf_writes
        putIfCurrent_def storeObj_def Let_def changeWorkloadKind_def statusWritten_def)
      (rule exI, rule conjI, rule refl, simp add: findObj_put cwIdentity_def)
qed

text \<open>
  The suspend label follows the flag; a Deployment can be suspended when the blocking switch is
  on and its label map is not nil. Only the labels of the Deployment change, and nothing is
  written when the label is right already.
\<close>

definition suspendable :: "cluster world \<Rightarrow> deployment \<Rightarrow> bool" where
  "suspendable w d \<longleftrightarrow>
     configIsBlockingUpIsReady (wConfig w) \<and> configIsBlockingUp (wConfig w) \<and> Labels d \<noteq> None"

definition depIdentity :: "deployment \<Rightarrow> deployment" where
  "depIdentity d = d\<lparr>Labels := None, ResourceVersion := 0\<rparr>"

lemma depIdentityD:
  assumes "depIdentity d = depIdentity d'"
  shows "obj_key d = obj_key d'" "Name d = Name d'" "depTemplate d = depTemplate d'" "depReplicas d = depReplicas d'"
proof -
  have "obj_key (depIdentity d) = obj_key d" "Name (depIdentity d) = Name d"
    "depTemplate (depIdentity d) = depTemplate d" "depReplicas (depIdentity d) = depReplicas d" for d
    by (simp_all add: depIdentity_def obj_key_def)
  then show "obj_key d = obj_key d'" "Name d = Name d'" "depTemplate d = depTemplate d'" "depReplicas d = depReplicas d'"
    by (metis assms)+
qed

definition relabelled :: "deployment \<Rightarrow> bool \<Rightarrow> cluster \<Rightarrow> deployment \<Rightarrow> deployment shelf \<Rightarrow> bool" where
  "relabelled d b e d' ds \<longleftrightarrow> findObj (obj_key d) (shStored ds) = Some d' \<and> has_label (Labels d') SuspendLabel = b \<and>
     depIdentity d' = depIdentity d \<and> (Labels d \<noteq> None \<longrightarrow> Labels d' \<noteq> None) \<and>
     (has_label (Labels d) SuspendLabel = b \<longrightarrow> ds = clDeployments e)"

lemma cluster_patchLabels:
  assumes "findObj (obj_key d) (shStored (clDeployments (wExt w))) = Some d" "Labels d \<noteq> None" "l \<noteq> None"
    and "has_label l SuspendLabel \<noteq> has_label (Labels d) SuspendLabel"
  shows "\<exists>ds d'. patchDeployment clusterEnv d (d\<lparr>Labels := l\<rparr>) w = (Ok (), w\<lparr>wExt := (wExt w)\<lparr>clDeployments := ds\<rparr>\<rparr>) \<and>
    relabelled d (has_label l SuspendLabel) (wExt w) d' ds"
proof -
  let ?l = "mergeLabels (Labels d) l (Labels d)"
  let ?d = "d\<lparr>Labels := ?l, ResourceVersion := shVersion (clDeployments (wExt w))\<rparr>"
  have "has_label ?l SuspendLabel = has_label l SuspendLabel" "?l \<noteq> None"
    using assms(2-4) by (auto simp: mergeLabels_def has_label_def merged_def lookup_label_def split: option.splits if_splits)
  then have "relabelled d (has_label l SuspendLabel) (wExt w) ?d
      ((clDeployments (wExt w))\<lparr>shStored := putObj ?d (shStored (clDeployments (wExt w))),
         shHistory := ?d # shHistory (clDeployments (wExt w)), shVersion := Suc (shVersion (clDeployments (wExt w)))\<rparr>)"
    using assms(4) by (simp add: relabelled_def findObj_put depIdentity_def)
  then show ?thesis
    using assms(1)
    by (auto simp: patchDeployment_def bindM_def call_def onPart_def shelf_writes putOver_def storeObj_def
        Let_def deploymentKind_def ret_def)
qed

lemma cluster_label:
  assumes "findObj (obj_key d) (shStored (clDeployments (wExt w))) = Some d" "b \<Longrightarrow> suspendable w d"
  shows "\<exists>ds d'. addOrRemoveDeploymentSuspendLabel clusterEnv d b w = (Ok (), w\<lparr>wExt := (wExt w)\<lparr>clDeployments := ds\<rparr>\<rparr>) \<and>
    relabelled d b (wExt w) d' ds"
proof (cases "has_label (Labels d) SuspendLabel = b")
  case True
  then have "addOrRemoveDeploymentSuspendLabel clusterEnv d b w = (Ok (), w)"
    using assms(2) by (cases b) (simp_all add: addOrRemoveDeploymentSuspendLabel_def prog_simps suspendable_def)
  then show ?thesis
    using True assms(1) by (intro exI [of _ "clDeployments (wExt w)"] exI [of _ d]) (simp add: relabelled_def)
next
  case False
  then have some: "Labels d \<noteq> None"
    using assms(2) by (cases b) (auto simp: suspendable_def has_label_def)
  then obtain l where "addOrRemoveDeploymentSuspendLabel clusterEnv d b w = patchDeployment clusterEnv d (d\<lparr>Labels := l\<rparr>) w"
    "l \<noteq> None" "has_label l SuspendLabel = b"
    using False assms(2)
    by (cases b) (auto simp: addOrRemoveDeploymentSuspendLabel_def prog_simps suspendable_def set_label_def Let_def
        cluster_clock bindM_def has_label_def delete_label_def put_label_def)
  then show ?thesis
    using cluster_patchLabels [OF assms(1) some, of l] False by auto
qed

subsection \<open>The verdict in the ChangeWorkload\<close>

lemma podMapOf_None: "podMapOf ps n = None \<longleftrightarrow> n \<notin> Name ` set ps"
proof -
  have "foldl (\<lambda>m p. m(Name p \<mapsto> p)) m ps n = None \<longleftrightarrow> n \<notin> Name ` set ps \<and> m n = None"
    for m :: "string \<rightharpoonup> pod"
    by (induction ps arbitrary: m) auto
  then show ?thesis by (simp add: podMapOf_def)
qed

text \<open>The ChangePods and the pods of a ChangeWorkload, as they are stored.\<close>

definition storedChangePods :: "changeWorkload \<Rightarrow> cluster \<Rightarrow> changePod list" where
  "storedChangePods cw e = filter (selected changePodIndex (changePodsOf cw)) (shStored (clChangePods e))"

definition storedPods :: "changeWorkload \<Rightarrow> cluster \<Rightarrow> pod list" where
  "storedPods cw e = filter (selected (ksIndex podKind) (podsOf cw)) (shStored (clPods e))"

lemma stored_lists:
  assumes "inSync (wExt w)"
  shows "apiList (changePodApi clusterEnv) (changePodsOf cw) (wExt w) = (Inr (storedChangePods cw (wExt w)), wExt w)"
    "apiList (podApi clusterEnv) (podsOf cw) (wExt w) = (Inr (storedPods cw (wExt w)), wExt w)"
  using inSync_cached [OF assms] by (simp_all add: onPart_def storedChangePods_def storedPods_def)

text \<open>The Deployment that owns a ChangeWorkload.\<close>

definition ownerOf :: "changeWorkload \<Rightarrow> deployment \<Rightarrow> cluster \<Rightarrow> bool" where
  "ownerOf cw d e \<longleftrightarrow> (\<exists>owner. firstOwner DeploymentKind (OwnerReferences cw) = Some owner \<and>
     findObj \<lparr>nnNamespace = Namespace cw, nnName = refName owner\<rparr> (shCached (clDeployments e)) = Some d)"

lemma owner_stored:
  assumes "inSync (wExt w)" "ownerOf cw d (wExt w)"
  shows "findObj (obj_key d) (shStored (clDeployments (wExt w))) = Some d"
  using assms inSync_cached(4) [OF assms(1)] findObj_key by (fastforce simp: ownerOf_def)

text \<open>The judgement is stored, after the label of the Deployment was brought up to date.\<close>

lemma validate_stores:
  fixes w :: "cluster world"
  assumes "apiList (podApi clusterEnv) (podsOf cw) (wExt w) = (Inr ps, wExt w)"
    and "ownerOf cw d (wExt w)" "depReplicas d = Some n"
    and "findObj (obj_key d) (shStored (clDeployments (wExt w))) = Some d"
    and "findObj (obj_key cw) (shStored (clWorkloads (wExt w))) = Some cur" "ResourceVersion cur = ResourceVersion cw"
    and "cwDefenseCheckFailPods (cwStatus cw) \<noteq> [] \<Longrightarrow> suspendable w d"
  shows "\<exists>ds ws d'. validateChangeWorkloadSuccessOrSuspend clusterEnv cw w =
      (Ok (), w\<lparr>wExt := (wExt w)\<lparr>clDeployments := ds, clWorkloads := ws\<rparr>\<rparr>) \<and>
    relabelled d (cwDefenseCheckFailPods (cwStatus cw) \<noteq> []) (wExt w) d' ds \<and>
    statusWritten (cw\<lparr>cwStatus := (cwStatus cw)\<lparr>cwStatusStatus := judgement cw n (filter isFinished ps)\<rparr>\<rparr>) cur ws"
proof -
  have d: "getDeploymentByWorkload clusterEnv cw w = (Ok d, w)"
    using assms(2) by (auto simp: getDeploymentByWorkload_def ownerOf_def cluster_simps)
  obtain ds d' where label: "addOrRemoveDeploymentSuspendLabel clusterEnv d (cwDefenseCheckFailPods (cwStatus cw) \<noteq> []) w =
      (Ok (), w\<lparr>wExt := (wExt w)\<lparr>clDeployments := ds\<rparr>\<rparr>)" (is "_ = (Ok (), ?u)")
    "relabelled d (cwDefenseCheckFailPods (cwStatus cw) \<noteq> []) (wExt w) d' ds"
    using cluster_label [OF assms(4,7)] by blast
  let ?cw = "cw\<lparr>cwStatus := (cwStatus cw)\<lparr>cwStatusStatus := judgement cw n (filter isFinished ps)\<rparr>\<rparr>"
  have cw: "findObj (obj_key ?cw) (shStored (clWorkloads (wExt ?u))) = Some cur" "ResourceVersion cur = ResourceVersion ?cw"
    using assms(5,6) by (simp_all add: obj_key_def)
  obtain r ws where t: "updateWorkloadStatus clusterEnv ?cw ?u = (Ok r, ?u\<lparr>wExt := (wExt ?u)\<lparr>clWorkloads := ws\<rparr>\<rparr>)"
    "statusWritten ?cw cur ws"
    using cluster_updateWorkloadStatus [OF cw] by blast
  have finished: "getFinishedPodsByWorkload clusterEnv cw w = (Ok (filter isFinished ps), w)"
    using assms(1)
    by (simp add: getFinishedPodsByWorkload_def getAllPodsByWorkload_def getAllPodsByVersion_def podsOf_def
        bindM_def call_def ret_def filterFinished_eq)
  have "validateChangeWorkloadSuccessOrSuspend clusterEnv cw w =
      (Ok (), w\<lparr>wExt := (wExt w)\<lparr>clDeployments := ds, clWorkloads := ws\<rparr>\<rparr>)"
    using conjunct1 [OF validate_run [OF d]] assms(3) label(1) t(1) by (simp add: bindM_def finished ret_def)
  then show ?thesis using t(2) label(2) by blast
qed

subsection \<open>The reconcile\<close>

text \<open>
  A ChangePod is waiting for its pods, or too few pods wait (none, when the ChangeWorkload is
  suspended): no ChangePod is created.
\<close>

definition busy :: "changeWorkload \<Rightarrow> cluster \<Rightarrow> bool" where
  "busy cw e \<longleftrightarrow> (\<exists>cp\<in>set (storedChangePods cw e). changePodState cp = ExecuteInit) \<or>
     \<not> necessary (changeWorkloadState cw = Running) cw (storedPods cw e)"

lemma reconcile_syncs:
  fixes w :: "cluster world"
  assumes "inSync (wExt w)" "findObj (obj_key cp) (shStored (clChangePods (wExt w))) = Some cp"
    and "findObj \<lparr>nnNamespace = Namespace cp, nnName = cpChangeWorkloadId (cpSpec cp)\<rparr>
      (shStored (clWorkloads (wExt w))) = Some cw"
    and "changeWorkloadState cw \<in> {Running, Suspend}" "busy cw (wExt w)"
  shows "ChangeWorkload_Reconcile clusterEnv (GetChangePodNameSpaceNameFromChangePod cp) w =
    syncChangeWorkloadStatus clusterEnv cw w"
proof -
  note cached = inSync_cached [OF assms(1)]
  have found: "changePodReconcile clusterEnv (obj_key cp) w = (Ok (Some cw), w)"
    using assms(2,3) by (simp add: changePodReconcile_def bindM_def attempt_def cluster_simps cached ret_def)
  have "ensureInitChangePodCreatedIfNecessary clusterEnv cw (changeWorkloadState cw = Running) w = (Ok (None, cw), w)"
    using ensureInit_run [OF stored_lists [OF assms(1), of cw], where b = "changeWorkloadState cw = Running"] assms(5)
    by (auto simp: busy_def)
  then have "ChangeWorkload_dispatch clusterEnv cw w = syncChangeWorkloadStatus clusterEnv cw w"
    using assms(4) by (auto simp: ChangeWorkload_dispatch_def Let_def runningChangeWorkloadHandle_def
        suspendChangeWorkloadHandle_def bindM_def changeWorkload_status_defs)
  then show ?thesis
    unfolding Reconcile_via_changePod reconcileVia_def by (simp add: bindM_def attempt_def found)
qed

lemma workload_of_stored:
  assumes "cp \<in> set (storedChangePods cw e)" "Namespace cw \<noteq> ''''" "findObj (obj_key cw) ws = Some cw"
  shows "findObj \<lparr>nnNamespace = Namespace cp, nnName = cpChangeWorkloadId (cpSpec cp)\<rparr> ws = Some cw"
proof -
  have "Namespace cp = Namespace cw" "cpChangeWorkloadId (cpSpec cp) = Name cw"
    using assms(1,2) by (auto simp: storedChangePods_def selected_def changePodsOf_def anyOpts_def changePodIndex_def
        ChangePodFieldStatus_def ChangePodFieldChangePodId_def ChangePodFieldChangeWorkloadId_def)
  then show ?thesis using assms(3) by (simp add: obj_key_def)
qed

text \<open>
  C9 (safety). One pod that fails its check stops the rollout: on the
  reference cluster, with caches that are up to date and the blocking switch on, take a running
  ChangeWorkload that names no failed pods yet and for which no next ChangePod is due. The reconcile
  that the end of a ChangePod causes carries a verdict other than \<open>pass\<close> on a pod that still
  exists into the ChangeWorkload, which is suspended and names the pod, and into the Deployment,
  which gets the suspend label in its label map; from then on the webhook denies every update of the
  Deployment that does not ignore the suspension.
\<close>

theorem failed_verdict_suspends:
  fixes w :: "cluster world"
  assumes "inSync (wExt w)" "configIsBlockingUpIsReady (wConfig w)" "configIsBlockingUp (wConfig w)"
    and "cp \<in> set (storedChangePods cw (wExt w))" "Namespace cw \<noteq> ''''"
    and "findObj (obj_key cp) (shStored (clChangePods (wExt w))) = Some cp"
    and "changePodState cp = ExecuteDone" "cpMessage (cpStatus cp) = PostFinish"
    and "p \<in> set (cpPodResults (cpStatus cp))" "psVerdict p \<noteq> ChangePodVerdictPass"
    and "psPod p \<in> Name ` set (storedPods cw (wExt w))"
    and "findObj (obj_key cw) (shStored (clWorkloads (wExt w))) = Some cw" "changeWorkloadState cw = Running"
    and "cwDefenseCheckFailPods (cwStatus cw) = []" "busy cw (wExt w)"
    and "ownerOf cw d (wExt w)" "depReplicas d \<noteq> None" "Labels d \<noteq> None"
  shows "\<exists>t d' cw'. ChangeWorkload_Reconcile clusterEnv (GetChangePodNameSpaceNameFromChangePod cp) w = (Ok (), t) \<and>
    findObj (obj_key cw) (shStored (clWorkloads (wExt t))) = Some cw' \<and> changeWorkloadState cw' = Suspend \<and>
    psPod p \<in> psPod ` set (cwDefenseCheckFailPods (cwStatus cw')) \<and>
    findObj (obj_key d) (shStored (clDeployments (wExt t))) = Some d' \<and> depTemplate d' = depTemplate d \<and>
    (\<forall>new. \<not> has_label (Labels new) IgnoredSuspendLabel \<longrightarrow>
       Validator_Handle (sampleRequest new d') = Denied (''deployment '' @ Name d @ '' is suspended''))"
proof -
  let ?ps = "podMapOf (storedPods cw (wExt w))"
  define finished where "finished = filter (\<lambda>cp. changePodState cp = ExecuteDone) (storedChangePods cw (wExt w))"
  define passed where "passed = RemoveDuplicatePod (concat (map passedBy finished)) ?ps"
  define failed where "failed = RemoveDuplicatePod (concat (map failedBy finished)) ?ps"
  have cp: "cp \<in> set finished" using assms(4,7) by (simp add: finished_def)
  moreover have "p \<in> set (failedBy cp)" using assms(8-10) by (simp add: failedBy_def)
  ultimately have "p \<in> set (concat (map failedBy finished))" by auto
  moreover have "?ps (psPod p) \<noteq> None" using assms(11) by (simp add: podMapOf_None)
  ultimately have p: "psPod p \<in> psPod ` set failed"
    unfolding failed_def RemoveDuplicatePod_pods by blast
  let ?cw = "cw\<lparr>cwStatus := (cwStatus cw)\<lparr>cwDefenseCheckPassPods := passed, cwDefenseCheckFailPods := failed\<rparr>\<rparr>"
  have failed: "finished \<noteq> []" "failed \<noteq> []" "\<not> IsPodSummarySliceEqual failed []"
    using cp p by (auto simp: IsPodSummarySliceEqual_def)
  then have "syncChangeWorkloadStatus clusterEnv cw w = validateChangeWorkloadSuccessOrSuspend clusterEnv ?cw w"
    using sync_run [OF stored_lists [OF assms(1), of cw], folded finished_def, folded passed_def failed_def] assms(14)
    by simp
  then have run: "ChangeWorkload_Reconcile clusterEnv (GetChangePodNameSpaceNameFromChangePod cp) w =
      validateChangeWorkloadSuccessOrSuspend clusterEnv ?cw w"
    using reconcile_syncs [OF assms(1,6) workload_of_stored [OF assms(4,5,12)] _ assms(15)] assms(13) by simp
  have cw: "ownerOf ?cw d (wExt w)" "findObj (obj_key ?cw) (shStored (clWorkloads (wExt w))) = Some cw"
    using assms(12,16) by (simp_all add: ownerOf_def obj_key_def)
  obtain n where n: "depReplicas d = Some n" using assms(17) by blast
  have "suspendable w d"
    using assms(2,3,18) by (simp add: suspendable_def)
  then obtain ds ws d' where "validateChangeWorkloadSuccessOrSuspend clusterEnv ?cw w =
      (Ok (), w\<lparr>wExt := (wExt w)\<lparr>clDeployments := ds, clWorkloads := ws\<rparr>\<rparr>)"
    "relabelled d True (wExt w) d' ds"
    "statusWritten (?cw\<lparr>cwStatus := (cwStatus ?cw)\<lparr>cwStatusStatus := Suspend\<rparr>\<rparr>) cw ws"
    using validate_stores [OF stored_lists(2) [OF assms(1)] cw(1) n owner_stored [OF assms(1,16)] cw(2)] failed(2)
    by (auto simp: judgement_def)
  then show ?thesis
    using p run depIdentityD [of d' d]
    by (auto simp: Validator_Handle_def ValidateUpdate_def sampleRequest_def obj_key_def relabelled_def statusWritten_def)
qed

definition markedPod :: pod where
  "markedPod = (samplePod ''p0'' 0)
     \<lparr>Labels := Some [AdmissionWebhookVersionLabel \<mapsto> ''v1'', OperateFinishedLabel \<mapsto> ''900'',
        DefenseStatusLabel \<mapsto> DefenseStatusLabelProcessed]\<rparr>"

definition failedChangePod :: changePod where
  "failedChangePod = (sampleChangePod ExecuteDone [sampleSummary ''p0''] 0)
     \<lparr>cpStatus := zeroChangePodStatus\<lparr>cpStatusStatus := ExecuteDone, cpMessage := PostFinish,
        cpPodResults := [(sampleSummary ''p0'')\<lparr>psVerdict := ''FAIL''\<rparr>]\<rparr>\<rparr>"

definition failedCluster :: cluster where
  "failedCluster = emptyCluster
     \<lparr>clPods := shelfOf [markedPod], clWorkloads := shelfOf [sampleWorkload Running],
      clDeployments := shelfOf [sampleDeployment sampleLabels], clChangePods := shelfOf [failedChangePod]\<rparr>"

lemma failedCluster_simps [simp]:
  "inSync failedCluster"
  "clPods failedCluster = shelfOf [markedPod]" "clWorkloads failedCluster = shelfOf [sampleWorkload Running]"
  "clDeployments failedCluster = shelfOf [sampleDeployment sampleLabels]"
  "clChangePods failedCluster = shelfOf [failedChangePod]"
  by (simp_all add: failedCluster_def inSync_def syncCluster_def emptyCluster_def)

lemma failed_lists:
  "storedChangePods (sampleWorkload Running) failedCluster = [failedChangePod]"
  "storedPods (sampleWorkload Running) failedCluster = [markedPod]"
  by (simp_all add: storedChangePods_def storedPods_def shelfOf_def)
    (simp_all add: selected_def changePodsOf_def podsOf_def anyOpts_def changePodIndex_def podKind_def
      markedPod_def failedChangePod_def samplePod_def sampleChangePod_def sampleWorkload_def sampleLabels_def
      get_label_def objectMeta.extend_def ChangePodFieldStatus_def ChangePodFieldChangePodId_def
      ChangePodFieldChangeWorkloadId_def AdmissionWebhookVersionLabel_def OperateFinishedLabel_def
      DefenseStatusLabel_def)

theorem failed_verdict_suspends_witness:
  "\<exists>t d'. ChangeWorkload_Reconcile clusterEnv (GetChangePodNameSpaceNameFromChangePod failedChangePod)
       (worldOf failedCluster) = (Ok (), t) \<and>
     findObj (obj_key (sampleDeployment sampleLabels)) (shStored (clDeployments (wExt t))) = Some d' \<and>
     Validator_Handle (sampleRequest (sampleDeployment sampleLabels) d') = Denied ''deployment app is suspended''"
proof -
  have config: "configIsBlockingUpIsReady (wConfig (worldOf failedCluster))"
    "configIsBlockingUp (wConfig (worldOf failedCluster))"
    by (simp_all add: worldOf_def readyConfig_def initialConfig_def Let_def)
  have ext: "wExt (worldOf failedCluster) = failedCluster" by (simp add: worldOf_def)
  have cp: "changePodState failedChangePod = ExecuteDone" "cpMessage (cpStatus failedChangePod) = PostFinish"
    "cpPodResults (cpStatus failedChangePod) = [(sampleSummary ''p0'')\<lparr>psVerdict := ''FAIL''\<rparr>]"
    by (simp_all add: failedChangePod_def)
  have pod: "psPod ((sampleSummary ''p0'')\<lparr>psVerdict := ''FAIL''\<rparr>) = Name markedPod"
    "''FAIL'' \<noteq> ChangePodVerdictPass"
    by (simp_all add: sampleSummary_def markedPod_def samplePod_def objectMeta.extend_def ChangePodVerdictPass_def)
  have cw: "changeWorkloadState (sampleWorkload Running) = Running" "Namespace (sampleWorkload Running) \<noteq> ''''"
    "cwDefenseCheckFailPods (cwStatus (sampleWorkload Running)) = []" "cwCountThreshold (cwSpec (sampleWorkload Running)) = 1"
    by (simp_all add: sampleWorkload_def zeroChangeWorkloadStatus_def)
  have "\<not> preparing markedPod"
    by (simp add: preparing_def isDefensed_def markedPod_def has_label_def)
  then have busy: "busy (sampleWorkload Running) failedCluster"
    using cw(1,4) by (simp add: busy_def failed_lists necessary_def)
  have owner: "ownerOf (sampleWorkload Running) (sampleDeployment sampleLabels) failedCluster"
    unfolding ownerOf_def
    by (rule exI [of _ "\<lparr>refKind = DeploymentKind, refName = ''app''\<rparr>"])
      (simp add: shelfOf_def, simp add: sampleWorkload_def sampleDeployment_def obj_key_def)
  have "depReplicas (sampleDeployment sampleLabels) \<noteq> None" "sampleLabels \<noteq> None"
    "\<not> has_label sampleLabels IgnoredSuspendLabel"
    by (simp_all add: sampleDeployment_def sampleLabels_def has_label_def IgnoredSuspendLabel_def
        DeploymentNameLabel_def AdmissionWebhookVersionLabel_def)
  then show ?thesis
    using failed_verdict_suspends [where w = "worldOf failedCluster" and cw = "sampleWorkload Running" and
        d = "sampleDeployment sampleLabels" and cp = failedChangePod and
        p = "(sampleSummary ''p0'')\<lparr>psVerdict := ''FAIL''\<rparr>", unfolded ext, OF _ config _ cw(2) _ cp(1,2) _ _ _ _ cw(1,3) busy owner]
      cp(3) pod
    by (fastforce simp: failed_lists shelfOf_def)
qed

end
