(* ===== verification/Verdict_Sync.thy ===== *)
theory Verdict_Sync
  imports Suspend_Run
begin

section \<open>The verdicts in a ChangeWorkload\<close>

text \<open>
  What the two verdict lists of a ChangeWorkload are to contain, stated by names and first
  verdicts, and that \<open>syncChangeWorkloadStatus\<close> brings the lists, the status and the suspend label
  into agreement with it on the reference cluster.
\<close>

text \<open>The names in the verdicts of the ChangePods of a ChangeWorkload that are done.\<close>

definition verdictNames :: "(changePod \<Rightarrow> podSummary list) \<Rightarrow> changeWorkload \<Rightarrow> cluster \<Rightarrow> string set" where
  "verdictNames verdicts cw e = psPod ` set (concat (map verdicts
     (filter (\<lambda>cp. changePodState cp = ExecuteDone) (storedChangePods cw e))))"

lemma RemoveDuplicatePod_names:
  "psPod ` set (RemoveDuplicatePod arr (podMapOf ps)) = psPod ` set arr \<inter> Name ` set ps"
  unfolding RemoveDuplicatePod_pods by (auto simp: podMapOf_None)

lemma RemoveDuplicatePod_all:
  assumes "distinct (map Name ps)" "Name ` set ps \<subseteq> psPod ` set arr"
  shows "length (RemoveDuplicatePod arr (podMapOf ps)) = length ps"
proof -
  have "length (RemoveDuplicatePod arr (podMapOf ps)) = card (psPod ` set (RemoveDuplicatePod arr (podMapOf ps)))"
    using distinct_card [OF RemoveDuplicatePod_distinct [of arr "podMapOf ps"]] by simp
  also have "\<dots> = card (set (map Name ps))"
    using assms(2) unfolding RemoveDuplicatePod_names by (simp add: Int_absorb1)
  finally show ?thesis using distinct_card [OF assms(1)] by simp
qed

text \<open>
  A list that has the verdicts of a kind: every pod of the version that still exists and has such
  a verdict is named once, with the first of its verdicts, and no other pod is named.
\<close>

definition namesVerdicts :: "(changePod \<Rightarrow> podSummary list) \<Rightarrow> changeWorkload \<Rightarrow> cluster \<Rightarrow> podSummary list \<Rightarrow> bool" where
  "namesVerdicts verdicts cw e l \<longleftrightarrow> distinct (map psPod l) \<and>
     psPod ` set l = verdictNames verdicts cw e \<inter> Name ` set (storedPods cw e) \<and>
     (\<forall>v\<in>set l. List.find (\<lambda>u. psPod u = psPod v) (concat (map verdicts
        (filter (\<lambda>cp. changePodState cp = ExecuteDone) (storedChangePods cw e)))) = Some v)"

lemma namesVerdictsD:
  "namesVerdicts verdicts cw e l \<Longrightarrow> psPod ` set l = verdictNames verdicts cw e \<inter> Name ` set (storedPods cw e)"
  by (simp add: namesVerdicts_def)

lemma namesVerdicts_computed:
  "namesVerdicts verdicts cw e (RemoveDuplicatePod (concat (map verdicts
     (filter (\<lambda>cp. changePodState cp = ExecuteDone) (storedChangePods cw e)))) (podMapOf (storedPods cw e)))"
  unfolding namesVerdicts_def RemoveDuplicatePod_names verdictNames_def
  using RemoveDuplicatePod_first by (auto simp: RemoveDuplicatePod_distinct)

lemma namesVerdicts_unique:
  assumes "namesVerdicts verdicts cw e a"
  shows "namesVerdicts verdicts cw e b \<longleftrightarrow> mset a = mset b"
proof
  assume b: "namesVerdicts verdicts cw e b"
  have "set x \<subseteq> set y" if "namesVerdicts verdicts cw e x" "namesVerdicts verdicts cw e y" for x y
  proof
    fix v assume v: "v \<in> set x"
    then have "psPod v \<in> psPod ` set x" by simp
    also have "\<dots> = psPod ` set y" using that by (simp add: namesVerdicts_def)
    finally obtain u where "u \<in> set y" "psPod u = psPod v" by auto
    moreover have "Some u = Some v"
      using that v calculation by (auto simp: namesVerdicts_def)
    ultimately show "v \<in> set y" by simp
  qed
  then have "set a = set b" using assms b by blast
  then show "mset a = mset b"
    using assms b by (simp add: namesVerdicts_def distinct_map set_eq_iff_mset_eq_distinct)
next
  assume equal: "mset a = mset b"
  then have "mset (map psPod a) = mset (map psPod b)" "set a = set b"
    by (simp, metis set_mset_mset)
  then show "namesVerdicts verdicts cw e b"
    using assms mset_eq_imp_distinct_iff [of "map psPod a" "map psPod b"] by (simp add: namesVerdicts_def)
qed

lemma namesVerdicts_equal:
  assumes "namesVerdicts verdicts cw e a"
  shows "IsPodSummarySliceEqual a b \<longleftrightarrow> namesVerdicts verdicts cw e b"
proof -
  have "distinct (map psPod a)" using assms by (simp add: namesVerdicts_def)
  then show ?thesis
    unfolding namesVerdicts_unique [OF assms] by (rule IsPodSummarySliceEqual_iff)
qed

lemma namesVerdicts_empty: "namesVerdicts verdicts cw e [] \<longleftrightarrow> verdictNames verdicts cw e \<inter> Name ` set (storedPods cw e) = {}"
  by (auto simp: namesVerdicts_def)

lemma namesVerdicts_length:
  assumes "namesVerdicts verdicts cw e l" "distinct (map Name (storedPods cw e))"
    and "Name ` set (storedPods cw e) \<subseteq> verdictNames verdicts cw e"
  shows "length l = length (storedPods cw e)"
proof -
  have "psPod ` set l = Name ` set (storedPods cw e)"
    using assms(1,3) by (auto simp: namesVerdicts_def)
  then show ?thesis
    using assms(1) distinct_card [of "map psPod l"] distinct_card [OF assms(2)] by (simp add: namesVerdicts_def)
qed

text \<open>The lists that the sync computes are these, and they are compared up to order.\<close>

lemma sync_named:
  fixes w :: "cluster world"
  assumes "inSync (wExt w)"
  obtains passed failed where "namesVerdicts passedBy cw (wExt w) passed" "namesVerdicts failedBy cw (wExt w) failed"
    "syncChangeWorkloadStatus clusterEnv cw w =
      (if (\<forall>cp\<in>set (storedChangePods cw (wExt w)). changePodState cp \<noteq> ExecuteDone) \<or>
          namesVerdicts passedBy cw (wExt w) (cwDefenseCheckPassPods (cwStatus cw)) \<and>
          namesVerdicts failedBy cw (wExt w) (cwDefenseCheckFailPods (cwStatus cw))
       then (Ok (), w)
       else validateChangeWorkloadSuccessOrSuspend clusterEnv
         (cw\<lparr>cwStatus := (cwStatus cw)\<lparr>cwDefenseCheckPassPods := passed, cwDefenseCheckFailPods := failed\<rparr>\<rparr>) w)"
proof -
  let ?e = "wExt w"
  let ?done = "filter (\<lambda>cp. changePodState cp = ExecuteDone) (storedChangePods cw ?e)"
  define passed where "passed = RemoveDuplicatePod (concat (map passedBy ?done)) (podMapOf (storedPods cw ?e))"
  define failed where "failed = RemoveDuplicatePod (concat (map failedBy ?done)) (podMapOf (storedPods cw ?e))"
  have names: "namesVerdicts passedBy cw ?e passed" "namesVerdicts failedBy cw ?e failed"
    unfolding passed_def failed_def by (rule namesVerdicts_computed)+
  have "syncChangeWorkloadStatus clusterEnv cw w =
      (if ?done = [] \<or> IsPodSummarySliceEqual passed (cwDefenseCheckPassPods (cwStatus cw)) \<and>
          IsPodSummarySliceEqual failed (cwDefenseCheckFailPods (cwStatus cw))
       then (Ok (), w)
       else validateChangeWorkloadSuccessOrSuspend clusterEnv
         (cw\<lparr>cwStatus := (cwStatus cw)\<lparr>cwDefenseCheckPassPods := passed, cwDefenseCheckFailPods := failed\<rparr>\<rparr>) w)"
    using sync_run [OF stored_lists [OF assms, of cw]] unfolding passed_def failed_def by simp
  then show ?thesis
    by (intro that [OF names])
      (simp add: namesVerdicts_equal [OF names(1)] namesVerdicts_equal [OF names(2)] filter_empty_conv)
qed

text \<open>What the judgement of new lists stores.\<close>

lemma validate_lists:
  fixes w :: "cluster world"
  assumes "inSync (wExt w)" "ownerOf cw d (wExt w)" "depReplicas d = Some n"
    and "findObj (obj_key cw) (shStored (clWorkloads (wExt w))) = Some cw" "failed \<noteq> [] \<Longrightarrow> suspendable w d"
  obtains t cw' d' where "validateChangeWorkloadSuccessOrSuspend clusterEnv
      (cw\<lparr>cwStatus := (cwStatus cw)\<lparr>cwDefenseCheckPassPods := passed, cwDefenseCheckFailPods := failed\<rparr>\<rparr>) w = (Ok (), t)"
    "findObj (obj_key cw) (shStored (clWorkloads (wExt t))) = Some cw'"
    "cwDefenseCheckPassPods (cwStatus cw') = passed" "cwDefenseCheckFailPods (cwStatus cw') = failed"
    "changeWorkloadState cw' = (if failed \<noteq> [] then Suspend
       else if n \<le> int (length (filter isFinished (storedPods cw (wExt w)))) \<and> int (length passed) = n then Success
       else changeWorkloadState cw)"
    "findObj (obj_key d) (shStored (clDeployments (wExt t))) = Some d'"
    "has_label (Labels d') SuspendLabel \<longleftrightarrow> failed \<noteq> []" "depTemplate d' = depTemplate d"
    "clPods (wExt t) = clPods (wExt w)" "clChangePods (wExt t) = clChangePods (wExt w)"
proof -
  let ?cw = "cw\<lparr>cwStatus := (cwStatus cw)\<lparr>cwDefenseCheckPassPods := passed, cwDefenseCheckFailPods := failed\<rparr>\<rparr>"
  have cw: "ownerOf ?cw d (wExt w)" "findObj (obj_key ?cw) (shStored (clWorkloads (wExt w))) = Some cw"
    "storedPods ?cw (wExt w) = storedPods cw (wExt w)"
    using assms(2,4) by (simp_all add: ownerOf_def obj_key_def storedPods_def podsOf_def)
  obtain ds ws d' where run: "validateChangeWorkloadSuccessOrSuspend clusterEnv ?cw w =
      (Ok (), w\<lparr>wExt := (wExt w)\<lparr>clDeployments := ds, clWorkloads := ws\<rparr>\<rparr>)"
    and d': "relabelled d (failed \<noteq> []) (wExt w) d' ds"
    and "statusWritten (?cw\<lparr>cwStatus := (cwStatus ?cw)\<lparr>cwStatusStatus :=
       judgement ?cw n (filter isFinished (storedPods cw (wExt w)))\<rparr>\<rparr>) cw ws"
    using validate_stores [OF stored_lists(2) [OF assms(1)] cw(1) assms(3) owner_stored [OF assms(1,2)] cw(2)] assms(5) cw(3)
    by auto
  then obtain cw' where "findObj (obj_key cw) (shStored ws) = Some cw'"
    "cwDefenseCheckPassPods (cwStatus cw') = passed" "cwDefenseCheckFailPods (cwStatus cw') = failed"
    "changeWorkloadState cw' = (if failed \<noteq> [] then Suspend
       else if n \<le> int (length (filter isFinished (storedPods cw (wExt w)))) \<and> int (length passed) = n then Success
       else changeWorkloadState cw)"
    by (auto simp: statusWritten_def obj_key_def judgement_def)
  moreover have "findObj (obj_key d) (shStored ds) = Some d'" "has_label (Labels d') SuspendLabel \<longleftrightarrow> failed \<noteq> []"
    "depTemplate d' = depTemplate d"
    using d' depIdentityD(3) [of d' d] by (simp_all add: relabelled_def)
  ultimately show ?thesis
    by - (rule that [OF run], simp, assumption+, simp, assumption+, simp_all)
qed

text \<open>
  C15 (functional). What \<open>syncChangeWorkloadStatus\<close> does on the reference cluster, with
  caches that are up to date: nothing at all when no ChangePod of the ChangeWorkload is done or when
  its two lists, in whatever order, already name every existing pod of the version that has a passed
  or a failed verdict, each once and with its first verdict. Otherwise the lists are stored anew so
  that they do, with the status they call for: suspended when a pod failed, successful when as many
  pods as the Deployment wants are finished and passed, and else as before; and the Deployment has the
  suspend label exactly when a pod failed. Supposed are a stored ChangeWorkload whose Deployment is in
  the cache and has a replica count and, for the case that a pod failed, that the blocking switch is
  on and the label map of the Deployment is not nil.
\<close>

theorem sync_verdicts:
  fixes w :: "cluster world"
  assumes "inSync (wExt w)" "ownerOf cw d (wExt w)" "depReplicas d = Some n"
    and "findObj (obj_key cw) (shStored (clWorkloads (wExt w))) = Some cw"
    and "verdictNames failedBy cw (wExt w) \<inter> Name ` set (storedPods cw (wExt w)) \<noteq> {} \<Longrightarrow>
      configIsBlockingUpIsReady (wConfig w) \<and> configIsBlockingUp (wConfig w) \<and> Labels d \<noteq> None"
  shows "\<exists>t. syncChangeWorkloadStatus clusterEnv cw w = (Ok (), t) \<and>
    (if (\<forall>cp\<in>set (storedChangePods cw (wExt w)). changePodState cp \<noteq> ExecuteDone) \<or>
        namesVerdicts passedBy cw (wExt w) (cwDefenseCheckPassPods (cwStatus cw)) \<and>
        namesVerdicts failedBy cw (wExt w) (cwDefenseCheckFailPods (cwStatus cw))
     then t = w
     else \<exists>cw' d'. findObj (obj_key cw) (shStored (clWorkloads (wExt t))) = Some cw' \<and>
       namesVerdicts passedBy cw (wExt w) (cwDefenseCheckPassPods (cwStatus cw')) \<and>
       namesVerdicts failedBy cw (wExt w) (cwDefenseCheckFailPods (cwStatus cw')) \<and>
       changeWorkloadState cw' =
         (if cwDefenseCheckFailPods (cwStatus cw') \<noteq> [] then Suspend
          else if n \<le> int (length (filter isFinished (storedPods cw (wExt w)))) \<and>
                  int (length (cwDefenseCheckPassPods (cwStatus cw'))) = n then Success
          else changeWorkloadState cw) \<and>
       findObj (obj_key d) (shStored (clDeployments (wExt t))) = Some d' \<and>
       (has_label (Labels d') SuspendLabel \<longleftrightarrow> cwDefenseCheckFailPods (cwStatus cw') \<noteq> []) \<and>
       depTemplate d' = depTemplate d \<and> clPods (wExt t) = clPods (wExt w) \<and> clChangePods (wExt t) = clChangePods (wExt w))"
proof -
  let ?same = "(\<forall>cp\<in>set (storedChangePods cw (wExt w)). changePodState cp \<noteq> ExecuteDone) \<or>
    namesVerdicts passedBy cw (wExt w) (cwDefenseCheckPassPods (cwStatus cw)) \<and>
    namesVerdicts failedBy cw (wExt w) (cwDefenseCheckFailPods (cwStatus cw))"
  obtain passed failed where names: "namesVerdicts passedBy cw (wExt w) passed" "namesVerdicts failedBy cw (wExt w) failed"
    and sync: "syncChangeWorkloadStatus clusterEnv cw w = (if ?same then (Ok (), w)
       else validateChangeWorkloadSuccessOrSuspend clusterEnv
         (cw\<lparr>cwStatus := (cwStatus cw)\<lparr>cwDefenseCheckPassPods := passed, cwDefenseCheckFailPods := failed\<rparr>\<rparr>) w)"
    by (rule sync_named [OF assms(1)])
  have "verdictNames failedBy cw (wExt w) \<inter> Name ` set (storedPods cw (wExt w)) = psPod ` set failed"
    by (rule namesVerdictsD [OF names(2), symmetric])
  then have guard: "failed \<noteq> [] \<Longrightarrow> suspendable w d"
    using assms(5) by (simp add: suspendable_def)
  show ?thesis
  proof (cases ?same)
    case True
    then show ?thesis unfolding sync if_P [OF True] by blast
  next
    case False
    show ?thesis
      unfolding sync if_not_P [OF False]
    proof (rule validate_lists [OF assms(1-4), of failed passed])
      show "suspendable w d" if "failed \<noteq> []" by (rule guard [OF that])
    qed (intro exI conjI, assumption+, (simp only: names | assumption)+)
  qed
qed

text \<open>The failed verdict of a ChangePod is carried over.\<close>

theorem sync_verdicts_witness:
  fixes cw :: changeWorkload
  defines "cw \<equiv> sampleWorkload Running"
  shows "\<exists>t cw'. syncChangeWorkloadStatus clusterEnv cw (worldOf failedCluster) = (Ok (), t) \<and>
     findObj (obj_key cw) (shStored (clWorkloads (wExt t))) = Some cw' \<and>
     changeWorkloadState cw' = Suspend \<and> psPod ` set (cwDefenseCheckFailPods (cwStatus cw')) = {''p0''} \<and>
     cwDefenseCheckPassPods (cwStatus cw') = []"
proof -
  have ext: "wExt (worldOf failedCluster) = failedCluster" by (simp add: worldOf_def)
  have names: "verdictNames passedBy cw failedCluster = {}" "verdictNames failedBy cw failedCluster = {''p0''}"
    "Name ` set (storedPods cw failedCluster) = {''p0''}" "changePodState failedChangePod = ExecuteDone"
    by (auto simp: cw_def verdictNames_def failed_lists failedChangePod_def passedBy_def failedBy_def markedPod_def
        changePod_status_defs ChangePodVerdictPass_def sampleSummary_def samplePod_def objectMeta.extend_def)
  have owner: "ownerOf cw (sampleDeployment sampleLabels) failedCluster"
    unfolding ownerOf_def cw_def
    by (rule exI [of _ "\<lparr>refKind = DeploymentKind, refName = ''app''\<rparr>"])
      (simp add: shelfOf_def, simp add: sampleWorkload_def sampleDeployment_def obj_key_def)
  have cw: "inSync failedCluster" "findObj (obj_key cw) (shStored (clWorkloads failedCluster)) = Some cw"
    "cwDefenseCheckFailPods (cwStatus cw) = []"
    by (simp_all add: cw_def shelfOf_def) (simp add: sampleWorkload_def zeroChangeWorkloadStatus_def)
  have d: "depReplicas (sampleDeployment sampleLabels) = Some 2"
    "configIsBlockingUpIsReady (wConfig (worldOf failedCluster)) \<and> configIsBlockingUp (wConfig (worldOf failedCluster)) \<and>
     Labels (sampleDeployment sampleLabels) \<noteq> None"
    by (simp_all add: sampleDeployment_def sampleLabels_def worldOf_def readyConfig_def initialConfig_def Let_def)
  have "failedChangePod \<in> set (storedChangePods cw failedCluster)"
    by (simp add: cw_def failed_lists)
  moreover have "\<not> namesVerdicts failedBy cw failedCluster (cwDefenseCheckFailPods (cwStatus cw))"
    by (simp add: cw(3) namesVerdicts_empty names)
  ultimately have changes: "\<not> ((\<forall>cp\<in>set (storedChangePods cw failedCluster). changePodState cp \<noteq> ExecuteDone) \<or>
      namesVerdicts passedBy cw failedCluster (cwDefenseCheckPassPods (cwStatus cw)) \<and>
      namesVerdicts failedBy cw failedCluster (cwDefenseCheckFailPods (cwStatus cw)))"
    using names(4) by blast
  obtain t cw' where t: "syncChangeWorkloadStatus clusterEnv cw (worldOf failedCluster) = (Ok (), t)"
    "findObj (obj_key cw) (shStored (clWorkloads (wExt t))) = Some cw'"
    and lists: "namesVerdicts passedBy cw failedCluster (cwDefenseCheckPassPods (cwStatus cw'))"
      "namesVerdicts failedBy cw failedCluster (cwDefenseCheckFailPods (cwStatus cw'))"
    and state: "changeWorkloadState cw' = (if cwDefenseCheckFailPods (cwStatus cw') \<noteq> [] then Suspend
      else if 2 \<le> int (length (filter isFinished (storedPods cw failedCluster))) \<and>
        int (length (cwDefenseCheckPassPods (cwStatus cw'))) = 2 then Success else changeWorkloadState cw)"
    using sync_verdicts [of "worldOf failedCluster" cw "sampleDeployment sampleLabels" 2, unfolded ext,
        OF cw(1) owner d(1) cw(2) d(2), unfolded if_not_P [OF changes]]
    by (elim exE conjE) (rule that, assumption+)
  have "psPod ` set (cwDefenseCheckFailPods (cwStatus cw')) = {''p0''}"
    using namesVerdictsD [OF lists(2)] by (simp only: names Int_absorb)
  moreover have "psPod ` set (cwDefenseCheckPassPods (cwStatus cw')) = {}"
    using namesVerdictsD [OF lists(1)] by (simp only: names Int_empty_left)
  then have "cwDefenseCheckPassPods (cwStatus cw') = []"
    by (simp only: image_is_empty set_empty)
  moreover have "cwDefenseCheckFailPods (cwStatus cw') \<noteq> []"
    using calculation(1) by (metis empty_not_insert image_empty list.set(1))
  then have "changeWorkloadState cw' = Suspend"
    by (simp only: state not_False_eq_True if_True)
  ultimately show ?thesis
    using t by blast
qed

end
