(* ===== verification/Resume_Run.thy ===== *)
theory Resume_Run
  imports Verdict_Sync
begin

section \<open>From the last verdict to a released Deployment\<close>

text \<open>
  The counterpart of \<open>Suspend_Run\<close>: when every pod of a version has passed, one reconcile makes
  the ChangeWorkload successful and lifts the suspension of its Deployment, also when a pod had
  failed before and was replaced since, unless the ChangeWorkload has these verdicts in its lists
  already.
\<close>

text \<open>
  C10 (liveness). The way out of a suspension: on the reference cluster, with caches that
  are up to date, let every pod of a version, as many as the Deployment has replicas, be finished and
  have a verdict that counts as passed, and none of them a failed one; failures of pods that were
  replaced since do not count. The ChangeWorkload is running or suspended, and no further ChangePod is
  due. Then the reconcile that the end of a ChangePod causes makes it successful and takes the
  suspend label from the Deployment, so that the webhook admits every update again, with one
  exception: when the ChangeWorkload has exactly these verdicts in its lists already, the reconcile
  does nothing at all, and the ChangeWorkload and its Deployment stay as they are (as after a
  scale-down to the pods that have passed).
\<close>

theorem all_passed_resumes:
  fixes w :: "cluster world"
  assumes "inSync (wExt w)" "cp \<in> set (storedChangePods cw (wExt w))" "Namespace cw \<noteq> ''''"
    and "findObj (obj_key cp) (shStored (clChangePods (wExt w))) = Some cp" "changePodState cp = ExecuteDone"
    and "distinct (map Name (storedPods cw (wExt w)))" "list_all isFinished (storedPods cw (wExt w))"
    and "Name ` set (storedPods cw (wExt w)) \<subseteq> verdictNames passedBy cw (wExt w)"
    and "Name ` set (storedPods cw (wExt w)) \<inter> verdictNames failedBy cw (wExt w) = {}"
    and "findObj (obj_key cw) (shStored (clWorkloads (wExt w))) = Some cw"
    and "changeWorkloadState cw \<in> {Running, Suspend}" "busy cw (wExt w)"
    and "ownerOf cw d (wExt w)" "depReplicas d = Some (int (length (storedPods cw (wExt w))))"
  shows "\<exists>t. ChangeWorkload_Reconcile clusterEnv (GetChangePodNameSpaceNameFromChangePod cp) w = (Ok (), t) \<and>
    (if cwDefenseCheckFailPods (cwStatus cw) = [] \<and>
        namesVerdicts passedBy cw (wExt w) (cwDefenseCheckPassPods (cwStatus cw))
     then t = w
     else \<exists>d' cw'. findObj (obj_key cw) (shStored (clWorkloads (wExt t))) = Some cw' \<and> changeWorkloadState cw' = Success \<and>
       cwDefenseCheckFailPods (cwStatus cw') = [] \<and>
       findObj (obj_key d) (shStored (clDeployments (wExt t))) = Some d' \<and> depTemplate d' = depTemplate d \<and>
       (\<forall>new. Validator_Handle (sampleRequest new d') = Allowed ''''))"
proof -
  let ?same = "cwDefenseCheckFailPods (cwStatus cw) = [] \<and>
    namesVerdicts passedBy cw (wExt w) (cwDefenseCheckPassPods (cwStatus cw))"
  have failures: "namesVerdicts failedBy cw (wExt w) l \<longleftrightarrow> l = []" for l
    using assms(9) by (cases l) (auto simp: namesVerdicts_def Int_commute)
  obtain passed failed where names: "namesVerdicts passedBy cw (wExt w) passed" "namesVerdicts failedBy cw (wExt w) failed"
    and sync: "syncChangeWorkloadStatus clusterEnv cw w =
      (if (\<forall>cp\<in>set (storedChangePods cw (wExt w)). changePodState cp \<noteq> ExecuteDone) \<or>
          namesVerdicts passedBy cw (wExt w) (cwDefenseCheckPassPods (cwStatus cw)) \<and>
          namesVerdicts failedBy cw (wExt w) (cwDefenseCheckFailPods (cwStatus cw))
       then (Ok (), w)
       else validateChangeWorkloadSuccessOrSuspend clusterEnv
         (cw\<lparr>cwStatus := (cwStatus cw)\<lparr>cwDefenseCheckPassPods := passed, cwDefenseCheckFailPods := failed\<rparr>\<rparr>) w)"
    by (rule sync_named [OF assms(1)])
  have none: "failed = []" using names(2) by (simp add: failures)
  have len: "length passed = length (storedPods cw (wExt w))"
    by (rule namesVerdicts_length [OF names(1) assms(6,8)])
  have run: "ChangeWorkload_Reconcile clusterEnv (GetChangePodNameSpaceNameFromChangePod cp) w =
      (if ?same then (Ok (), w) else validateChangeWorkloadSuccessOrSuspend clusterEnv
         (cw\<lparr>cwStatus := (cwStatus cw)\<lparr>cwDefenseCheckPassPods := passed, cwDefenseCheckFailPods := []\<rparr>\<rparr>) w)"
    unfolding reconcile_syncs [OF assms(1,4) workload_of_stored [OF assms(2,3,10)] assms(11,12)] sync failures none
    using assms(2,5) by auto
  show ?thesis
  proof (cases ?same)
    case False
    obtain t cw' d' where "validateChangeWorkloadSuccessOrSuspend clusterEnv
        (cw\<lparr>cwStatus := (cwStatus cw)\<lparr>cwDefenseCheckPassPods := passed, cwDefenseCheckFailPods := []\<rparr>\<rparr>) w = (Ok (), t)"
      "findObj (obj_key cw) (shStored (clWorkloads (wExt t))) = Some cw'" "cwDefenseCheckFailPods (cwStatus cw') = []"
      "changeWorkloadState cw' = (if False then Suspend
         else if int (length (storedPods cw (wExt w))) \<le> int (length (filter isFinished (storedPods cw (wExt w)))) \<and>
           int (length passed) = int (length (storedPods cw (wExt w))) then Success else changeWorkloadState cw)"
      "findObj (obj_key d) (shStored (clDeployments (wExt t))) = Some d'" "\<not> has_label (Labels d') SuspendLabel"
      "depTemplate d' = depTemplate d"
      by (rule validate_lists [OF assms(1,13,14,10), of "[]" passed]) simp_all
    moreover have "filter isFinished (storedPods cw (wExt w)) = storedPods cw (wExt w)"
      using assms(7) by (simp add: filter_id_conv list_all_iff)
    ultimately show ?thesis
      unfolding run if_not_P [OF False]
      by (auto simp: len Validator_Handle_def ValidateUpdate_def sampleRequest_def)
  qed (simp only: run if_P, blast)
qed

text \<open>
  One of two pods had failed and suspended the Deployment; it was replaced, and the check of the
  new pod timed out, which counts as passed.
\<close>

definition donePod :: "string \<Rightarrow> pod" where
  "donePod n = (samplePod n 0)
     \<lparr>Labels := Some [AdmissionWebhookVersionLabel \<mapsto> ''v1'', OperateFinishedLabel \<mapsto> ''900'',
        DefenseStatusLabel \<mapsto> DefenseStatusLabelProcessed]\<rparr>"

definition verdictChangePod :: changePod where
  "verdictChangePod = (sampleChangePod ExecuteDone [sampleSummary ''p0'', sampleSummary ''p1''] 0)
     \<lparr>cpStatus := zeroChangePodStatus\<lparr>cpStatusStatus := ExecuteDone, cpMessage := PostFinish,
        cpPodResults := [(sampleSummary ''p0'')\<lparr>psVerdict := ChangePodVerdictPass\<rparr>,
          (sampleSummary ''p1'')\<lparr>psVerdict := ''FAIL''\<rparr>]\<rparr>\<rparr>"

definition timedOutChangePod :: changePod where
  "timedOutChangePod = (sampleChangePod ExecuteDone [sampleSummary ''p2''] 1)
     \<lparr>Name := ''app--x--v1--x--2'', cpStatus := zeroChangePodStatus\<lparr>cpStatusStatus := ExecuteDone, cpMessage := PreTimeout\<rparr>\<rparr>"

definition suspendedWorkload :: changeWorkload where
  "suspendedWorkload = (sampleWorkload Suspend)
     \<lparr>cwStatus := zeroChangeWorkloadStatus\<lparr>cwStatusStatus := Suspend,
        cwDefenseCheckPassPods := [sampleSummary ''p0''], cwDefenseCheckFailPods := [sampleSummary ''p1'']\<rparr>\<rparr>"

definition suspendedDeployment :: deployment where
  "suspendedDeployment = sampleDeployment (put_label SuspendLabel ''900'' sampleLabels)"

definition suspendedCluster :: cluster where
  "suspendedCluster = emptyCluster
     \<lparr>clPods := shelfOf [donePod ''p0'', donePod ''p2''], clWorkloads := shelfOf [suspendedWorkload],
      clDeployments := shelfOf [suspendedDeployment], clChangePods := shelfOf [verdictChangePod, timedOutChangePod]\<rparr>"

lemma suspendedCluster_simps [simp]:
  "inSync suspendedCluster"
  "clPods suspendedCluster = shelfOf [donePod ''p0'', donePod ''p2'']"
  "clWorkloads suspendedCluster = shelfOf [suspendedWorkload]"
  "clDeployments suspendedCluster = shelfOf [suspendedDeployment]"
  "clChangePods suspendedCluster = shelfOf [verdictChangePod, timedOutChangePod]"
  by (simp_all add: suspendedCluster_def inSync_def syncCluster_def emptyCluster_def)

lemma suspended_lists:
  "storedChangePods suspendedWorkload suspendedCluster = [verdictChangePod, timedOutChangePod]"
  "storedPods suspendedWorkload suspendedCluster = [donePod ''p0'', donePod ''p2'']"
  by (simp_all add: storedChangePods_def storedPods_def shelfOf_def)
    (simp_all add: selected_def changePodsOf_def podsOf_def anyOpts_def changePodIndex_def podKind_def
      donePod_def verdictChangePod_def timedOutChangePod_def suspendedWorkload_def samplePod_def sampleChangePod_def
      sampleWorkload_def sampleLabels_def get_label_def objectMeta.extend_def ChangePodFieldStatus_def
      ChangePodFieldChangePodId_def ChangePodFieldChangeWorkloadId_def AdmissionWebhookVersionLabel_def
      OperateFinishedLabel_def DefenseStatusLabel_def)

lemma suspended_verdicts:
  "verdictNames passedBy suspendedWorkload suspendedCluster = {''p0'', ''p2''}"
  "verdictNames failedBy suspendedWorkload suspendedCluster = {''p1''}"
  by (auto simp: verdictNames_def suspended_lists verdictChangePod_def timedOutChangePod_def passedBy_def failedBy_def
      sampleChangePod_def zero_defs changePod_status_defs ChangePodVerdictPass_def sampleSummary_def)

text \<open>The same with the verdicts in the lists already, in another order: the ChangeWorkload stays running.\<close>

definition recordedWorkload :: changeWorkload where
  "recordedWorkload = (sampleWorkload Running)
     \<lparr>cwStatus := zeroChangeWorkloadStatus\<lparr>cwStatusStatus := Running,
        cwDefenseCheckPassPods := [sampleSummary ''p2'', (sampleSummary ''p0'')\<lparr>psVerdict := ChangePodVerdictPass\<rparr>]\<rparr>\<rparr>"

definition recordedCluster :: cluster where
  "recordedCluster = suspendedCluster\<lparr>clWorkloads := shelfOf [recordedWorkload]\<rparr>"

lemma recordedCluster_simps [simp]:
  "inSync recordedCluster"
  "clPods recordedCluster = shelfOf [donePod ''p0'', donePod ''p2'']"
  "clWorkloads recordedCluster = shelfOf [recordedWorkload]"
  "clDeployments recordedCluster = shelfOf [suspendedDeployment]"
  "clChangePods recordedCluster = shelfOf [verdictChangePod, timedOutChangePod]"
  by (simp_all add: recordedCluster_def) (simp add: suspendedCluster_def inSync_def syncCluster_def emptyCluster_def)

lemma recorded_lists:
  "storedChangePods recordedWorkload recordedCluster = [verdictChangePod, timedOutChangePod]"
  "storedPods recordedWorkload recordedCluster = [donePod ''p0'', donePod ''p2'']"
  "verdictNames passedBy recordedWorkload recordedCluster = {''p0'', ''p2''}"
  "verdictNames failedBy recordedWorkload recordedCluster = {''p1''}"
proof -
  have "podsOf recordedWorkload = podsOf suspendedWorkload" "changePodsOf recordedWorkload = changePodsOf suspendedWorkload"
    by (simp_all add: podsOf_def changePodsOf_def recordedWorkload_def suspendedWorkload_def sampleWorkload_def)
  then have "storedPods recordedWorkload recordedCluster = storedPods suspendedWorkload suspendedCluster"
    "storedChangePods recordedWorkload recordedCluster = storedChangePods suspendedWorkload suspendedCluster"
    by (simp_all add: storedPods_def storedChangePods_def)
  then show "storedChangePods recordedWorkload recordedCluster = [verdictChangePod, timedOutChangePod]"
    "storedPods recordedWorkload recordedCluster = [donePod ''p0'', donePod ''p2'']"
    "verdictNames passedBy recordedWorkload recordedCluster = {''p0'', ''p2''}"
    "verdictNames failedBy recordedWorkload recordedCluster = {''p1''}"
    using suspended_verdicts by (simp_all only: verdictNames_def suspended_lists)
qed

lemma recorded_names:
  "namesVerdicts passedBy recordedWorkload recordedCluster (cwDefenseCheckPassPods (cwStatus recordedWorkload))"
proof -
  have "passedBy verdictChangePod = [(sampleSummary ''p0'')\<lparr>psVerdict := ChangePodVerdictPass\<rparr>]"
    "passedBy timedOutChangePod = [sampleSummary ''p2'']"
    "changePodState verdictChangePod = ExecuteDone" "changePodState timedOutChangePod = ExecuteDone"
    by (simp_all add: verdictChangePod_def timedOutChangePod_def passedBy_def sampleChangePod_def zero_defs
        changePod_status_defs ChangePodVerdictPass_def)
  moreover have "psPod (sampleSummary n) = n" for n
    by (simp add: sampleSummary_def)
  moreover have "Name (donePod n) = n" for n
    by (simp add: donePod_def samplePod_def objectMeta.extend_def)
  moreover have "cwDefenseCheckPassPods (cwStatus recordedWorkload) =
      [sampleSummary ''p2'', (sampleSummary ''p0'')\<lparr>psVerdict := ChangePodVerdictPass\<rparr>]"
    by (simp add: recordedWorkload_def)
  ultimately show ?thesis
    by (auto simp: namesVerdicts_def recorded_lists)
qed

lemma donePod_sel: "Name (donePod n) = n" "isFinished (donePod n)" "\<not> preparing (donePod n)"
  by (simp_all add: donePod_def samplePod_def objectMeta.extend_def isFinished_def preparing_def isDefensed_def
      has_label_def OperateFinishedLabel_def DefenseStatusLabel_def)

lemma suspended_ready:
  "busy suspendedWorkload suspendedCluster" "ownerOf suspendedWorkload suspendedDeployment suspendedCluster"
proof -
  have "changeWorkloadState suspendedWorkload = Suspend"
    by (simp add: suspendedWorkload_def)
  then show "busy suspendedWorkload suspendedCluster"
    using donePod_sel(3) by (simp add: busy_def necessary_def suspended_lists Suspend_def Running_def)
  show "ownerOf suspendedWorkload suspendedDeployment suspendedCluster"
    unfolding ownerOf_def
    by (rule exI [of _ "\<lparr>refKind = DeploymentKind, refName = ''app''\<rparr>"])
      (simp add: shelfOf_def, simp add: suspendedWorkload_def suspendedDeployment_def sampleWorkload_def
        sampleDeployment_def obj_key_def)
qed

lemma recorded_ready:
  "Namespace recordedWorkload \<noteq> ''''" "changeWorkloadState recordedWorkload = Running"
  "cwDefenseCheckFailPods (cwStatus recordedWorkload) = []"
  "busy recordedWorkload recordedCluster" "ownerOf recordedWorkload suspendedDeployment recordedCluster"
proof -
  show cw: "Namespace recordedWorkload \<noteq> ''''" "changeWorkloadState recordedWorkload = Running"
    "cwDefenseCheckFailPods (cwStatus recordedWorkload) = []"
    by (simp_all add: recordedWorkload_def sampleWorkload_def zeroChangeWorkloadStatus_def)
  have "cwCountThreshold (cwSpec recordedWorkload) = 1"
    by (simp add: recordedWorkload_def sampleWorkload_def)
  then show "busy recordedWorkload recordedCluster"
    using cw(2) donePod_sel(3) by (simp add: busy_def necessary_def recorded_lists)
  show "ownerOf recordedWorkload suspendedDeployment recordedCluster"
    using suspended_ready(2) by (simp add: ownerOf_def recordedWorkload_def suspendedWorkload_def sampleWorkload_def)
qed

lemma suspended_denied:
  "Validator_Handle (sampleRequest (sampleDeployment sampleLabels) suspendedDeployment) =
     Denied ''deployment app is suspended''"
  by (simp add: Validator_Handle_def sampleRequest_def ValidateUpdate_def suspendedDeployment_def sampleLabels_def
        has_label_def put_label_def IgnoredSuspendLabel_def SuspendLabel_def DeploymentNameLabel_def
        AdmissionWebhookVersionLabel_def plain_error_def)

theorem all_passed_resumes_witness:
  "(\<exists>t d'. ChangeWorkload_Reconcile clusterEnv (GetChangePodNameSpaceNameFromChangePod timedOutChangePod)
       (worldOf suspendedCluster) = (Ok (), t) \<and>
     findObj (obj_key suspendedDeployment) (shStored (clDeployments (wExt t))) = Some d' \<and>
     Validator_Handle (sampleRequest (sampleDeployment sampleLabels) suspendedDeployment) =
       Denied ''deployment app is suspended'' \<and>
     Validator_Handle (sampleRequest (sampleDeployment sampleLabels) d') = Allowed '''') \<and>
   ChangeWorkload_Reconcile clusterEnv (GetChangePodNameSpaceNameFromChangePod timedOutChangePod)
     (worldOf recordedCluster) = (Ok (), worldOf recordedCluster)"
proof -
  have ext: "wExt (worldOf suspendedCluster) = suspendedCluster" by (simp add: worldOf_def)
  have cw: "Namespace suspendedWorkload \<noteq> ''''" "changeWorkloadState suspendedWorkload = Suspend"
    "cwDefenseCheckFailPods (cwStatus suspendedWorkload) \<noteq> []"
    by (simp_all add: suspendedWorkload_def sampleWorkload_def)
  have replicas: "depReplicas suspendedDeployment = Some 2"
    by (simp add: suspendedDeployment_def sampleDeployment_def)
  have cps: "changePodState timedOutChangePod = ExecuteDone" "obj_key verdictChangePod \<noteq> obj_key timedOutChangePod"
    by (simp_all add: timedOutChangePod_def verdictChangePod_def sampleChangePod_def obj_key_def)
  have ext': "wExt (worldOf recordedCluster) = recordedCluster" by (simp add: worldOf_def)
  have "ChangeWorkload_Reconcile clusterEnv (GetChangePodNameSpaceNameFromChangePod timedOutChangePod)
      (worldOf recordedCluster) = (Ok (), worldOf recordedCluster)"
    using all_passed_resumes [where w = "worldOf recordedCluster" and cw = recordedWorkload and
        d = suspendedDeployment and cp = timedOutChangePod, unfolded ext', OF _ _ recorded_ready(1) _ cps(1) _ _ _ _ _ _ recorded_ready(4,5)]
      recorded_ready(2,3) cps(2) donePod_sel(1,2) replicas recorded_names
    by (simp add: recorded_lists shelfOf_def)
  moreover have "\<exists>t d'. ChangeWorkload_Reconcile clusterEnv (GetChangePodNameSpaceNameFromChangePod timedOutChangePod)
       (worldOf suspendedCluster) = (Ok (), t) \<and>
     findObj (obj_key suspendedDeployment) (shStored (clDeployments (wExt t))) = Some d' \<and>
     Validator_Handle (sampleRequest (sampleDeployment sampleLabels) suspendedDeployment) =
       Denied ''deployment app is suspended'' \<and>
     Validator_Handle (sampleRequest (sampleDeployment sampleLabels) d') = Allowed ''''"
    using all_passed_resumes [where w = "worldOf suspendedCluster" and cw = suspendedWorkload and
        d = suspendedDeployment and cp = timedOutChangePod, unfolded ext, OF _ _ cw(1) _ cps(1) _ _ _ _ _ _ suspended_ready]
      cw(2,3) cps(2) donePod_sel(1,2) replicas suspended_denied
    by (fastforce simp: suspended_lists suspended_verdicts shelfOf_def)
  ultimately show ?thesis by blast
qed

end
