(* ===== verification/Config_Kept.thy ===== *)
theory Config_Kept
  imports Kube_Store Callback
begin

section \<open>Who does not write the configuration\<close>

text \<open>
  The package variables of the dynamic configuration are written by the receiving goroutine of
  \<open>config.go\<close> only. The reconcile of a ChangePod and the verdict callback leave them alone,
  whatever the API server and the control plane answer; what changes them while such a program
  runs can only be what happens during its sleeps, which the locale excludes.
\<close>

locale config_quiet =
  fixes env :: "'e env" and c :: configState
  assumes quiet_sleep: "wConfig (sleepFor env d w) = wConfig w"
begin

abbreviation kept :: "('e world, 'a) prog \<Rightarrow> bool" where
  "kept m \<equiv> preserves (\<lambda>w. wConfig w = c) m"

lemma kept_world [preserves_intros]:
  "kept (call op)" "kept (timeNow env)" "kept (goSleep env d)"
  by (simp_all add: preserves_call preserves_timeNow) (simp add: preserves_def goSleep_def quiet_sleep)

lemma kept_clock [preserves_intros]: "kept (nowUnix env)" "kept (GetNowTime env)"
  unfolding nowUnix_def GetNowTime_def Let_def by (intro preserves_intros)+

lemma kept_set_label [preserves_intros]: "kept (set_label k v ob)"
  by (auto simp: set_label_def intro: preserves_intros)

lemma kept_postLoop [preserves_intros]: "kept (postLoop env rq r)"
proof (induction "Suc MaxRetryCount - r" arbitrary: r rule: less_induct)
  case less
  have "kept (postLoop env rq (Suc r))" if "r \<le> MaxRetryCount"
    by (rule less) (use that in simp)
  then show ?case
    by (subst postLoop.simps) (intro preserves_intros)
qed

lemma kept_service [preserves_intros]: "kept (serviceTemplate env request action)"
  unfolding serviceTemplate_def doPost_def Let_def by (intro preserves_intros)

lemma kept_setters [preserves_intros]:
  "kept (setChangePodStatus env st cp)" "kept (setChangePodPreSubmittedStatus env cp)"
  "kept (setChangePodPostSubmittedStatus env cp)" "kept (updateChangePodStatus env cp)"
  unfolding setChangePodStatus_def setChangePodPreSubmittedStatus_def setChangePodPostSubmittedStatus_def
    updateChangePodStatus_def
  by (intro preserves_intros)+

lemma kept_pods [preserves_intros]:
  "kept (defenseProcessedPod env p)" "kept (markDefensedPods env infos)"
  "kept (getFinishedPodsWithoutDefenseByChangePodAndDeleteIfNotExist env cp)"
  unfolding defenseProcessedPod_def markDefensedPods_def getAllPodsByChangePod_def
    getFinishedPodsWithoutDefenseByChangePodAndDeleteIfNotExist_def Let_def
  by (intro preserves_intros)+

lemma kept_submit [preserves_intros]: "kept (submitChangeStartNotifyAndGetNodeId env cp)"
  unfolding submitChangeStartNotifyAndGetNodeId_def SubmitChangeStartNotify_def
  by (intro preserves_intros) (auto split: goValue.splits intro!: preserves_intros)

lemma kept_handlers [preserves_intros]:
  "kept (executeInitChangePodHandle env cp cw)" "kept (preWaitChangePodHandle env cp)"
  "kept (postWaitChangePodHandle env cp)" "kept (handleFinishedChangePod env cp)"
  unfolding executeInitChangePodHandle_def preWaitChangePodHandle_def postWaitChangePodHandle_def
    handleFinishedChangePod_def SubmitChangeFinishNotify_def setter_defs Let_def
  by (intro preserves_intros)+

lemma kept_Reconcile: "kept (ChangePod_Reconcile env req)"
  unfolding ChangePod_Reconcile_def postFinishChangePodHandle_def timeoutOrFailedChangePodHandle_def Let_def
  by (intro preserves_intros)

lemma kept_CheckCallBackHandler: "kept (CheckCallBackHandler env bound)"
  unfolding CheckCallBackHandler_def callbackStage_def callbackPre_def callbackPost_def patchChangePodStatus_def Let_def
  by (intro preserves_intros)

end

interpretation clusterConfig: config_quiet clusterEnv c for c
  by unfold_locales (simp add: clusterEnv_def)

end
