(* ===== verification/Rollout_Batch.thy ===== *)
theory Rollout_Batch
  imports Resume_Run Config_Kept
begin

section \<open>One batch of a rollout\<close>

text \<open>
  One reconcile of a ChangeWorkload between two batches, which creates the ChangePod of the next
  batch and carries the verdicts of the batches before it into the ChangeWorkload and the
  suspend label of the Deployment, and then the checks of that batch, whatever their verdict.
\<close>

subsection \<open>Creating the next ChangePod\<close>

text \<open>The keys of the ChangePods of a ChangeWorkload.\<close>

definition nthKey :: "namespacedName \<Rightarrow> int \<Rightarrow> namespacedName" where
  "nthKey k i = k\<lparr>nnName := nnName k @ MetaMark @ itoa i\<rparr>"

lemma nthKey_inject [simp]: "nthKey k i = nthKey k j \<longleftrightarrow> i = j"
  by (cases k) (simp add: nthKey_def itoa_inject)

lemma cluster_create_new:
  assumes "findObj (obj_key cp) (shStored (clChangePods (wExt w))) = None"
  shows "call (apiCreate (changePodApi clusterEnv) cp) w =
    (Ok (cp\<lparr>cpStatus := zeroChangePodStatus, ResourceVersion := shVersion (clChangePods (wExt w))\<rparr>),
     w\<lparr>wExt := putChangePod (cp\<lparr>cpStatus := zeroChangePodStatus\<rparr>) (wExt w)\<rparr>)"
  using assms by (simp add: call_def onPart_def shelfApi_def changePodKind_def storeObj_def Let_def putChangePod_def
      zeroChangePod_def objectMeta.extend_def)

lemma putObj_new: "findObj (obj_key ob) obs = None \<Longrightarrow> putObj ob obs = obs @ [ob]"
  by (induction obs) (auto split: if_splits)

lemma putChangePod_new:
  assumes "findObj (obj_key cp) (shStored (clChangePods e)) = None"
  shows "shStored (clChangePods (putChangePod cp e)) =
    shStored (clChangePods e) @ [cp\<lparr>ResourceVersion := shVersion (clChangePods e)\<rparr>]"
  using putObj_new [of "cp\<lparr>ResourceVersion := shVersion (clChangePods e)\<rparr>"] assms
  by (simp add: putChangePod_def storeObj_def Let_def)

definition freshFor :: "changeWorkload \<Rightarrow> int \<Rightarrow> changePod \<Rightarrow> bool" where
  "freshFor cw i cp \<longleftrightarrow> obj_key cp = nthKey (obj_key cw) i \<and> cpChangeWorkloadId (cpSpec cp) = Name cw \<and>
     cpPodInfos (cpSpec cp) = [] \<and> cpStatus cp = zeroChangePodStatus \<and>
     get_label (Labels cp) AdmissionWebhookVersionLabel = get_label (Labels cw) AdmissionWebhookVersionLabel"

lemma cluster_createNext:
  assumes "findObj (nthKey (obj_key cw) (n + 1)) (shStored (clChangePods (wExt w))) = None"
  shows "\<exists>cp ob v. createNewChangePod clusterEnv cw n w = (Ok ob, w\<lparr>wExt := putChangePod cp (wExt w)\<rparr>) \<and>
    freshFor cw (n + 1) (cp\<lparr>ResourceVersion := v\<rparr>) \<and>
    shStored (clChangePods (putChangePod cp (wExt w))) = shStored (clChangePods (wExt w)) @ [cp\<lparr>ResourceVersion := v\<rparr>]"
proof -
  obtain cp e where made: "ChangePodFactory_NewInstance clusterEnv
      \<lparr>facChangeWorkload = cw, facChangePodNum = n\<rparr> w = (Ok cp, w\<lparr>wExt := e\<rparr>)"
    by (rule ChangePodFactory_returns)
  have "preserves (\<lambda>v. v = w) (ChangePodFactory_NewInstance clusterEnv \<lparr>facChangeWorkload = cw, facChangePodNum = n\<rparr>)"
    unfolding ChangePodFactory_NewInstance_def Let_def by (intro preserves_intros preserves_cluster_clock)
  then have w: "w\<lparr>wExt := e\<rparr> = w"
    using made by (auto dest!: preservesD)
  let ?cp = "cp\<lparr>OwnerReferences := [\<lparr>refKind = ''ChangeWorkload'', refName = Name cw\<rparr>]\<rparr>"
  have fresh: "freshFor cw (n + 1) (?cp\<lparr>ResourceVersion := v\<rparr>)" for v
    using made by (auto simp: freshFor_def nthKey_def obj_key_def zero_defs get_label_def elim!: ChangePodFactory_result)
  then have key: "obj_key ?cp = nthKey (obj_key cw) (n + 1)" "cpStatus ?cp = zeroChangePodStatus"
    by (simp_all add: freshFor_def obj_key_def)
  have "createNewChangePod clusterEnv cw n w = call (apiCreate (changePodApi clusterEnv) ?cp) w"
    using made w by (simp add: createNewChangePod_def bindM_def)
  moreover have "?cp\<lparr>cpStatus := zeroChangePodStatus\<rparr> = ?cp"
    using key(2) by simp
  moreover have "findObj (obj_key ?cp) (shStored (clChangePods (wExt w))) = None"
    using assms key(1) by simp
  ultimately show ?thesis
    using cluster_create_new [of ?cp w] putChangePod_new [of ?cp "wExt w"] fresh
    by (intro exI [of _ ?cp] exI [of _ "shVersion (clChangePods (wExt w))"] exI) auto
qed

lemma cluster_entryTime:
  assumes "findObj (obj_key cw) (shStored (clWorkloads (wExt w))) = Some cw"
  shows "\<exists>ws cw'. patchWorkloadEntryTime clusterEnv cw w = (Ok cw', w\<lparr>wExt := (wExt w)\<lparr>clWorkloads := ws\<rparr>\<rparr>) \<and>
    findObj (obj_key cw) (shStored ws) = Some cw' \<and> cwIdentity cw' = cwIdentity cw \<and>
    changeWorkloadState cw' = changeWorkloadState cw \<and>
    cwDefenseCheckPassPods (cwStatus cw') = cwDefenseCheckPassPods (cwStatus cw) \<and>
    cwDefenseCheckFailPods (cwStatus cw') = cwDefenseCheckFailPods (cwStatus cw)"
proof -
  obtain now where now: "GetNowTime clusterEnv w = (Ok now, w)" by (rule cluster_GetNowTime)
  show ?thesis
    using assms
    by (simp add: patchWorkloadEntryTime_def bindM_def now cluster_clock call_def onPart_def shelf_writes
        attempt_def ret_def putOver_def storeObj_def Let_def changeWorkloadKind_def)
      (rule exI, rule conjI, rule refl, simp add: findObj_put cwIdentity_def mergeChangeWorkloadStatus_def)
qed

subsection \<open>Carrying verdicts into the ChangeWorkload\<close>

lemma RemoveDuplicatePod_some:
  assumes "distinct (map Name ps)" "\<not> Name ` set ps \<subseteq> psPod ` set arr"
  shows "length (RemoveDuplicatePod arr (podMapOf ps)) < length ps"
proof -
  have "length (RemoveDuplicatePod arr (podMapOf ps)) = card (psPod ` set arr \<inter> Name ` set ps)"
    using distinct_card [OF RemoveDuplicatePod_distinct [of arr "podMapOf ps"]]
    by (simp add: RemoveDuplicatePod_names)
  also have "\<dots> < card (Name ` set ps)"
    using assms(2) by (intro psubset_card_mono) auto
  finally show ?thesis using distinct_card [OF assms(1)] by simp
qed

text \<open>
  What a ChangeWorkload looks like before all its pods have passed: without failures it is
  running, or still marked as suspended after failed pods were replaced, and its Deployment is not
  suspended; with failures both are suspended.
\<close>

definition poised :: "changeWorkload \<Rightarrow> deployment \<Rightarrow> nat \<Rightarrow> bool" where
  "poised cw d n \<longleftrightarrow> changeWorkloadState cw \<in> {Running, Suspend} \<and>
     (if cwDefenseCheckFailPods (cwStatus cw) = []
      then length (cwDefenseCheckPassPods (cwStatus cw)) < n \<and> \<not> has_label (Labels d) SuspendLabel
      else changeWorkloadState cw = Suspend \<and> has_label (Labels d) SuspendLabel)"

definition concluded :: "changeWorkload \<Rightarrow> deployment \<Rightarrow> nat \<Rightarrow> bool \<Rightarrow> string set \<Rightarrow> bool" where
  "concluded cw d n all F \<longleftrightarrow> psPod ` set (cwDefenseCheckFailPods (cwStatus cw)) = F \<and>
     (if all then changeWorkloadState cw = Success \<and> \<not> has_label (Labels d) SuspendLabel else poised cw d n)"

lemma sync_decides:
  fixes w :: "cluster world"
  assumes lists: "apiList (changePodApi clusterEnv) (changePodsOf cw) (wExt w) = (Inr cps, wExt w)"
      "apiList (podApi clusterEnv) (podsOf cw) (wExt w) = (Inr ps, wExt w)"
    and d: "ownerOf cw d (wExt w)" "depReplicas d = Some (int (length ps))"
      "findObj (obj_key d) (shStored (clDeployments (wExt w))) = Some d"
    and cw: "findObj (obj_key cw) (shStored (clWorkloads (wExt w))) = Some cw" "poised cw d (length ps)"
      "cps = [] \<Longrightarrow> cwDefenseCheckFailPods (cwStatus cw) = []"
    and over: "\<forall>cp\<in>set cps. changePodState cp = ExecuteDone" "distinct (map Name ps)" "list_all isFinished ps"
  defines "P \<equiv> psPod ` set (concat (map passedBy cps))"
  defines "F \<equiv> Name ` set ps \<inter> psPod ` set (concat (map failedBy cps))"
  assumes apart: "P \<inter> F = {}" "F \<noteq> {} \<Longrightarrow> suspendable w d"
  shows "\<exists>ds ws d' cw'. syncChangeWorkloadStatus clusterEnv cw w =
      (Ok (), w\<lparr>wExt := (wExt w)\<lparr>clDeployments := ds, clWorkloads := ws\<rparr>\<rparr>) \<and>
    relabelled d (F \<noteq> {}) (wExt w) d' ds \<and> findObj (obj_key cw) (shStored ws) = Some cw' \<and>
    cwIdentity cw' = cwIdentity cw \<and> concluded cw' d' (length ps) (Name ` set ps \<subseteq> P) F"
proof -
  define passed where "passed = RemoveDuplicatePod (concat (map passedBy cps)) (podMapOf ps)"
  define failed where "failed = RemoveDuplicatePod (concat (map failedBy cps)) (podMapOf ps)"
  let ?cw = "cw\<lparr>cwStatus := (cwStatus cw)\<lparr>cwDefenseCheckPassPods := passed, cwDefenseCheckFailPods := failed\<rparr>\<rparr>"
  let ?all = "Name ` set ps \<subseteq> P"
  let ?equal = "IsPodSummarySliceEqual passed (cwDefenseCheckPassPods (cwStatus cw)) \<and>
    IsPodSummarySliceEqual failed (cwDefenseCheckFailPods (cwStatus cw))"
  have len: "if ?all then length passed = length ps else length passed < length ps"
    using RemoveDuplicatePod_all [OF over(2)] RemoveDuplicatePod_some [OF over(2)] by (auto simp: passed_def P_def)
  have names: "psPod ` set failed = F"
    unfolding failed_def F_def RemoveDuplicatePod_names by blast
  then have none: "failed = [] \<longleftrightarrow> F = {}" by auto
  have clean: "?all \<Longrightarrow> F = {}"
    using apart(1) by (auto simp: F_def)
  have fin: "filter (\<lambda>cp. changePodState cp = ExecuteDone) cps = cps"
    using over(1) by (simp add: filter_id_conv)
  have sync: "syncChangeWorkloadStatus clusterEnv cw w =
      (if cps = [] \<or> ?equal then (Ok (), w) else validateChangeWorkloadSuccessOrSuspend clusterEnv ?cw w)"
    using sync_run [OF lists] by (simp add: fin passed_def failed_def)
  show ?thesis
  proof (cases "cps = [] \<or> ?equal")
    case True
    have "(cwDefenseCheckFailPods (cwStatus cw) = [] \<longleftrightarrow> F = {}) \<and> psPod ` set (cwDefenseCheckFailPods (cwStatus cw)) = F \<and> \<not> ?all"
    proof (cases "cps = []")
      case True
      then have "F = {}" "P = {}" "cwDefenseCheckFailPods (cwStatus cw) = []"
        using cw(3) by (simp_all add: F_def P_def)
      then show ?thesis
        using cw(2) by (auto simp: poised_def)
    next
      case False
      then have equal: ?equal using True by simp
      have "distinct (map psPod passed)" "distinct (map psPod failed)"
        by (simp_all add: passed_def failed_def RemoveDuplicatePod_distinct)
      then have "length passed = length (cwDefenseCheckPassPods (cwStatus cw))"
        "psPod ` set (cwDefenseCheckFailPods (cwStatus cw)) = F"
        using same_summaries equal names by blast+
      then show ?thesis
        using len clean cw(2) by (cases "F = {}") (auto simp: poised_def)
    qed
    then show ?thesis
      using True cw(1,2) d(3)
      by (intro exI [of _ "clDeployments (wExt w)"] exI [of _ "clWorkloads (wExt w)"] exI [of _ d] exI [of _ cw])
        (auto simp: sync relabelled_def concluded_def poised_def)
  next
    case False
    have owner: "ownerOf ?cw d (wExt w)" "findObj (obj_key ?cw) (shStored (clWorkloads (wExt w))) = Some cw"
      using d(1) cw(1) by (simp_all add: ownerOf_def obj_key_def)
    have pods: "apiList (podApi clusterEnv) (podsOf ?cw) (wExt w) = (Inr ps, wExt w)"
      using lists(2) by (simp add: podsOf_def)
    obtain ds ws d' where run: "validateChangeWorkloadSuccessOrSuspend clusterEnv ?cw w =
        (Ok (), w\<lparr>wExt := (wExt w)\<lparr>clDeployments := ds, clWorkloads := ws\<rparr>\<rparr>)"
      and d': "relabelled d (F \<noteq> {}) (wExt w) d' ds"
      and ws: "statusWritten (?cw\<lparr>cwStatus := (cwStatus ?cw)\<lparr>cwStatusStatus :=
         judgement ?cw (int (length ps)) (filter isFinished ps)\<rparr>\<rparr>) cw ws"
      using validate_stores [OF pods owner(1) d(2,3) owner(2)] apart(2) none by auto
    have "judgement ?cw (int (length ps)) (filter isFinished ps) =
        (if F \<noteq> {} then Suspend else if ?all then Success else changeWorkloadState cw)"
      using len over(3) none by (cases ?all) (simp_all add: judgement_def list_all_iff)
    then obtain cw' where cw': "findObj (obj_key cw) (shStored ws) = Some cw'" "cwIdentity cw' = cwIdentity cw"
      "changeWorkloadState cw' = (if F \<noteq> {} then Suspend else if ?all then Success else changeWorkloadState cw)"
      "cwDefenseCheckPassPods (cwStatus cw') = passed" "cwDefenseCheckFailPods (cwStatus cw') = failed"
      using ws by (auto simp: statusWritten_def obj_key_def)
    have "has_label (Labels d') SuspendLabel \<longleftrightarrow> F \<noteq> {}"
      using d' by (simp add: relabelled_def)
    then have "concluded cw' d' (length ps) ?all F"
      using cw' names none clean len cw(2) by (cases ?all; cases "F = {}") (simp_all add: concluded_def poised_def)
    moreover have "syncChangeWorkloadStatus clusterEnv cw w =
        (Ok (), w\<lparr>wExt := (wExt w)\<lparr>clDeployments := ds, clWorkloads := ws\<rparr>\<rparr>)"
      using run by (simp only: sync False if_False)
    ultimately show ?thesis
      using d' cw'(1,2) by blast
  qed
qed

subsection \<open>Between two batches\<close>

text \<open>
  The ChangePods and pods of a ChangeWorkload between two batches: every ChangePod is done, none
  is numbered beyond their count, and the pods, all finished, either wait for a check or have
  passed or failed it.
\<close>

definition judgedNames :: "changeWorkload \<Rightarrow> cluster \<Rightarrow> string set" where
  "judgedNames cw e = verdictNames passedBy cw e \<union> verdictNames failedBy cw e"

definition settled :: "changeWorkload \<Rightarrow> cluster \<Rightarrow> bool" where
  "settled cw e \<longleftrightarrow>
     (\<forall>cp\<in>set (storedChangePods cw e). changePodState cp = ExecuteDone) \<and>
     (\<forall>cp\<in>set (shStored (clChangePods e)). \<forall>i. obj_key cp = nthKey (obj_key cw) i \<longrightarrow>
        i \<le> int (length (storedChangePods cw e))) \<and>
     distinct (map obj_key (shStored (clPods e))) \<and>
     (\<forall>p\<in>set (storedPods cw e). isFinished p \<and> (preparing p \<longleftrightarrow> Name p \<notin> judgedNames cw e) \<and>
        \<not> (Name p \<in> verdictNames passedBy cw e \<and> Name p \<in> verdictNames failedBy cw e))"

text \<open>The pods that failed their check and still exist.\<close>

definition failing :: "changeWorkload \<Rightarrow> cluster \<Rightarrow> string set" where
  "failing cw e = Name ` set (storedPods cw e) \<inter> verdictNames failedBy cw e"

text \<open>
  The ChangeWorkload is stored and poised, and the Deployment that owns it has as many replicas
  as there are pods.
\<close>

definition rolling :: "changeWorkload \<Rightarrow> deployment \<Rightarrow> cluster \<Rightarrow> bool" where
  "rolling cw d e \<longleftrightarrow> inSync e \<and> settled cw e \<and>
     findObj (obj_key cw) (shStored (clWorkloads e)) = Some cw \<and> poised cw d (length (storedPods cw e)) \<and>
     (storedChangePods cw e = [] \<longrightarrow> cwDefenseCheckFailPods (cwStatus cw) = []) \<and>
     Namespace cw \<noteq> '''' \<and> CHR ''['' \<notin> set (Name cw) \<and> 0 < cwCountThreshold (cwSpec cw) \<and>
     ownerOf cw d e \<and> depReplicas d = Some (int (length (storedPods cw e)))"

lemma cwIdentity_lists:
  assumes "cwIdentity cw = cwIdentity cw'"
  shows "podsOf cw = podsOf cw'" "changePodsOf cw = changePodsOf cw'" "ownerOf cw = ownerOf cw'"
    "storedPods cw = storedPods cw'" "storedChangePods cw = storedChangePods cw'"
    "verdictNames vs cw = verdictNames vs cw'" "settled cw = settled cw'" "freshFor cw = freshFor cw'"
    "failing cw = failing cw'" "judgedNames cw = judgedNames cw'"
  using cwIdentityD [OF assms]
  by (simp_all add: fun_eq_iff podsOf_def changePodsOf_def ownerOf_def storedPods_def storedChangePods_def
      verdictNames_def settled_def freshFor_def failing_def judgedNames_def)

lemma storedPods_sel:
  assumes "p \<in> set (storedPods cw e)" "Namespace cw \<noteq> ''''"
  shows "p \<in> set (shStored (clPods e))" "Namespace p = Namespace cw"
  using assms by (auto simp: storedPods_def selected_def podsOf_def anyOpts_def)

lemma settled_names:
  assumes "settled cw e" "Namespace cw \<noteq> ''''"
  shows "distinct (map Name (storedPods cw e))"
proof -
  have "distinct (map obj_key (storedPods cw e))"
    using assms(1) by (simp add: settled_def storedPods_def distinct_map_filter)
  moreover have "inj_on obj_key (set (storedPods cw e)) \<Longrightarrow> inj_on Name (set (storedPods cw e))"
    using storedPods_sel(2) [OF _ assms(2)] by (auto simp: inj_on_def obj_key_def)
  ultimately show ?thesis by (simp add: distinct_map)
qed

lemma settled_verdicts:
  "settled cw e \<Longrightarrow> verdictNames vs cw e = psPod ` set (concat (map vs (storedChangePods cw e)))"
  by (simp add: settled_def verdictNames_def filter_id_conv)

lemma settled_all_passed:
  assumes "settled cw e"
  shows "Name ` set (storedPods cw e) \<subseteq> verdictNames passedBy cw e \<longleftrightarrow>
    filter preparing (storedPods cw e) = [] \<and> failing cw e = {}"
  using assms by (fastforce simp: settled_def failing_def judgedNames_def filter_empty_conv)

lemma reconcile_dispatch:
  fixes w :: "cluster world"
  assumes "inSync (wExt w)" "findObj (obj_key cw) (shStored (clWorkloads (wExt w))) = Some cw"
    and "CHR ''['' \<notin> set (Name cw)"
  shows "ChangeWorkload_Reconcile clusterEnv (obj_key cw) w = ChangeWorkload_dispatch clusterEnv cw w"
proof -
  have "CHR ''['' \<notin> set (nnName (obj_key cw))"
    using assms(3) by (simp add: obj_key_def)
  from resourceType_plain [OF this] show ?thesis
    using assms(2) inSync_cached(2) [OF assms(1)]
    by (simp add: ChangeWorkload_Reconcile_def Let_def bindM_def attempt_def cluster_simps ret_def)
qed

lemma reconcile_plain:
  fixes w :: "cluster world"
  assumes "rolling cw d (wExt w)"
  shows "ChangeWorkload_Reconcile clusterEnv (obj_key cw) w =
    bindM (ensureInitChangePodCreatedIfNecessary clusterEnv cw (changeWorkloadState cw = Running))
      (\<lambda>(_, cw). syncChangeWorkloadStatus clusterEnv cw) w"
  using assms reconcile_dispatch [of w cw]
  by (auto simp: rolling_def poised_def ChangeWorkload_dispatch_def runningChangeWorkloadHandle_def
      suspendChangeWorkloadHandle_def changeWorkload_status_defs)

lemma rolling_owner: "rolling cw d e \<Longrightarrow> findObj (obj_key d) (shStored (clDeployments e)) = Some d"
  using owner_stored [of "worldOf e" cw d] by (simp add: rolling_def worldOf_def)

text \<open>What the sync sees when the caches lag behind the writes before it in the same reconcile.\<close>

lemma rolling_sync:
  fixes w :: "cluster world"
  assumes rolling: "rolling cw d (wExt w)" and cw': "cwIdentity cw' = cwIdentity cw"
    and e: "shCached (clChangePods e) = shCached (clChangePods (wExt w))" "clPods e = clPods (wExt w)"
      "clDeployments e = clDeployments (wExt w)" "findObj (obj_key cw) (shStored (clWorkloads e)) = Some cw'"
    and same: "changeWorkloadState cw' = changeWorkloadState cw"
      "cwDefenseCheckPassPods (cwStatus cw') = cwDefenseCheckPassPods (cwStatus cw)"
      "cwDefenseCheckFailPods (cwStatus cw') = cwDefenseCheckFailPods (cwStatus cw)"
    and "failing cw (wExt w) \<noteq> {} \<Longrightarrow> suspendable w d"
  shows "\<exists>ds ws d' cw''. syncChangeWorkloadStatus clusterEnv cw' (w\<lparr>wExt := e\<rparr>) =
      (Ok (), w\<lparr>wExt := e\<lparr>clDeployments := ds, clWorkloads := ws\<rparr>\<rparr>) \<and>
    relabelled d (failing cw (wExt w) \<noteq> {}) (wExt w) d' ds \<and> findObj (obj_key cw) (shStored ws) = Some cw'' \<and>
    cwIdentity cw'' = cwIdentity cw \<and>
    concluded cw'' d' (length (storedPods cw (wExt w)))
      (filter preparing (storedPods cw (wExt w)) = [] \<and> failing cw (wExt w) = {}) (failing cw (wExt w))"
proof -
  let ?cps = "storedChangePods cw (wExt w)" and ?ps = "storedPods cw (wExt w)" and ?v = "w\<lparr>wExt := e\<rparr>"
  have sync: "inSync (wExt w)" and settled: "settled cw (wExt w)" and ns: "Namespace cw \<noteq> ''''"
    using rolling by (simp_all add: rolling_def)
  note lists = cwIdentity_lists [OF cw'] cwIdentityD(6) [OF cw']
  have reads: "apiList (changePodApi clusterEnv) (changePodsOf cw') (wExt ?v) = (Inr ?cps, wExt ?v)"
    "apiList (podApi clusterEnv) (podsOf cw') (wExt ?v) = (Inr ?ps, wExt ?v)"
    using inSync_cached [OF sync] e(1,2) lists
    by (simp_all add: onPart_def storedChangePods_def storedPods_def)
  have owner: "ownerOf cw' d (wExt ?v)" "findObj (obj_key d) (shStored (clDeployments (wExt ?v))) = Some d"
    using rolling rolling_owner [OF rolling] e(3) lists by (simp_all add: rolling_def ownerOf_def)
  have F: "failing cw (wExt w) = Name ` set ?ps \<inter> psPod ` set (concat (map failedBy ?cps))"
    using settled_verdicts [OF settled, of failedBy] by (simp only: failing_def)
  have apart: "psPod ` set (concat (map passedBy ?cps)) \<inter> (Name ` set ?ps \<inter> psPod ` set (concat (map failedBy ?cps))) = {}"
    using settled unfolding settled_verdicts [OF settled, symmetric] by (auto simp: settled_def)
  have "poised cw' d (length ?ps)" "?cps = [] \<Longrightarrow> cwDefenseCheckFailPods (cwStatus cw') = []"
    "depReplicas d = Some (int (length ?ps))"
    using rolling same by (simp_all add: rolling_def poised_def)
  moreover have "\<forall>cp\<in>set ?cps. changePodState cp = ExecuteDone" "list_all isFinished ?ps"
    using settled by (simp_all add: settled_def list_all_iff)
  ultimately have "\<exists>ds ws d' cw''. syncChangeWorkloadStatus clusterEnv cw' ?v =
      (Ok (), ?v\<lparr>wExt := (wExt ?v)\<lparr>clDeployments := ds, clWorkloads := ws\<rparr>\<rparr>) \<and>
    relabelled d (failing cw (wExt w) \<noteq> {}) (wExt ?v) d' ds \<and> findObj (obj_key cw') (shStored ws) = Some cw'' \<and>
    cwIdentity cw'' = cwIdentity cw' \<and> concluded cw'' d' (length ?ps)
      (Name ` set ?ps \<subseteq> psPod ` set (concat (map passedBy ?cps))) (failing cw (wExt w))"
    unfolding F using reads owner e(4) lists settled_names [OF settled ns] assms(10) apart
    by (intro sync_decides) (simp_all add: F suspendable_def)
  then show ?thesis
    using e(3) cw' by (simp only: settled_verdicts [OF settled, symmetric] settled_all_passed [OF settled] lists)
      (simp add: relabelled_def)
qed

subsection \<open>The reconcile between two batches\<close>

text \<open>The next ChangePod is stored, and the ChangeWorkload has its entry time.\<close>

definition created ::
  "changeWorkload \<Rightarrow> deployment \<Rightarrow> cluster \<Rightarrow> changeWorkload \<Rightarrow> deployment \<Rightarrow> changePod \<Rightarrow> cluster \<Rightarrow> bool" where
  "created cw d e cw' d' cp e' \<longleftrightarrow> freshFor cw (int (length (storedChangePods cw e)) + 1) cp \<and>
     shStored (clChangePods e') = shStored (clChangePods e) @ [cp] \<and>
     shStored (clPods e') = shStored (clPods e) \<and> clHttp e' = clHttp e \<and>
     findObj (obj_key cw) (shStored (clWorkloads e')) = Some cw' \<and>
     cwIdentity cw' = cwIdentity cw \<and> poised cw' d' (length (storedPods cw e)) \<and>
     findObj (obj_key d) (shStored (clDeployments e')) = Some d' \<and> depIdentity d' = depIdentity d \<and>
     (Labels d \<noteq> None \<longrightarrow> Labels d' \<noteq> None) \<and>
     (has_label (Labels d) SuspendLabel = (failing cw e \<noteq> {}) \<longrightarrow>
        shStored (clDeployments e') = shStored (clDeployments e))"

lemma created_sync [simp]: "created cw d e cw' d' cp (syncCluster e') \<longleftrightarrow> created cw d e cw' d' cp e'"
  by (simp add: created_def syncCluster_def syncShelf_def)

lemma settled_unused:
  assumes "settled cw e"
  shows "findObj (nthKey (obj_key cw) (int (length (storedChangePods cw e)) + 1)) (shStored (clChangePods e)) = None"
proof (rule ccontr)
  assume "\<not> ?thesis"
  then obtain cp where "cp \<in> set (shStored (clChangePods e))"
    "obj_key cp = nthKey (obj_key cw) (int (length (storedChangePods cw e)) + 1)"
    using findObj_key by fast
  then have "int (length (storedChangePods cw e)) + 1 \<le> int (length (storedChangePods cw e))"
    using assms unfolding settled_def by blast
  then show False by simp
qed

lemma round_creates:
  fixes w :: "cluster world"
  assumes rolling: "rolling cw d (wExt w)"
    and enough: "cwCountThreshold (cwSpec cw) \<le> int (length (filter preparing (storedPods cw (wExt w))))"
    and guard: "failing cw (wExt w) \<noteq> {} \<Longrightarrow> suspendable w d"
  obtains t cw' d' cp where "ChangeWorkload_Reconcile clusterEnv (obj_key cw) w = (Ok (), t)"
    "created cw d (wExt w) cw' d' cp (wExt t)" "wConfig t = wConfig w"
proof -
  let ?n = "int (length (storedChangePods cw (wExt w)))"
  have sync: "inSync (wExt w)" and settled: "settled cw (wExt w)"
    and cw: "findObj (obj_key cw) (shStored (clWorkloads (wExt w))) = Some cw"
    and "0 < cwCountThreshold (cwSpec cw)"
    using rolling by (simp_all add: rolling_def)
  then have some: "filter preparing (storedPods cw (wExt w)) \<noteq> []"
    using enough by auto
  obtain cp ob v where cp: "createNewChangePod clusterEnv cw ?n w = (Ok ob, w\<lparr>wExt := putChangePod cp (wExt w)\<rparr>)"
    "freshFor cw (?n + 1) (cp\<lparr>ResourceVersion := v\<rparr>)"
    "shStored (clChangePods (putChangePod cp (wExt w))) = shStored (clChangePods (wExt w)) @ [cp\<lparr>ResourceVersion := v\<rparr>]"
    using cluster_createNext [OF settled_unused [OF settled]] by blast
  let ?w1 = "w\<lparr>wExt := putChangePod cp (wExt w)\<rparr>"
  have put: "clWorkloads (putChangePod cp e) = clWorkloads e" "clPods (putChangePod cp e) = clPods e"
    "clDeployments (putChangePod cp e) = clDeployments e" "clHttp (putChangePod cp e) = clHttp e"
    "shCached (clChangePods (putChangePod cp e)) = shCached (clChangePods e)" for e
    by (simp_all add: putChangePod_def storeObj_def Let_def)
  obtain ws cw1 where ws: "patchWorkloadEntryTime clusterEnv cw ?w1 =
      (Ok cw1, ?w1\<lparr>wExt := (wExt ?w1)\<lparr>clWorkloads := ws\<rparr>\<rparr>)" "findObj (obj_key cw) (shStored ws) = Some cw1"
    "cwIdentity cw1 = cwIdentity cw"
    and same: "changeWorkloadState cw1 = changeWorkloadState cw"
    "cwDefenseCheckPassPods (cwStatus cw1) = cwDefenseCheckPassPods (cwStatus cw)"
    "cwDefenseCheckFailPods (cwStatus cw1) = cwDefenseCheckFailPods (cwStatus cw)"
    using cluster_entryTime [of cw ?w1] cw by (auto simp: put)
  let ?e2 = "(putChangePod cp (wExt w))\<lparr>clWorkloads := ws\<rparr>" and ?b = "changeWorkloadState cw = Running"
  have "necessary ?b cw (storedPods cw (wExt w))"
    using enough some by (simp add: necessary_def)
  moreover have "\<not> (\<exists>cp\<in>set (storedChangePods cw (wExt w)). changePodState cp = ExecuteInit)"
    using settled by (auto simp: settled_def changePod_status_defs)
  ultimately have ensured: "ensureInitChangePodCreatedIfNecessary clusterEnv cw ?b w = (Ok (Some ob, cw1), w\<lparr>wExt := ?e2\<rparr>)"
    using ensureInit_run [OF stored_lists [OF sync, of cw], of ?b] cp(1) ws(1) by (simp add: bindM_def ret_def)
  obtain ds ws' d' cw2 where t: "syncChangeWorkloadStatus clusterEnv cw1 (w\<lparr>wExt := ?e2\<rparr>) =
      (Ok (), w\<lparr>wExt := ?e2\<lparr>clDeployments := ds, clWorkloads := ws'\<rparr>\<rparr>)"
    "relabelled d (failing cw (wExt w) \<noteq> {}) (wExt w) d' ds"
    "findObj (obj_key cw) (shStored ws') = Some cw2" "cwIdentity cw2 = cwIdentity cw"
    "poised cw2 d' (length (storedPods cw (wExt w)))"
    using rolling_sync [OF rolling ws(3), of ?e2] ws(2) same guard some by (auto simp: put concluded_def)
  have "ChangeWorkload_Reconcile clusterEnv (obj_key cw) w =
      (Ok (), w\<lparr>wExt := ?e2\<lparr>clDeployments := ds, clWorkloads := ws'\<rparr>\<rparr>)"
    using t(1) by (simp add: reconcile_plain [OF rolling] bindM_def ensured)
  moreover have "created cw d (wExt w) cw2 d' (cp\<lparr>ResourceVersion := v\<rparr>) (?e2\<lparr>clDeployments := ds, clWorkloads := ws'\<rparr>)"
    using t(2-5) cp(2,3) by (auto simp: created_def put relabelled_def)
  ultimately show ?thesis using that by simp
qed

lemma round_ends:
  fixes w :: "cluster world"
  assumes rolling: "rolling cw d (wExt w)" and none: "filter preparing (storedPods cw (wExt w)) = []"
    and guard: "failing cw (wExt w) \<noteq> {} \<Longrightarrow> suspendable w d"
  shows "\<exists>ds ws d' cw'. ChangeWorkload_Reconcile clusterEnv (obj_key cw) w =
      (Ok (), w\<lparr>wExt := (wExt w)\<lparr>clDeployments := ds, clWorkloads := ws\<rparr>\<rparr>) \<and>
    relabelled d (failing cw (wExt w) \<noteq> {}) (wExt w) d' ds \<and> findObj (obj_key cw) (shStored ws) = Some cw' \<and>
    cwIdentity cw' = cwIdentity cw \<and>
    concluded cw' d' (length (storedPods cw (wExt w))) (failing cw (wExt w) = {}) (failing cw (wExt w))"
proof -
  let ?b = "changeWorkloadState cw = Running"
  have sync: "inSync (wExt w)" and cw: "findObj (obj_key cw) (shStored (clWorkloads (wExt w))) = Some cw"
    "0 < cwCountThreshold (cwSpec cw)"
    using rolling by (simp_all add: rolling_def)
  have "\<not> necessary ?b cw (storedPods cw (wExt w))"
    using none cw(2) by (simp add: necessary_def)
  then have "ensureInitChangePodCreatedIfNecessary clusterEnv cw ?b w = (Ok (None, cw), w)"
    using ensureInit_run [OF stored_lists [OF sync, of cw], of ?b] by simp
  then have "ChangeWorkload_Reconcile clusterEnv (obj_key cw) w = syncChangeWorkloadStatus clusterEnv cw w"
    by (simp add: reconcile_plain [OF rolling] bindM_def)
  then show ?thesis
    using rolling_sync [OF rolling refl refl refl refl cw(1) refl refl refl guard] none by simp
qed

text \<open>What marking the pods of the batch does to those that wait.\<close>

lemma list_all2_filter:
  assumes "list_all2 R xs ys" "\<And>x y. R x y \<Longrightarrow> P x = Q y"
  shows "list_all2 R (filter P xs) (filter Q ys)"
  using assms(1) by (induction rule: list_all2_induct) (auto simp: assms(2))

lemma list_all2_preimage: "list_all2 R xs ys \<Longrightarrow> y \<in> set ys \<Longrightarrow> \<exists>x\<in>set xs. R x y"
  by (induction rule: list_all2_induct) auto

lemma findObj_distinct: "distinct (map obj_key obs) \<Longrightarrow> ob \<in> set obs \<Longrightarrow> findObj (obj_key ob) obs = Some ob"
  by (induction obs) (auto simp: image_iff)

lemma marked_exact:
  assumes "marked D before after" "distinct (map obj_key before)"
  shows "distinct (map obj_key after)"
    "list_all2 (\<lambda>p q. podRow q = podRow p \<and> isDefensed (Labels q) = (isDefensed (Labels p) \<or> obj_key p \<in> obj_key ` D)) before after"
proof -
  let ?R = "\<lambda>p q. podRow q = podRow p \<and> (isDefensed (Labels p) \<longrightarrow> isDefensed (Labels q)) \<and>
       (isDefensed (Labels q) \<longrightarrow> isDefensed (Labels p) \<or> obj_key p \<in> obj_key ` D)"
  have all: "list_all2 ?R before after"
    using assms(1) by (simp add: marked_def)
  then have "map obj_key after = map obj_key before"
    by (induction rule: list_all2_induct) (auto simp: podRow_def)
  then show dist: "distinct (map obj_key after)"
    using assms(2) by simp
  have "isDefensed (Labels q)" if "q \<in> set after" "obj_key q \<in> obj_key ` D" for q
    using that assms(1) findObj_distinct [OF dist that(1)] by (auto simp: marked_def)
  then show "list_all2 (\<lambda>p q. podRow q = podRow p \<and>
      isDefensed (Labels q) = (isDefensed (Labels p) \<or> obj_key p \<in> obj_key ` D)) before after"
    using all by (elim list.rel_mono_strong) (auto simp: podRow_def)
qed

lemma marked_waiting:
  assumes "marked (set qs) (shStored (clPods e)) (shStored (clPods e'))" "distinct (map obj_key (shStored (clPods e)))"
    and "Namespace cw \<noteq> ''''" "set qs \<subseteq> set (storedPods cw e)"
  shows "list_all2 (\<lambda>p q. Name q = Name p \<and> isFinished q = isFinished p \<and>
    preparing q = (preparing p \<and> Name p \<notin> Name ` set qs)) (storedPods cw e) (storedPods cw e')"
proof -
  have "list_all2 (\<lambda>p q. podRow q = podRow p \<and> isDefensed (Labels q) =
      (isDefensed (Labels p) \<or> obj_key p \<in> obj_key ` set qs)) (storedPods cw e) (storedPods cw e')"
    unfolding storedPods_def
    by (rule list_all2_filter [OF marked_exact(2) [OF assms(1,2)]])
      (auto simp: selected_def podsOf_def anyOpts_def podRow_def obj_key_def)
  then show ?thesis
  proof (rule list.rel_mono_strong)
    fix p q
    assume "p \<in> set (storedPods cw e)" and pq: "podRow q = podRow p \<and> isDefensed (Labels q) =
      (isDefensed (Labels p) \<or> obj_key p \<in> obj_key ` set qs)"
    then have "obj_key p \<in> obj_key ` set qs \<longleftrightarrow> Name p \<in> Name ` set qs"
      using assms(4) storedPods_sel(2) [OF _ assms(3), of _ e] by (fastforce simp: obj_key_def image_iff subset_iff)
    then show "Name q = Name p \<and> isFinished q = isFinished p \<and> preparing q = (preparing p \<and> Name p \<notin> Name ` set qs)"
      using pq by (auto simp: podRow_def obj_key_def preparing_def)
  qed
qed

lemma storedChangePods_new:
  assumes "shStored (clChangePods e') = shStored (clChangePods e) @ [cp]" "obj_key cp = nthKey (obj_key cw) i"
    and "cpChangeWorkloadId (cpSpec cp) = Name cw"
  shows "storedChangePods cw e' = storedChangePods cw e @ [cp]"
  using assms by (simp add: storedChangePods_def selected_def changePodsOf_def anyOpts_def changePodIndex_def
      nthKey_def obj_key_def ChangePodFieldStatus_def ChangePodFieldChangePodId_def ChangePodFieldChangeWorkloadId_def)

lemma settled_after:
  assumes "settled cw e" "Namespace cw \<noteq> ''''" "set qs \<subseteq> set (filter preparing (storedPods cw e))"
    and pods: "marked (set qs) (shStored (clPods e)) (shStored (clPods e'))"
    and "shStored (clChangePods e') = shStored (clChangePods e) @ [cp]"
    and "obj_key cp = nthKey (obj_key cw) (int (length (storedChangePods cw e)) + 1)"
    and "cpChangeWorkloadId (cpSpec cp) = Name cw" "changePodState cp = ExecuteDone"
    and judged: "psPod ` set (passedBy cp) \<union> psPod ` set (failedBy cp) = Name ` set qs"
      "psPod ` set (passedBy cp) \<inter> psPod ` set (failedBy cp) = {}"
  shows "settled cw e'" "judgedNames cw e' = judgedNames cw e \<union> Name ` set qs"
    "failing cw e' = failing cw e \<union> psPod ` set (failedBy cp)"
proof -
  note cps = storedChangePods_new [OF assms(5-7)]
  have dist: "distinct (map obj_key (shStored (clPods e)))" and sub: "set qs \<subseteq> set (storedPods cw e)"
    using assms(1,3) by (auto simp: settled_def)
  have verdicts: "verdictNames passedBy cw e' = verdictNames passedBy cw e \<union> psPod ` set (passedBy cp)"
    "verdictNames failedBy cw e' = verdictNames failedBy cw e \<union> psPod ` set (failedBy cp)"
    using assms(8) by (simp_all add: verdictNames_def cps image_Un)
  show names: "judgedNames cw e' = judgedNames cw e \<union> Name ` set qs"
    using judged(1) by (auto simp: judgedNames_def verdicts)
  note waiting = marked_waiting [OF pods dist assms(2) sub]
  have new: "n \<notin> judgedNames cw e" if "n \<in> Name ` set qs" for n
    using that assms(1,3) by (auto simp: settled_def)
  have "isFinished q \<and> (preparing q \<longleftrightarrow> Name q \<notin> judgedNames cw e') \<and>
      \<not> (Name q \<in> verdictNames passedBy cw e' \<and> Name q \<in> verdictNames failedBy cw e')" if q: "q \<in> set (storedPods cw e')" for q
  proof -
    obtain p where p: "p \<in> set (storedPods cw e)" "Name q = Name p \<and> isFinished q = isFinished p \<and>
        preparing q = (preparing p \<and> Name p \<notin> Name ` set qs)"
      using list_all2_preimage [OF waiting q] by blast
    then have "isFinished q \<and> (preparing q \<longleftrightarrow> Name q \<notin> judgedNames cw e')"
      "\<not> (Name p \<in> verdictNames passedBy cw e \<and> Name p \<in> verdictNames failedBy cw e)"
      using assms(1) by (auto simp: names settled_def)
    then show ?thesis
      using p(2) judged new [of "Name p"] by (auto simp: verdicts judgedNames_def)
  qed
  moreover have "\<forall>cp'\<in>set (shStored (clChangePods e')). \<forall>i. obj_key cp' = nthKey (obj_key cw) i \<longrightarrow>
      i \<le> int (length (storedChangePods cw e'))"
    using assms(1,5,6) by (fastforce simp: settled_def cps)
  ultimately show "settled cw e'"
    using assms(1,8) marked_exact(1) [OF pods dist] by (simp add: settled_def cps ball_Un)
  have "map Name (storedPods cw e') = map Name (storedPods cw e)"
    using waiting by (induction rule: list_all2_induct) simp_all
  then have "Name ` set (storedPods cw e') = Name ` set (storedPods cw e)"
    by (metis list.set_map)
  moreover have "psPod ` set (failedBy cp) \<subseteq> Name ` set (storedPods cw e)"
    using judged(1) sub by blast
  ultimately show "failing cw e' = failing cw e \<union> psPod ` set (failedBy cp)"
    by (auto simp: failing_def verdicts)
qed

lemma filter_drop:
  assumes "distinct (map f ys)"
  shows "filter (\<lambda>y. f y \<notin> f ` set (take c ys)) ys = drop c ys"
proof -
  have "filter (\<lambda>y. f y \<notin> f ` set (take c ys)) (take c ys) = []"
    by (simp add: filter_empty_conv)
  moreover have "f ` set (take c ys) \<inter> f ` set (drop c ys) = {}"
    using assms distinct_append [of "map f (take c ys)" "map f (drop c ys)"]
    by (simp flip: map_append)
  then have "filter (\<lambda>y. f y \<notin> f ` set (take c ys)) (drop c ys) = drop c ys"
    by (auto simp: filter_id_conv)
  ultimately show ?thesis
    by (metis append_Nil append_take_drop_id filter_append)
qed

text \<open>The next batch, in the order of the pods.\<close>

definition nextBatch :: "changeWorkload \<Rightarrow> cluster \<Rightarrow> pod list" where
  "nextBatch cw e = take (nat (cwCountThreshold (cwSpec cw))) (filter preparing (storedPods cw e))"

lemma waiting_after:
  assumes "settled cw e" "Namespace cw \<noteq> ''''"
    and pods: "marked (set (nextBatch cw e)) (shStored (clPods e)) (shStored (clPods e'))"
  shows "map Name (storedPods cw e') = map Name (storedPods cw e)"
    "map Name (filter preparing (storedPods cw e')) =
      drop (nat (cwCountThreshold (cwSpec cw))) (map Name (filter preparing (storedPods cw e)))"
    "map obj_key (shStored (clPods e')) = map obj_key (shStored (clPods e))"
proof -
  let ?ps = "storedPods cw e" and ?ns = "Name ` set (nextBatch cw e)"
  have sub: "set (nextBatch cw e) \<subseteq> set ?ps" and dist: "distinct (map obj_key (shStored (clPods e)))"
    using assms(1) by (auto simp: settled_def nextBatch_def dest: in_set_takeD)
  note waiting = marked_waiting [OF pods dist assms(2) sub]
  show "map Name (storedPods cw e') = map Name ?ps"
    using waiting by (induction rule: list_all2_induct) simp_all
  have "list_all2 (\<lambda>p q. obj_key q = obj_key p) (shStored (clPods e)) (shStored (clPods e'))"
    using marked_exact(2) [OF pods dist] by (elim list.rel_mono_strong) (auto simp: podRow_def)
  then show "map obj_key (shStored (clPods e')) = map obj_key (shStored (clPods e))"
    by (induction rule: list_all2_induct) simp_all
  have "list_all2 (\<lambda>p q. Name q = Name p) (filter (\<lambda>p. preparing p \<and> Name p \<notin> ?ns) ?ps) (filter preparing (storedPods cw e'))"
    using list_all2_filter [OF waiting, of "\<lambda>p. preparing p \<and> Name p \<notin> ?ns" preparing]
    by (auto elim: list.rel_mono_strong)
  then have "map Name (filter preparing (storedPods cw e')) = map Name (filter (\<lambda>p. preparing p \<and> Name p \<notin> ?ns) ?ps)"
    by (induction rule: list_all2_induct) simp_all
  also have "filter (\<lambda>p. preparing p \<and> Name p \<notin> ?ns) ?ps = filter (\<lambda>p. Name p \<notin> ?ns) (filter preparing ?ps)"
    by (auto intro: filter_cong)
  also have "\<dots> = drop (nat (cwCountThreshold (cwSpec cw))) (filter preparing ?ps)"
    unfolding nextBatch_def
    by (rule filter_drop) (rule distinct_map_filter [OF settled_names [OF assms(1,2)]])
  finally show "map Name (filter preparing (storedPods cw e')) =
      drop (nat (cwCountThreshold (cwSpec cw))) (map Name (filter preparing ?ps))"
    by (simp add: drop_map)
qed

subsection \<open>The checks of one batch\<close>

lemma findObj_append:
  "findObj k (xs @ ys) = (case findObj k xs of None \<Rightarrow> findObj k ys | Some ob \<Rightarrow> Some ob)"
  by (induction xs) auto

lemma othersThan_absent: "findObj req obs = None \<Longrightarrow> othersThan req obs = map Some obs"
  by (induction obs) (auto simp: othersThan_def split: if_splits)

lemma othersThan_last:
  "othersThan req obs = map Some xs @ [None] \<Longrightarrow> \<exists>ob. obs = xs @ [ob] \<and> findObj req obs = Some ob"
  unfolding othersThan_def
proof (induction obs arbitrary: xs)
  case (Cons ob obs)
  then show ?case by (cases xs) (auto split: if_splits)
qed simp

lemma versionPods_fresh:
  assumes "freshFor cw i cp" "inSync e"
  shows "versionPods cp e = storedPods cw e"
  using assms inSync_cached(3) [OF assms(2)]
  by (simp add: versionPods_def storedPods_def podsOf_def freshFor_def nthKey_def obj_key_def)

text \<open>
  One batch of a rollout: the id that the control plane gives it, its verdict, and the refused
  attempts before each of the two answers.
\<close>

record batchRun =
  baNode :: string
  baVerdict :: opsCloudChangeCheckVerdict
  baRefused :: "nat \<times> nat"

definition batchAnswers :: "error \<Rightarrow> batchRun \<Rightarrow> (error + (error + string)) list" where
  "batchAnswers err b = replicate (fst (baRefused b)) (Inl err) @ nodeAnswer (baNode b) #
     replicate (snd (baRefused b)) (Inl err) @ [nodeAnswer (baNode b)]"

definition soonAnswered :: "batchRun \<Rightarrow> bool" where
  "soonAnswered b \<longleftrightarrow> fst (baRefused b) \<le> 4 \<and> snd (baRefused b) \<le> 4"

definition passes :: "batchRun \<Rightarrow> bool" where
  "passes b \<longleftrightarrow> cvVerdict (baVerdict b) = ChangePodVerdictPass"

text \<open>The names that a batch of the waiting pods \<open>ns\<close> adds to the failures.\<close>

definition failsOf :: "nat \<Rightarrow> batchRun \<Rightarrow> string list \<Rightarrow> string set" where
  "failsOf c b ns = (if passes b then {} else set (take c ns))"

definition waitingNames :: "changeWorkload \<Rightarrow> cluster \<Rightarrow> string list" where
  "waitingNames cw e = map Name (filter preparing (storedPods cw e))"

text \<open>What is known when the batch is over.\<close>

definition advanced ::
  "changeWorkload \<Rightarrow> deployment \<Rightarrow> cluster \<Rightarrow> batchRun \<Rightarrow> changeWorkload \<Rightarrow> deployment \<Rightarrow> cluster \<Rightarrow> bool" where
  "advanced cw d e b cw' d' e' \<longleftrightarrow> rolling cw' d' e' \<and> cwIdentity cw' = cwIdentity cw \<and>
     depIdentity d' = depIdentity d \<and> (Labels d \<noteq> None \<longrightarrow> Labels d' \<noteq> None) \<and>
     (has_label (Labels d) SuspendLabel = (failing cw e \<noteq> {}) \<longrightarrow>
        d' = d \<and> shStored (clDeployments e') = shStored (clDeployments e)) \<and>
     waitingNames cw e' = drop (nat (cwCountThreshold (cwSpec cw))) (waitingNames cw e) \<and>
     failing cw e' = failing cw e \<union> failsOf (nat (cwCountThreshold (cwSpec cw))) b (waitingNames cw e) \<and>
     judgedNames cw e' \<subseteq> judgedNames cw e \<union> Name ` set (storedPods cw e) \<and>
     map Name (storedPods cw e') = map Name (storedPods cw e) \<and>
     map obj_key (shStored (clPods e')) = map obj_key (shStored (clPods e)) \<and>
     length (storedChangePods cw e') = length (storedChangePods cw e) + 1 \<and>
     (\<exists>cp. shStored (clChangePods e') = shStored (clChangePods e) @ [cp] \<and> cpChangePodId (cpStatus cp) = baNode b)"

definition summaries :: "string \<Rightarrow> pod list \<Rightarrow> podSummary list" where
  "summaries l ps = map (\<lambda>p. getPreparingPodSummary p l) ps"

definition batchOver :: "podSummary list \<Rightarrow> opsCloudChangeCheckVerdict \<Rightarrow> string \<Rightarrow> changePod \<Rightarrow> bool" where
  "batchOver infos v node = inPhase ExecuteDone infos
     (\<lambda>s. cpMessage s = PostFinish \<and> cpPodResults s = map (judged v) infos \<and> cpChangePodId s = node)"

lemma judged_batch:
  assumes "batchOver (summaries l qs) v node cp"
  shows "psPod ` set (passedBy cp) = (if cvVerdict v = ChangePodVerdictPass then Name ` set qs else {})"
    "psPod ` set (failedBy cp) = (if cvVerdict v = ChangePodVerdictPass then {} else Name ` set qs)"
proof -
  let ?rs = "map (judged v) (summaries l qs)"
  have cp: "cpMessage (cpStatus cp) = PostFinish" "cpPodResults (cpStatus cp) = ?rs"
    using assms by (simp_all add: batchOver_def inPhase_def)
  have "psVerdict r = cvVerdict v" if "r \<in> set ?rs" for r
    using that by (auto simp: judged_def)
  then have "passedBy cp = (if cvVerdict v = ChangePodVerdictPass then ?rs else [])"
    "failedBy cp = (if cvVerdict v = ChangePodVerdictPass then [] else ?rs)"
    unfolding passedBy_def failedBy_def cp
    by (simp_all add: filter_id_conv filter_empty_conv changePod_status_defs)
  moreover have "psPod ` set ?rs = Name ` set qs"
    by (simp add: image_image summaries_def judged_def getPreparingPodSummary_def)
  ultimately show "psPod ` set (passedBy cp) = (if cvVerdict v = ChangePodVerdictPass then Name ` set qs else {})"
    "psPod ` set (failedBy cp) = (if cvVerdict v = ChangePodVerdictPass then {} else Name ` set qs)"
    by (simp_all del: set_map)
qed

lemma created_ready:
  fixes cw e
  defines "req \<equiv> nthKey (obj_key cw) (int (length (storedChangePods cw e)) + 1)"
  assumes "created cw d e cw' d' cp u" "settled cw e" "inSync u"
  shows "obj_key cp = req" "findObj req (shStored (clChangePods u)) = Some cp" "changePodState cp = ExecuteInit"
    "cpPodInfos (cpSpec cp) = []" "versionPods cp u = storedPods cw e"
    "findObj \<lparr>nnNamespace = nnNamespace req, nnName = cpChangeWorkloadId (cpSpec cp)\<rparr> (shStored (clWorkloads u)) = Some cw'"
proof -
  have fresh: "freshFor cw (int (length (storedChangePods cw e)) + 1) cp"
    and u: "shStored (clChangePods u) = shStored (clChangePods e) @ [cp]" "shStored (clPods u) = shStored (clPods e)"
      "findObj (obj_key cw) (shStored (clWorkloads u)) = Some cw'"
    using assms(2) by (simp_all add: created_def)
  show key: "obj_key cp = req" and "changePodState cp = ExecuteInit" "cpPodInfos (cpSpec cp) = []"
    using fresh by (simp_all add: freshFor_def req_def zeroChangePodStatus_def ExecuteInit_def)
  show "findObj req (shStored (clChangePods u)) = Some cp"
    using settled_unused [OF assms(3), folded req_def] key by (simp add: u(1) findObj_append)
  show "versionPods cp u = storedPods cw e"
    using versionPods_fresh [OF fresh assms(4)] u(2) by (simp add: storedPods_def)
  have "\<lparr>nnNamespace = nnNamespace req, nnName = cpChangeWorkloadId (cpSpec cp)\<rparr> = obj_key cw"
    using fresh by (simp add: freshFor_def req_def nthKey_def obj_key_def)
  then show "findObj \<lparr>nnNamespace = nnNamespace req, nnName = cpChangeWorkloadId (cpSpec cp)\<rparr> (shStored (clWorkloads u)) = Some cw'"
    using u(3) by simp
qed

lemma way_over:
  fixes cw e
  defines "req \<equiv> nthKey (obj_key cw) (int (length (storedChangePods cw e)) + 1)"
  assumes created: "created cw d e cw' d' cp u" and "settled cw e"
    and way: "onItsWay req node cw' (surroundings req u (marked D (shStored (clPods u)))) Q as e'"
  obtains cp' where "shStored (clChangePods e') = shStored (clChangePods e) @ [cp']" "obj_key cp' = req"
    "cpChangeWorkloadId (cpSpec cp') = Name cw" "Q cp'" "findObj (obj_key cw') (shStored (clWorkloads e')) = Some cw'"
    "shStored (clDeployments e') = shStored (clDeployments u)" "marked D (shStored (clPods e)) (shStored (clPods e'))"
proof -
  have u: "shStored (clChangePods u) = shStored (clChangePods e) @ [cp]" "obj_key cp = req"
    "shStored (clPods u) = shStored (clPods e)" "cwIdentity cw' = cwIdentity cw"
    using created by (simp_all add: created_def freshFor_def req_def)
  have same: "marked D (shStored (clPods e)) (shStored (clPods e'))" "shStored (clDeployments e') = shStored (clDeployments u)"
    and others: "othersThan req (shStored (clChangePods e')) = map Some (shStored (clChangePods e)) @ [None]"
    using way u othersThan_absent [OF settled_unused [OF assms(3), folded req_def]]
    by (simp_all add: onItsWay_def around_def surroundings_def othersThan_def)
  obtain cp' where cp': "shStored (clChangePods e') = shStored (clChangePods e) @ [cp']"
    "findObj req (shStored (clChangePods e')) = Some cp'"
    using othersThan_last [OF others] by blast
  have "findObj \<lparr>nnNamespace = nnNamespace req, nnName = cpChangeWorkloadId (cpSpec cp')\<rparr> (shStored (clWorkloads e')) = Some cw'"
    and Q: "Q cp'"
    using way cp'(2) by (auto simp: onItsWay_def)
  then have "findObj (obj_key cw') (shStored (clWorkloads e')) = Some cw'" "cpChangeWorkloadId (cpSpec cp') = Name cw"
    using findObj_key cwIdentityD(6) [OF u(4)] by (fastforce simp: obj_key_def)+
  moreover have "obj_key cp' = req" using findObj_key [OF cp'(2)] by simp
  ultimately show ?thesis using that cp'(1) Q same by blast
qed

lemma batch_over:
  assumes rolling: "rolling cw d e" and created: "created cw d e cw' d' cp u" and "inSync e'"
  defines "req \<equiv> nthKey (obj_key cw) (int (length (storedChangePods cw e)) + 1)"
  assumes way: "onItsWay req (baNode b) cw' (surroundings req u (marked (set (nextBatch cw e)) (shStored (clPods u))))
      (batchOver (summaries l (nextBatch cw e)) (baVerdict b) (baNode b)) as e'"
  shows "advanced cw d e b cw' d' e'"
proof -
  have cw: "settled cw e" "Namespace cw \<noteq> ''''" "ownerOf cw d e" "inSync e"
    and u: "cwIdentity cw' = cwIdentity cw" "poised cw' d' (length (storedPods cw e))"
    and d': "findObj (obj_key d) (shStored (clDeployments u)) = Some d'" "depIdentity d' = depIdentity d"
      "Labels d \<noteq> None \<Longrightarrow> Labels d' \<noteq> None"
    using rolling created by (simp_all add: rolling_def created_def)
  obtain cp' where cp': "shStored (clChangePods e') = shStored (clChangePods e) @ [cp']" "obj_key cp' = req"
    "cpChangeWorkloadId (cpSpec cp') = Name cw" "batchOver (summaries l (nextBatch cw e)) (baVerdict b) (baNode b) cp'"
    and workload: "findObj (obj_key cw') (shStored (clWorkloads e')) = Some cw'"
    and deployments: "shStored (clDeployments e') = shStored (clDeployments u)"
    and pods: "marked (set (nextBatch cw e)) (shStored (clPods e)) (shStored (clPods e'))"
    using way unfolding req_def by (rule way_over [OF created cw(1)])
  have sub: "set (nextBatch cw e) \<subseteq> set (filter preparing (storedPods cw e))"
    unfolding nextBatch_def by (rule set_take_subset)
  note cps = storedChangePods_new [OF cp'(1) cp'(2) [unfolded req_def] cp'(3)]
  have over: "changePodState cp' = ExecuteDone" and node: "cpChangePodId (cpStatus cp') = baNode b"
    using cp'(4) by (simp_all add: batchOver_def inPhase_def)
  have names: "Name ` set (nextBatch cw e) = set (take (nat (cwCountThreshold (cwSpec cw))) (waitingNames cw e))"
    by (simp add: nextBatch_def waitingNames_def take_map)
  note judged = judged_batch [OF cp'(4)]
  have "psPod ` set (passedBy cp') \<union> psPod ` set (failedBy cp') = Name ` set (nextBatch cw e)"
    "psPod ` set (passedBy cp') \<inter> psPod ` set (failedBy cp') = {}"
    by (simp_all add: judged)
  note settled = settled_after [OF cw(1,2) sub pods cp'(1) cp'(2) [unfolded req_def] cp'(3) over this]
  note waiting = waiting_after [OF cw(1,2) pods, folded waitingNames_def]
  have "ownerOf cw d' e'"
    using cw(3) d'(1) deployments inSync_cached(4) [OF assms(3)] inSync_cached(4) [OF cw(4)] findObj_key
    by (fastforce simp: ownerOf_def)
  then have "rolling cw' d' e'"
    using rolling settled(1) workload u(2) map_eq_imp_length_eq [OF waiting(1)] cwIdentityD [OF u(1)] assms(3)
      depIdentityD [OF d'(2)]
    by (simp add: rolling_def cwIdentity_lists [OF u(1)] cps)
  moreover have "d' = d \<and> shStored (clDeployments e') = shStored (clDeployments e)"
    if "has_label (Labels d) SuspendLabel = (failing cw e \<noteq> {})"
    using that created deployments rolling_owner [OF rolling] by (auto simp: created_def)
  moreover have "judgedNames cw e' \<subseteq> judgedNames cw e \<union> Name ` set (storedPods cw e)"
    using settled(2) sub by auto
  ultimately show ?thesis
    using u(1) d' waiting cp'(1) node settled(3) names
    by (simp add: advanced_def cps failsOf_def passes_def judged(2))
qed

lemma wholeLife_keeps: "preserves (\<lambda>w. wConfig w = c) (inTurn (wholeLife req node v))"
proof -
  have "preserves (\<lambda>w. wConfig w = c) catchUp"
    by (simp add: preserves_def catchUp_def)
  moreover have "preserves (\<lambda>w. wConfig w = c) m" if "m \<in> set (wholeLife req node v)" for m
    using that clusterConfig.kept_Reconcile clusterConfig.kept_CheckCallBackHandler
    by (auto simp: wholeLife_def intro!: preserves_intros)
  ultimately show ?thesis
    unfolding inTurn_def by (intro preserves_intros)
qed

lemma batch_checked:
  fixes w u :: "cluster world"
  assumes rolling: "rolling cw d (wExt w)" and created: "created cw d (wExt w) cw' d' cp (wExt u)" and "inSync (wExt u)"
    and enough: "cwCountThreshold (cwSpec cw) \<le> int (length (waitingNames cw (wExt w)))"
    and "\<forall>ob\<in>set (shStored (clChangePods (wExt w))). cpChangePodId (cpStatus ob) \<noteq> baNode b"
    and "clHttp (wExt w) = batchAnswers err b @ as" "soonAnswered b"
  obtains t where "inTurn (wholeLife (nthKey (obj_key cw) (int (length (storedChangePods cw (wExt w))) + 1)) (baNode b) (baVerdict b)) u
      = (Ok (), t)" "advanced cw d (wExt w) b cw' d' (wExt t)" "clHttp (wExt t) = as" "wConfig t = wConfig u"
proof -
  let ?qs = "nextBatch cw (wExt w)"
  let ?req = "nthKey (obj_key cw) (int (length (storedChangePods cw (wExt w))) + 1)"
  let ?l = "get_label (Labels cp) DeploymentNameLabel"
  have cw: "settled cw (wExt w)" "0 < cwCountThreshold (cwSpec cw)"
    and u: "shStored (clChangePods (wExt u)) = shStored (clChangePods (wExt w)) @ [cp]"
      "clHttp (wExt u) = batchAnswers err b @ as" "cwIdentity cw' = cwIdentity cw"
    using rolling created assms(6) by (simp_all add: rolling_def created_def)
  note ready = created_ready [OF created cw(1) assms(3)]
  have picked: "pickedPods cp cw' (wExt u) = ?qs"
    by (simp add: pickedPods_def cwIdentityD(5) [OF u(3)] ready(5) nextBatch_def)
  have nodes: "\<forall>ob\<in>set (shStored (clChangePods (wExt u))). cpChangePodId (cpStatus ob) = baNode b \<longrightarrow> obj_key ob = ?req"
    using assms(5) ready(1) by (auto simp: u(1))
  have answers: "clHttp (wExt u) = replicate (fst (baRefused b)) (Inl err) @ nodeAnswer (baNode b) #
      replicate (snd (baRefused b)) (Inl err) @ nodeAnswer (baNode b) # as"
    using u(2) by (simp add: batchAnswers_def)
  have some: "0 \<le> cwCountThreshold (cwSpec cw')" "filter preparing (versionPods cp (wExt u)) \<noteq> []"
    using cw(2) enough cwIdentityD(5) [OF u(3)] by (auto simp: ready(5) waitingNames_def)
  have few: "fst (baRefused b) \<le> 4" "snd (baRefused b) \<le> 4"
    using assms(7) by (simp_all add: soonAnswered_def)
  obtain t where t: "inTurn (wholeLife ?req (baNode b) (baVerdict b)) u = (Ok (), t)" "inSync (wExt t)"
    "onItsWay ?req (baNode b) cw' (surroundings ?req (wExt u) (marked (set ?qs) (shStored (clPods (wExt u)))))
       (batchOver (summaries ?l ?qs) (baVerdict b) (baNode b)) as (wExt t)"
    by (rule wholeLife_run [OF assms(3) ready(2-4,6) some nodes answers few(1,2), of "baVerdict b"])
      (simp add: picked batchOver_def summaries_def)
  have "clHttp (wExt t) = as"
    using t(3) by (simp add: onItsWay_def)
  moreover have "preserves (\<lambda>w. wConfig w = wConfig u) (inTurn (wholeLife ?req (baNode b) (baVerdict b)))"
    by (rule wholeLife_keeps)
  then have "wConfig t = wConfig u"
    using t(1) by (auto dest: preservesD)
  ultimately show ?thesis
    using that t(1) batch_over [OF rolling created t(2,3)] by blast
qed

end
