(* ===== verification/Rollout_Run.thy ===== *)
theory Rollout_Run
  imports Rollout_Batch
begin

section \<open>A whole rollout\<close>

text \<open>
  The controllers in sequence until the rollout of a version is over: the ChangeWorkload
  controller creates the ChangePod of the next batch, the batch runs through its checks, and so
  on until no pod waits. While the blocking switch is on, the verdicts decide how it ends.
\<close>

subsection \<open>The sequence\<close>

lemma inTurn_Cons: "m w = (Ok (), t) \<Longrightarrow> inTurn (m # ms) w = inTurn ms (t\<lparr>wExt := syncCluster (wExt t)\<rparr>)"
  by (simp add: inTurn_def thenM_def bindM_def catchUp_def)

lemma inTurn_append: "inTurn xs w = (Ok (), t) \<Longrightarrow> inTurn (xs @ ys) w = inTurn ys t"
  by (simp add: inTurn_def forEach_append bindM_def)

text \<open>The reconciles and verdicts of the batches that are left, after \<open>n\<close> batches.\<close>

primrec rollout :: "namespacedName \<Rightarrow> int \<Rightarrow> batchRun list \<Rightarrow> (cluster world, unit) prog list" where
  "rollout k n [] = [ChangeWorkload_Reconcile clusterEnv k]"
| "rollout k n (b # bs) = ChangeWorkload_Reconcile clusterEnv k #
     wholeLife (nthKey k (n + 1)) (baNode b) (baVerdict b) @ rollout k (n + 1) bs"

text \<open>The names among the waiting pods \<open>ns\<close>, in batches of \<open>c\<close>, whose batch fails.\<close>

primrec failedPods :: "nat \<Rightarrow> batchRun list \<Rightarrow> string list \<Rightarrow> string set" where
  "failedPods c [] ns = {}"
| "failedPods c (b # bs) ns = failsOf c b ns \<union> failedPods c bs (drop c ns)"

lemma failedPods_passes: "list_all passes bs \<Longrightarrow> failedPods c bs ns = {}"
  by (induction bs arbitrary: ns) (simp_all add: failsOf_def)

text \<open>How a rollout of \<open>n\<close> batches ends.\<close>

definition rolledOut :: "changeWorkload \<Rightarrow> deployment \<Rightarrow> nat \<Rightarrow> cluster \<Rightarrow> cluster \<Rightarrow> bool" where
  "rolledOut cw d n e e' \<longleftrightarrow>
     (\<exists>cw' d'. findObj (obj_key cw) (shStored (clWorkloads e')) = Some cw' \<and> cwIdentity cw' = cwIdentity cw \<and>
        findObj (obj_key d) (shStored (clDeployments e')) = Some d' \<and> depIdentity d' = depIdentity d \<and>
        (Labels d \<noteq> None \<longrightarrow> Labels d' \<noteq> None) \<and>
        concluded cw' d' (length (storedPods cw e)) (failing cw e' = {}) (failing cw e') \<and>
        (failing cw e' \<noteq> {} \<longrightarrow> rolling cw' d' e')) \<and>
     (failing cw e' = {} \<and> \<not> has_label (Labels d) SuspendLabel \<longrightarrow>
        shStored (clDeployments e') = shStored (clDeployments e)) \<and>
     length (storedChangePods cw e') = length (storedChangePods cw e) + n \<and>
     map Name (storedPods cw e') = map Name (storedPods cw e) \<and>
     map obj_key (shStored (clPods e')) = map obj_key (shStored (clPods e)) \<and>
     waitingNames cw e' = [] \<and> failing cw e \<subseteq> failing cw e' \<and>
     Name ` set (storedPods cw e') \<subseteq> judgedNames cw e' \<and>
     judgedNames cw e' \<subseteq> judgedNames cw e \<union> Name ` set (storedPods cw e)"

text \<open>The node ids that the control plane has given out.\<close>

definition nodesOf :: "cluster \<Rightarrow> string set" where
  "nodesOf e = (\<lambda>cp. cpChangePodId (cpStatus cp)) ` set (shStored (clChangePods e))"

lemma rollout_ends:
  fixes w :: "cluster world"
  assumes rolling: "rolling cw d (wExt w)" and none: "waitingNames cw (wExt w) = []"
    and guard: "failing cw (wExt w) \<noteq> {} \<Longrightarrow> suspendable w d"
  shows "\<exists>t. inTurn [ChangeWorkload_Reconcile clusterEnv (obj_key cw)] w = (Ok (), t) \<and>
    rolledOut cw d 0 (wExt w) (wExt t) \<and> failing cw (wExt t) = failing cw (wExt w) \<and>
    nodesOf (wExt t) = nodesOf (wExt w) \<and> clHttp (wExt t) = clHttp (wExt w) \<and> wConfig t = wConfig w"
proof -
  let ?n = "length (storedPods cw (wExt w))" and ?F = "failing cw (wExt w)"
  have idle: "filter preparing (storedPods cw (wExt w)) = []"
    using none by (simp add: waitingNames_def)
  obtain ds ws d' cw' where run: "ChangeWorkload_Reconcile clusterEnv (obj_key cw) w =
      (Ok (), w\<lparr>wExt := (wExt w)\<lparr>clDeployments := ds, clWorkloads := ws\<rparr>\<rparr>)"
    and d': "relabelled d (?F \<noteq> {}) (wExt w) d' ds"
    and cw': "findObj (obj_key cw) (shStored ws) = Some cw'" "cwIdentity cw' = cwIdentity cw"
      "concluded cw' d' ?n (?F = {}) ?F"
    using round_ends [OF rolling idle guard] by blast
  define e where "e = syncCluster ((wExt w)\<lparr>clDeployments := ds, clWorkloads := ws\<rparr>)"
  have e: "inSync e" "shStored (clWorkloads e) = shStored ws" "shStored (clDeployments e) = shStored ds"
    "clHttp e = clHttp (wExt w)" "shStored (clPods e) = shStored (clPods (wExt w))"
    "shStored (clChangePods e) = shStored (clChangePods (wExt w))"
    by (simp_all add: e_def) (simp_all add: syncCluster_def syncShelf_def)
  have same: "storedPods cw e = storedPods cw (wExt w)" "storedChangePods cw e = storedChangePods cw (wExt w)"
    "verdictNames vs cw e = verdictNames vs cw (wExt w)" "failing cw e = ?F" "waitingNames cw e = []"
    "judgedNames cw e = judgedNames cw (wExt w)" "settled cw e = settled cw (wExt w)" for vs
    using none by (simp_all add: storedPods_def storedChangePods_def verdictNames_def failing_def waitingNames_def
        judgedNames_def settled_def e)
  have rest: "settled cw (wExt w)" "ownerOf cw d (wExt w)" "inSync (wExt w)"
    using rolling by (simp_all add: rolling_def)
  have "rolling cw' d' e" if "?F \<noteq> {}"
  proof -
    have "ownerOf cw d' e"
      using rest(2) d' inSync_cached(4) [OF e(1)] inSync_cached(4) [OF rest(3)] findObj_key
      by (fastforce simp: ownerOf_def e relabelled_def)
    moreover have "storedChangePods cw (wExt w) \<noteq> []"
      using that by (auto simp: failing_def verdictNames_def)
    ultimately show ?thesis
      using that rolling e cw' same depIdentityD [of d' d] d' cwIdentityD [OF cw'(2)]
      by (simp add: rolling_def cwIdentity_lists [OF cw'(2)] concluded_def relabelled_def)
  qed
  moreover have "Name ` set (storedPods cw (wExt w)) \<subseteq> judgedNames cw (wExt w)"
    using rest(1) idle by (auto simp: settled_def filter_empty_conv)
  ultimately have "rolledOut cw d 0 (wExt w) e"
    unfolding rolledOut_def same e using cw' d' by (auto simp: relabelled_def)
  moreover have "inTurn [ChangeWorkload_Reconcile clusterEnv (obj_key cw)] w = (Ok (), w\<lparr>wExt := e\<rparr>)"
    by (simp add: inTurn_Cons [where m = "ChangeWorkload_Reconcile clusterEnv (obj_key cw)", OF run] e_def)
      (simp add: inTurn_def ret_def)
  ultimately show ?thesis
    using same(4) e(4,6) by (intro exI [of _ "w\<lparr>wExt := e\<rparr>"]) (simp add: nodesOf_def)
qed

lemma rolledOut_passed:
  assumes "rolledOut cw d n e e'"
  shows "Name ` set (storedPods cw e') \<subseteq> verdictNames passedBy cw e' \<union> failing cw e'"
proof -
  have "Name ` set (storedPods cw e') \<subseteq> judgedNames cw e'"
    using assms by (simp add: rolledOut_def)
  then show ?thesis
    unfolding judgedNames_def failing_def by blast
qed

lemma rolledOut_end:
  assumes "rolledOut cw d n e e'"
  obtains cw' d' where "findObj (obj_key cw) (shStored (clWorkloads e')) = Some cw'" "cwIdentity cw' = cwIdentity cw"
    "findObj (obj_key d) (shStored (clDeployments e')) = Some d'" "depIdentity d' = depIdentity d"
    "changeWorkloadState cw' = (if failing cw e' = {} then Success else Suspend)"
    "psPod ` set (cwDefenseCheckFailPods (cwStatus cw')) = failing cw e'"
    "\<forall>new. \<not> has_label (Labels new) IgnoredSuspendLabel \<longrightarrow> Validator_Handle (sampleRequest new d') =
       (if failing cw e' = {} then Allowed '''' else Denied (''deployment '' @ Name d @ '' is suspended''))"
proof -
  obtain cw' d' where ends: "findObj (obj_key cw) (shStored (clWorkloads e')) = Some cw'" "cwIdentity cw' = cwIdentity cw"
    "findObj (obj_key d) (shStored (clDeployments e')) = Some d'" "depIdentity d' = depIdentity d"
    "concluded cw' d' (length (storedPods cw e)) (failing cw e' = {}) (failing cw e')"
    using assms by (auto simp: rolledOut_def)
  then have "changeWorkloadState cw' = (if failing cw e' = {} then Success else Suspend)"
    "psPod ` set (cwDefenseCheckFailPods (cwStatus cw')) = failing cw e'"
    "has_label (Labels d') SuspendLabel \<longleftrightarrow> failing cw e' \<noteq> {}"
    by (auto simp: concluded_def poised_def split: if_splits)
  moreover from this(3) have "\<forall>new. \<not> has_label (Labels new) IgnoredSuspendLabel \<longrightarrow>
      Validator_Handle (sampleRequest new d') =
       (if failing cw e' = {} then Allowed '''' else Denied (''deployment '' @ Name d @ '' is suspended''))"
    using depIdentityD [OF ends(4)] by (simp add: Validator_Handle_def ValidateUpdate_def sampleRequest_def)
  ultimately show ?thesis
    using that ends(1-4) by blast
qed

lemma rolledOut_step:
  assumes "advanced cw d e b cw' d' e1" "rolledOut cw' d' n e1 e2"
  shows "rolledOut cw d (Suc n) e e2"
proof -
  have same: "cwIdentity cw' = cwIdentity cw" "depIdentity d' = depIdentity d"
    using assms(1) by (simp_all add: advanced_def)
  note lists = cwIdentity_lists [OF same(1)] cwIdentityD [OF same(1)] depIdentityD(1) [OF same(2)]
  have names: "map Name (storedPods cw e1) = map Name (storedPods cw e)"
    and grow: "failing cw e \<subseteq> failing cw e2" "judgedNames cw e2 \<subseteq> judgedNames cw e \<union> Name ` set (storedPods cw e)"
  proof -
    show "map Name (storedPods cw e1) = map Name (storedPods cw e)"
      using assms(1) by (simp add: advanced_def)
    then have N: "Name ` set (storedPods cw e1) = Name ` set (storedPods cw e)"
      by (metis list.set_map)
    have 1: "failing cw e \<subseteq> failing cw e1" "judgedNames cw e1 \<subseteq> judgedNames cw e \<union> Name ` set (storedPods cw e)"
      using assms(1) by (simp_all add: advanced_def)
    have 2: "failing cw e1 \<subseteq> failing cw e2" "judgedNames cw e2 \<subseteq> judgedNames cw e1 \<union> Name ` set (storedPods cw e1)"
      using assms(2) by (simp_all add: rolledOut_def lists)
    show "failing cw e \<subseteq> failing cw e2"
      by (rule order_trans [OF 1(1) 2(1)])
    show "judgedNames cw e2 \<subseteq> judgedNames cw e \<union> Name ` set (storedPods cw e)"
      by (rule order_trans [OF 2(2) [unfolded N]]) (rule Un_least [OF 1(2) Un_upper2])
  qed
  have deps: "shStored (clDeployments e2) = shStored (clDeployments e)"
    if "failing cw e2 = {}" "\<not> has_label (Labels d) SuspendLabel"
    using that grow(1) assms by (auto simp: advanced_def rolledOut_def lists)
  have len: "length (storedPods cw e1) = length (storedPods cw e)"
    by (rule map_eq_imp_length_eq [OF names])
  have "Labels d \<noteq> None \<Longrightarrow> Labels d' \<noteq> None"
    using assms(1) by (simp add: advanced_def)
  then have ends: "\<exists>cw' d'. findObj (obj_key cw) (shStored (clWorkloads e2)) = Some cw' \<and> cwIdentity cw' = cwIdentity cw \<and>
      findObj (obj_key d) (shStored (clDeployments e2)) = Some d' \<and> depIdentity d' = depIdentity d \<and>
      (Labels d \<noteq> None \<longrightarrow> Labels d' \<noteq> None) \<and>
      concluded cw' d' (length (storedPods cw e)) (failing cw e2 = {}) (failing cw e2) \<and>
      (failing cw e2 \<noteq> {} \<longrightarrow> rolling cw' d' e2)"
    using conjunct1 [OF assms(2) [unfolded rolledOut_def]] unfolding lists same len by (elim exE conjE) (intro exI conjI, assumption+, simp_all)
  have "length (storedChangePods cw e2) = length (storedChangePods cw e) + Suc n"
    "map Name (storedPods cw e2) = map Name (storedPods cw e)"
    "map obj_key (shStored (clPods e2)) = map obj_key (shStored (clPods e))"
    "waitingNames cw e2 = []" "Name ` set (storedPods cw e2) \<subseteq> judgedNames cw e2"
    using assms by (simp_all add: advanced_def rolledOut_def lists waitingNames_def)
  then show ?thesis
    unfolding rolledOut_def using ends deps grow by blast
qed

lemma rollout_run:
  fixes w :: "cluster world"
  defines "F \<equiv> \<lambda>cw w bs. failing cw (wExt w) \<union> failedPods (nat (cwCountThreshold (cwSpec cw))) bs (waitingNames cw (wExt w))"
  assumes "rolling cw d (wExt w)" "list_all soonAnswered bs" "distinct (map baNode bs)"
    and "length (waitingNames cw (wExt w)) = nat (cwCountThreshold (cwSpec cw)) * length bs"
    and "nodesOf (wExt w) \<inter> set (map baNode bs) = {}"
    and "clHttp (wExt w) = concat (map (batchAnswers err) bs) @ as"
    and "F cw w bs \<noteq> {} \<Longrightarrow> suspendable w d"
  shows "\<exists>t. inTurn (rollout (obj_key cw) (int (length (storedChangePods cw (wExt w)))) bs) w = (Ok (), t) \<and>
    rolledOut cw d (length bs) (wExt w) (wExt t) \<and> failing cw (wExt t) = F cw w bs \<and>
    nodesOf (wExt t) \<subseteq> nodesOf (wExt w) \<union> set (map baNode bs) \<and> clHttp (wExt t) = as \<and> wConfig t = wConfig w"
  using assms(2-)
proof (induction bs arbitrary: cw d w)
  case Nil
  then show ?case using rollout_ends [OF Nil.prems(1)] by (auto simp: F_def)
next
  case (Cons b bs)
  let ?n = "int (length (storedChangePods cw (wExt w)))" and ?c = "nat (cwCountThreshold (cwSpec cw))"
  have "0 < cwCountThreshold (cwSpec cw)"
    using Cons.prems(1) by (simp add: rolling_def)
  then have enough: "cwCountThreshold (cwSpec cw) \<le> int (length (waitingNames cw (wExt w)))"
    using Cons.prems(4) by simp
  have guard: "suspendable w d" if "failing cw (wExt w) \<noteq> {}"
    using that Cons.prems(7) by (simp add: F_def)
  obtain t cw1 d1 cp where t: "ChangeWorkload_Reconcile clusterEnv (obj_key cw) w = (Ok (), t)"
    "created cw d (wExt w) cw1 d1 cp (wExt t)" "wConfig t = wConfig w"
    by (rule round_creates [OF Cons.prems(1) _ guard]) (use enough in \<open>simp_all add: waitingNames_def\<close>)
  let ?u = "t\<lparr>wExt := syncCluster (wExt t)\<rparr>"
  have fresh: "\<forall>ob\<in>set (shStored (clChangePods (wExt w))). cpChangePodId (cpStatus ob) \<noteq> baNode b"
    using Cons.prems(5) by (force simp: nodesOf_def)
  obtain v where v: "inTurn (wholeLife (nthKey (obj_key cw) (?n + 1)) (baNode b) (baVerdict b)) ?u = (Ok (), v)"
    "advanced cw d (wExt w) b cw1 d1 (wExt v)" "clHttp (wExt v) = concat (map (batchAnswers err) bs) @ as" "wConfig v = wConfig w"
    by (rule batch_checked [OF Cons.prems(1), of cw1 d1 cp ?u b err "concat (map (batchAnswers err) bs) @ as"])
      (use t(2,3) enough fresh Cons.prems(2,6) in auto)
  have same: "cwIdentity cw1 = cwIdentity cw" "waitingNames cw (wExt v) = drop ?c (waitingNames cw (wExt w))"
    "failing cw (wExt v) = failing cw (wExt w) \<union> failsOf ?c b (waitingNames cw (wExt w))"
    and ready: "rolling cw1 d1 (wExt v)"
    using v(2) by (simp_all add: advanced_def)
  note lists = cwIdentity_lists [OF same(1)] cwIdentityD(5,6) [OF same(1)]
  have waiting: "waitingNames cw1 = waitingNames cw"
    by (simp add: fun_eq_iff waitingNames_def lists)
  have F: "F cw1 v bs = F cw w (b # bs)"
    by (simp add: F_def lists waiting same(2,3) Un_assoc)
  have "suspendable v d1" if "F cw1 v bs \<noteq> {}"
    using that Cons.prems(7) v(2,4) unfolding F by (simp add: suspendable_def advanced_def)
  moreover have nodes: "nodesOf (wExt v) = insert (baNode b) (nodesOf (wExt w))"
    using v(2) by (auto simp: advanced_def nodesOf_def)
  then have "nodesOf (wExt v) \<inter> set (map baNode bs) = {}"
    using Cons.prems(3,5) by auto
  ultimately have "\<exists>t. inTurn (rollout (obj_key cw1) (int (length (storedChangePods cw1 (wExt v)))) bs) v = (Ok (), t) \<and>
      rolledOut cw1 d1 (length bs) (wExt v) (wExt t) \<and> failing cw1 (wExt t) = F cw1 v bs \<and>
      nodesOf (wExt t) \<subseteq> nodesOf (wExt v) \<union> set (map baNode bs) \<and> clHttp (wExt t) = as \<and> wConfig t = wConfig v"
    using Cons.prems(2-4) v(3) by (intro Cons.IH [OF ready]) (simp_all add: lists waiting same(2))
  moreover have "int (length (storedChangePods cw1 (wExt v))) = ?n + 1"
    using v(2) by (simp add: advanced_def lists)
  ultimately show ?case
    using rolledOut_step [OF v(2)] v(4) by (auto simp: F nodes inTurn_Cons [where
        m = "ChangeWorkload_Reconcile clusterEnv (obj_key cw)", OF t(1)] inTurn_append [OF v(1)] lists)
qed

text \<open>
  C6 (liveness). While the blocking switch is on, the verdicts decide how a rollout ends.
  On the reference cluster, with caches that catch up between the steps, take a ChangeWorkload
  between two batches, whose Deployment wants as many replicas as it has pods and whose waiting
  pods are exactly \<open>length bs\<close> batches of the size of its positive threshold; the control plane
  gives every batch a new node id and refuses up to four attempts of every announcement. Let \<open>F\<close>
  be the pods that had failed before or are in a batch whose verdict is not \<open>pass\<close>, and suppose, in
  case there is any, that the blocking switch is ready and on and that the label map of the
  Deployment is not nil. Then the ChangeWorkload gets one ChangePod per batch, created, announced,
  checked and closed in turn. If \<open>F\<close> is empty, it ends as successful and the webhook admits the
  updates of the Deployment; otherwise it ends as suspended, names exactly the pods of \<open>F\<close>, and the
  webhook denies every update that does not ignore the suspension. (With the switch off the
  Deployment gets no suspend label; the property says nothing about failures then.)
\<close>

theorem verdicts_decide_rollout:
  fixes w :: "cluster world"
  assumes "rolling cw d (wExt w)" "list_all soonAnswered bs" "distinct (map baNode bs)"
    and "length (waitingNames cw (wExt w)) = nat (cwCountThreshold (cwSpec cw)) * length bs"
    and "nodesOf (wExt w) \<inter> set (map baNode bs) = {}"
    and "clHttp (wExt w) = concat (map (batchAnswers err) bs) @ as"
  defines "F \<equiv> failing cw (wExt w) \<union> failedPods (nat (cwCountThreshold (cwSpec cw))) bs (waitingNames cw (wExt w))"
  assumes "F \<noteq> {} \<Longrightarrow> suspendable w d"
  shows "\<exists>t cw' d'. inTurn (rollout (obj_key cw) (int (length (storedChangePods cw (wExt w)))) bs) w = (Ok (), t) \<and>
    findObj (obj_key cw) (shStored (clWorkloads (wExt t))) = Some cw' \<and>
    findObj (obj_key d) (shStored (clDeployments (wExt t))) = Some d' \<and> depTemplate d' = depTemplate d \<and>
    length (storedChangePods cw (wExt t)) = length (storedChangePods cw (wExt w)) + length bs \<and>
    map Name (storedPods cw (wExt t)) = map Name (storedPods cw (wExt w)) \<and>
    Name ` set (storedPods cw (wExt t)) \<subseteq> verdictNames passedBy cw (wExt t) \<union> F \<and>
    changeWorkloadState cw' = (if F = {} then Success else Suspend) \<and>
    psPod ` set (cwDefenseCheckFailPods (cwStatus cw')) = F \<and>
    (\<forall>new. \<not> has_label (Labels new) IgnoredSuspendLabel \<longrightarrow> Validator_Handle (sampleRequest new d') =
       (if F = {} then Allowed '''' else Denied (''deployment '' @ Name d @ '' is suspended'')))"
proof -
  obtain t where t: "inTurn (rollout (obj_key cw) (int (length (storedChangePods cw (wExt w)))) bs) w = (Ok (), t)"
    "rolledOut cw d (length bs) (wExt w) (wExt t)" "failing cw (wExt t) = F"
    using rollout_run [OF assms(1-6)] assms(8) unfolding F_def by blast
  have "Name ` set (storedPods cw (wExt t)) \<subseteq> verdictNames passedBy cw (wExt t) \<union> F"
    using rolledOut_passed [OF t(2)] t(3) by simp
  moreover obtain cw' d' where "findObj (obj_key cw) (shStored (clWorkloads (wExt t))) = Some cw'"
    "findObj (obj_key d) (shStored (clDeployments (wExt t))) = Some d'" "depIdentity d' = depIdentity d"
    "changeWorkloadState cw' = (if F = {} then Success else Suspend)"
    "psPod ` set (cwDefenseCheckFailPods (cwStatus cw')) = F"
    "\<forall>new. \<not> has_label (Labels new) IgnoredSuspendLabel \<longrightarrow> Validator_Handle (sampleRequest new d') =
       (if F = {} then Allowed '''' else Denied (''deployment '' @ Name d @ '' is suspended''))"
    by (rule rolledOut_end [OF t(2), unfolded t(3)])
  ultimately show ?thesis
    using t(1,2) depIdentityD(3) [of d' d]
    by (intro exI [of _ t] exI [of _ cw'] exI [of _ d']) (simp add: rolledOut_def)
qed

text \<open>
  Two pods, checked one by one; the control plane refuses the first attempt, and the second pod
  fails its check.
\<close>

definition passingBatch :: "string \<Rightarrow> nat \<Rightarrow> batchRun" where
  "passingBatch i n = \<lparr>baNode = i, baVerdict = \<lparr>cvVerdict = ChangePodVerdictPass, cvMsg = '''', cvNodeId = i\<rparr>,
     baRefused = (n, 0)\<rparr>"

definition failingBatch :: "string \<Rightarrow> batchRun" where
  "failingBatch i = (passingBatch i 0)\<lparr>baVerdict := \<lparr>cvVerdict = ''FAIL'', cvMsg = ''latency'', cvNodeId = i\<rparr>\<rparr>"

definition waitingCluster :: "batchRun list \<Rightarrow> cluster" where
  "waitingCluster bs = emptyCluster
     \<lparr>clPods := shelfOf [samplePod ''p0'' 0, samplePod ''p1'' 1], clWorkloads := shelfOf [sampleWorkload Running],
      clDeployments := shelfOf [sampleDeployment sampleLabels],
      clHttp := concat (map (batchAnswers refusedError) bs)\<rparr>"

lemma waitingCluster_simps [simp]:
  "inSync (waitingCluster bs)"
  "clPods (waitingCluster bs) = shelfOf [samplePod ''p0'' 0, samplePod ''p1'' 1]"
  "clWorkloads (waitingCluster bs) = shelfOf [sampleWorkload Running]"
  "clDeployments (waitingCluster bs) = shelfOf [sampleDeployment sampleLabels]"
  "clChangePods (waitingCluster bs) = shelfOf []"
  "clHttp (waitingCluster bs) = concat (map (batchAnswers refusedError) bs)"
  by (simp_all add: waitingCluster_def inSync_def syncCluster_def emptyCluster_def)

lemma waiting_lists:
  "storedChangePods (sampleWorkload st) (waitingCluster bs) = []"
  "storedPods (sampleWorkload st) (waitingCluster bs) = [samplePod ''p0'' 0, samplePod ''p1'' 1]"
  by (simp_all add: storedChangePods_def storedPods_def shelfOf_def)
    (simp add: selected_def podsOf_def anyOpts_def podKind_def samplePod_def
      sampleWorkload_def sampleLabels_def get_label_def objectMeta.extend_def)

lemma samplePod_waits:
  "Name (samplePod n v) = n" "isFinished (samplePod n v)" "preparing (samplePod n v)"
  by (simp_all add: samplePod_def objectMeta.extend_def isFinished_def preparing_def isDefensed_def has_label_def
      OperateFinishedLabel_def DefenseStatusLabel_def AdmissionWebhookVersionLabel_def)

lemma waiting_rolling: "rolling (sampleWorkload Running) (sampleDeployment sampleLabels) (waitingCluster bs)"
proof -
  have "ownerOf (sampleWorkload Running) (sampleDeployment sampleLabels) (waitingCluster bs)"
    unfolding ownerOf_def
    by (rule exI [of _ "\<lparr>refKind = DeploymentKind, refName = ''app''\<rparr>"])
      (simp add: shelfOf_def, simp add: sampleWorkload_def sampleDeployment_def obj_key_def)
  moreover have "settled (sampleWorkload Running) (waitingCluster bs)"
    by (simp add: settled_def waiting_lists samplePod_waits judgedNames_def verdictNames_def)
      (simp add: shelfOf_def samplePod_waits obj_key_def)
  moreover have "Namespace (sampleWorkload Running) \<noteq> ''''" "CHR ''['' \<notin> set (Name (sampleWorkload Running))"
    "cwCountThreshold (cwSpec (sampleWorkload Running)) = 1" "depReplicas (sampleDeployment l) = Some 2"
    "cwDefenseCheckFailPods (cwStatus (sampleWorkload Running)) = []" for l
    by (simp_all add: sampleWorkload_def sampleDeployment_def zeroChangeWorkloadStatus_def)
  moreover have "poised (sampleWorkload Running) (sampleDeployment sampleLabels) 2"
    by (simp add: poised_def sampleWorkload_def sampleDeployment_def zeroChangeWorkloadStatus_def sampleLabels_def
        has_label_def SuspendLabel_def DeploymentNameLabel_def AdmissionWebhookVersionLabel_def)
  ultimately show ?thesis
    by (simp add: rolling_def waiting_lists shelfOf_def numeral_2_eq_2)
qed

lemma waiting_suspendable: "suspendable (worldOf e) (sampleDeployment sampleLabels)"
  by (simp add: suspendable_def worldOf_def readyConfig_def initialConfig_def Let_def sampleDeployment_def sampleLabels_def)

lemma waiting_failing: "failing (sampleWorkload st) (waitingCluster bs) = {}"
  "waitingNames (sampleWorkload st) (waitingCluster bs) = [''p0'', ''p1'']" "nodesOf (waitingCluster bs) = {}"
  by (simp_all add: failing_def verdictNames_def waitingNames_def waiting_lists samplePod_waits nodesOf_def shelfOf_def)

theorem verdicts_decide_rollout_witness:
  "\<exists>t cw d. inTurn (rollout (obj_key (sampleWorkload Running)) 0 [passingBatch ''7'' 1, failingBatch ''8''])
       (worldOf (waitingCluster [passingBatch ''7'' 1, failingBatch ''8''])) = (Ok (), t) \<and>
     findObj (obj_key (sampleWorkload Running)) (shStored (clWorkloads (wExt t))) = Some cw \<and>
     changeWorkloadState cw = Suspend \<and> psPod ` set (cwDefenseCheckFailPods (cwStatus cw)) = {''p1''} \<and>
     length (storedChangePods (sampleWorkload Running) (wExt t)) = 2 \<and>
     findObj (obj_key (sampleDeployment sampleLabels)) (shStored (clDeployments (wExt t))) = Some d \<and>
     Validator_Handle (sampleRequest (sampleDeployment sampleLabels) d) = Denied ''deployment app is suspended''"
proof -
  define bs where "bs = [passingBatch ''7'' 1, failingBatch ''8'']"
  have ext: "wExt (worldOf (waitingCluster bs)) = waitingCluster bs" by (simp add: worldOf_def)
  have c: "cwCountThreshold (cwSpec (sampleWorkload Running)) = 1"
    by (simp add: sampleWorkload_def)
  have bs: "list_all soonAnswered bs" "distinct (map baNode bs)" "length bs = 2"
    "failedPods 1 bs [''p0'', ''p1''] = {''p1''}"
    by (simp_all add: bs_def soonAnswered_def passingBatch_def failingBatch_def failsOf_def passes_def ChangePodVerdictPass_def)
  have d: "\<not> has_label (Labels (sampleDeployment sampleLabels)) IgnoredSuspendLabel" "Name (sampleDeployment sampleLabels) = ''app''"
    by (simp_all add: sampleDeployment_def sampleLabels_def has_label_def IgnoredSuspendLabel_def
        DeploymentNameLabel_def AdmissionWebhookVersionLabel_def)
  have F: "failing (sampleWorkload Running) (waitingCluster bs) \<union> failedPods
      (nat (cwCountThreshold (cwSpec (sampleWorkload Running)))) bs (waitingNames (sampleWorkload Running) (waitingCluster bs)) = {''p1''}"
    using bs(4) by (simp add: c waiting_failing)
  have ready: "length (waitingNames (sampleWorkload Running) (waitingCluster bs)) =
      nat (cwCountThreshold (cwSpec (sampleWorkload Running))) * length bs"
    "nodesOf (waitingCluster bs) \<inter> set (map baNode bs) = {}"
    "clHttp (waitingCluster bs) = concat (map (batchAnswers refusedError) bs) @ []"
    by (simp_all add: c bs(3) waiting_failing)
  obtain t cw d where "inTurn (rollout (obj_key (sampleWorkload Running)) 0 bs) (worldOf (waitingCluster bs)) = (Ok (), t)"
    "findObj (obj_key (sampleWorkload Running)) (shStored (clWorkloads (wExt t))) = Some cw"
    "changeWorkloadState cw = Suspend" "psPod ` set (cwDefenseCheckFailPods (cwStatus cw)) = {''p1''}"
    "length (storedChangePods (sampleWorkload Running) (wExt t)) = 2"
    "findObj (obj_key (sampleDeployment sampleLabels)) (shStored (clDeployments (wExt t))) = Some d"
    "Validator_Handle (sampleRequest (sampleDeployment sampleLabels) d) = Denied ''deployment app is suspended''"
    using verdicts_decide_rollout [where w = "worldOf (waitingCluster bs)" and cw = "sampleWorkload Running" and bs = bs, unfolded ext F,
        OF waiting_rolling bs(1,2) ready waiting_suspendable] d
    by (elim exE conjE) (auto simp: bs(3) waiting_lists)
  then show ?thesis
    unfolding bs_def [symmetric] by blast
qed

end
