(* ===== verification/Deploy_Run.thy ===== *)
theory Deploy_Run
  imports Rollout_Run Runtime_Properties
begin

section \<open>From a new version of a Deployment to the end of its rollout\<close>

text \<open>
  All controllers together: the Deployment controller creates the ChangeWorkload of the version,
  the pod controller marks the pods as finished, and the rollout of \<open>Rollout_Run\<close> follows.
\<close>

subsection \<open>The Deployment controller\<close>

definition workloadKey :: "deployment \<Rightarrow> namespacedName" where
  "workloadKey d = \<lparr>nnNamespace = Namespace d, nnName = GetChangeWorkloadNameByDeployment d\<rparr>"

definition versionOf :: "deployment \<Rightarrow> string" where
  "versionOf d = get_label (Labels d) AdmissionWebhookVersionLabel"

text \<open>The ChangeWorkload that is made for a Deployment.\<close>

definition madeFor :: "deployment \<Rightarrow> int \<Rightarrow> changeWorkload \<Rightarrow> bool" where
  "madeFor d c cw \<longleftrightarrow> obj_key cw = workloadKey d \<and> cwCountThreshold (cwSpec cw) = c \<and>
     get_label (Labels cw) AdmissionWebhookVersionLabel = versionOf d \<and>
     OwnerReferences cw = [\<lparr>refKind = DeploymentKind, refName = Name d\<rparr>] \<and> cwStatus cw = zeroChangeWorkloadStatus"

lemma cluster_create_workload:
  assumes "findObj (obj_key cw) (shStored (clWorkloads (wExt w))) = None" "cwStatus cw = zeroChangeWorkloadStatus"
  shows "\<exists>ws. call (apiCreate (changeWorkloadApi clusterEnv) cw) w =
      (Ok (cw\<lparr>ResourceVersion := shVersion (clWorkloads (wExt w))\<rparr>), w\<lparr>wExt := (wExt w)\<lparr>clWorkloads := ws\<rparr>\<rparr>) \<and>
    findObj (obj_key cw) (shStored ws) = Some (cw\<lparr>ResourceVersion := shVersion (clWorkloads (wExt w))\<rparr>)"
proof -
  have "cw\<lparr>cwStatus := zeroChangeWorkloadStatus\<rparr> = cw" using assms(2) by simp
  then show ?thesis
    using assms(1)
    by (simp add: call_def onPart_def shelfApi_def changeWorkloadKind_def storeObj_def Let_def
        zeroChangeWorkload_def objectMeta.extend_def)
      (rule exI, rule conjI, rule refl, simp add: findObj_put)
qed

lemma cluster_createNewChangeWorkload:
  assumes "findObj (workloadKey d) (shStored (clWorkloads (wExt w))) = None"
    and "countThreshold clusterEnv (depReplicas d) w = (Ok c, w)"
  shows "\<exists>cw ws. createNewChangeWorkload clusterEnv d w = (Ok cw, w\<lparr>wExt := (wExt w)\<lparr>clWorkloads := ws\<rparr>\<rparr>) \<and>
    madeFor d c cw \<and> findObj (workloadKey d) (shStored ws) = Some cw"
proof -
  obtain now where now: "GetNowTime clusterEnv w = (Ok now, w)" by (rule cluster_GetNowTime)
  obtain cw where cw: "ChangeWorkloadFactory_NewInstance clusterEnv \<lparr>facDeployment = d, facReplicas = depReplicas d\<rparr> w = (Ok cw, w)"
    using assms(2) now by (simp add: ChangeWorkloadFactory_NewInstance_def Let_def bindM_def cluster_clock ret_def)
  let ?cw = "cw\<lparr>OwnerReferences := [\<lparr>refKind = DeploymentKind, refName = Name d\<rparr>]\<rparr>"
  have made: "madeFor d c (?cw\<lparr>ResourceVersion := v\<rparr>)" for v
    using cw assms(2) by (elim ChangeWorkloadFactory_result)
      (simp add: madeFor_def workloadKey_def versionOf_def obj_key_def zero_defs get_label_def)
  then have key: "obj_key ?cw = workloadKey d" and status: "cwStatus ?cw = zeroChangeWorkloadStatus"
    by (simp_all add: madeFor_def)
  have "createNewChangeWorkload clusterEnv d w = call (apiCreate (changeWorkloadApi clusterEnv) ?cw) w"
    using cw by (simp add: createNewChangeWorkload_def bindM_def)
  then show ?thesis
    using cluster_create_workload [of ?cw w] assms(1) key status made by auto
qed

text \<open>What the reconcile of the Deployment leaves behind.\<close>

definition deployed :: "deployment \<Rightarrow> int \<Rightarrow> cluster \<Rightarrow> cluster \<Rightarrow> bool" where
  "deployed d c e e' \<longleftrightarrow> (\<exists>cw. madeFor d c cw \<and> findObj (workloadKey d) (shStored (clWorkloads e')) = Some cw) \<and>
     (\<exists>d'. findObj (obj_key d) (shStored (clDeployments e')) = Some d' \<and> depReplicas d' = depReplicas d \<and>
        depTemplate d' = depTemplate d \<and> isDefensed (Labels d') \<and> \<not> has_label (Labels d') SuspendLabel) \<and>
     shStored (clPods e') = shStored (clPods e) \<and> shStored (clChangePods e') = shStored (clChangePods e) \<and>
     clHttp e' = clHttp e"

lemma cluster_defense:
  assumes "findObj (obj_key d) (shStored (clDeployments (wExt w))) = Some d" "Labels d \<noteq> None"
    and "\<not> isDefensed (Labels d)" "\<not> has_label (Labels d) SuspendLabel"
  shows "\<exists>ds d'. defenseProcessedDeployment clusterEnv d w = (Ok (), w\<lparr>wExt := (wExt w)\<lparr>clDeployments := ds\<rparr>\<rparr>) \<and>
    findObj (obj_key d) (shStored ds) = Some d' \<and> depReplicas d' = depReplicas d \<and> depTemplate d' = depTemplate d \<and>
    isDefensed (Labels d') \<and> \<not> has_label (Labels d') SuspendLabel"
proof -
  let ?l = "delete_label IgnoredSuspendLabel (put_label DefenseStatusLabel DefenseStatusLabelProcessed (Labels d))"
  have "isDefensed (mergeLabels (Labels d) ?l (Labels d))" "\<not> has_label (mergeLabels (Labels d) ?l (Labels d)) SuspendLabel"
    using assms(2-4)
    by (auto simp: mergeLabels_def isDefensed_def has_label_def merged_def lookup_label_def delete_label_def put_label_def)
  then show ?thesis
    using assms(1,2)
    by (simp add: defenseProcessedDeployment_def set_label_Ok bindM_def call_def onPart_def shelf_writes
        putOver_def storeObj_def Let_def deploymentKind_def ret_def)
      (rule exI, rule conjI, rule refl, simp add: findObj_put)
qed

lemma cluster_Deployment_Reconcile:
  fixes w :: "cluster world"
  assumes "inSync (wExt w)" "findObj (obj_key d) (shStored (clDeployments (wExt w))) = Some d"
    and "Deployment_handleEvent (Labels d)" "\<not> has_label (Labels d) SuspendLabel"
    and "findObj (workloadKey d) (shStored (clWorkloads (wExt w))) = None"
    and "countThreshold clusterEnv (depReplicas d) w = (Ok c, w)"
  shows "\<exists>t. Deployment_Reconcile clusterEnv (obj_key d) w = (Ok (), t) \<and> deployed d c (wExt w) (wExt t) \<and>
    wConfig t = wConfig w"
proof -
  have labels: "\<not> isDefensed (Labels d)" "Labels d \<noteq> None"
    using assms(3) by (cases "Labels d"; simp add: Deployment_handleEvent_def isAdmissionWebhook_def Let_def)+
  obtain cw ws where cw: "createNewChangeWorkload clusterEnv d w = (Ok cw, w\<lparr>wExt := (wExt w)\<lparr>clWorkloads := ws\<rparr>\<rparr>)"
    "madeFor d c cw" "findObj (workloadKey d) (shStored ws) = Some cw"
    using cluster_createNewChangeWorkload [OF assms(5,6)] by blast
  let ?w1 = "w\<lparr>wExt := (wExt w)\<lparr>clWorkloads := ws\<rparr>\<rparr>"
  obtain ds d' where d': "defenseProcessedDeployment clusterEnv d ?w1 = (Ok (), ?w1\<lparr>wExt := (wExt ?w1)\<lparr>clDeployments := ds\<rparr>\<rparr>)"
    "findObj (obj_key d) (shStored ds) = Some d'" "depReplicas d' = depReplicas d" "depTemplate d' = depTemplate d"
    "isDefensed (Labels d')" "\<not> has_label (Labels d') SuspendLabel"
    using cluster_defense [of d ?w1] assms(2,4) labels by auto
  have create: "getOrCreateChangeWorkload clusterEnv d w = (Ok cw, ?w1)"
    using assms(5) cw(1) inSync_cached(2) [OF assms(1)]
    by (simp add: getOrCreateChangeWorkload_def getChangeWorkloadByDeployment'_def bindM_def attempt_def cluster_simps
        workloadKey_def)
  have "Deployment_Reconcile clusterEnv (obj_key d) w = (Ok (), ?w1\<lparr>wExt := (wExt ?w1)\<lparr>clDeployments := ds\<rparr>\<rparr>)"
    using assms(2) labels(1) d'(1) inSync_cached(4) [OF assms(1)]
    by (simp add: Deployment_Reconcile_def bindM_def attempt_def cluster_simps create)
  then show ?thesis
    using cw(2,3) d'(2-6) by (simp add: deployed_def)
qed

subsection \<open>The pod controller\<close>

text \<open>
  The pods under the keys \<open>K\<close> are finished; all pods keep their names, versions and check marks,
  and what was finished stays so.
\<close>

definition finishedPods :: "namespacedName set \<Rightarrow> pod list \<Rightarrow> pod list \<Rightarrow> bool" where
  "finishedPods K before after \<longleftrightarrow>
     list_all2 (\<lambda>p q. obj_key q = obj_key p \<and>
       lookup_label (Labels q) AdmissionWebhookVersionLabel = lookup_label (Labels p) AdmissionWebhookVersionLabel \<and>
       isDefensed (Labels q) = isDefensed (Labels p) \<and> (isFinished p \<longrightarrow> isFinished q)) before after \<and>
     (\<forall>k\<in>K. \<exists>q. findObj k after = Some q \<and> isFinished q)"

text \<open>Only the pods have changed, and the caches are up to date.\<close>

definition besidesPods :: "cluster \<Rightarrow> cluster \<Rightarrow> bool" where
  "besidesPods e e' \<longleftrightarrow> inSync e' \<and> shStored (clWorkloads e') = shStored (clWorkloads e) \<and>
     shStored (clDeployments e') = shStored (clDeployments e) \<and>
     shStored (clChangePods e') = shStored (clChangePods e) \<and> clHttp e' = clHttp e"

definition withFinished :: "string \<Rightarrow> nat \<Rightarrow> pod \<Rightarrow> pod" where
  "withFinished t v p = p\<lparr>Labels := put_label OperateFinishedLabel t (Labels p), ResourceVersion := v\<rparr>"

lemma withFinished_sel:
  assumes "Labels p \<noteq> None"
  shows "obj_key (withFinished t v p) = obj_key p" "isFinished (withFinished t v p)"
    "lookup_label (Labels (withFinished t v p)) AdmissionWebhookVersionLabel = lookup_label (Labels p) AdmissionWebhookVersionLabel"
    "isDefensed (Labels (withFinished t v p)) = isDefensed (Labels p)"
  using assms by (auto simp: withFinished_def obj_key_def isFinished_def isDefensed_def has_label_def)

lemma cluster_Pod_Reconcile:
  fixes w :: "cluster world"
  assumes "inSync (wExt w)" "findObj k (shStored (clPods (wExt w))) = Some p" "Labels p \<noteq> None"
  shows "\<exists>ps. Pod_Reconcile clusterEnv k w = (Ok (), w\<lparr>wExt := (wExt w)\<lparr>clPods := ps\<rparr>\<rparr>) \<and>
    finishedPods {k} (shStored (clPods (wExt w))) (shStored ps)"
proof (cases "isFinished p")
  case True
  then have "Pod_Reconcile clusterEnv k w = (Ok (), w)"
    using assms inSync_cached(3) [OF assms(1)]
    by (simp add: Pod_Reconcile_def bindM_def attempt_def cluster_simps ret_def)
  then show ?thesis
    using True assms(2) by (intro exI [of _ "clPods (wExt w)"]) (simp add: finishedPods_def list_all2_refl)
next
  case False
  let ?t = "itoa (time_unix (clNow (wExt w)))" and ?v = "shVersion (clPods (wExt w))"
  let ?p = "p\<lparr>Labels := put_label OperateFinishedLabel ?t (Labels p)\<rparr>"
  have key: "obj_key p = k" using findObj_key [OF assms(2)] by simp
  have "\<exists>ps ob. call (apiUpdate (podApi clusterEnv) ?p) w = (Ok ob, w\<lparr>wExt := (wExt w)\<lparr>clPods := ps\<rparr>\<rparr>) \<and>
      shStored ps = putObj (withFinished ?t ?v p) (shStored (clPods (wExt w)))"
    using assms(2) key
    by (simp add: call_def onPart_def shelf_writes putIfCurrent_def podKind_def storeObj_def Let_def withFinished_def)
      (rule exI, rule conjI, rule refl, simp)
  then obtain ps ob where ps: "call (apiUpdate (podApi clusterEnv) ?p) w = (Ok ob, w\<lparr>wExt := (wExt w)\<lparr>clPods := ps\<rparr>\<rparr>)"
    "shStored ps = putObj (withFinished ?t ?v p) (shStored (clPods (wExt w)))"
    by blast
  have "Pod_Reconcile clusterEnv k w = (Ok (), w\<lparr>wExt := (wExt w)\<lparr>clPods := ps\<rparr>\<rparr>)"
    using False assms(2,3) ps(1) inSync_cached(3) [OF assms(1)]
    by (simp add: Pod_Reconcile_def markAsFinished_def bindM_def attempt_def cluster_simps set_label_Ok ret_def)
  moreover have "finishedPods {k} (shStored (clPods (wExt w))) (shStored ps)"
    unfolding finishedPods_def ps(2)
    by (intro conjI list_all2_putObj [where R = "(=)" and cur = p])
      (use assms(2) key withFinished_sel [OF assms(3)] in \<open>auto simp: findObj_put list.rel_eq\<close>)
  ultimately show ?thesis by blast
qed

lemma list_all2_findObj:
  assumes "list_all2 R before after" "\<And>p q. R p q \<Longrightarrow> obj_key q = obj_key p" "findObj k before = Some p"
  shows "\<exists>q. findObj k after = Some q \<and> R p q"
  using assms(1,3) by (induction rule: list_all2_induct) (auto simp: assms(2) split: if_splits)

lemma finishedPods_Cons:
  assumes "finishedPods {k} a b" "finishedPods K b c"
  shows "finishedPods (insert k K) a c"
proof -
  let ?R = "\<lambda>p q. obj_key q = obj_key p \<and>
       lookup_label (Labels q) AdmissionWebhookVersionLabel = lookup_label (Labels p) AdmissionWebhookVersionLabel \<and>
       isDefensed (Labels q) = isDefensed (Labels p) \<and> (isFinished p \<longrightarrow> isFinished q)"
  have ab: "list_all2 ?R a b" and bc: "list_all2 ?R b c"
    using assms by (simp_all add: finishedPods_def)
  have "list_all2 ?R a c"
    by (rule list_all2_trans [OF _ ab bc]) auto
  moreover have "\<exists>q. findObj k c = Some q \<and> isFinished q"
    using list_all2_findObj [OF bc] assms(1) by (fastforce simp: finishedPods_def)
  ultimately show ?thesis
    using assms(2) by (simp add: finishedPods_def)
qed

lemma finish_all:
  fixes w :: "cluster world"
  assumes "inSync (wExt w)" "\<forall>k\<in>set ks. \<exists>p. findObj k (shStored (clPods (wExt w))) = Some p \<and> isHasVersion p"
  shows "\<exists>t. inTurn (map (Pod_Reconcile clusterEnv) ks) w = (Ok (), t) \<and> wConfig t = wConfig w \<and>
    besidesPods (wExt w) (wExt t) \<and> finishedPods (set ks) (shStored (clPods (wExt w))) (shStored (clPods (wExt t)))"
  using assms
proof (induction ks arbitrary: w)
  case Nil
  then show ?case by (simp add: inTurn_def ret_def besidesPods_def finishedPods_def list_all2_refl)
next
  case (Cons k ks)
  obtain ps where ps: "Pod_Reconcile clusterEnv k w = (Ok (), w\<lparr>wExt := (wExt w)\<lparr>clPods := ps\<rparr>\<rparr>)"
    "finishedPods {k} (shStored (clPods (wExt w))) (shStored ps)"
    using cluster_Pod_Reconcile [OF Cons.prems(1) _ isHasVersion_alloc] Cons.prems(2) by force
  define u where "u = w\<lparr>wExt := syncCluster ((wExt w)\<lparr>clPods := ps\<rparr>)\<rparr>"
  have u: "inSync (wExt u)" "besidesPods (wExt w) (wExt u)" "shStored (clPods (wExt u)) = shStored ps" "wConfig u = wConfig w"
    by (simp_all add: u_def besidesPods_def) (simp_all add: syncCluster_def syncShelf_def)
  have "\<exists>q. findObj k' (shStored (clPods (wExt u))) = Some q \<and> isHasVersion q" if "k' \<in> set ks" for k'
    using list_all2_findObj [OF conjunct1 [OF ps(2) [unfolded finishedPods_def]], of k'] Cons.prems(2) that u(3)
    by (fastforce simp: isHasVersion_def has_label_def)
  then obtain t where "inTurn (map (Pod_Reconcile clusterEnv) ks) u = (Ok (), t)" "wConfig t = wConfig u" "besidesPods (wExt u) (wExt t)"
    "finishedPods (set ks) (shStored ps) (shStored (clPods (wExt t)))"
    using Cons.IH [OF u(1)] u(3) by auto
  then show ?case
    using finishedPods_Cons [OF ps(2)] u(2,4)
    by (simp add: inTurn_Cons [where m = "Pod_Reconcile clusterEnv k", OF ps(1)] u_def [symmetric] besidesPods_def)
qed

subsection \<open>A new version\<close>

definition versionPodsOf :: "deployment \<Rightarrow> cluster \<Rightarrow> pod list" where
  "versionPodsOf d e = filter (selected (ksIndex podKind) (anyOpts\<lparr>inNamespace := Some (Namespace d),
     matchingLabels := [(AdmissionWebhookVersionLabel, versionOf d)]\<rparr>)) (shStored (clPods e))"

text \<open>
  The webhook has given the Deployment a version that is new: its event passes the filter of the
  Deployment controller, there is no ChangeWorkload and no ChangePod of the version yet, and the
  pods of the version run, as many as the Deployment has replicas, and wait for the pod
  controller.
\<close>

definition newVersion :: "deployment \<Rightarrow> cluster \<Rightarrow> bool" where
  "newVersion d e \<longleftrightarrow> inSync e \<and> findObj (obj_key d) (shStored (clDeployments e)) = Some d \<and>
     Deployment_handleEvent (Labels d) \<and> \<not> has_label (Labels d) SuspendLabel \<and>
     Namespace d \<noteq> '''' \<and> CHR ''['' \<notin> set (GetChangeWorkloadNameByDeployment d) \<and>
     findObj (workloadKey d) (shStored (clWorkloads e)) = None \<and>
     (\<forall>cp\<in>set (shStored (clChangePods e)). cpChangeWorkloadId (cpSpec cp) \<noteq> GetChangeWorkloadNameByDeployment d \<and>
        (\<forall>i. obj_key cp \<noteq> nthKey (workloadKey d) i)) \<and>
     depReplicas d = Some (int (length (versionPodsOf d e))) \<and> distinct (map obj_key (shStored (clPods e))) \<and>
     (\<forall>p\<in>set (versionPodsOf d e). Pod_handleCreateEvent (PodObject p) \<and> \<not> isDefensed (Labels p))"

lemma versionPodsOf_found:
  assumes "newVersion d e" "k \<in> obj_key ` set (versionPodsOf d e)"
  shows "\<exists>p. findObj k (shStored (clPods e)) = Some p \<and> isHasVersion p"
proof -
  obtain p where p: "p \<in> set (versionPodsOf d e)" "k = obj_key p" using assms(2) by blast
  then have "findObj k (shStored (clPods e)) = Some p"
    using assms(1) by (auto simp: newVersion_def versionPodsOf_def intro: findObj_distinct)
  moreover have "isHasVersion p"
    using assms(1) p(1) by (fastforce simp: newVersion_def Pod_handleCreateEvent_iff simp del: Pod_handleCreateEvent.simps)
  ultimately show ?thesis by blast
qed

lemma finished_waiting:
  assumes "newVersion d e" "podsOf cw = anyOpts\<lparr>inNamespace := Some (Namespace d),
      matchingLabels := [(AdmissionWebhookVersionLabel, versionOf d)]\<rparr>"
    and pods: "finishedPods (obj_key ` set (versionPodsOf d e)) (shStored (clPods e)) (shStored (clPods e'))"
  shows "map Name (storedPods cw e') = map Name (versionPodsOf d e)" "\<forall>q\<in>set (storedPods cw e'). isFinished q \<and> preparing q"
    "distinct (map obj_key (shStored (clPods e')))"
proof -
  let ?R = "\<lambda>p q. obj_key q = obj_key p \<and>
       lookup_label (Labels q) AdmissionWebhookVersionLabel = lookup_label (Labels p) AdmissionWebhookVersionLabel \<and>
       isDefensed (Labels q) = isDefensed (Labels p) \<and> (isFinished p \<longrightarrow> isFinished q)"
  have all: "list_all2 ?R (shStored (clPods e)) (shStored (clPods e'))"
    using pods by (simp add: finishedPods_def)
  have rows: "list_all2 ?R (versionPodsOf d e) (storedPods cw e')"
    unfolding versionPodsOf_def storedPods_def assms(2)
    by (rule list_all2_filter [OF all]) (auto simp: selected_def anyOpts_def obj_key_def)
  show "map Name (storedPods cw e') = map Name (versionPodsOf d e)"
    using rows by (induction rule: list_all2_induct) (auto simp: obj_key_def)
  have "map obj_key (shStored (clPods e')) = map obj_key (shStored (clPods e))"
    using all by (induction rule: list_all2_induct) auto
  then show dist: "distinct (map obj_key (shStored (clPods e')))"
    using assms(1) by (simp add: newVersion_def)
  show "\<forall>q\<in>set (storedPods cw e'). isFinished q \<and> preparing q"
  proof
    fix q
    assume q: "q \<in> set (storedPods cw e')"
    then obtain p where p: "p \<in> set (versionPodsOf d e)" "?R p q"
      using list_all2_preimage [OF rows] by blast
    have "findObj (obj_key q) (shStored (clPods e')) = Some q"
      using q by (intro findObj_distinct [OF dist]) (simp add: storedPods_def)
    then have "isFinished q"
      using pods p by (auto simp: finishedPods_def)
    then show "isFinished q \<and> preparing q"
      using p assms(1) by (simp add: preparing_def newVersion_def)
  qed
qed

lemma rolling_start:
  assumes new: "newVersion d e" "versionPodsOf d e \<noteq> []" "0 < c"
    and cw: "madeFor d c cw" "cwIdentity cw' = cwIdentity cw" "changeWorkloadState cw' = Running"
      "cwDefenseCheckPassPods (cwStatus cw') = []" "cwDefenseCheckFailPods (cwStatus cw') = []"
      "findObj (workloadKey d) (shStored (clWorkloads e')) = Some cw'"
    and d': "findObj (obj_key d) (shStored (clDeployments e')) = Some d'" "depReplicas d' = depReplicas d"
      "\<not> has_label (Labels d') SuspendLabel"
    and "shStored (clChangePods e') = shStored (clChangePods e)" "inSync e'"
    and pods: "finishedPods (obj_key ` set (versionPodsOf d e)) (shStored (clPods e)) (shStored (clPods e'))"
  shows "rolling cw' d' e'" "obj_key cw' = workloadKey d" "cwCountThreshold (cwSpec cw') = c"
    "waitingNames cw' e' = map Name (versionPodsOf d e)" "storedChangePods cw' e' = []"
    "map Name (storedPods cw' e') = map Name (versionPodsOf d e)"
proof -
  note same = cwIdentityD [OF cw(2)]
  show key: "obj_key cw' = workloadKey d" and c: "cwCountThreshold (cwSpec cw') = c"
    using cw(1) same by (simp_all add: madeFor_def)
  then have meta: "Namespace cw' = Namespace d" "Name cw' = GetChangeWorkloadNameByDeployment d"
    by (simp_all add: obj_key_def workloadKey_def)
  have "podsOf cw' = anyOpts\<lparr>inNamespace := Some (Namespace d), matchingLabels := [(AdmissionWebhookVersionLabel, versionOf d)]\<rparr>"
    using cw(1) same meta by (simp add: podsOf_def madeFor_def)
  note waiting = finished_waiting [OF new(1) this pods]
  have "filter preparing (storedPods cw' e') = storedPods cw' e'"
    using waiting(2) by (simp add: filter_id_conv)
  then show "waitingNames cw' e' = map Name (versionPodsOf d e)"
    using waiting(1) by (simp add: waitingNames_def)
  show "map Name (storedPods cw' e') = map Name (versionPodsOf d e)"
    by (rule waiting(1))
  show none: "storedChangePods cw' e' = []"
    using new(1) assms(13) by (auto simp: storedChangePods_def selected_def changePodsOf_def anyOpts_def meta changePodIndex_def
        newVersion_def filter_empty_conv ChangePodFieldStatus_def ChangePodFieldChangePodId_def ChangePodFieldChangeWorkloadId_def)
  have "settled cw' e'"
    using new(1) waiting(2,3) by (simp add: settled_def none assms(13) key verdictNames_def judgedNames_def newVersion_def)
  moreover have "ownerOf cw' d' e'"
    using cw(1) same meta d'(1) inSync_cached(4) [OF assms(14)] by (simp add: ownerOf_def madeFor_def obj_key_def)
  ultimately show "rolling cw' d' e'"
    using new cw d' map_eq_imp_length_eq [OF waiting(1)] c key meta assms(14) by (simp add: rolling_def poised_def newVersion_def none)
qed

lemma init_runs:
  fixes w :: "cluster world"
  assumes "inSync (wExt w)" "findObj (obj_key cw) (shStored (clWorkloads (wExt w))) = Some cw"
    and "CHR ''['' \<notin> set (Name cw)" "changeWorkloadState cw = Init"
  shows "\<exists>ws. ChangeWorkload_Reconcile clusterEnv (obj_key cw) w = (Ok (), w\<lparr>wExt := (wExt w)\<lparr>clWorkloads := ws\<rparr>\<rparr>) \<and>
    statusWritten (cw\<lparr>cwStatus := (cwStatus cw)\<lparr>cwStatusStatus := Running\<rparr>\<rparr>) cw ws"
  using cluster_updateWorkloadStatus [of "cw\<lparr>cwStatus := (cwStatus cw)\<lparr>cwStatusStatus := Running\<rparr>\<rparr>" w cw] assms(2,4)
  by (auto simp: reconcile_dispatch [OF assms(1-3)] ChangeWorkload_dispatch_def initChangeWorkloadHandle_def bindM_def
      ret_def)

text \<open>The controllers in sequence: the Deployment, its pods, the ChangeWorkload, the batches.\<close>

definition deployAndRollOut :: "deployment \<Rightarrow> pod list \<Rightarrow> batchRun list \<Rightarrow> (cluster world, unit) prog list" where
  "deployAndRollOut d ps bs =
     ((Deployment_Reconcile clusterEnv (obj_key d) # map (Pod_Reconcile clusterEnv) (map obj_key ps)) @
      [ChangeWorkload_Reconcile clusterEnv (workloadKey d)]) @ rollout (workloadKey d) 0 bs"

text \<open>The first two controllers.\<close>

lemma newVersion_finished:
  fixes w :: "cluster world"
  assumes new: "newVersion d (wExt w)" and "countThreshold clusterEnv (depReplicas d) w = (Ok c, w)"
  obtains t cw d' where
    "inTurn (Deployment_Reconcile clusterEnv (obj_key d) #
       map (Pod_Reconcile clusterEnv) (map obj_key (versionPodsOf d (wExt w)))) w = (Ok (), t)" "inSync (wExt t)"
    "madeFor d c cw" "findObj (workloadKey d) (shStored (clWorkloads (wExt t))) = Some cw"
    "findObj (obj_key d) (shStored (clDeployments (wExt t))) = Some d'" "depReplicas d' = depReplicas d"
    "depTemplate d' = depTemplate d" "Labels d' \<noteq> None" "\<not> has_label (Labels d') SuspendLabel" "wConfig t = wConfig w"
    "shStored (clChangePods (wExt t)) = shStored (clChangePods (wExt w))" "clHttp (wExt t) = clHttp (wExt w)"
    "finishedPods (obj_key ` set (versionPodsOf d (wExt w))) (shStored (clPods (wExt w))) (shStored (clPods (wExt t)))"
proof -
  let ?ks = "map obj_key (versionPodsOf d (wExt w))"
  obtain t1 where t1: "Deployment_Reconcile clusterEnv (obj_key d) w = (Ok (), t1)" "deployed d c (wExt w) (wExt t1)"
    "wConfig t1 = wConfig w"
    using cluster_Deployment_Reconcile [OF _ _ _ _ _ assms(2)] new by (auto simp: newVersion_def)
  define u where "u = t1\<lparr>wExt := syncCluster (wExt t1)\<rparr>"
  have u: "inSync (wExt u)" "deployed d c (wExt w) (wExt u)" "wConfig u = wConfig w"
    using t1(2,3) by (simp_all add: u_def deployed_def) (simp_all add: syncCluster_def syncShelf_def)
  then have same: "shStored (clPods (wExt u)) = shStored (clPods (wExt w))"
    by (simp add: deployed_def)
  have "\<forall>k\<in>set ?ks. \<exists>p. findObj k (shStored (clPods (wExt u))) = Some p \<and> isHasVersion p"
    using versionPodsOf_found [OF new] by (simp add: same)
  then obtain v where v: "inTurn (map (Pod_Reconcile clusterEnv) ?ks) u = (Ok (), v)" "besidesPods (wExt u) (wExt v)"
    "finishedPods (set ?ks) (shStored (clPods (wExt w))) (shStored (clPods (wExt v)))" "wConfig v = wConfig u"
    using finish_all [OF u(1)] same by metis
  have "inTurn (Deployment_Reconcile clusterEnv (obj_key d) # map (Pod_Reconcile clusterEnv) ?ks) w = (Ok (), v)"
    using v(1) by (simp add: inTurn_Cons [where m = "Deployment_Reconcile clusterEnv (obj_key d)", OF t1(1)] u_def)
  moreover obtain d' where d': "findObj (obj_key d) (shStored (clDeployments (wExt u))) = Some d'" "isDefensed (Labels d')"
    "depReplicas d' = depReplicas d" "depTemplate d' = depTemplate d" "\<not> has_label (Labels d') SuspendLabel"
    using u(2) by (auto simp: deployed_def)
  moreover have "Labels d' \<noteq> None"
    using d'(2) by (auto simp: isDefensed_def has_label_def)
  ultimately show ?thesis
    using that [of v _ d'] u(2,3) v(2-4) by (auto simp: deployed_def besidesPods_def)
qed

lemma newVersion_rolling:
  fixes w :: "cluster world"
  assumes new: "newVersion d (wExt w)" "versionPodsOf d (wExt w) \<noteq> []"
    and threshold: "countThreshold clusterEnv (depReplicas d) w = (Ok c, w)" "0 < c"
  obtains t cw d' where
    "inTurn ((Deployment_Reconcile clusterEnv (obj_key d) #
       map (Pod_Reconcile clusterEnv) (map obj_key (versionPodsOf d (wExt w)))) @
       [ChangeWorkload_Reconcile clusterEnv (workloadKey d)]) w = (Ok (), t)"
    "rolling cw d' (wExt t)" "obj_key cw = workloadKey d" "cwCountThreshold (cwSpec cw) = c"
    "waitingNames cw (wExt t) = map Name (versionPodsOf d (wExt w))"
    "storedChangePods cw (wExt t) = []" "map Name (storedPods cw (wExt t)) = map Name (versionPodsOf d (wExt w))"
    "clHttp (wExt t) = clHttp (wExt w)"
    "shStored (clChangePods (wExt t)) = shStored (clChangePods (wExt w))"
    "findObj (obj_key d) (shStored (clDeployments (wExt t))) = Some d'" "depTemplate d' = depTemplate d"
    "Labels d' \<noteq> None" "wConfig t = wConfig w"
proof (rule newVersion_finished [OF new(1) threshold(1)])
  fix v cw d'
  assume v: "inTurn (Deployment_Reconcile clusterEnv (obj_key d) #
       map (Pod_Reconcile clusterEnv) (map obj_key (versionPodsOf d (wExt w)))) w = (Ok (), v)" "inSync (wExt v)"
    and cw: "madeFor d c cw" "findObj (workloadKey d) (shStored (clWorkloads (wExt v))) = Some cw"
    and d': "findObj (obj_key d) (shStored (clDeployments (wExt v))) = Some d'" "depReplicas d' = depReplicas d"
      "depTemplate d' = depTemplate d" "Labels d' \<noteq> None" "\<not> has_label (Labels d') SuspendLabel" "wConfig v = wConfig w"
    and same: "shStored (clChangePods (wExt v)) = shStored (clChangePods (wExt w))" "clHttp (wExt v) = clHttp (wExt w)"
    and pods: "finishedPods (obj_key ` set (versionPodsOf d (wExt w))) (shStored (clPods (wExt w))) (shStored (clPods (wExt v)))"
  have key: "obj_key cw = workloadKey d" and init: "changeWorkloadState cw = Init"
    and plain: "CHR ''['' \<notin> set (Name cw)"
    using cw(1) new(1) by (auto simp: madeFor_def zeroChangeWorkloadStatus_def Init_def newVersion_def obj_key_def workloadKey_def)
  obtain ws where ws: "ChangeWorkload_Reconcile clusterEnv (workloadKey d) v = (Ok (), v\<lparr>wExt := (wExt v)\<lparr>clWorkloads := ws\<rparr>\<rparr>)"
    "statusWritten (cw\<lparr>cwStatus := (cwStatus cw)\<lparr>cwStatusStatus := Running\<rparr>\<rparr>) cw ws"
    using init_runs [OF v(2) _ plain init] cw(2) key by auto
  then obtain cw' where cw': "cwIdentity cw' = cwIdentity cw" "changeWorkloadState cw' = Running"
    "cwDefenseCheckPassPods (cwStatus cw') = []" "cwDefenseCheckFailPods (cwStatus cw') = []"
    "findObj (workloadKey d) (shStored ws) = Some cw'"
    using cw(1) key by (auto simp: statusWritten_def madeFor_def zeroChangeWorkloadStatus_def)
  define t where "t = v\<lparr>wExt := syncCluster ((wExt v)\<lparr>clWorkloads := ws\<rparr>)\<rparr>"
  have stored: "inSync (wExt t)" "shStored (clWorkloads (wExt t)) = shStored ws" "shStored (clPods (wExt t)) = shStored (clPods (wExt v))"
    "shStored (clDeployments (wExt t)) = shStored (clDeployments (wExt v))" "clHttp (wExt t) = clHttp (wExt w)"
    "shStored (clChangePods (wExt t)) = shStored (clChangePods (wExt w))"
    using same by (simp_all add: t_def) (simp_all add: syncCluster_def syncShelf_def)
  have last: "inTurn [ChangeWorkload_Reconcile clusterEnv (workloadKey d)] v = (Ok (), t)"
    by (simp add: inTurn_Cons [where m = "ChangeWorkload_Reconcile clusterEnv (workloadKey d)", OF ws(1)])
      (simp add: inTurn_def ret_def t_def)
  note start = rolling_start [OF new threshold(2) cw(1) cw'(1-4), of "wExt t" d']
  show ?thesis
    by (rule that [OF trans [OF inTurn_append [OF v(1)] last] start stored(5,6) _ d'(3,4)])
      (use cw'(5) d' stored pods in \<open>simp_all add: t_def\<close>)
qed

text \<open>
  C8 (liveness). All controllers together bring a new version to its end: on the reference
  cluster, with caches that catch up between the steps, the reconciles of a Deployment that the
  webhook gave a new version, of its running pods and of its ChangeWorkload, followed by the
  batches, lead from nothing but the Deployment and its pods, which are a whole number of batches of
  the configured size, to a ChangeWorkload with one closed ChangePod per batch. If every batch
  passes, it is successful and the webhook admits the further updates of the Deployment. Otherwise,
  provided that the blocking switch is ready and on, it is suspended, names exactly the pods of the
  batches that failed, and the webhook denies every
  update that does not ignore the suspension. The Deployment keeps its template.
\<close>

theorem deployment_rolls_out:
  fixes w :: "cluster world"
  assumes "newVersion d (wExt w)" "countThreshold clusterEnv (depReplicas d) w = (Ok c, w)" "0 < c" "bs \<noteq> []"
    and "length (versionPodsOf d (wExt w)) = nat c * length bs" "list_all soonAnswered bs" "distinct (map baNode bs)"
    and "nodesOf (wExt w) \<inter> set (map baNode bs) = {}"
    and "clHttp (wExt w) = concat (map (batchAnswers err) bs) @ as"
  defines "F \<equiv> failedPods (nat c) bs (map Name (versionPodsOf d (wExt w)))"
  assumes "F \<noteq> {} \<Longrightarrow> configIsBlockingUpIsReady (wConfig w) \<and> configIsBlockingUp (wConfig w)"
  shows "\<exists>t cw d'. inTurn (deployAndRollOut d (versionPodsOf d (wExt w)) bs) w = (Ok (), t) \<and>
    findObj (workloadKey d) (shStored (clWorkloads (wExt t))) = Some cw \<and>
    changeWorkloadState cw = (if F = {} then Success else Suspend) \<and>
    psPod ` set (cwDefenseCheckFailPods (cwStatus cw)) = F \<and> length (storedChangePods cw (wExt t)) = length bs \<and>
    map Name (storedPods cw (wExt t)) = map Name (versionPodsOf d (wExt w)) \<and>
    Name ` set (storedPods cw (wExt t)) \<subseteq> verdictNames passedBy cw (wExt t) \<union> F \<and>
    findObj (obj_key d) (shStored (clDeployments (wExt t))) = Some d' \<and> depTemplate d' = depTemplate d \<and>
    (\<forall>new. \<not> has_label (Labels new) IgnoredSuspendLabel \<longrightarrow> Validator_Handle (sampleRequest new d') =
       (if F = {} then Allowed '''' else Denied (''deployment '' @ Name d @ '' is suspended'')))"
proof -
  have some: "versionPodsOf d (wExt w) \<noteq> []"
    using assms(3-5) by auto
  obtain u cw d' where u: "inTurn ((Deployment_Reconcile clusterEnv (obj_key d) #
       map (Pod_Reconcile clusterEnv) (map obj_key (versionPodsOf d (wExt w)))) @
       [ChangeWorkload_Reconcile clusterEnv (workloadKey d)]) w = (Ok (), u)"
    and rolling: "rolling cw d' (wExt u)" and key: "obj_key cw = workloadKey d"
    and rest: "cwCountThreshold (cwSpec cw) = c" "waitingNames cw (wExt u) = map Name (versionPodsOf d (wExt w))"
      "storedChangePods cw (wExt u) = []" "map Name (storedPods cw (wExt u)) = map Name (versionPodsOf d (wExt w))"
      "clHttp (wExt u) = clHttp (wExt w)" "shStored (clChangePods (wExt u)) = shStored (clChangePods (wExt w))"
    and d': "findObj (obj_key d) (shStored (clDeployments (wExt u))) = Some d'" "depTemplate d' = depTemplate d"
      "Labels d' \<noteq> None" and config: "wConfig u = wConfig w"
    by (rule newVersion_rolling [OF assms(1) some assms(2,3)])
  have same: "obj_key d' = obj_key d" "Name d' = Name d"
    using findObj_key [OF d'(1)] by (auto simp: obj_key_def)
  have F: "failing cw (wExt u) \<union> failedPods (nat (cwCountThreshold (cwSpec cw))) bs (waitingNames cw (wExt u)) = F"
    by (simp add: failing_def verdictNames_def rest(1-3) F_def)
  have "F \<noteq> {} \<Longrightarrow> suspendable u d'"
    using assms(11) d'(3) by (simp add: suspendable_def config)
  then obtain t where t: "inTurn (rollout (workloadKey d) 0 bs) u = (Ok (), t)" "rolledOut cw d' (length bs) (wExt u) (wExt t)"
    "failing cw (wExt t) = F"
    using rollout_run [OF rolling assms(6,7), of err as, unfolded F] assms(5,8,9) rest key by (auto simp: nodesOf_def)
  obtain cw' d2 where ends: "findObj (obj_key cw) (shStored (clWorkloads (wExt t))) = Some cw'" "cwIdentity cw' = cwIdentity cw"
    "findObj (obj_key d') (shStored (clDeployments (wExt t))) = Some d2" "depIdentity d2 = depIdentity d'"
    "changeWorkloadState cw' = (if F = {} then Success else Suspend)"
    "psPod ` set (cwDefenseCheckFailPods (cwStatus cw')) = F"
    "\<forall>new. \<not> has_label (Labels new) IgnoredSuspendLabel \<longrightarrow> Validator_Handle (sampleRequest new d2) =
       (if F = {} then Allowed '''' else Denied (''deployment '' @ Name d' @ '' is suspended''))"
    by (rule rolledOut_end [OF t(2), unfolded t(3)])
  have "inTurn (deployAndRollOut d (versionPodsOf d (wExt w)) bs) w = (Ok (), t)"
    unfolding deployAndRollOut_def by (rule trans [OF inTurn_append [OF u] t(1)])
  moreover have "Name ` set (storedPods cw (wExt t)) \<subseteq> verdictNames passedBy cw (wExt t) \<union> F"
    using rolledOut_passed [OF t(2)] t(3) by simp
  ultimately show ?thesis
    using t(2) ends rest d' key same depIdentityD(3) [OF ends(4)]
    by (intro exI [of _ t] exI [of _ cw'] exI [of _ d2]) (simp add: rolledOut_def cwIdentity_lists [OF ends(2)])
qed

text \<open>A new version of the sample Deployment with two pods, in batches of one; the second fails.\<close>

definition runningPod :: "string \<Rightarrow> nat \<Rightarrow> pod" where
  "runningPod n v = (samplePod n v)\<lparr>Labels := Some [AdmissionWebhookVersionLabel \<mapsto> ''v1'']\<rparr>"

definition newCluster :: cluster where
  "newCluster = emptyCluster
     \<lparr>clPods := shelfOf [runningPod ''p0'' 0, runningPod ''p1'' 1], clDeployments := shelfOf [sampleDeployment sampleLabels],
      clHttp := concat (map (batchAnswers refusedError) [passingBatch ''7'' 1, failingBatch ''8''])\<rparr>"

lemma newCluster_simps [simp]:
  "inSync newCluster"
  "clPods newCluster = shelfOf [runningPod ''p0'' 0, runningPod ''p1'' 1]"
  "clWorkloads newCluster = shelfOf []"
  "clDeployments newCluster = shelfOf [sampleDeployment sampleLabels]"
  "clChangePods newCluster = shelfOf []"
  "clHttp newCluster = concat (map (batchAnswers refusedError) [passingBatch ''7'' 1, failingBatch ''8''])"
  by (simp_all add: newCluster_def inSync_def syncCluster_def emptyCluster_def)

lemma newCluster_pods:
  "versionPodsOf (sampleDeployment sampleLabels) newCluster = [runningPod ''p0'' 0, runningPod ''p1'' 1]"
  by (simp add: versionPodsOf_def shelfOf_def)
    (simp add: selected_def anyOpts_def podKind_def runningPod_def samplePod_def sampleDeployment_def versionOf_def
      sampleLabels_def get_label_def objectMeta.extend_def)

lemma runningPod_waits:
  "Name (runningPod n v) = n" "Pod_handleCreateEvent (PodObject (runningPod n v))" "\<not> isDefensed (Labels (runningPod n v))"
  by (simp_all add: runningPod_def samplePod_def objectMeta.extend_def isFinished_def isRunning_def isHasVersion_def
      isDefensed_def has_label_def)

lemma newCluster_new: "newVersion (sampleDeployment sampleLabels) newCluster"
proof -
  have "Deployment_handleEvent sampleLabels" "\<not> has_label sampleLabels SuspendLabel"
    by (simp_all add: sampleLabels_def has_label_def Deployment_handleEvent_def isAdmissionWebhook_def isDefensed_def)
  moreover have "Namespace (sampleDeployment sampleLabels) \<noteq> ''''" "depReplicas (sampleDeployment sampleLabels) = Some 2"
    by (simp_all add: sampleDeployment_def)
  moreover have "CHR ''['' \<notin> set (GetChangeWorkloadNameByDeployment (sampleDeployment sampleLabels))"
    by (simp add: sample_deployment_name)
  ultimately show ?thesis
    by (simp add: newVersion_def newCluster_pods runningPod_waits del: Pod_handleCreateEvent.simps)
      (simp add: shelfOf_def obj_key_def runningPod_waits)
qed

theorem deployment_rolls_out_witness:
  "\<exists>t cw d. inTurn (deployAndRollOut (sampleDeployment sampleLabels) [runningPod ''p0'' 0, runningPod ''p1'' 1]
       [passingBatch ''7'' 1, failingBatch ''8'']) (worldOf newCluster) = (Ok (), t) \<and>
     findObj (workloadKey (sampleDeployment sampleLabels)) (shStored (clWorkloads (wExt t))) = Some cw \<and>
     changeWorkloadState cw = Suspend \<and> psPod ` set (cwDefenseCheckFailPods (cwStatus cw)) = {''p1''} \<and>
     length (storedChangePods cw (wExt t)) = 2 \<and>
     findObj (obj_key (sampleDeployment sampleLabels)) (shStored (clDeployments (wExt t))) = Some d \<and>
     Validator_Handle (sampleRequest (sampleDeployment sampleLabels) d) = Denied ''deployment app is suspended''"
proof -
  define bs where "bs = [passingBatch ''7'' 1, failingBatch ''8'']"
  let ?d = "sampleDeployment sampleLabels"
  have ext: "wExt (worldOf newCluster) = newCluster" by (simp add: worldOf_def)
  have "countThreshold clusterEnv (Some 2) (worldOf newCluster) = (Ok 1, worldOf newCluster)"
    by (rule countThreshold_single) (simp_all add: worldOf_def readyConfig_def initialConfig_def Let_def)
  then have c: "countThreshold clusterEnv (depReplicas ?d) (worldOf newCluster) = (Ok 1, worldOf newCluster)"
    by (simp add: sampleDeployment_def)
  have bs: "bs \<noteq> []" "length (versionPodsOf ?d newCluster) = nat 1 * length bs" "list_all soonAnswered bs"
    "distinct (map baNode bs)" "nodesOf newCluster \<inter> set (map baNode bs) = {}"
    "clHttp newCluster = concat (map (batchAnswers refusedError) bs) @ []"
    by (simp_all add: bs_def newCluster_pods soonAnswered_def passingBatch_def failingBatch_def nodesOf_def shelfOf_def)
  have two: "length bs = 2" by (simp add: bs_def)
  have F: "failedPods (nat 1) bs (map Name (versionPodsOf ?d newCluster)) = {''p1''}"
    by (simp add: newCluster_pods runningPod_waits)
      (simp add: bs_def failsOf_def passes_def passingBatch_def failingBatch_def ChangePodVerdictPass_def)
  have config: "configIsBlockingUpIsReady (wConfig (worldOf newCluster)) \<and> configIsBlockingUp (wConfig (worldOf newCluster))"
    by (simp add: worldOf_def readyConfig_def initialConfig_def Let_def)
  have "Name ?d = ''app''" "\<not> has_label (Labels ?d) IgnoredSuspendLabel"
    by (simp_all add: sampleDeployment_def sampleLabels_def has_label_def IgnoredSuspendLabel_def
        DeploymentNameLabel_def AdmissionWebhookVersionLabel_def)
  then show ?thesis
    using deployment_rolls_out [where w = "worldOf newCluster" and d = ?d and c = 1 and bs = bs, unfolded ext F,
        OF newCluster_new c _ bs config] two
    unfolding bs_def [symmetric] newCluster_pods by fastforce
qed

end
