(* ===== verification/Recover_Run.thy ===== *)
theory Recover_Run
  imports Rollout_Run
begin

section \<open>From a suspension to a finished rollout\<close>

text \<open>
  A rollout that was suspended because pods failed their checks, continued after these pods were
  replaced: what the ReplicaSet controller does to the pods is a step between two rollouts.
\<close>

subsection \<open>Replacing the failed pods\<close>

text \<open>The failed pods are deleted, and new pods of the same version take their places.\<close>

definition replaceFailed :: "changeWorkload \<Rightarrow> pod list \<Rightarrow> (cluster world, unit) prog" where
  "replaceFailed cw qs = (\<lambda>w. (Ok (), w\<lparr>wExt := (wExt w)\<lparr>clPods :=
     foldl (\<lambda>sh q. snd (storeObj q sh))
       ((clPods (wExt w))\<lparr>shStored := filter (\<lambda>p. p \<in> set (storedPods cw (wExt w)) \<longrightarrow> Name p \<notin> failing cw (wExt w))
          (shStored (clPods (wExt w)))\<rparr>) qs\<rparr>\<rparr>))"

text \<open>The new pods are finished, wait for their check, and have names that were not in use.\<close>

definition replacements :: "changeWorkload \<Rightarrow> cluster \<Rightarrow> pod list \<Rightarrow> bool" where
  "replacements cw e qs \<longleftrightarrow> distinct (map obj_key qs) \<and>
     (\<forall>q\<in>set qs. selected (ksIndex podKind) (podsOf cw) q \<and> isFinished q \<and> preparing q \<and>
        obj_key q \<notin> obj_key ` set (shStored (clPods e)) \<and> Name q \<notin> judgedNames cw e)"

definition stamped :: "pod \<Rightarrow> pod \<Rightarrow> bool" where
  "stamped q q' \<longleftrightarrow> (\<exists>v. q' = q\<lparr>ResourceVersion := v\<rparr>)"

lemma stamped_sel:
  assumes "stamped q q'"
  shows "Name q' = Name q" "obj_key q' = obj_key q" "isFinished q' = isFinished q" "preparing q' = preparing q"
    "selected (ksIndex podKind) opts q' = selected (ksIndex podKind) opts q"
  using assms by (auto simp: stamped_def obj_key_def isFinished_def preparing_def selected_def podKind_def split: option.splits)

lemma findObj_notin: "k \<notin> obj_key ` set obs \<Longrightarrow> findObj k obs = None"
  by (induction obs) auto

lemma storeAll:
  assumes "distinct (map obj_key qs)" "\<forall>q\<in>set qs. obj_key q \<notin> obj_key ` set (shStored sh)"
  shows "\<exists>qs'. shStored (foldl (\<lambda>sh q. snd (storeObj q sh)) sh qs) = shStored sh @ qs' \<and> list_all2 stamped qs qs'"
  using assms
proof (induction qs arbitrary: sh)
  case (Cons q qs)
  let ?q = "q\<lparr>ResourceVersion := shVersion sh\<rparr>" and ?sh = "snd (storeObj q sh)"
  have "findObj (obj_key ?q) (shStored sh) = None"
    using Cons.prems(2) by (simp add: findObj_notin)
  from putObj_new [OF this] have sh: "shStored ?sh = shStored sh @ [?q]"
    by (simp add: storeObj_def Let_def)
  have "\<exists>qs'. shStored (foldl (\<lambda>sh q. snd (storeObj q sh)) ?sh qs) = shStored ?sh @ qs' \<and> list_all2 stamped qs qs'"
    using Cons.prems by (intro Cons.IH) (auto simp: sh image_iff)
  moreover have "stamped q ?q" by (auto simp: stamped_def)
  ultimately show ?case by (auto simp: sh)
qed simp

lemma length_without:
  assumes "distinct (map f xs)" "F \<subseteq> f ` set xs"
  shows "length (filter (\<lambda>x. f x \<notin> F) xs) + card F = length xs"
proof -
  have "F = set (map f (filter (\<lambda>x. f x \<in> F) xs))"
    using assms(2) by auto
  then have "card F = length (filter (\<lambda>x. f x \<in> F) xs)"
    using distinct_card [OF distinct_map_filter [OF assms(1), of "\<lambda>x. f x \<in> F"]] by simp
  then show ?thesis
    using sum_length_filter_compl [of "\<lambda>x. f x \<in> F" xs] by simp
qed

text \<open>Where the rollout goes on.\<close>

lemma replaced_rolling:
  fixes t :: "cluster world"
  assumes rolling: "rolling cw d (wExt t)" and none: "waitingNames cw (wExt t) = []"
    and qs: "replacements cw (wExt t) qs" "length qs = card (failing cw (wExt t))"
  obtains u where "inTurn [replaceFailed cw qs] t = (Ok (), u)" "rolling cw d (wExt u)" "failing cw (wExt u) = {}"
    "waitingNames cw (wExt u) = map Name qs" "storedChangePods cw (wExt u) = storedChangePods cw (wExt t)"
    "nodesOf (wExt u) = nodesOf (wExt t)" "clHttp (wExt u) = clHttp (wExt t)" "wConfig u = wConfig t"
    "Name ` set (storedPods cw (wExt u)) = Name ` set (storedPods cw (wExt t)) - failing cw (wExt t) \<union> Name ` set qs"
proof -
  let ?e = "wExt t" and ?F = "failing cw (wExt t)"
  let ?keep = "\<lambda>p. p \<in> set (storedPods cw ?e) \<longrightarrow> Name p \<notin> ?F"
  let ?pods = "foldl (\<lambda>sh q. snd (storeObj q sh)) ((clPods ?e)\<lparr>shStored := filter ?keep (shStored (clPods ?e))\<rparr>) qs"
  have t: "settled cw ?e" "inSync ?e" "Namespace cw \<noteq> ''''"
    using rolling by (simp_all add: rolling_def)
  obtain qs' where qs': "shStored ?pods = filter ?keep (shStored (clPods ?e)) @ qs'" "list_all2 stamped qs qs'"
    using storeAll [of qs "(clPods ?e)\<lparr>shStored := filter ?keep (shStored (clPods ?e))\<rparr>"] qs(1)
    by (auto simp: replacements_def)
  have map': "map Name qs' = map Name qs" "map obj_key qs' = map obj_key qs"
    using qs'(2) by (induction rule: list_all2_induct) (simp_all add: stamped_sel)
  have new: "selected (ksIndex podKind) (podsOf cw) q' \<and> isFinished q' \<and> preparing q' \<and>
      obj_key q' \<notin> obj_key ` set (shStored (clPods ?e)) \<and> Name q' \<notin> judgedNames cw ?e" if "q' \<in> set qs'" for q'
    using list_all2_preimage [OF qs'(2) that] qs(1) stamped_sel by (fastforce simp: replacements_def)
  define e where "e = syncCluster (?e\<lparr>clPods := ?pods\<rparr>)"
  have e: "inSync e" "shStored (clPods e) = filter ?keep (shStored (clPods ?e)) @ qs'"
    "shStored (clWorkloads e) = shStored (clWorkloads ?e)" "shStored (clDeployments e) = shStored (clDeployments ?e)"
    "shStored (clChangePods e) = shStored (clChangePods ?e)" "clHttp e = clHttp ?e"
    by (simp_all add: e_def) (simp_all add: syncCluster_def syncShelf_def qs'(1))
  have pods: "storedPods cw e = filter (\<lambda>p. Name p \<notin> ?F) (storedPods cw ?e) @ qs'"
    using new by (auto simp: storedPods_def e(2) filter_id_conv intro: filter_cong)
  have same: "storedChangePods cw e = storedChangePods cw ?e" "verdictNames vs cw e = verdictNames vs cw ?e"
    "judgedNames cw e = judgedNames cw ?e" "nodesOf e = nodesOf ?e" for vs
    by (simp_all add: storedChangePods_def verdictNames_def judgedNames_def nodesOf_def e)
  have idle: "\<not> preparing p" if "p \<in> set (storedPods cw ?e)" for p
    using that none by (simp add: waitingNames_def filter_empty_conv)
  have F: "?F \<subseteq> Name ` set (storedPods cw ?e)"
    by (auto simp: failing_def)
  have "length (storedPods cw e) = length (storedPods cw ?e)"
    using length_without [OF settled_names [OF t(1,3)] F] qs(2) list_all2_lengthD [OF qs'(2)] by (simp add: pods)
  moreover have "settled cw e"
  proof -
    have keys: "obj_key q \<notin> obj_key ` set (shStored (clPods ?e))" if "q \<in> set qs" for q
      using qs(1) that by (simp add: replacements_def)
    have "obj_key ` set qs \<inter> obj_key ` set (shStored (clPods ?e)) = {}"
      using keys by blast
    moreover have "obj_key ` set (filter ?keep (shStored (clPods ?e))) \<subseteq> obj_key ` set (shStored (clPods ?e))"
      by (rule image_mono) (rule filter_is_subset)
    ultimately have "obj_key ` set (filter ?keep (shStored (clPods ?e))) \<inter> obj_key ` set qs = {}"
      by blast
    moreover have "distinct (map obj_key qs)"
      using qs(1) by (simp add: replacements_def)
    ultimately have "distinct (map obj_key (shStored (clPods e)))"
      using t(1) by (simp add: settled_def e(2) map' distinct_map_filter)
    moreover have "isFinished p \<and> (preparing p \<longleftrightarrow> Name p \<notin> judgedNames cw e) \<and>
        \<not> (Name p \<in> verdictNames passedBy cw e \<and> Name p \<in> verdictNames failedBy cw e)" if "p \<in> set (storedPods cw e)" for p
      using that t(1) new [of p] unfolding same by (auto simp: pods settled_def judgedNames_def)
    ultimately show ?thesis
      using t(1) by (simp add: settled_def same e(5))
  qed
  moreover have "ownerOf cw d e"
    using rolling inSync_cached(4) [OF e(1)] inSync_cached(4) [OF t(2)] by (simp add: rolling_def ownerOf_def e(4))
  ultimately have "rolling cw d e"
    using rolling e(1,3) same by (simp add: rolling_def)
  moreover have "failing cw e = {}" "waitingNames cw e = map Name qs"
    "Name ` set (storedPods cw e) = Name ` set (storedPods cw ?e) - ?F \<union> Name ` set qs"
  proof -
    have names: "Name ` set qs' = Name ` set qs"
      using arg_cong [OF map'(1), of set] by simp
    have "filter preparing qs' = qs'"
      using new by (simp add: filter_id_conv)
    moreover have "filter preparing (filter (\<lambda>p. Name p \<notin> ?F) (storedPods cw ?e)) = []"
      using idle by (simp add: filter_empty_conv)
    ultimately show "waitingNames cw e = map Name qs"
      by (simp add: waitingNames_def pods map')
    show "Name ` set (storedPods cw e) = Name ` set (storedPods cw ?e) - ?F \<union> Name ` set qs"
      unfolding pods set_append image_Un names by auto
    have "q' \<in> set qs' \<Longrightarrow> Name q' \<notin> verdictNames failedBy cw ?e" for q'
      using new [of q'] by (simp add: judgedNames_def)
    then show "failing cw e = {}"
      unfolding failing_def [of cw e] same pods by (auto simp: failing_def)
  qed
  moreover have "inTurn [replaceFailed cw qs] t = (Ok (), t\<lparr>wExt := e\<rparr>)"
    by (simp add: inTurn_Cons [where m = "replaceFailed cw qs", OF replaceFailed_def [THEN fun_cong]] e_def)
      (simp add: inTurn_def ret_def)
  ultimately show ?thesis
    using that [of "t\<lparr>wExt := e\<rparr>"] same e(6) by simp
qed

subsection \<open>The two rollouts\<close>

lemma rolledOut_replacements:
  assumes "rolledOut cw d n e e'" "replacements cw e qs" "Namespace cw \<noteq> ''''"
  shows "replacements cw e' qs"
  unfolding replacements_def
proof (intro conjI ballI)
  show "distinct (map obj_key qs)"
    using assms(2) by (simp add: replacements_def)
  fix q
  assume "q \<in> set qs"
  then have q: "selected (ksIndex podKind) (podsOf cw) q" "isFinished q" "preparing q"
    "obj_key q \<notin> obj_key ` set (shStored (clPods e))" "Name q \<notin> judgedNames cw e"
    using assms(2) by (simp_all add: replacements_def)
  then show "selected (ksIndex podKind) (podsOf cw) q" "isFinished q" "preparing q" by simp_all
  have "map obj_key (shStored (clPods e')) = map obj_key (shStored (clPods e))"
    and grow: "judgedNames cw e' \<subseteq> judgedNames cw e \<union> Name ` set (storedPods cw e)"
    using assms(1) by (simp_all add: rolledOut_def)
  then show "obj_key q \<notin> obj_key ` set (shStored (clPods e'))"
    using q(4) by (metis list.set_map)
  have "Namespace q = Namespace cw"
    using q(1) assms(3) by (simp add: selected_def podsOf_def anyOpts_def)
  then have "obj_key q = obj_key p" if "p \<in> set (storedPods cw e)" "Name q = Name p" for p
    using storedPods_sel(2) [OF that(1) assms(3)] that(2) by (simp add: obj_key_def)
  then have "Name q \<notin> Name ` set (storedPods cw e)"
    using q(4) storedPods_sel(1) [OF _ assms(3)] by blast
  then show "Name q \<notin> judgedNames cw e'"
    using grow q(5) by blast
qed

text \<open>
  C7 (liveness). While the blocking switch is on, a rollout that fails is not lost. On the
  reference cluster, with caches that catch up between the steps, suppose that the blocking switch is
  ready and on and that the label map of the Deployment is not nil. A rollout, as in
  \<open>Rollout_Run\<close>, whose waiting pods are a whole number of batches and in which at least one pod
  fails, ends with a suspended ChangeWorkload, and the webhook denies every update of the Deployment
  that does not ignore the suspension. When the failed pods \<open>F\<close>, also a whole number of batches, are
  then replaced by as many new ones, which are finished and have names that were not in use, the
  controllers go on by themselves: the new pods are checked in \<open>length bs'\<close> batches of their own,
  and if all of these pass, the ChangeWorkload ends as successful, with no failed pods left in its
  status and a passed verdict for every pod, the failed verdicts of the replaced pods
  notwithstanding, and the webhook admits every update again.
\<close>

theorem failed_rollout_recovers:
  fixes w :: "cluster world"
  defines "c \<equiv> \<lambda>cw. nat (cwCountThreshold (cwSpec cw))"
  assumes "rolling cw d (wExt w)" "list_all soonAnswered (bs @ bs')" "distinct (map baNode (bs @ bs'))"
    and "length (waitingNames cw (wExt w)) = c cw * length bs"
    and "nodesOf (wExt w) \<inter> set (map baNode (bs @ bs')) = {}"
    and "clHttp (wExt w) = concat (map (batchAnswers err) (bs @ bs')) @ as"
  defines "F \<equiv> failing cw (wExt w) \<union> failedPods (c cw) bs (waitingNames cw (wExt w))"
  assumes "F \<noteq> {}" "suspendable w d"
    and "replacements cw (wExt w) qs" "length qs = card F" "length qs = c cw * length bs'" "list_all passes bs'"
  shows "\<exists>t u cw1 d1 cw2 d2.
    inTurn (rollout (obj_key cw) (int (length (storedChangePods cw (wExt w)))) bs) w = (Ok (), t) \<and>
    findObj (obj_key cw) (shStored (clWorkloads (wExt t))) = Some cw1 \<and> changeWorkloadState cw1 = Suspend \<and>
    findObj (obj_key d) (shStored (clDeployments (wExt t))) = Some d1 \<and>
    (\<forall>new. \<not> has_label (Labels new) IgnoredSuspendLabel \<longrightarrow>
       Validator_Handle (sampleRequest new d1) = Denied (''deployment '' @ Name d @ '' is suspended'')) \<and>
    inTurn (replaceFailed cw qs #
      rollout (obj_key cw) (int (length (storedChangePods cw (wExt w)) + length bs)) bs') t = (Ok (), u) \<and>
    findObj (obj_key cw) (shStored (clWorkloads (wExt u))) = Some cw2 \<and> changeWorkloadState cw2 = Success \<and>
    cwDefenseCheckFailPods (cwStatus cw2) = [] \<and>
    Name ` set (storedPods cw (wExt u)) = Name ` set (storedPods cw (wExt w)) - F \<union> Name ` set qs \<and>
    Name ` set (storedPods cw (wExt u)) \<subseteq> verdictNames passedBy cw (wExt u) \<and>
    findObj (obj_key d) (shStored (clDeployments (wExt u))) = Some d2 \<and> depTemplate d2 = depTemplate d \<and>
    (\<forall>new. Validator_Handle (sampleRequest new d2) = Allowed '''')"
proof -
  let ?n = "int (length (storedChangePods cw (wExt w)))" and ?as = "concat (map (batchAnswers err) bs') @ as"
  have ns: "Namespace cw \<noteq> ''''" using assms(2) by (simp add: rolling_def)
  obtain t where t: "inTurn (rollout (obj_key cw) ?n bs) w = (Ok (), t)"
    "rolledOut cw d (length bs) (wExt w) (wExt t)" "failing cw (wExt t) = F"
    "nodesOf (wExt t) \<subseteq> nodesOf (wExt w) \<union> set (map baNode bs)" "clHttp (wExt t) = ?as" "wConfig t = wConfig w"
    using rollout_run [OF assms(2), of bs err ?as] assms(3-7,10) unfolding F_def c_def by auto
  then obtain cw1 d1 where one: "findObj (obj_key cw) (shStored (clWorkloads (wExt t))) = Some cw1"
    "cwIdentity cw1 = cwIdentity cw" "findObj (obj_key d) (shStored (clDeployments (wExt t))) = Some d1"
    "depIdentity d1 = depIdentity d" "Labels d1 \<noteq> None" "rolling cw1 d1 (wExt t)"
    "concluded cw1 d1 (length (storedPods cw (wExt w))) False F"
    using assms(9,10) by (auto simp: rolledOut_def suspendable_def)
  note lists = cwIdentity_lists [OF one(2)] cwIdentityD [OF one(2)] depIdentityD [OF one(4)]
  have same: "waitingNames cw1 = waitingNames cw" "replaceFailed cw1 = replaceFailed cw" "replacements cw1 = replacements cw"
    by (simp_all add: fun_eq_iff waitingNames_def replaceFailed_def replacements_def lists)
  have ready: "waitingNames cw1 (wExt t) = []" "replacements cw1 (wExt t) qs" "length qs = card (failing cw1 (wExt t))"
    using t(2,3) rolledOut_replacements [OF t(2) assms(11) ns] assms(12) by (simp_all add: same lists rolledOut_def)
  obtain v where v: "inTurn [replaceFailed cw1 qs] t = (Ok (), v)" "rolling cw1 d1 (wExt v)" "failing cw1 (wExt v) = {}"
    "waitingNames cw1 (wExt v) = map Name qs" "storedChangePods cw1 (wExt v) = storedChangePods cw1 (wExt t)"
    "nodesOf (wExt v) = nodesOf (wExt t)" "clHttp (wExt v) = clHttp (wExt t)" "wConfig v = wConfig t"
    "Name ` set (storedPods cw1 (wExt v)) = Name ` set (storedPods cw1 (wExt t)) - failing cw1 (wExt t) \<union> Name ` set qs"
    by (rule replaced_rolling [OF one(6) ready])
  have "nodesOf (wExt v) \<inter> set (map baNode bs') = {}"
    using t(4) assms(4,6) unfolding v(6) by auto
  then obtain u where u: "inTurn (rollout (obj_key cw) (int (length (storedChangePods cw (wExt t)))) bs') v = (Ok (), u)"
    "rolledOut cw1 d1 (length bs') (wExt v) (wExt u)" "failing cw1 (wExt u) = {}"
    using rollout_run [OF v(2), of bs' err as] assms(3,4,13) t(5) v(3-5,7) failedPods_passes [OF assms(14)]
    by (auto simp: lists c_def)
  then obtain cw2 d2 where two: "findObj (obj_key cw) (shStored (clWorkloads (wExt u))) = Some cw2"
    "changeWorkloadState cw2 = Success" "cwDefenseCheckFailPods (cwStatus cw2) = []"
    "findObj (obj_key d) (shStored (clDeployments (wExt u))) = Some d2" "depIdentity d2 = depIdentity d"
    "\<not> has_label (Labels d2) SuspendLabel"
    by (auto simp: rolledOut_def concluded_def lists one(4))
  have "changeWorkloadState cw1 = Suspend" "has_label (Labels d1) SuspendLabel"
    using one(7) assms(9) by (auto simp: concluded_def poised_def split: if_splits)
  moreover have "inTurn (replaceFailed cw qs # rollout (obj_key cw)
      (int (length (storedChangePods cw (wExt w)) + length bs)) bs') t = (Ok (), u)"
    using trans [OF inTurn_append [OF v(1)] u(1)] t(2) by (simp add: same rolledOut_def)
  moreover have "Name ` set (storedPods cw (wExt t)) = Name ` set (storedPods cw (wExt w))"
    "Name ` set (storedPods cw (wExt u)) = Name ` set (storedPods cw (wExt v))"
    using t(2) u(2) by (simp_all add: rolledOut_def lists) (metis list.set_map)+
  moreover have "Name ` set (storedPods cw (wExt u)) \<subseteq> verdictNames passedBy cw (wExt u)"
    using rolledOut_passed [OF u(2)] u(3) by (simp add: lists)
  ultimately show ?thesis
    using t(1,3) one two v(9) depIdentityD [OF two(5)]
    by (intro exI [of _ t] exI [of _ u] exI [of _ cw1] exI [of _ d1] exI [of _ cw2] exI [of _ d2])
      (simp add: lists Validator_Handle_def ValidateUpdate_def sampleRequest_def)
qed

text \<open>Two pods, checked one by one; the second one fails and is replaced.\<close>

theorem failed_rollout_recovers_witness:
  "\<exists>t u cw. inTurn (rollout (obj_key (sampleWorkload Running)) 0 [passingBatch ''7'' 1, failingBatch ''8''])
       (worldOf (waitingCluster [passingBatch ''7'' 1, failingBatch ''8'', passingBatch ''9'' 2])) = (Ok (), t) \<and>
     inTurn (replaceFailed (sampleWorkload Running) [samplePod ''p2'' 2] #
       rollout (obj_key (sampleWorkload Running)) 2 [passingBatch ''9'' 2]) t = (Ok (), u) \<and>
     findObj (obj_key (sampleWorkload Running)) (shStored (clWorkloads (wExt u))) = Some cw \<and>
     changeWorkloadState cw = Success \<and>
     Name ` set (storedPods (sampleWorkload Running) (wExt u)) = {''p0'', ''p2''}"
proof -
  define bs bs' where "bs = [passingBatch ''7'' 1, failingBatch ''8'']" and "bs' = [passingBatch ''9'' 2]"
  have app: "bs @ bs' = [passingBatch ''7'' 1, failingBatch ''8'', passingBatch ''9'' 2]"
    by (simp add: bs_def bs'_def)
  have ext: "wExt (worldOf (waitingCluster (bs @ bs'))) = waitingCluster (bs @ bs')" by (simp add: worldOf_def)
  have c: "cwCountThreshold (cwSpec (sampleWorkload Running)) = 1"
    by (simp add: sampleWorkload_def)
  have bs: "list_all soonAnswered (bs @ bs')" "distinct (map baNode (bs @ bs'))" "list_all passes bs'"
    "length bs = 2" "length bs' = 1" "failedPods 1 bs [''p0'', ''p1''] = {''p1''}"
    by (simp_all add: bs_def bs'_def soonAnswered_def passingBatch_def failingBatch_def failsOf_def passes_def ChangePodVerdictPass_def)
  have F: "failing (sampleWorkload Running) (waitingCluster (bs @ bs')) \<union> failedPods
      (nat (cwCountThreshold (cwSpec (sampleWorkload Running)))) bs
      (waitingNames (sampleWorkload Running) (waitingCluster (bs @ bs'))) = {''p1''}"
    using bs(6) by (simp add: c waiting_failing)
  have start: "length (waitingNames (sampleWorkload Running) (waitingCluster (bs @ bs'))) =
      nat (cwCountThreshold (cwSpec (sampleWorkload Running))) * length bs"
    "nodesOf (waitingCluster (bs @ bs')) \<inter> set (map baNode (bs @ bs')) = {}"
    "clHttp (waitingCluster (bs @ bs')) = concat (map (batchAnswers refusedError) (bs @ bs')) @ []"
    by (simp_all add: c bs(4) waiting_failing)
  have new: "replacements (sampleWorkload Running) (waitingCluster (bs @ bs')) [samplePod ''p2'' 2]"
  proof -
    have "selected (ksIndex podKind) (podsOf (sampleWorkload Running)) (samplePod n v)" for n v
      by (simp add: selected_def podsOf_def anyOpts_def podKind_def samplePod_def
          sampleWorkload_def sampleLabels_def get_label_def objectMeta.extend_def)
    then show ?thesis
      by (simp add: replacements_def samplePod_waits judgedNames_def verdictNames_def waiting_lists)
        (simp add: shelfOf_def obj_key_def samplePod_waits)
  qed
  have fits: "length [samplePod ''p2'' 2] = card {''p1''}"
    "length [samplePod ''p2'' 2] = nat (cwCountThreshold (cwSpec (sampleWorkload Running))) * length bs'"
    by (simp_all add: c bs(5))
  let ?cps = "storedChangePods (sampleWorkload Running) (waitingCluster (bs @ bs'))"
  obtain t u cw where "inTurn (rollout (obj_key (sampleWorkload Running)) (int (length ?cps)) bs)
      (worldOf (waitingCluster (bs @ bs'))) = (Ok (), t)"
    "inTurn (replaceFailed (sampleWorkload Running) [samplePod ''p2'' 2] #
       rollout (obj_key (sampleWorkload Running)) (int (length ?cps + length bs)) bs') t = (Ok (), u)"
    "findObj (obj_key (sampleWorkload Running)) (shStored (clWorkloads (wExt u))) = Some cw" "changeWorkloadState cw = Success"
    "Name ` set (storedPods (sampleWorkload Running) (wExt u)) = Name ` set (storedPods (sampleWorkload Running)
       (waitingCluster (bs @ bs'))) - {''p1''} \<union> Name ` set [samplePod ''p2'' 2]"
    using failed_rollout_recovers [where w = "worldOf (waitingCluster (bs @ bs'))" and cw = "sampleWorkload Running" and
        bs = bs and bs' = bs', unfolded ext F, OF waiting_rolling bs(1,2) start insert_not_empty waiting_suspendable new fits bs(3)]
    by (elim exE conjE) (rule that; assumption)
  moreover have "int (length ?cps) = 0" "int (length ?cps + length bs) = 2"
    "Name ` set (storedPods (sampleWorkload Running) (waitingCluster (bs @ bs'))) - {''p1''} \<union>
      Name ` set [samplePod ''p2'' 2] = {''p0'', ''p2''}"
    by (auto simp: waiting_lists bs(4) samplePod_waits)
  ultimately show ?thesis
    unfolding app [symmetric] unfolding bs_def [symmetric] bs'_def [symmetric] by (simp only:) blast
qed

end
