(* ===== verification/Collision_Run.thy ===== *)
theory Collision_Run
  imports Recover_Run
begin

section \<open>When a ChangePod is deleted\<close>

text \<open>
  The name of the next ChangePod is computed from how many there are. What that means for a rollout
  from which a ChangePod that is not the last one was deleted.
\<close>

lemma length_without_key:
  assumes "distinct (map f xs)" "x \<in> set xs"
  shows "length (filter (\<lambda>y. f y \<noteq> f x) xs) + 1 = length xs"
  using length_without [OF assms(1), of "{f x}"] assms(2) by simp

lemma nthKey_list:
  assumes "map obj_key cps = map (nthKey k) [1..int n]"
  shows "distinct (map obj_key cps)" "length cps = n" "nthKey k i \<in> obj_key ` set cps \<longleftrightarrow> 1 \<le> i \<and> i \<le> int n"
proof -
  have "inj_on (nthKey k) A" for A by (rule inj_onI) simp
  then show "distinct (map obj_key cps)"
    unfolding assms by (simp add: distinct_map)
  show "length cps = n"
    using arg_cong [OF assms, of length] by simp
  have "obj_key ` set cps = nthKey k ` {1..int n}"
    using arg_cong [OF assms, of set] by simp
  then show "nthKey k i \<in> obj_key ` set cps \<longleftrightarrow> 1 \<le> i \<and> i \<le> int n"
    by auto
qed

lemma findObj_found: "ob \<in> set obs \<Longrightarrow> \<exists>x. findObj (obj_key ob) obs = Some x"
  by (induction obs) auto

lemma cluster_deleteChangePod:
  assumes "findObj (obj_key cp) (shStored (clChangePods (wExt w))) = Some old"
  shows "call (apiDelete (changePodApi clusterEnv) cp) w = (Ok (), w\<lparr>wExt := (wExt w)\<lparr>clChangePods :=
    (clChangePods (wExt w))\<lparr>shStored := dropObj (obj_key cp) (shStored (clChangePods (wExt w)))\<rparr>\<rparr>\<rparr>)"
  using assms by (simp add: call_def onPart_def shelf_writes)

lemma reconcile_ensures:
  fixes w :: "cluster world"
  assumes "inSync (wExt w)" "findObj (obj_key cw) (shStored (clWorkloads (wExt w))) = Some cw"
    and "CHR ''['' \<notin> set (Name cw)" "changeWorkloadState cw \<in> {Running, Suspend}"
  shows "ChangeWorkload_Reconcile clusterEnv (obj_key cw) w =
    bindM (ensureInitChangePodCreatedIfNecessary clusterEnv cw (changeWorkloadState cw = Running))
      (\<lambda>(_, cw). syncChangeWorkloadStatus clusterEnv cw) w"
  using assms(4) unfolding reconcile_dispatch [OF assms(1-3)]
  by (auto simp: ChangeWorkload_dispatch_def runningChangeWorkloadHandle_def
      suspendChangeWorkloadHandle_def changeWorkload_status_defs)

text \<open>
  C29 (safety). ChangePods are numbered by counting, so a rollout does not survive the
  deletion of one of them: on the reference cluster, take a running or suspended ChangeWorkload
  whose ChangePods are numbered from 1 to \<open>n\<close>, none of them waiting for its pods, and for which
  the next one is due. When any ChangePod but the last one is deleted, the next reconcile counts
  \<open>n - 1\<close> of them and asks for the name with number \<open>n\<close>, which is taken: it fails and
  leaves everything as it is, so that every later reconcile fails in the same way.
\<close>

theorem create_name_collides:
  fixes w :: "cluster world"
  assumes "inSync (wExt w)" "findObj (obj_key cw) (shStored (clWorkloads (wExt w))) = Some cw"
    and "CHR ''['' \<notin> set (Name cw)" "changeWorkloadState cw \<in> {Running, Suspend}"
    and "map obj_key (storedChangePods cw (wExt w)) = map (nthKey (obj_key cw)) [1..int n]"
    and "\<forall>cp\<in>set (storedChangePods cw (wExt w)). changePodState cp \<noteq> ExecuteInit"
    and "necessary (changeWorkloadState cw = Running) cw (storedPods cw (wExt w))"
    and "cp \<in> set (storedChangePods cw (wExt w))" "obj_key cp \<noteq> nthKey (obj_key cw) (int n)"
  shows "\<exists>v u. call (apiDelete (changePodApi clusterEnv) cp) w = (Ok (), v) \<and> u = v\<lparr>wExt := syncCluster (wExt v)\<rparr> \<and>
    cp \<notin> set (storedChangePods cw (wExt u)) \<and> int (length (storedChangePods cw (wExt u))) = int n - 1 \<and>
    ChangeWorkload_Reconcile clusterEnv (obj_key cw) u = (Err (existsError (nthKey (obj_key cw) (int n))), u)"
proof -
  note names = nthKey_list [OF assms(5)]
  have stored: "set (storedChangePods cw e) \<subseteq> set (shStored (clChangePods e))" for e
    by (auto simp: storedChangePods_def)
  then obtain old where "findObj (obj_key cp) (shStored (clChangePods (wExt w))) = Some old"
    using assms(8) findObj_found by blast
  note run = cluster_deleteChangePod [OF this]
  define u where "u = w\<lparr>wExt := syncCluster ((wExt w)\<lparr>clChangePods :=
    (clChangePods (wExt w))\<lparr>shStored := dropObj (obj_key cp) (shStored (clChangePods (wExt w)))\<rparr>\<rparr>)\<rparr>"
  have u: "inSync (wExt u)" "shStored (clWorkloads (wExt u)) = shStored (clWorkloads (wExt w))"
    "storedPods cw (wExt u) = storedPods cw (wExt w)"
    "storedChangePods cw (wExt u) = filter (\<lambda>c. obj_key c \<noteq> obj_key cp) (storedChangePods cw (wExt w))"
    by (simp_all add: u_def) (simp_all add: syncCluster_def syncShelf_def storedPods_def storedChangePods_def dropObj_def conj_commute)
  have len: "int (length (storedChangePods cw (wExt u))) = int n - 1"
    using length_without_key [OF names(1) assms(8)] names(2) by (simp add: u(4))
  have "1 \<le> int n"
    using assms(8) names(2) by (cases "storedChangePods cw (wExt w)") auto
  then obtain last where last: "last \<in> set (storedChangePods cw (wExt w))" "obj_key last = nthKey (obj_key cw) (int n)"
    using names(3) [of "int n"] by auto
  then have "last \<in> set (storedChangePods cw (wExt u))"
    using assms(9) by (simp add: u(4))
  then obtain taken where "findObj (nthKey (obj_key cw) (int n)) (shStored (clChangePods (wExt u))) = Some taken"
    using stored findObj_found last(2) by fastforce
  then have create: "createNewChangePod clusterEnv cw (int n - 1) u = (Err (existsError (nthKey (obj_key cw) (int n))), u)"
    using create_refused [of cw "int n - 1" u taken] by (simp add: nthKey_def obj_key_def)
  have "\<not> (\<exists>c\<in>set (storedChangePods cw (wExt u)). changePodState c = ExecuteInit)"
    using assms(6) by (simp add: u(4))
  then have "ensureInitChangePodCreatedIfNecessary clusterEnv cw (changeWorkloadState cw = Running) u =
      (Err (existsError (nthKey (obj_key cw) (int n))), u)"
    using ensureInit_run [OF stored_lists [OF u(1), of cw], of "changeWorkloadState cw = Running"] assms(7) create
    by (simp add: u(3) len bindM_def)
  then have "ChangeWorkload_Reconcile clusterEnv (obj_key cw) u = (Err (existsError (nthKey (obj_key cw) (int n))), u)"
    using reconcile_ensures [OF u(1) _ assms(3,4)] assms(2) by (simp add: u(2) bindM_def)
  moreover have "cp \<notin> set (storedChangePods cw (wExt u))"
    by (simp add: u(4))
  ultimately show ?thesis
    using run len by (simp add: u_def)
qed

text \<open>Of three ChangePods the second one is deleted.\<close>

definition numberedChangePod :: "int \<Rightarrow> changePod" where
  "numberedChangePod i = (sampleChangePod ExecuteDone [] 0)\<lparr>Name := nnName (nthKey (obj_key (sampleWorkload Running)) i)\<rparr>"

definition numberedCluster :: cluster where
  "numberedCluster = (waitingCluster [])\<lparr>clChangePods := shelfOf (map numberedChangePod [1..3])\<rparr>"

lemma numberedChangePod_sel:
  "obj_key (numberedChangePod i) = nthKey (obj_key (sampleWorkload Running)) i"
  "selected changePodIndex (changePodsOf (sampleWorkload Running)) (numberedChangePod i)"
  "changePodState (numberedChangePod i) = ExecuteDone"
  by (simp_all add: numberedChangePod_def)
    (simp_all add: obj_key_def nthKey_def sampleChangePod_def sampleWorkload_def selected_def changePodsOf_def anyOpts_def
      changePodIndex_def ChangePodFieldStatus_def ChangePodFieldChangePodId_def ChangePodFieldChangeWorkloadId_def)

lemma numbered_lists:
  "storedChangePods (sampleWorkload Running) numberedCluster = map numberedChangePod [1..3]"
  "storedPods (sampleWorkload Running) numberedCluster = [samplePod ''p0'' 0, samplePod ''p1'' 1]"
  using waiting_lists(2) [of Running "[]"]
  by (simp_all add: numberedCluster_def storedChangePods_def storedPods_def shelfOf_def filter_id_conv numberedChangePod_sel)

theorem create_name_collides_witness:
  "\<exists>v u. call (apiDelete (changePodApi clusterEnv) (numberedChangePod 2)) (worldOf numberedCluster) = (Ok (), v) \<and>
     u = v\<lparr>wExt := syncCluster (wExt v)\<rparr> \<and> length (storedChangePods (sampleWorkload Running) (wExt u)) = 2 \<and>
     ChangeWorkload_Reconcile clusterEnv (obj_key (sampleWorkload Running)) u =
       (Err (existsError (nthKey (obj_key (sampleWorkload Running)) 3)), u)"
proof -
  let ?w = "worldOf numberedCluster"
  have ext: "wExt ?w = numberedCluster" by (simp add: worldOf_def)
  have "inSync numberedCluster"
    by (simp add: numberedCluster_def waitingCluster_def emptyCluster_def inSync_def syncCluster_def syncShelf_def shelfOf_def)
  moreover have "findObj (obj_key (sampleWorkload Running)) (shStored (clWorkloads numberedCluster)) = Some (sampleWorkload Running)"
    by (simp add: numberedCluster_def shelfOf_def)
  moreover have "CHR ''['' \<notin> set (Name (sampleWorkload Running))" "changeWorkloadState (sampleWorkload Running) = Running"
    "cwCountThreshold (cwSpec (sampleWorkload Running)) = 1"
    by (simp_all add: sampleWorkload_def)
  moreover have "map obj_key (map numberedChangePod is) = map (nthKey (obj_key (sampleWorkload Running))) is" for "is"
    by (simp add: numberedChangePod_sel)
  moreover have "ExecuteDone \<noteq> ExecuteInit" by (simp add: changePod_status_defs)
  ultimately show ?thesis
    using create_name_collides [of ?w "sampleWorkload Running" 3 "numberedChangePod 2", unfolded ext numbered_lists]
    by (auto simp: necessary_def samplePod_waits numberedChangePod_sel simp del: cluster_api)
qed

end
