(* ===== verification/Go_Heap.thy ===== *)
theory Go_Heap
  imports Api_Types "HOL-Library.State_Monad"
begin

section \<open>Go memory\<close>

text \<open>
  The rest of the development passes Go values by value. This theory has the memory behind them,
  as far as the v1alpha1 types reach: slices share arrays, label maps are references, structs are
  reached through pointers. One address space holds cells of all types; a cell is an array, so
  that a pointer to a struct and one to an element of a slice are the same thing.
\<close>

subsection \<open>Structs in memory\<close>

record slice =
  slPtr :: nat
  slOff :: nat
  slLen :: nat

record ref =
  refPtr :: nat
  refIdx :: nat

record typeMeta =
  tmKind :: string
  tmApiVersion :: string

text \<open>
  \<open>metav1.ObjectMeta\<close> and \<open>metav1.ListMeta\<close>, with the fields the value model has; of
  the second only its pointer matters here.
\<close>

record objectMetaMem =
  mmNamespace :: string
  mmName :: string
  mmLabels :: "nat option"
  mmOwners :: "slice option"
  mmVersion :: nat

record listMetaMem =
  lmVersion :: string
  lmRemaining :: "ref option"

record changePodSpecMem =
  spPodInfos :: "slice option"
  spCreateTime :: string
  spCreateTimeUnix :: int
  spChangeWorkloadId :: string

record changePodStatusMem =
  stStatus :: string
  stUpdateTime :: string
  stUpdateTimeUnix :: int
  stPodResults :: "slice option"
  stMessage :: string
  stChangePodId :: string
  stPreSubmitTime :: string
  stPreSubmitTimeUnix :: int
  stPostSubmitTime :: string
  stPostSubmitTimeUnix :: int
  stPreTimeoutThreshold :: int
  stPostTimeoutThreshold :: int

record changePodMem =
  pmType :: typeMeta
  pmMeta :: objectMetaMem
  pmSpec :: changePodSpecMem
  pmStatus :: changePodStatusMem

record changeWorkloadSpecMem =
  wsChangeWorkloadId :: string
  wsServiceName :: string
  wsReversion :: string
  wsPolicies :: "slice option"
  wsCountThreshold :: int
  wsWaitTimeThreshold :: int
  wsCreateTime :: string
  wsCreateTimeUnix :: int
  wsAppName :: string

record changeWorkloadStatusMem =
  wtDefensePreparingPods :: "slice option"
  wtDefenseCheckingPods :: "slice option"
  wtDefenseCheckPassPods :: "slice option"
  wtDefenseCheckFailPods :: "slice option"
  wtStatus :: string
  wtEntryTime :: string
  wtEntryTimeUnix :: int
  wtUpdateTime :: string
  wtUpdateTimeUnix :: int

record changeWorkloadMem =
  wmType :: typeMeta
  wmMeta :: objectMetaMem
  wmSpec :: changeWorkloadSpecMem
  wmStatus :: changeWorkloadStatusMem

record opsConfigInfoSpecMem =
  osType :: string
  osContent :: string
  osRemark :: string
  osEnable :: bool

text \<open>\<open>DefensePolicy\<close> and \<open>OpsConfigInfoStatus\<close> are empty structs.\<close>

type_synonym defensePolicyMem = unit
type_synonym opsConfigInfoStatusMem = unit

record opsConfigInfoMem =
  omType :: typeMeta
  omMeta :: objectMetaMem
  omSpec :: opsConfigInfoSpecMem
  omStatus :: opsConfigInfoStatusMem

record listMem =
  liType :: typeMeta
  liMeta :: listMetaMem
  liItems :: "slice option"

type_synonym changePodListMem = listMem
type_synonym changeWorkloadListMem = listMem
type_synonym opsConfigInfoListMem = listMem

subsection \<open>Cells and the heap\<close>

datatype cell =
    LabelMap "string \<rightharpoonup> string"
  | OwnerReferencesCell "ownerReference list"
  | Int64s "int list"
  | PodSummaries "podSummary list"
  | DefensePolicies "defensePolicyMem list"
  | ChangePodSpecs "changePodSpecMem list"
  | ChangePodStatuses "changePodStatusMem list"
  | ChangePods "changePodMem list"
  | ChangePodLists "changePodListMem list"
  | ChangeWorkloadSpecs "changeWorkloadSpecMem list"
  | ChangeWorkloadStatuses "changeWorkloadStatusMem list"
  | ChangeWorkloads "changeWorkloadMem list"
  | ChangeWorkloadLists "changeWorkloadListMem list"
  | OpsConfigInfoSpecs "opsConfigInfoSpecMem list"
  | OpsConfigInfoStatuses "opsConfigInfoStatusMem list"
  | OpsConfigInfos "opsConfigInfoMem list"
  | OpsConfigInfoLists "opsConfigInfoListMem list"

record heap =
  hNext :: nat
  hCells :: "nat \<Rightarrow> cell"

text \<open>Cells below \<open>hNext\<close> are allocated. \<open>grows\<close>: these stay as they are.\<close>

definition grows :: "heap \<Rightarrow> heap \<Rightarrow> bool" where
  "grows h h' \<longleftrightarrow> hNext h \<le> hNext h' \<and> (\<forall>a<hNext h. hCells h' a = hCells h a)"

lemma grows_refl [simp]: "grows h h"
  by (simp add: grows_def)

lemma grows_trans [trans]: "grows h h' \<Longrightarrow> grows h' h'' \<Longrightarrow> grows h h''"
  by (auto simp: grows_def)

text \<open>Which cells hold arrays of \<open>'a\<close>, and the zero value that \<open>new\<close> and \<open>make\<close> put there.\<close>

record 'a arrayType =
  atGet :: "cell \<Rightarrow> 'a list option"
  atPut :: "'a list \<Rightarrow> cell"
  atZero :: 'a

locale array_type =
  fixes T :: "'a arrayType"
  assumes get_put [simp]: "atGet T (atPut T xs) = Some xs"

subsection \<open>Arrays\<close>

definition goAlloc :: "cell \<Rightarrow> (heap, nat) state" where
  "goAlloc c = State (\<lambda>h. (hNext h, h\<lparr>hNext := Suc (hNext h), hCells := (hCells h)(hNext h := c)\<rparr>))"

definition arrayAt :: "'a arrayType \<Rightarrow> heap \<Rightarrow> nat \<Rightarrow> 'a list" where
  "arrayAt T h a = (case atGet T (hCells h a) of None \<Rightarrow> [] | Some xs \<Rightarrow> xs)"

definition setArray :: "'a arrayType \<Rightarrow> nat \<Rightarrow> 'a list \<Rightarrow> heap \<Rightarrow> heap" where
  "setArray T a xs h = h\<lparr>hCells := (hCells h)(a := atPut T xs)\<rparr>"

text \<open>\<open>s[:]\<close> as a list; a nil slice has no elements.\<close>

definition elems :: "'a arrayType \<Rightarrow> heap \<Rightarrow> slice \<Rightarrow> 'a list" where
  "elems T h s = take (slLen s) (drop (slOff s) (arrayAt T h (slPtr s)))"

definition readAt :: "'a arrayType \<Rightarrow> slice \<Rightarrow> nat \<Rightarrow> (heap, 'a) state" where
  "readAt T s i = State (\<lambda>h. (arrayAt T h (slPtr s) ! (slOff s + i), h))"

definition writeAt :: "'a arrayType \<Rightarrow> slice \<Rightarrow> nat \<Rightarrow> 'a \<Rightarrow> (heap, unit) state" where
  "writeAt T s i x = State (\<lambda>h. ((), setArray T (slPtr s) ((arrayAt T h (slPtr s))[slOff s + i := x]) h))"

definition goMake :: "'a arrayType \<Rightarrow> nat \<Rightarrow> (heap, slice) state" where
  "goMake T n = do {
     a \<leftarrow> goAlloc (atPut T (replicate n (atZero T)));
     State_Monad.return \<lparr>slPtr = a, slOff = 0, slLen = n\<rparr>
   }"

text \<open>\<open>copy(dst, src)\<close>\<close>

definition goCopy :: "'a arrayType \<Rightarrow> slice \<Rightarrow> slice \<Rightarrow> (heap, unit) state" where
  "goCopy T dst src = State (\<lambda>h.
     let n = min (slLen dst) (slLen src); xs = arrayAt T h (slPtr dst)
     in ((), setArray T (slPtr dst)
          (take (slOff dst) xs @ take n (elems T h src) @ drop (slOff dst + n) xs) h))"

definition goNew :: "'a arrayType \<Rightarrow> (heap, ref) state" where
  "goNew T = do {
     a \<leftarrow> goAlloc (atPut T [atZero T]);
     State_Monad.return \<lparr>refPtr = a, refIdx = 0\<rparr>
   }"

definition load :: "'a arrayType \<Rightarrow> ref \<Rightarrow> (heap, 'a) state" where
  "load T r = State (\<lambda>h. (arrayAt T h (refPtr r) ! refIdx r, h))"

definition storeAt :: "'a arrayType \<Rightarrow> ref \<Rightarrow> 'a \<Rightarrow> (heap, unit) state" where
  "storeAt T r x = State (\<lambda>h. ((), setArray T (refPtr r) ((arrayAt T h (refPtr r))[refIdx r := x]) h))"

lemmas mem_defs = goAlloc_def readAt_def writeAt_def goMake_def goCopy_def goNew_def load_def storeAt_def

lemma setArray_sel [simp]:
  "hNext (setArray T a xs h) = hNext h"
  "a' \<noteq> a \<Longrightarrow> hCells (setArray T a xs h) a' = hCells h a'"
  "hCells (setArray T a xs h) a = atPut T xs"
  by (simp_all add: setArray_def)

lemma arrayAt_cong: "hCells h' a = hCells h a \<Longrightarrow> arrayAt T h' a = arrayAt T h a"
  by (simp add: arrayAt_def)

lemma elems_cong: "hCells h' (slPtr s) = hCells h (slPtr s) \<Longrightarrow> elems T h' s = elems T h s"
  by (simp add: elems_def arrayAt_def)

context array_type
begin

lemma arrayAt_set [simp]: "arrayAt T (setArray T a xs h) a = xs"
  by (simp add: arrayAt_def)

end

end
