(* ===== verification/Deep_Copy.thy ===== *)
theory Deep_Copy
  imports Go_Heap
begin

section \<open>apis/app.ops.cloud.alipay.com/v1alpha1/zz\_generated.deepcopy.go\<close>

text \<open>
  The deep copies of the v1alpha1 types, in memory. \<open>DeepCopyInto\<close> returns the struct that it
  writes to \<open>out\<close>: the shallow copy \<open>*out = *in\<close> with the fields that are copied anew. The
  copies of \<open>metav1.ObjectMeta\<close> and \<open>metav1.ListMeta\<close> belong to apimachinery and are the
  parameters \<open>copyMeta\<close> and \<open>copyListMeta\<close>.
\<close>

subsection \<open>Zero values and arrays of each type\<close>

definition zeroTypeMeta :: typeMeta where
  "zeroTypeMeta = \<lparr>tmKind = '''', tmApiVersion = ''''\<rparr>"

definition zeroMetaMem :: objectMetaMem where
  "zeroMetaMem = \<lparr>mmNamespace = '''', mmName = '''', mmLabels = None, mmOwners = None, mmVersion = 0\<rparr>"

definition zeroPodSummary :: podSummary where
  "zeroPodSummary = \<lparr>psApp = '''', psHostname = '''', psWorkspace = '''', psPod = '''', psIp = '''',
     psNamespace = '''', psVerdict = '''', psMessage = ''''\<rparr>"

definition zeroChangePodSpecMem :: changePodSpecMem where
  "zeroChangePodSpecMem = \<lparr>spPodInfos = None, spCreateTime = '''', spCreateTimeUnix = 0,
     spChangeWorkloadId = ''''\<rparr>"

definition zeroChangePodStatusMem :: changePodStatusMem where
  "zeroChangePodStatusMem = \<lparr>stStatus = '''', stUpdateTime = '''', stUpdateTimeUnix = 0,
     stPodResults = None, stMessage = '''', stChangePodId = '''', stPreSubmitTime = '''',
     stPreSubmitTimeUnix = 0, stPostSubmitTime = '''', stPostSubmitTimeUnix = 0,
     stPreTimeoutThreshold = 0, stPostTimeoutThreshold = 0\<rparr>"

definition zeroChangePodMem :: changePodMem where
  "zeroChangePodMem = \<lparr>pmType = zeroTypeMeta, pmMeta = zeroMetaMem, pmSpec = zeroChangePodSpecMem,
     pmStatus = zeroChangePodStatusMem\<rparr>"

definition zeroChangeWorkloadSpecMem :: changeWorkloadSpecMem where
  "zeroChangeWorkloadSpecMem = \<lparr>wsChangeWorkloadId = '''', wsServiceName = '''', wsReversion = '''',
     wsPolicies = None, wsCountThreshold = 0, wsWaitTimeThreshold = 0, wsCreateTime = '''',
     wsCreateTimeUnix = 0, wsAppName = ''''\<rparr>"

definition zeroChangeWorkloadStatusMem :: changeWorkloadStatusMem where
  "zeroChangeWorkloadStatusMem = \<lparr>wtDefensePreparingPods = None, wtDefenseCheckingPods = None,
     wtDefenseCheckPassPods = None, wtDefenseCheckFailPods = None, wtStatus = '''', wtEntryTime = '''',
     wtEntryTimeUnix = 0, wtUpdateTime = '''', wtUpdateTimeUnix = 0\<rparr>"

definition zeroChangeWorkloadMem :: changeWorkloadMem where
  "zeroChangeWorkloadMem = \<lparr>wmType = zeroTypeMeta, wmMeta = zeroMetaMem,
     wmSpec = zeroChangeWorkloadSpecMem, wmStatus = zeroChangeWorkloadStatusMem\<rparr>"

definition zeroOpsConfigInfoSpecMem :: opsConfigInfoSpecMem where
  "zeroOpsConfigInfoSpecMem = \<lparr>osType = '''', osContent = '''', osRemark = '''', osEnable = False\<rparr>"

definition zeroOpsConfigInfoMem :: opsConfigInfoMem where
  "zeroOpsConfigInfoMem = \<lparr>omType = zeroTypeMeta, omMeta = zeroMetaMem, omSpec = zeroOpsConfigInfoSpecMem,
     omStatus = ()\<rparr>"

definition zeroListMem :: listMem where
  "zeroListMem = \<lparr>liType = zeroTypeMeta, liMeta = \<lparr>lmVersion = '''', lmRemaining = None\<rparr>, liItems = None\<rparr>"

definition podSummaries :: "podSummary arrayType" where
  "podSummaries = \<lparr>atGet = (\<lambda>c. case c of PodSummaries xs \<Rightarrow> Some xs | _ \<Rightarrow> None), atPut = PodSummaries,
     atZero = zeroPodSummary\<rparr>"

definition defensePolicies :: "defensePolicyMem arrayType" where
  "defensePolicies = \<lparr>atGet = (\<lambda>c. case c of DefensePolicies xs \<Rightarrow> Some xs | _ \<Rightarrow> None), atPut = DefensePolicies,
     atZero = ()\<rparr>"

definition changePodSpecs :: "changePodSpecMem arrayType" where
  "changePodSpecs = \<lparr>atGet = (\<lambda>c. case c of ChangePodSpecs xs \<Rightarrow> Some xs | _ \<Rightarrow> None), atPut = ChangePodSpecs,
     atZero = zeroChangePodSpecMem\<rparr>"

definition changePodStatuses :: "changePodStatusMem arrayType" where
  "changePodStatuses = \<lparr>atGet = (\<lambda>c. case c of ChangePodStatuses xs \<Rightarrow> Some xs | _ \<Rightarrow> None), atPut = ChangePodStatuses,
     atZero = zeroChangePodStatusMem\<rparr>"

definition changePodArrays :: "changePodMem arrayType" where
  "changePodArrays = \<lparr>atGet = (\<lambda>c. case c of ChangePods xs \<Rightarrow> Some xs | _ \<Rightarrow> None), atPut = ChangePods,
     atZero = zeroChangePodMem\<rparr>"

definition changePodLists :: "changePodListMem arrayType" where
  "changePodLists = \<lparr>atGet = (\<lambda>c. case c of ChangePodLists xs \<Rightarrow> Some xs | _ \<Rightarrow> None), atPut = ChangePodLists,
     atZero = zeroListMem\<rparr>"

definition changeWorkloadSpecs :: "changeWorkloadSpecMem arrayType" where
  "changeWorkloadSpecs = \<lparr>atGet = (\<lambda>c. case c of ChangeWorkloadSpecs xs \<Rightarrow> Some xs | _ \<Rightarrow> None), atPut = ChangeWorkloadSpecs,
     atZero = zeroChangeWorkloadSpecMem\<rparr>"

definition changeWorkloadStatuses :: "changeWorkloadStatusMem arrayType" where
  "changeWorkloadStatuses = \<lparr>atGet = (\<lambda>c. case c of ChangeWorkloadStatuses xs \<Rightarrow> Some xs | _ \<Rightarrow> None), atPut = ChangeWorkloadStatuses,
     atZero = zeroChangeWorkloadStatusMem\<rparr>"

definition changeWorkloadArrays :: "changeWorkloadMem arrayType" where
  "changeWorkloadArrays = \<lparr>atGet = (\<lambda>c. case c of ChangeWorkloads xs \<Rightarrow> Some xs | _ \<Rightarrow> None), atPut = ChangeWorkloads,
     atZero = zeroChangeWorkloadMem\<rparr>"

definition changeWorkloadLists :: "changeWorkloadListMem arrayType" where
  "changeWorkloadLists = \<lparr>atGet = (\<lambda>c. case c of ChangeWorkloadLists xs \<Rightarrow> Some xs | _ \<Rightarrow> None), atPut = ChangeWorkloadLists,
     atZero = zeroListMem\<rparr>"

definition opsConfigInfoSpecs :: "opsConfigInfoSpecMem arrayType" where
  "opsConfigInfoSpecs = \<lparr>atGet = (\<lambda>c. case c of OpsConfigInfoSpecs xs \<Rightarrow> Some xs | _ \<Rightarrow> None), atPut = OpsConfigInfoSpecs,
     atZero = zeroOpsConfigInfoSpecMem\<rparr>"

definition opsConfigInfoStatuses :: "opsConfigInfoStatusMem arrayType" where
  "opsConfigInfoStatuses = \<lparr>atGet = (\<lambda>c. case c of OpsConfigInfoStatuses xs \<Rightarrow> Some xs | _ \<Rightarrow> None), atPut = OpsConfigInfoStatuses,
     atZero = ()\<rparr>"

definition opsConfigInfoArrays :: "opsConfigInfoMem arrayType" where
  "opsConfigInfoArrays = \<lparr>atGet = (\<lambda>c. case c of OpsConfigInfos xs \<Rightarrow> Some xs | _ \<Rightarrow> None), atPut = OpsConfigInfos,
     atZero = zeroOpsConfigInfoMem\<rparr>"

definition opsConfigInfoLists :: "opsConfigInfoListMem arrayType" where
  "opsConfigInfoLists = \<lparr>atGet = (\<lambda>c. case c of OpsConfigInfoLists xs \<Rightarrow> Some xs | _ \<Rightarrow> None), atPut = OpsConfigInfoLists,
     atZero = zeroListMem\<rparr>"

lemmas array_defs = podSummaries_def defensePolicies_def changePodSpecs_def changePodStatuses_def changePodArrays_def changePodLists_def changeWorkloadSpecs_def changeWorkloadStatuses_def changeWorkloadArrays_def changeWorkloadLists_def opsConfigInfoSpecs_def opsConfigInfoStatuses_def opsConfigInfoArrays_def opsConfigInfoLists_def

interpretation podSummaries: array_type podSummaries
  by unfold_locales (simp add: podSummaries_def)

interpretation defensePolicies: array_type defensePolicies
  by unfold_locales (simp add: defensePolicies_def)

interpretation changePodSpecs: array_type changePodSpecs
  by unfold_locales (simp add: changePodSpecs_def)

interpretation changePodStatuses: array_type changePodStatuses
  by unfold_locales (simp add: changePodStatuses_def)

interpretation changePodArrays: array_type changePodArrays
  by unfold_locales (simp add: changePodArrays_def)

interpretation changePodLists: array_type changePodLists
  by unfold_locales (simp add: changePodLists_def)

interpretation changeWorkloadSpecs: array_type changeWorkloadSpecs
  by unfold_locales (simp add: changeWorkloadSpecs_def)

interpretation changeWorkloadStatuses: array_type changeWorkloadStatuses
  by unfold_locales (simp add: changeWorkloadStatuses_def)

interpretation changeWorkloadArrays: array_type changeWorkloadArrays
  by unfold_locales (simp add: changeWorkloadArrays_def)

interpretation changeWorkloadLists: array_type changeWorkloadLists
  by unfold_locales (simp add: changeWorkloadLists_def)

interpretation opsConfigInfoSpecs: array_type opsConfigInfoSpecs
  by unfold_locales (simp add: opsConfigInfoSpecs_def)

interpretation opsConfigInfoStatuses: array_type opsConfigInfoStatuses
  by unfold_locales (simp add: opsConfigInfoStatuses_def)

interpretation opsConfigInfoArrays: array_type opsConfigInfoArrays
  by unfold_locales (simp add: opsConfigInfoArrays_def)

interpretation opsConfigInfoLists: array_type opsConfigInfoLists
  by unfold_locales (simp add: opsConfigInfoLists_def)

subsection \<open>The pattern of the generated code\<close>

text \<open>\<open>*out = make([]T, len( *in)); copy( *out, *in)\<close>, when the slice is not nil\<close>

definition copySlice :: "'a arrayType \<Rightarrow> slice option \<Rightarrow> (heap, slice option) state" where
  "copySlice T src = (case src of
     None \<Rightarrow> State_Monad.return None
   | Some s \<Rightarrow> do {
       d \<leftarrow> goMake T (slLen s);
       goCopy T d s;
       State_Monad.return (Some d)
     })"

text \<open>\<open>for i := range *in { ( *in)[i].DeepCopyInto(&( *out)[i]) }\<close>\<close>

primrec copyLoop ::
  "'a arrayType \<Rightarrow> ('a \<Rightarrow> (heap, 'a) state) \<Rightarrow> slice \<Rightarrow> slice \<Rightarrow> nat list \<Rightarrow> (heap, unit) state" where
  "copyLoop T into src dst [] = State_Monad.return ()"
| "copyLoop T into src dst (i # js) = do {
     x \<leftarrow> readAt T src i;
     y \<leftarrow> into x;
     writeAt T dst i y;
     copyLoop T into src dst js
   }"

definition copyItems :: "'a arrayType \<Rightarrow> ('a \<Rightarrow> (heap, 'a) state) \<Rightarrow> slice option \<Rightarrow> (heap, slice option) state" where
  "copyItems T into src = (case src of
     None \<Rightarrow> State_Monad.return None
   | Some s \<Rightarrow> do {
       d \<leftarrow> goMake T (slLen s);
       copyLoop T into s d [0..<slLen s];
       State_Monad.return (Some d)
     })"

text \<open>\<open>DeepCopy\<close>: nil stays nil, else \<open>out := new(T); in.DeepCopyInto(out); return out\<close>\<close>

definition newCopy :: "'a arrayType \<Rightarrow> ('a \<Rightarrow> (heap, 'a) state) \<Rightarrow> ref option \<Rightarrow> (heap, ref option) state" where
  "newCopy T into src = (case src of
     None \<Rightarrow> State_Monad.return None
   | Some r \<Rightarrow> do {
       out \<leftarrow> goNew T;
       x \<leftarrow> load T r;
       y \<leftarrow> into x;
       storeAt T out y;
       State_Monad.return (Some out)
     })"

text \<open>\<open>runtime.Object\<close>: a nil interface, or a pointer with its type.\<close>

datatype heapObject =
    NilObject
  | ChangePodAt ref
  | ChangePodListAt ref
  | ChangeWorkloadAt ref
  | ChangeWorkloadListAt ref
  | OpsConfigInfoAt ref
  | OpsConfigInfoListAt ref

definition asObject :: "(ref \<Rightarrow> heapObject) \<Rightarrow> (heap, ref option) state \<Rightarrow> (heap, heapObject) state" where
  "asObject tag m = do {
     c \<leftarrow> m;
     State_Monad.return (case c of None \<Rightarrow> NilObject | Some r \<Rightarrow> tag r)
   }"

type_synonym metaCopy = "objectMetaMem \<Rightarrow> (heap, objectMetaMem) state"
type_synonym listMetaCopy = "listMetaMem \<Rightarrow> (heap, listMetaMem) state"

subsection \<open>The pieces\<close>

definition PodSummary_DeepCopyInto :: "podSummary \<Rightarrow> (heap, podSummary) state" where
  "PodSummary_DeepCopyInto src = State_Monad.return src"

definition PodSummary_DeepCopy :: "ref option \<Rightarrow> (heap, ref option) state" where
  "PodSummary_DeepCopy src = newCopy podSummaries PodSummary_DeepCopyInto src"

definition DefensePolicy_DeepCopyInto :: "defensePolicyMem \<Rightarrow> (heap, defensePolicyMem) state" where
  "DefensePolicy_DeepCopyInto src = State_Monad.return src"

definition DefensePolicy_DeepCopy :: "ref option \<Rightarrow> (heap, ref option) state" where
  "DefensePolicy_DeepCopy src = newCopy defensePolicies DefensePolicy_DeepCopyInto src"

definition OpsConfigInfoSpec_DeepCopyInto :: "opsConfigInfoSpecMem \<Rightarrow> (heap, opsConfigInfoSpecMem) state" where
  "OpsConfigInfoSpec_DeepCopyInto src = State_Monad.return src"

definition OpsConfigInfoSpec_DeepCopy :: "ref option \<Rightarrow> (heap, ref option) state" where
  "OpsConfigInfoSpec_DeepCopy src = newCopy opsConfigInfoSpecs OpsConfigInfoSpec_DeepCopyInto src"

definition OpsConfigInfoStatus_DeepCopyInto :: "opsConfigInfoStatusMem \<Rightarrow> (heap, opsConfigInfoStatusMem) state" where
  "OpsConfigInfoStatus_DeepCopyInto src = State_Monad.return src"

definition OpsConfigInfoStatus_DeepCopy :: "ref option \<Rightarrow> (heap, ref option) state" where
  "OpsConfigInfoStatus_DeepCopy src = newCopy opsConfigInfoStatuses OpsConfigInfoStatus_DeepCopyInto src"

definition ChangePodSpec_DeepCopyInto :: "changePodSpecMem \<Rightarrow> (heap, changePodSpecMem) state" where
  "ChangePodSpec_DeepCopyInto src = do {
     infos \<leftarrow> copySlice podSummaries (spPodInfos src);
     State_Monad.return (src\<lparr>spPodInfos := infos\<rparr>)
   }"

definition ChangePodSpec_DeepCopy :: "ref option \<Rightarrow> (heap, ref option) state" where
  "ChangePodSpec_DeepCopy src = newCopy changePodSpecs ChangePodSpec_DeepCopyInto src"

definition ChangePodStatus_DeepCopyInto :: "changePodStatusMem \<Rightarrow> (heap, changePodStatusMem) state" where
  "ChangePodStatus_DeepCopyInto src = do {
     results \<leftarrow> copySlice podSummaries (stPodResults src);
     State_Monad.return (src\<lparr>stPodResults := results\<rparr>)
   }"

definition ChangePodStatus_DeepCopy :: "ref option \<Rightarrow> (heap, ref option) state" where
  "ChangePodStatus_DeepCopy src = newCopy changePodStatuses ChangePodStatus_DeepCopyInto src"

definition ChangeWorkloadSpec_DeepCopyInto :: "changeWorkloadSpecMem \<Rightarrow> (heap, changeWorkloadSpecMem) state" where
  "ChangeWorkloadSpec_DeepCopyInto src = do {
     policies \<leftarrow> copySlice defensePolicies (wsPolicies src);
     State_Monad.return (src\<lparr>wsPolicies := policies\<rparr>)
   }"

definition ChangeWorkloadSpec_DeepCopy :: "ref option \<Rightarrow> (heap, ref option) state" where
  "ChangeWorkloadSpec_DeepCopy src = newCopy changeWorkloadSpecs ChangeWorkloadSpec_DeepCopyInto src"

definition ChangeWorkloadStatus_DeepCopyInto :: "changeWorkloadStatusMem \<Rightarrow> (heap, changeWorkloadStatusMem) state" where
  "ChangeWorkloadStatus_DeepCopyInto src = do {
     preparing \<leftarrow> copySlice podSummaries (wtDefensePreparingPods src);
     checking \<leftarrow> copySlice podSummaries (wtDefenseCheckingPods src);
     passed \<leftarrow> copySlice podSummaries (wtDefenseCheckPassPods src);
     failed \<leftarrow> copySlice podSummaries (wtDefenseCheckFailPods src);
     State_Monad.return (src\<lparr>wtDefensePreparingPods := preparing, wtDefenseCheckingPods := checking, wtDefenseCheckPassPods := passed, wtDefenseCheckFailPods := failed\<rparr>)
   }"

definition ChangeWorkloadStatus_DeepCopy :: "ref option \<Rightarrow> (heap, ref option) state" where
  "ChangeWorkloadStatus_DeepCopy src = newCopy changeWorkloadStatuses ChangeWorkloadStatus_DeepCopyInto src"

subsection \<open>The objects\<close>

definition ChangePod_DeepCopyInto :: "metaCopy \<Rightarrow> changePodMem \<Rightarrow> (heap, changePodMem) state" where
  "ChangePod_DeepCopyInto copyMeta src = do {
     meta \<leftarrow> copyMeta (pmMeta src);
     spec \<leftarrow> ChangePodSpec_DeepCopyInto (pmSpec src);
     status \<leftarrow> ChangePodStatus_DeepCopyInto (pmStatus src);
     State_Monad.return (src\<lparr>pmMeta := meta, pmSpec := spec, pmStatus := status\<rparr>)
   }"

definition ChangePod_DeepCopy :: "metaCopy \<Rightarrow> ref option \<Rightarrow> (heap, ref option) state" where
  "ChangePod_DeepCopy copyMeta src = newCopy changePodArrays (ChangePod_DeepCopyInto copyMeta) src"

definition ChangePod_DeepCopyObject :: "metaCopy \<Rightarrow> ref option \<Rightarrow> (heap, heapObject) state" where
  "ChangePod_DeepCopyObject copyMeta src = asObject ChangePodAt (ChangePod_DeepCopy copyMeta src)"

definition ChangeWorkload_DeepCopyInto :: "metaCopy \<Rightarrow> changeWorkloadMem \<Rightarrow> (heap, changeWorkloadMem) state" where
  "ChangeWorkload_DeepCopyInto copyMeta src = do {
     meta \<leftarrow> copyMeta (wmMeta src);
     spec \<leftarrow> ChangeWorkloadSpec_DeepCopyInto (wmSpec src);
     status \<leftarrow> ChangeWorkloadStatus_DeepCopyInto (wmStatus src);
     State_Monad.return (src\<lparr>wmMeta := meta, wmSpec := spec, wmStatus := status\<rparr>)
   }"

definition ChangeWorkload_DeepCopy :: "metaCopy \<Rightarrow> ref option \<Rightarrow> (heap, ref option) state" where
  "ChangeWorkload_DeepCopy copyMeta src = newCopy changeWorkloadArrays (ChangeWorkload_DeepCopyInto copyMeta) src"

definition ChangeWorkload_DeepCopyObject :: "metaCopy \<Rightarrow> ref option \<Rightarrow> (heap, heapObject) state" where
  "ChangeWorkload_DeepCopyObject copyMeta src = asObject ChangeWorkloadAt (ChangeWorkload_DeepCopy copyMeta src)"

definition OpsConfigInfo_DeepCopyInto :: "metaCopy \<Rightarrow> opsConfigInfoMem \<Rightarrow> (heap, opsConfigInfoMem) state" where
  "OpsConfigInfo_DeepCopyInto copyMeta src = do {
     meta \<leftarrow> copyMeta (omMeta src);
     State_Monad.return (src\<lparr>omMeta := meta\<rparr>)
   }"

definition OpsConfigInfo_DeepCopy :: "metaCopy \<Rightarrow> ref option \<Rightarrow> (heap, ref option) state" where
  "OpsConfigInfo_DeepCopy copyMeta src = newCopy opsConfigInfoArrays (OpsConfigInfo_DeepCopyInto copyMeta) src"

definition OpsConfigInfo_DeepCopyObject :: "metaCopy \<Rightarrow> ref option \<Rightarrow> (heap, heapObject) state" where
  "OpsConfigInfo_DeepCopyObject copyMeta src = asObject OpsConfigInfoAt (OpsConfigInfo_DeepCopy copyMeta src)"

subsection \<open>The lists\<close>

definition ChangePodList_DeepCopyInto :: "metaCopy \<Rightarrow> listMetaCopy \<Rightarrow> changePodListMem \<Rightarrow> (heap, changePodListMem) state" where
  "ChangePodList_DeepCopyInto copyMeta copyListMeta src = do {
     meta \<leftarrow> copyListMeta (liMeta src);
     items \<leftarrow> copyItems changePodArrays (ChangePod_DeepCopyInto copyMeta) (liItems src);
     State_Monad.return (src\<lparr>liMeta := meta, liItems := items\<rparr>)
   }"

definition ChangePodList_DeepCopy :: "metaCopy \<Rightarrow> listMetaCopy \<Rightarrow> ref option \<Rightarrow> (heap, ref option) state" where
  "ChangePodList_DeepCopy copyMeta copyListMeta src = newCopy changePodLists (ChangePodList_DeepCopyInto copyMeta copyListMeta) src"

definition ChangePodList_DeepCopyObject :: "metaCopy \<Rightarrow> listMetaCopy \<Rightarrow> ref option \<Rightarrow> (heap, heapObject) state" where
  "ChangePodList_DeepCopyObject copyMeta copyListMeta src = asObject ChangePodListAt (ChangePodList_DeepCopy copyMeta copyListMeta src)"

definition ChangeWorkloadList_DeepCopyInto :: "metaCopy \<Rightarrow> listMetaCopy \<Rightarrow> changeWorkloadListMem \<Rightarrow> (heap, changeWorkloadListMem) state" where
  "ChangeWorkloadList_DeepCopyInto copyMeta copyListMeta src = do {
     meta \<leftarrow> copyListMeta (liMeta src);
     items \<leftarrow> copyItems changeWorkloadArrays (ChangeWorkload_DeepCopyInto copyMeta) (liItems src);
     State_Monad.return (src\<lparr>liMeta := meta, liItems := items\<rparr>)
   }"

definition ChangeWorkloadList_DeepCopy :: "metaCopy \<Rightarrow> listMetaCopy \<Rightarrow> ref option \<Rightarrow> (heap, ref option) state" where
  "ChangeWorkloadList_DeepCopy copyMeta copyListMeta src = newCopy changeWorkloadLists (ChangeWorkloadList_DeepCopyInto copyMeta copyListMeta) src"

definition ChangeWorkloadList_DeepCopyObject :: "metaCopy \<Rightarrow> listMetaCopy \<Rightarrow> ref option \<Rightarrow> (heap, heapObject) state" where
  "ChangeWorkloadList_DeepCopyObject copyMeta copyListMeta src = asObject ChangeWorkloadListAt (ChangeWorkloadList_DeepCopy copyMeta copyListMeta src)"

definition OpsConfigInfoList_DeepCopyInto :: "metaCopy \<Rightarrow> listMetaCopy \<Rightarrow> opsConfigInfoListMem \<Rightarrow> (heap, opsConfigInfoListMem) state" where
  "OpsConfigInfoList_DeepCopyInto copyMeta copyListMeta src = do {
     meta \<leftarrow> copyListMeta (liMeta src);
     items \<leftarrow> copyItems opsConfigInfoArrays (OpsConfigInfo_DeepCopyInto copyMeta) (liItems src);
     State_Monad.return (src\<lparr>liMeta := meta, liItems := items\<rparr>)
   }"

definition OpsConfigInfoList_DeepCopy :: "metaCopy \<Rightarrow> listMetaCopy \<Rightarrow> ref option \<Rightarrow> (heap, ref option) state" where
  "OpsConfigInfoList_DeepCopy copyMeta copyListMeta src = newCopy opsConfigInfoLists (OpsConfigInfoList_DeepCopyInto copyMeta copyListMeta) src"

definition OpsConfigInfoList_DeepCopyObject :: "metaCopy \<Rightarrow> listMetaCopy \<Rightarrow> ref option \<Rightarrow> (heap, heapObject) state" where
  "OpsConfigInfoList_DeepCopyObject copyMeta copyListMeta src = asObject OpsConfigInfoListAt (OpsConfigInfoList_DeepCopy copyMeta copyListMeta src)"

end
