(* ===== verification/Copy_Laws.thy ===== *)
theory Copy_Laws
  imports Deep_Copy
begin

section \<open>What a deep copy promises\<close>

text \<open>
  A \<open>shape\<close> says how a value lies in memory: which cells it reaches, which value it stands for,
  and when it is well-typed. The locale \<open>deep_copier\<close> is the contract of a deep copy: the old
  cells stay as they are, and the result is well-typed, stands for the same value and reaches
  new cells only. The contract is shown for each step of the generated code, and so for every
  type, from the contract of apimachinery's copies.
\<close>

record ('s, 'v) shape =
  foot :: "heap \<Rightarrow> 's \<Rightarrow> nat set"
  view :: "heap \<Rightarrow> 's \<Rightarrow> 'v"
  valid :: "heap \<Rightarrow> 's \<Rightarrow> bool"

text \<open>Two heaps that agree on some cells, the second not smaller.\<close>

definition agree :: "nat set \<Rightarrow> heap \<Rightarrow> heap \<Rightarrow> bool" where
  "agree A h h' \<longleftrightarrow> hNext h \<le> hNext h' \<and> (\<forall>a\<in>A. hCells h' a = hCells h a)"

lemma agree_subset: "agree B h h' \<Longrightarrow> A \<subseteq> B \<Longrightarrow> agree A h h'"
  by (auto simp: agree_def)

lemma grows_agree: "grows h h' \<longleftrightarrow> agree {..<hNext h} h h'"
  by (auto simp: grows_def agree_def)

locale heap_shape =
  fixes S :: "('s, 'v) shape"
  assumes allocated: "valid S h s \<Longrightarrow> foot S h s \<subseteq> {..<hNext h}"
    and frame: "valid S h s \<Longrightarrow> agree (foot S h s) h h' \<Longrightarrow>
      valid S h' s \<and> view S h' s = view S h s \<and> foot S h' s = foot S h s"
begin

lemma frame_grows:
  assumes "valid S h s" "grows h h'"
  shows "valid S h' s \<and> view S h' s = view S h s \<and> foot S h' s = foot S h s"
  by (rule frame [OF assms(1) agree_subset [OF assms(2) [unfolded grows_agree] allocated [OF assms(1)]]])

end

locale deep_copier = heap_shape S for S :: "('s, 'v) shape" +
  fixes copyOf :: "'s \<Rightarrow> (heap, 's) state"
  assumes copied: "valid S h s \<Longrightarrow> run_state (copyOf s) h = (s', h') \<Longrightarrow>
    grows h h' \<and> valid S h' s' \<and> view S h' s' = view S h s \<and> foot S h' s' \<inter> {..<hNext h} = {}"
begin

text \<open>Whatever is later written to the cells of one of the two, the other keeps its value.\<close>

lemma independent:
  assumes v: "valid S h s" and r: "run_state (copyOf s) h = (s', h')"
  shows "agree (- foot S h' s) h' h'' \<Longrightarrow> valid S h'' s' \<and> view S h'' s' = view S h s"
    and "agree (- foot S h' s') h' h'' \<Longrightarrow> valid S h'' s \<and> view S h'' s = view S h s"
proof -
  have c: "grows h h'" "valid S h' s'" "view S h' s' = view S h s" "foot S h' s' \<inter> {..<hNext h} = {}"
    using copied [OF v r] by blast+
  have s: "valid S h' s" "view S h' s = view S h s" "foot S h' s = foot S h s"
    using frame_grows [OF v c(1)] by blast+
  have disjoint: "foot S h' s \<inter> foot S h' s' = {}"
    unfolding s(3) using allocated [OF v] c(4) by blast
  show "valid S h'' s' \<and> view S h'' s' = view S h s" if "agree (- foot S h' s) h' h''"
    using frame [OF c(2) agree_subset [OF that]] c(3) disjoint by (metis disjoint_eq_subset_Compl Int_commute)
  show "valid S h'' s \<and> view S h'' s = view S h s" if "agree (- foot S h' s') h' h''"
    using frame [OF s(1) agree_subset [OF that]] s(2) disjoint by (simp add: disjoint_eq_subset_Compl)
qed

end

subsection \<open>Values without references\<close>

definition plainShape :: "('s, 's) shape" where
  "plainShape = \<lparr>foot = (\<lambda>h s. {}), view = (\<lambda>h s. s), valid = (\<lambda>h s. True)\<rparr>"

interpretation plain: deep_copier plainShape State_Monad.return
  by unfold_locales (auto simp: plainShape_def)

subsection \<open>Structs: two parts, and fields put back into the struct\<close>

definition pairShape :: "('a, 'v) shape \<Rightarrow> ('b, 'w) shape \<Rightarrow> ('a \<times> 'b, 'v \<times> 'w) shape" where
  "pairShape A B = \<lparr>foot = (\<lambda>h s. foot A h (fst s) \<union> foot B h (snd s)),
     view = (\<lambda>h s. (view A h (fst s), view B h (snd s))),
     valid = (\<lambda>h s. valid A h (fst s) \<and> valid B h (snd s))\<rparr>"

definition copyPair :: "('a \<Rightarrow> (heap, 'a) state) \<Rightarrow> ('b \<Rightarrow> (heap, 'b) state) \<Rightarrow> 'a \<times> 'b \<Rightarrow> (heap, 'a \<times> 'b) state" where
  "copyPair ca cb = (\<lambda>(a, b). do { a' \<leftarrow> ca a; b' \<leftarrow> cb b; State_Monad.return (a', b') })"

lemma agree_Un: "agree (A \<union> B) h h' \<longleftrightarrow> agree A h h' \<and> agree B h h'"
  by (auto simp: agree_def)

lemma heap_shape_pair:
  assumes "heap_shape A" "heap_shape B"
  shows "heap_shape (pairShape A B)"
proof
  fix h h' and s :: "'a \<times> 'c"
  assume "valid (pairShape A B) h s"
  then have v: "valid A h (fst s)" "valid B h (snd s)"
    by (simp_all add: pairShape_def)
  show "foot (pairShape A B) h s \<subseteq> {..<hNext h}"
    using heap_shape.allocated [OF assms(1) v(1)] heap_shape.allocated [OF assms(2) v(2)]
    by (simp add: pairShape_def)
  assume "agree (foot (pairShape A B) h s) h h'"
  then have "agree (foot A h (fst s)) h h'" "agree (foot B h (snd s)) h h'"
    by (simp_all add: pairShape_def agree_Un)
  then show "valid (pairShape A B) h' s \<and> view (pairShape A B) h' s = view (pairShape A B) h s \<and>
      foot (pairShape A B) h' s = foot (pairShape A B) h s"
    using heap_shape.frame [OF assms(1) v(1)] heap_shape.frame [OF assms(2) v(2)]
    by (simp add: pairShape_def)
qed

lemma deep_copier_pair:
  assumes A: "deep_copier A ca" and B: "deep_copier B cb"
  shows "deep_copier (pairShape A B) (copyPair ca cb)"
proof (intro deep_copier.intro deep_copier_axioms.intro heap_shape_pair)
  note shA = deep_copier.axioms(1) [OF A] and shB = deep_copier.axioms(1) [OF B]
  show "heap_shape A" "heap_shape B" by (fact shA, fact shB)
  fix h h' and s s' :: "'a \<times> 'c"
  assume "valid (pairShape A B) h s" and r: "run_state (copyPair ca cb s) h = (s', h')"
  then have v: "valid A h (fst s)" "valid B h (snd s)"
    by (simp_all add: pairShape_def)
  obtain a h1 where a: "run_state (ca (fst s)) h = (a, h1)" by (cases "run_state (ca (fst s)) h")
  obtain b h2 where b: "run_state (cb (snd s)) h1 = (b, h2)" by (cases "run_state (cb (snd s)) h1")
  have s': "s' = (a, b)" "h' = h2"
    using r by (auto simp: copyPair_def case_prod_beta a b)
  have ca: "grows h h1" "valid A h1 a" "view A h1 a = view A h (fst s)" "foot A h1 a \<inter> {..<hNext h} = {}"
    using deep_copier.copied [OF A v(1) a] by blast+
  have vb: "valid B h1 (snd s)" "view B h1 (snd s) = view B h (snd s)"
    using heap_shape.frame_grows [OF shB v(2) ca(1)] by blast+
  have cb: "grows h1 h2" "valid B h2 b" "view B h2 b = view B h1 (snd s)" "foot B h2 b \<inter> {..<hNext h1} = {}"
    using deep_copier.copied [OF B vb(1) b] by blast+
  have a2: "valid A h2 a" "view A h2 a = view A h1 a" "foot A h2 a = foot A h1 a"
    using heap_shape.frame_grows [OF shA ca(2) cb(1)] by blast+
  have "foot B h2 b \<inter> {..<hNext h} = {}"
    using cb(4) ca(1) unfolding grows_def by (meson disjoint_iff lessThan_iff order_less_le_trans)
  then show "grows h h' \<and> valid (pairShape A B) h' s' \<and>
      view (pairShape A B) h' s' = view (pairShape A B) h s \<and> foot (pairShape A B) h' s' \<inter> {..<hNext h} = {}"
    using ca cb vb a2 grows_trans [OF ca(1) cb(1)]
    by (simp add: s' pairShape_def Int_Un_distrib2)
qed

text \<open>\<open>get\<close> takes the fields that are copied out of the struct, \<open>put\<close> puts the copies back, and
  \<open>mk\<close> gives the value of the struct from theirs.\<close>

definition structShape :: "('s \<Rightarrow> 'p) \<Rightarrow> ('s \<Rightarrow> 'v \<Rightarrow> 'w) \<Rightarrow> ('p, 'v) shape \<Rightarrow> ('s, 'w) shape" where
  "structShape get mk S = \<lparr>foot = (\<lambda>h s. foot S h (get s)), view = (\<lambda>h s. mk s (view S h (get s))),
     valid = (\<lambda>h s. valid S h (get s))\<rparr>"

definition copyStruct :: "('s \<Rightarrow> 'p) \<Rightarrow> ('s \<Rightarrow> 'p \<Rightarrow> 's) \<Rightarrow> ('p \<Rightarrow> (heap, 'p) state) \<Rightarrow> 's \<Rightarrow> (heap, 's) state" where
  "copyStruct get put c s = do { p \<leftarrow> c (get s); State_Monad.return (put s p) }"

lemma deep_copier_struct:
  assumes c: "deep_copier S c" and get: "\<And>s p. get (put s p) = p" and mk: "\<And>s p v. mk (put s p) v = mk s v"
  shows "deep_copier (structShape get mk S) (copyStruct get put c)"
proof (intro deep_copier.intro heap_shape.intro deep_copier_axioms.intro)
  note sh = deep_copier.axioms(1) [OF c]
  fix h h' s s'
  assume "valid (structShape get mk S) h s"
  then have v: "valid S h (get s)" by (simp add: structShape_def)
  show "foot (structShape get mk S) h s \<subseteq> {..<hNext h}"
    using heap_shape.allocated [OF sh v] by (simp add: structShape_def)
  show "valid (structShape get mk S) h' s \<and> view (structShape get mk S) h' s = view (structShape get mk S) h s \<and>
      foot (structShape get mk S) h' s = foot (structShape get mk S) h s"
    if "agree (foot (structShape get mk S) h s) h h'"
    using heap_shape.frame [OF sh v] that by (simp add: structShape_def)
  assume r: "run_state (copyStruct get put c s) h = (s', h')"
  obtain p h1 where p: "run_state (c (get s)) h = (p, h1)" by (cases "run_state (c (get s)) h")
  have "s' = put s p" "h' = h1"
    using r by (auto simp: copyStruct_def p)
  then show "grows h h' \<and> valid (structShape get mk S) h' s' \<and>
      view (structShape get mk S) h' s' = view (structShape get mk S) h s \<and>
      foot (structShape get mk S) h' s' \<inter> {..<hNext h} = {}"
    using deep_copier.copied [OF c v p] by (simp add: structShape_def get mk)
qed

end
