(* ===== verification/Copy_Slices.thy ===== *)
theory Copy_Slices
  imports Copy_Laws
begin

section \<open>Deep copies of slices and pointers\<close>

text \<open>
  The contract of \<open>Copy_Laws\<close> for \<open>copySlice\<close>, \<open>copyItems\<close> and \<open>newCopy\<close>. A slice is
  well-typed when its cell is an array of its type that is long enough; it stands for the list
  of the values of its elements, or for None when it is nil.
\<close>

definition typedSlice :: "'a arrayType \<Rightarrow> heap \<Rightarrow> slice \<Rightarrow> bool" where
  "typedSlice T h s \<longleftrightarrow> slPtr s < hNext h \<and>
     (case atGet T (hCells h (slPtr s)) of None \<Rightarrow> False | Some xs \<Rightarrow> slOff s + slLen s \<le> length xs)"

definition itemsShape :: "'a arrayType \<Rightarrow> ('a, 'v) shape \<Rightarrow> (slice option, 'v list option) shape" where
  "itemsShape T A = \<lparr>
     foot = (\<lambda>h so. case so of None \<Rightarrow> {} | Some s \<Rightarrow> insert (slPtr s) (\<Union>x\<in>set (elems T h s). foot A h x)),
     view = (\<lambda>h so. map_option (\<lambda>s. map (view A h) (elems T h s)) so),
     valid = (\<lambda>h so. case so of None \<Rightarrow> True
       | Some s \<Rightarrow> typedSlice T h s \<and> list_all (valid A h) (elems T h s))\<rparr>"

definition slicePart :: "ref \<Rightarrow> slice" where
  "slicePart r = \<lparr>slPtr = refPtr r, slOff = refIdx r, slLen = 1\<rparr>"

definition refShape :: "'a arrayType \<Rightarrow> ('a, 'v) shape \<Rightarrow> (ref option, 'v option) shape" where
  "refShape T A = \<lparr>
     foot = (\<lambda>h ro. foot (itemsShape T A) h (map_option slicePart ro)),
     view = (\<lambda>h ro. map_option hd (view (itemsShape T A) h (map_option slicePart ro))),
     valid = (\<lambda>h ro. valid (itemsShape T A) h (map_option slicePart ro))\<rparr>"

lemma agree_UN: "agree (\<Union>x\<in>X. A x) h h' \<Longrightarrow> x \<in> X \<Longrightarrow> agree (A x) h h'"
  by (erule agree_subset) blast

lemma heap_shape_items:
  assumes A: "heap_shape A"
  shows "heap_shape (itemsShape T A)"
proof
  fix h h' and so :: "slice option"
  assume v: "valid (itemsShape T A) h so"
  then show "foot (itemsShape T A) h so \<subseteq> {..<hNext h}"
    using heap_shape.allocated [OF A]
    by (fastforce simp: itemsShape_def typedSlice_def list_all_iff split: option.splits)
  assume a: "agree (foot (itemsShape T A) h so) h h'"
  show "valid (itemsShape T A) h' so \<and> view (itemsShape T A) h' so = view (itemsShape T A) h so \<and>
      foot (itemsShape T A) h' so = foot (itemsShape T A) h so"
  proof (cases so)
    case (Some s)
    have cell: "hCells h' (slPtr s) = hCells h (slPtr s)" "hNext h \<le> hNext h'"
      using a by (simp_all add: Some itemsShape_def agree_def)
    have el: "elems T h' s = elems T h s"
      using cell(1) by (rule elems_cong)
    have "agree (\<Union>x\<in>set (elems T h s). foot A h x) h h'"
      using a by (simp add: Some itemsShape_def agree_def)
    moreover have "\<And>x. x \<in> set (elems T h s) \<Longrightarrow> valid A h x"
      using v by (simp add: Some itemsShape_def list_all_iff)
    ultimately have x: "valid A h' x \<and> view A h' x = view A h x \<and> foot A h' x = foot A h x"
      if "x \<in> set (elems T h s)" for x
      using that heap_shape.frame [OF A, of h x h'] agree_UN by metis
    show ?thesis
      using v x cell by (simp add: Some itemsShape_def typedSlice_def list_all_iff el)
  qed (simp add: itemsShape_def)
qed

lemma heap_shape_ref:
  assumes A: "heap_shape A"
  shows "heap_shape (refShape T A)"
proof
  note sh = heap_shape_items [OF A, of T]
  fix h h' and ro :: "ref option"
  assume "valid (refShape T A) h ro"
  then have v: "valid (itemsShape T A) h (map_option slicePart ro)" by (simp add: refShape_def)
  show "foot (refShape T A) h ro \<subseteq> {..<hNext h}"
    using heap_shape.allocated [OF sh v] by (simp add: refShape_def)
  assume "agree (foot (refShape T A) h ro) h h'"
  then show "valid (refShape T A) h' ro \<and> view (refShape T A) h' ro = view (refShape T A) h ro \<and>
      foot (refShape T A) h' ro = foot (refShape T A) h ro"
    using heap_shape.frame [OF sh v] by (simp add: refShape_def)
qed

subsection \<open>The loop\<close>

lemma elems_nth:
  assumes "typedSlice T h s" "i < slLen s"
  shows "arrayAt T h (slPtr s) ! (slOff s + i) = elems T h s ! i" "length (elems T h s) = slLen s"
  using assms by (auto simp: typedSlice_def elems_def arrayAt_def split: option.splits)

text \<open>
  Before step \<open>length ys\<close> of the loop: the new array, in the cell \<open>p\<close>, has the copies
  \<open>ys\<close> so far and then zeros; the copies are well-typed, stand for the first elements of the
  source and reach cells after \<open>p\<close> only.
\<close>

definition loopInv :: "'a arrayType \<Rightarrow> ('a, 'v) shape \<Rightarrow> heap \<Rightarrow> slice \<Rightarrow> 'a list \<Rightarrow> heap \<Rightarrow> bool" where
  "loopInv T A h s ys h' \<longleftrightarrow> grows h h' \<and> hNext h < hNext h' \<and> length ys \<le> slLen s \<and>
     hCells h' (hNext h) = atPut T (ys @ replicate (slLen s - length ys) (atZero T)) \<and>
     (\<forall>y\<in>set ys. valid A h' y \<and> foot A h' y \<subseteq> {hNext h<..}) \<and>
     map (view A h') ys = map (view A h) (take (length ys) (elems T h s))"

lemma loopInv_step:
  assumes T: "array_type T" and A: "deep_copier A into"
    and v: "valid (itemsShape T A) h (Some s)"
    and inv: "loopInv T A h s ys h1" and k: "length ys < slLen s"
    and y: "run_state (into (elems T h s ! length ys)) h1 = (y, h2)"
  shows "loopInv T A h s (ys @ [y])
    (setArray T (hNext h) ((arrayAt T h2 (hNext h))[length ys := y]) h2)"
proof -
  note shA = deep_copier.axioms(1) [OF A]
  let ?p = "hNext h"
  let ?h3 = "setArray T ?p ((arrayAt T h2 ?p)[length ys := y]) h2"
  have i: "grows h h1" "?p < hNext h1" "hCells h1 ?p = atPut T (ys @ replicate (slLen s - length ys) (atZero T))"
      "\<And>z. z \<in> set ys \<Longrightarrow> valid A h1 z" "\<And>z. z \<in> set ys \<Longrightarrow> foot A h1 z \<subseteq> {?p<..}"
      "map (view A h1) ys = map (view A h) (take (length ys) (elems T h s))"
    using inv by (simp_all add: loopInv_def)
  have len: "length (elems T h s) = slLen s"
    using v elems_nth(2) [of T h s, OF _ k] by (simp add: itemsShape_def)
  have vx: "valid A h (elems T h s ! length ys)"
    using v k len by (simp add: itemsShape_def list_all_length)
  have x1: "valid A h1 (elems T h s ! length ys)"
      "view A h1 (elems T h s ! length ys) = view A h (elems T h s ! length ys)"
    using heap_shape.frame_grows [OF shA vx i(1)] by blast+
  have c: "grows h1 h2" "valid A h2 y" "view A h2 y = view A h1 (elems T h s ! length ys)"
      "foot A h2 y \<inter> {..<hNext h1} = {}"
    using deep_copier.copied [OF A x1(1) y] by blast+
  have p2: "arrayAt T h2 ?p = ys @ replicate (slLen s - length ys) (atZero T)"
    using c(1) i(2,3) array_type.get_put [OF T] by (simp add: arrayAt_def grows_def)
  have cells: "valid A h2 z \<and> foot A h2 z \<subseteq> {?p<..}" if "z \<in> set (ys @ [y])" for z
  proof (cases "z = y")
    case True
    then show ?thesis using c(2,4) i(2) by fastforce
  next
    case False
    then have z: "z \<in> set ys" using that by simp
    show ?thesis using heap_shape.frame_grows [OF shA i(4) [OF z] c(1)] i(5) [OF z] by simp
  qed
  have h3: "valid A ?h3 z \<and> view A ?h3 z = view A h2 z \<and> foot A ?h3 z = foot A h2 z" if "z \<in> set (ys @ [y])" for z
    by (rule heap_shape.frame [OF shA]) (use cells [OF that] in \<open>auto simp: agree_def\<close>)
  have "view A h2 z = view A h1 z" if "z \<in> set ys" for z
    using heap_shape.frame_grows [OF shA i(4) [OF that] c(1)] by blast
  then have views: "map (view A ?h3) (ys @ [y]) = map (view A h) (take (Suc (length ys)) (elems T h s))"
    using h3 i(6) c(3) x1(2) k len by (simp add: take_Suc_conv_app_nth cong: map_cong)
  obtain m where "slLen s - length ys = Suc m" "slLen s - Suc (length ys) = m"
    using k by (cases "slLen s - length ys") auto
  then have "(ys @ replicate (slLen s - length ys) (atZero T))[length ys := y] =
      (ys @ [y]) @ replicate (slLen s - Suc (length ys)) (atZero T)"
    by (simp add: list_update_append)
  moreover have "grows h ?h3" "?p < hNext ?h3"
    using i(1,2) c(1) by (auto simp: grows_def)
  ultimately show ?thesis
    using k views h3 cells unfolding loopInv_def p2 by simp
qed

lemma copyLoop_run:
  assumes T: "array_type T" and A: "deep_copier A into" and v: "valid (itemsShape T A) h (Some s)"
  shows "loopInv T A h s ys h1 \<Longrightarrow>
    run_state (copyLoop T into s \<lparr>slPtr = hNext h, slOff = 0, slLen = slLen s\<rparr> [length ys..<slLen s]) h1 = ((), h') \<Longrightarrow>
    \<exists>zs. length zs = slLen s \<and> loopInv T A h s zs h'"
proof (induction "slLen s - length ys" arbitrary: ys h1)
  case 0
  then show ?case by (intro exI [of _ ys]) (auto simp: loopInv_def)
next
  case (Suc m)
  then have k: "length ys < slLen s" by simp
  have typed: "typedSlice T h s" using v by (simp add: itemsShape_def)
  then have "slPtr s < hNext h" by (simp add: typedSlice_def)
  then have "arrayAt T h1 (slPtr s) = arrayAt T h (slPtr s)"
    using Suc.prems(1) by (intro arrayAt_cong) (simp add: loopInv_def grows_def)
  then have x: "arrayAt T h1 (slPtr s) ! (slOff s + length ys) = elems T h s ! length ys"
    using elems_nth(1) [OF typed k] by simp
  obtain y h2 where y: "run_state (into (elems T h s ! length ys)) h1 = (y, h2)"
    by (cases "run_state (into (elems T h s ! length ys)) h1")
  let ?h3 = "setArray T (hNext h) ((arrayAt T h2 (hNext h))[length ys := y]) h2"
  have "loopInv T A h s (ys @ [y]) ?h3"
    by (rule loopInv_step [OF T A v Suc.prems(1) k y])
  moreover have "run_state (copyLoop T into s \<lparr>slPtr = hNext h, slOff = 0, slLen = slLen s\<rparr> [length (ys @ [y])..<slLen s]) ?h3 = ((), h')"
    using Suc.prems(2) by (simp add: upt_conv_Cons [OF k] readAt_def writeAt_def x y)
  moreover have "m = slLen s - length (ys @ [y])" using Suc.hyps(2) by simp
  ultimately show ?case using Suc.hyps(1) by blast
qed

lemma goMake_run:
  "run_state (goMake T n) h = (\<lparr>slPtr = hNext h, slOff = 0, slLen = n\<rparr>,
     h\<lparr>hNext := Suc (hNext h), hCells := (hCells h)(hNext h := atPut T (replicate n (atZero T)))\<rparr>)"
  by (simp add: goMake_def goAlloc_def)

lemma loopInv_init:
  "loopInv T A h s [] (h\<lparr>hNext := Suc (hNext h), hCells := (hCells h)(hNext h := atPut T (replicate (slLen s) (atZero T)))\<rparr>)"
  by (simp add: loopInv_def grows_def)

text \<open>The array after the loop.\<close>

lemma loopInv_done:
  assumes T: "array_type T" and v: "valid (itemsShape T A) h (Some s)"
    and inv: "loopInv T A h s zs h'" and len: "length zs = slLen s"
  defines "d \<equiv> \<lparr>slPtr = hNext h, slOff = 0, slLen = slLen s\<rparr>"
  shows "grows h h' \<and> valid (itemsShape T A) h' (Some d) \<and>
    view (itemsShape T A) h' (Some d) = view (itemsShape T A) h (Some s) \<and>
    foot (itemsShape T A) h' (Some d) \<inter> {..<hNext h} = {}"
proof -
  have el: "elems T h' d = zs" "typedSlice T h' d"
    using inv len array_type.get_put [OF T]
    by (simp_all add: d_def loopInv_def elems_def arrayAt_def typedSlice_def)
  have "length (elems T h s) = slLen s"
    using v by (auto simp: itemsShape_def typedSlice_def elems_def arrayAt_def split: option.splits)
  then have views: "map (view A h') zs = map (view A h) (elems T h s)"
    using inv len by (simp add: loopInv_def)
  have "foot A h' z \<inter> {..<hNext h} = {}" if "z \<in> set zs" for z
    using inv that by (fastforce simp: loopInv_def)
  then show ?thesis
    using inv el views by (auto simp: itemsShape_def list_all_iff loopInv_def d_def)
qed

lemma deep_copier_items:
  assumes T: "array_type T" and A: "deep_copier A into"
  shows "deep_copier (itemsShape T A) (copyItems T into)"
proof (intro deep_copier.intro deep_copier_axioms.intro heap_shape_items deep_copier.axioms(1) [OF A])
  fix h h' so so'
  assume v: "valid (itemsShape T A) h so" and r: "run_state (copyItems T into so) h = (so', h')"
  show "grows h h' \<and> valid (itemsShape T A) h' so' \<and> view (itemsShape T A) h' so' = view (itemsShape T A) h so \<and>
      foot (itemsShape T A) h' so' \<inter> {..<hNext h} = {}"
  proof (cases so)
    case None
    then show ?thesis using r by (simp add: copyItems_def itemsShape_def)
  next
    case (Some s)
    note v = v [unfolded Some]
    have so': "so' = Some \<lparr>slPtr = hNext h, slOff = 0, slLen = slLen s\<rparr>"
      and "run_state (copyLoop T into s \<lparr>slPtr = hNext h, slOff = 0, slLen = slLen s\<rparr> [length []..<slLen s])
        (h\<lparr>hNext := Suc (hNext h), hCells := (hCells h)(hNext h := atPut T (replicate (slLen s) (atZero T)))\<rparr>) = ((), h')"
      using r by (auto simp: Some copyItems_def goMake_run split: prod.splits)
    then obtain zs where "length zs = slLen s" "loopInv T A h s zs h'"
      using copyLoop_run [OF T A v loopInv_init] by blast
    then show ?thesis unfolding so' Some using loopInv_done [OF T v] by blast
  qed
qed

text \<open>\<open>copy\<close> is the loop without calls.\<close>

lemma deep_copier_slice:
  assumes T: "array_type T"
  shows "deep_copier (itemsShape T plainShape) (copySlice T)"
proof (intro deep_copier.intro deep_copier_axioms.intro heap_shape_items plain.heap_shape_axioms)
  fix h h' so so'
  assume v: "valid (itemsShape T plainShape) h so" and r: "run_state (copySlice T so) h = (so', h')"
  show "grows h h' \<and> valid (itemsShape T plainShape) h' so' \<and>
      view (itemsShape T plainShape) h' so' = view (itemsShape T plainShape) h so \<and>
      foot (itemsShape T plainShape) h' so' \<inter> {..<hNext h} = {}"
  proof (cases so)
    case None
    then show ?thesis using r by (simp add: copySlice_def itemsShape_def)
  next
    case (Some s)
    note v = v [unfolded Some]
    let ?h1 = "h\<lparr>hNext := Suc (hNext h), hCells := (hCells h)(hNext h := atPut T (replicate (slLen s) (atZero T)))\<rparr>"
    have typed: "slPtr s < hNext h" "length (elems T h s) = slLen s"
      using v by (auto simp: itemsShape_def typedSlice_def elems_def arrayAt_def split: option.splits)
    then have el: "elems T ?h1 s = elems T h s"
      by (intro elems_cong) simp
    have so': "so' = Some \<lparr>slPtr = hNext h, slOff = 0, slLen = slLen s\<rparr>"
      and h': "h' = setArray T (hNext h) (elems T h s) ?h1"
      using r typed el array_type.get_put [OF T]
      by (auto simp: Some copySlice_def goMake_run goCopy_def Let_def arrayAt_def)
    have "loopInv T plainShape h s (elems T h s) h'"
      unfolding h' using typed by (simp add: loopInv_def plainShape_def grows_def)
    then show ?thesis unfolding so' Some using loopInv_done [OF T v _ typed(2)] by blast
  qed
qed

text \<open>\<open>new\<close> with a \<open>DeepCopyInto\<close> is the loop over one element.\<close>

lemma deep_copier_ref:
  assumes T: "array_type T" and A: "deep_copier A into"
  shows "deep_copier (refShape T A) (newCopy T into)"
proof (intro deep_copier.intro deep_copier_axioms.intro heap_shape_ref deep_copier.axioms(1) [OF A])
  fix h h' ro ro'
  assume v: "valid (refShape T A) h ro" and r: "run_state (newCopy T into ro) h = (ro', h')"
  show "grows h h' \<and> valid (refShape T A) h' ro' \<and> view (refShape T A) h' ro' = view (refShape T A) h ro \<and>
      foot (refShape T A) h' ro' \<inter> {..<hNext h} = {}"
  proof (cases ro)
    case None
    then show ?thesis using r by (simp add: newCopy_def refShape_def itemsShape_def)
  next
    case (Some a)
    let ?s = "slicePart a"
    let ?h1 = "h\<lparr>hNext := Suc (hNext h), hCells := (hCells h)(hNext h := atPut T (replicate (slLen ?s) (atZero T)))\<rparr>"
    have v: "valid (itemsShape T A) h (Some ?s)"
      using v by (simp add: Some refShape_def)
    then have typed: "typedSlice T h ?s" by (simp add: itemsShape_def)
    then have "refPtr a < hNext h" by (simp add: typedSlice_def slicePart_def)
    then have "arrayAt T ?h1 (refPtr a) = arrayAt T h (refPtr a)"
      by (intro arrayAt_cong) simp
    then have x: "arrayAt T ?h1 (refPtr a) ! refIdx a = elems T h ?s ! 0"
      using elems_nth(1) [OF typed, of 0] by (simp add: slicePart_def)
    obtain y h2 where y: "run_state (into (elems T h ?s ! 0)) ?h1 = (y, h2)"
      by (cases "run_state (into (elems T h ?s ! 0)) ?h1")
    have inv: "loopInv T A h ?s [y] (setArray T (hNext h) ((arrayAt T h2 (hNext h))[0 := y]) h2)"
      using loopInv_step [OF T A v loopInv_init, of y h2] y by (simp add: slicePart_def)
    have "ro' = Some \<lparr>refPtr = hNext h, refIdx = 0\<rparr>"
      and "h' = setArray T (hNext h) ((arrayAt T h2 (hNext h))[0 := y]) h2"
      using r x y by (auto simp: Some newCopy_def goNew_def goAlloc_def load_def storeAt_def slicePart_def)
    then show ?thesis
      using loopInv_done [OF T v inv] by (simp add: Some refShape_def slicePart_def)
  qed
qed

end
