(* ===== verification/Copy_Types.thy ===== *)
theory Copy_Types
  imports Copy_Slices
begin

section \<open>Deep copies of the v1alpha1 types\<close>

text \<open>
  The shape of every v1alpha1 type, with the value it stands for in the rest of the development
  (a nil slice is the empty list there), and the contract of \<open>Copy_Laws\<close> for its deep copy. What
  is assumed of apimachinery is the same contract for \<open>metav1.ObjectMeta\<close> and
  \<open>metav1.ListMeta\<close>; a copy that has it is at the end.
\<close>

subsection \<open>Specs and statuses\<close>

definition goList :: "'v list option \<Rightarrow> 'v list" where
  "goList v = (case v of None \<Rightarrow> [] | Some xs \<Rightarrow> xs)"

definition podSliceShape :: "(slice option, podSummary list option) shape" where
  "podSliceShape = itemsShape podSummaries plainShape"

definition changePodSpecShape :: "(changePodSpecMem, changePodSpec) shape" where
  "changePodSpecShape = structShape spPodInfos
     (\<lambda>s v. \<lparr>cpPodInfos = goList v, cpCreateTime = spCreateTime s, cpCreateTimeUnix = spCreateTimeUnix s,
       cpChangeWorkloadId = spChangeWorkloadId s\<rparr>)
     podSliceShape"

definition changePodStatusShape :: "(changePodStatusMem, changePodStatus) shape" where
  "changePodStatusShape = structShape stPodResults
     (\<lambda>s v. \<lparr>cpStatusStatus = stStatus s, cpUpdateTime = stUpdateTime s, cpUpdateTimeUnix = stUpdateTimeUnix s,
       cpPodResults = goList v, cpMessage = stMessage s, cpChangePodId = stChangePodId s,
       cpPreSubmitTime = stPreSubmitTime s, cpPreSubmitTimeUnix = stPreSubmitTimeUnix s,
       cpPostSubmitTime = stPostSubmitTime s, cpPostSubmitTimeUnix = stPostSubmitTimeUnix s,
       cpPreTimeoutThreshold = stPreTimeoutThreshold s, cpPostTimeoutThreshold = stPostTimeoutThreshold s\<rparr>)
     podSliceShape"

definition changeWorkloadSpecShape :: "(changeWorkloadSpecMem, changeWorkloadSpec) shape" where
  "changeWorkloadSpecShape = structShape wsPolicies
     (\<lambda>s v. \<lparr>cwChangeWorkloadId = wsChangeWorkloadId s, cwServiceName = wsServiceName s,
       cwReversion = wsReversion s, cwPolicies = length (goList v), cwCountThreshold = wsCountThreshold s,
       cwWaitTimeThreshold = wsWaitTimeThreshold s, cwCreateTime = wsCreateTime s,
       cwCreateTimeUnix = wsCreateTimeUnix s, cwAppName = wsAppName s\<rparr>)
     (itemsShape defensePolicies plainShape)"

definition changeWorkloadStatusShape :: "(changeWorkloadStatusMem, changeWorkloadStatus) shape" where
  "changeWorkloadStatusShape = structShape
     (\<lambda>s. (wtDefensePreparingPods s, wtDefenseCheckingPods s, wtDefenseCheckPassPods s, wtDefenseCheckFailPods s))
     (\<lambda>s (preparing, checking, passed, failed).
       \<lparr>cwDefensePreparingPods = goList preparing, cwDefenseCheckingPods = goList checking,
       cwDefenseCheckPassPods = goList passed, cwDefenseCheckFailPods = goList failed,
       cwStatusStatus = wtStatus s, cwEntryTime = wtEntryTime s, cwEntryTimeUnix = wtEntryTimeUnix s,
       cwUpdateTime = wtUpdateTime s, cwUpdateTimeUnix = wtUpdateTimeUnix s\<rparr>)
     (pairShape podSliceShape (pairShape podSliceShape (pairShape podSliceShape podSliceShape)))"

interpretation podSlice: deep_copier podSliceShape "copySlice podSummaries"
  unfolding podSliceShape_def by (rule deep_copier_slice) (rule podSummaries.array_type_axioms)

interpretation policySlice: deep_copier "itemsShape defensePolicies plainShape" "copySlice defensePolicies"
  by (rule deep_copier_slice) (rule defensePolicies.array_type_axioms)

lemmas pod_copier = podSlice.deep_copier_axioms

lemma copier_eq: "deep_copier S c \<Longrightarrow> (\<And>s. c' s = c s) \<Longrightarrow> deep_copier S c'"
  by (metis ext)

interpretation changePodSpec: deep_copier changePodSpecShape ChangePodSpec_DeepCopyInto
  unfolding changePodSpecShape_def
  by (rule copier_eq [OF deep_copier_struct [where put = "\<lambda>s p. s\<lparr>spPodInfos := p\<rparr>", OF pod_copier]])
    (simp_all add: ChangePodSpec_DeepCopyInto_def copyStruct_def)

interpretation changePodStatus: deep_copier changePodStatusShape ChangePodStatus_DeepCopyInto
  unfolding changePodStatusShape_def
  by (rule copier_eq [OF deep_copier_struct [where put = "\<lambda>s p. s\<lparr>stPodResults := p\<rparr>", OF pod_copier]])
    (simp_all add: ChangePodStatus_DeepCopyInto_def copyStruct_def)

interpretation changeWorkloadSpec: deep_copier changeWorkloadSpecShape ChangeWorkloadSpec_DeepCopyInto
  unfolding changeWorkloadSpecShape_def
  by (rule copier_eq [OF deep_copier_struct
        [where put = "\<lambda>s p. s\<lparr>wsPolicies := p\<rparr>", OF policySlice.deep_copier_axioms]])
    (simp_all add: ChangeWorkloadSpec_DeepCopyInto_def copyStruct_def)

interpretation changeWorkloadStatus: deep_copier changeWorkloadStatusShape ChangeWorkloadStatus_DeepCopyInto
  unfolding changeWorkloadStatusShape_def
  by (rule copier_eq [OF deep_copier_struct
        [where put = "\<lambda>s (a, b, c, d). s\<lparr>wtDefensePreparingPods := a, wtDefenseCheckingPods := b,
           wtDefenseCheckPassPods := c, wtDefenseCheckFailPods := d\<rparr>",
         OF deep_copier_pair [OF pod_copier deep_copier_pair [OF pod_copier deep_copier_pair [OF pod_copier pod_copier]]]]])
    (auto simp: ChangeWorkloadStatus_DeepCopyInto_def copyStruct_def copyPair_def split: prod.splits)

subsection \<open>Metadata\<close>

definition labelShape :: "(nat option, labels) shape" where
  "labelShape = \<lparr>foot = (\<lambda>h a. set_option a),
     view = (\<lambda>h a. case a of None \<Rightarrow> None | Some p \<Rightarrow> (case hCells h p of LabelMap m \<Rightarrow> Some m | _ \<Rightarrow> None)),
     valid = (\<lambda>h a. case a of None \<Rightarrow> True
       | Some p \<Rightarrow> p < hNext h \<and> (case hCells h p of LabelMap m \<Rightarrow> True | _ \<Rightarrow> False))\<rparr>"

definition ownerReferences :: "ownerReference arrayType" where
  "ownerReferences = \<lparr>atGet = (\<lambda>c. case c of OwnerReferencesCell xs \<Rightarrow> Some xs | _ \<Rightarrow> None),
     atPut = OwnerReferencesCell, atZero = \<lparr>refKind = '''', refName = ''''\<rparr>\<rparr>"

definition int64s :: "int arrayType" where
  "int64s = \<lparr>atGet = (\<lambda>c. case c of Int64s xs \<Rightarrow> Some xs | _ \<Rightarrow> None), atPut = Int64s, atZero = 0\<rparr>"

interpretation ownerReferences: array_type ownerReferences
  by unfold_locales (simp add: ownerReferences_def)

interpretation int64s: array_type int64s
  by unfold_locales (simp add: int64s_def)

definition metaShape :: "(objectMetaMem, objectMeta) shape" where
  "metaShape = structShape (\<lambda>m. (mmLabels m, mmOwners m))
     (\<lambda>m (l, os). \<lparr>Namespace = mmNamespace m, Name = mmName m, Labels = l, OwnerReferences = goList os,
       ResourceVersion = mmVersion m\<rparr>)
     (pairShape labelShape (itemsShape ownerReferences plainShape))"

definition listMetaShape :: "(listMetaMem, string \<times> int option) shape" where
  "listMetaShape = structShape lmRemaining (\<lambda>m r. (lmVersion m, r)) (refShape int64s plainShape)"

subsection \<open>Objects and lists\<close>

definition changePodShape :: "(changePodMem, typeMeta \<times> changePod) shape" where
  "changePodShape = structShape (\<lambda>o'. (pmMeta o', pmSpec o', pmStatus o'))
     (\<lambda>o' (m, s, t). (pmType o', objectMeta.extend m \<lparr>cpSpec = s, cpStatus = t\<rparr>))
     (pairShape metaShape (pairShape changePodSpecShape changePodStatusShape))"

definition changeWorkloadShape :: "(changeWorkloadMem, typeMeta \<times> changeWorkload) shape" where
  "changeWorkloadShape = structShape (\<lambda>o'. (wmMeta o', wmSpec o', wmStatus o'))
     (\<lambda>o' (m, s, t). (wmType o', objectMeta.extend m \<lparr>cwSpec = s, cwStatus = t\<rparr>))
     (pairShape metaShape (pairShape changeWorkloadSpecShape changeWorkloadStatusShape))"

definition opsConfigInfoShape :: "(opsConfigInfoMem, typeMeta \<times> opsConfigInfo) shape" where
  "opsConfigInfoShape = structShape omMeta
     (\<lambda>o' m. (omType o', objectMeta.extend m \<lparr>ociType = osType (omSpec o'), ociContent = osContent (omSpec o'),
       ociRemark = osRemark (omSpec o'), ociEnable = osEnable (omSpec o')\<rparr>))
     metaShape"

type_synonym 'a listValue = "typeMeta \<times> (string \<times> int option) \<times> (typeMeta \<times> 'a) list"

definition listShape :: "'s arrayType \<Rightarrow> ('s, typeMeta \<times> 'a) shape \<Rightarrow> (listMem, 'a listValue) shape" where
  "listShape T A = structShape (\<lambda>l. (liMeta l, liItems l)) (\<lambda>l (m, xs). (liType l, m, goList xs))
     (pairShape listMetaShape (itemsShape T A))"

text \<open>The types that implement \<open>runtime.Object\<close>, and what their pointers stand for.\<close>

datatype objectValue =
    NoValue
  | ChangePodValue "typeMeta \<times> changePod"
  | ChangePodListValue "changePod listValue"
  | ChangeWorkloadValue "typeMeta \<times> changeWorkload"
  | ChangeWorkloadListValue "changeWorkload listValue"
  | OpsConfigInfoValue "typeMeta \<times> opsConfigInfo"
  | OpsConfigInfoListValue "opsConfigInfo listValue"

definition objectFoot :: "heap \<Rightarrow> heapObject \<Rightarrow> nat set" where
  "objectFoot h x = (case x of
       NilObject \<Rightarrow> {}
     | ChangePodAt r \<Rightarrow> foot (refShape changePodArrays changePodShape) h (Some r)
     | ChangePodListAt r \<Rightarrow> foot (refShape changePodLists (listShape changePodArrays changePodShape)) h (Some r)
     | ChangeWorkloadAt r \<Rightarrow> foot (refShape changeWorkloadArrays changeWorkloadShape) h (Some r)
     | ChangeWorkloadListAt r \<Rightarrow> foot (refShape changeWorkloadLists (listShape changeWorkloadArrays changeWorkloadShape)) h (Some r)
     | OpsConfigInfoAt r \<Rightarrow> foot (refShape opsConfigInfoArrays opsConfigInfoShape) h (Some r)
     | OpsConfigInfoListAt r \<Rightarrow> foot (refShape opsConfigInfoLists (listShape opsConfigInfoArrays opsConfigInfoShape)) h (Some r))"

definition objectView :: "heap \<Rightarrow> heapObject \<Rightarrow> objectValue" where
  "objectView h x = (case x of
       NilObject \<Rightarrow> NoValue
     | ChangePodAt r \<Rightarrow> ChangePodValue (the (view (refShape changePodArrays changePodShape) h (Some r)))
     | ChangePodListAt r \<Rightarrow> ChangePodListValue (the (view (refShape changePodLists (listShape changePodArrays changePodShape)) h (Some r)))
     | ChangeWorkloadAt r \<Rightarrow> ChangeWorkloadValue (the (view (refShape changeWorkloadArrays changeWorkloadShape) h (Some r)))
     | ChangeWorkloadListAt r \<Rightarrow> ChangeWorkloadListValue (the (view (refShape changeWorkloadLists (listShape changeWorkloadArrays changeWorkloadShape)) h (Some r)))
     | OpsConfigInfoAt r \<Rightarrow> OpsConfigInfoValue (the (view (refShape opsConfigInfoArrays opsConfigInfoShape) h (Some r)))
     | OpsConfigInfoListAt r \<Rightarrow> OpsConfigInfoListValue (the (view (refShape opsConfigInfoLists (listShape opsConfigInfoArrays opsConfigInfoShape)) h (Some r))))"

definition objectValid :: "heap \<Rightarrow> heapObject \<Rightarrow> bool" where
  "objectValid h x = (case x of
       NilObject \<Rightarrow> False
     | ChangePodAt r \<Rightarrow> valid (refShape changePodArrays changePodShape) h (Some r)
     | ChangePodListAt r \<Rightarrow> valid (refShape changePodLists (listShape changePodArrays changePodShape)) h (Some r)
     | ChangeWorkloadAt r \<Rightarrow> valid (refShape changeWorkloadArrays changeWorkloadShape) h (Some r)
     | ChangeWorkloadListAt r \<Rightarrow> valid (refShape changeWorkloadLists (listShape changeWorkloadArrays changeWorkloadShape)) h (Some r)
     | OpsConfigInfoAt r \<Rightarrow> valid (refShape opsConfigInfoArrays opsConfigInfoShape) h (Some r)
     | OpsConfigInfoListAt r \<Rightarrow> valid (refShape opsConfigInfoLists (listShape opsConfigInfoArrays opsConfigInfoShape)) h (Some r))"

definition objectShape :: "(heapObject, objectValue) shape" where
  "objectShape = \<lparr>foot = objectFoot, view = objectView, valid = objectValid\<rparr>"

text \<open>
  \<open>x.DeepCopyObject()\<close> on an interface, by the type of what it holds. On a nil interface the
  call panics; \<open>objectValid\<close> excludes it.
\<close>

definition DeepCopyObject :: "metaCopy \<Rightarrow> listMetaCopy \<Rightarrow> heapObject \<Rightarrow> (heap, heapObject) state" where
  "DeepCopyObject copyMeta copyListMeta x = (case x of
       NilObject \<Rightarrow> State_Monad.return NilObject
     | ChangePodAt r \<Rightarrow> ChangePod_DeepCopyObject copyMeta (Some r)
     | ChangePodListAt r \<Rightarrow> ChangePodList_DeepCopyObject copyMeta copyListMeta (Some r)
     | ChangeWorkloadAt r \<Rightarrow> ChangeWorkload_DeepCopyObject copyMeta (Some r)
     | ChangeWorkloadListAt r \<Rightarrow> ChangeWorkloadList_DeepCopyObject copyMeta copyListMeta (Some r)
     | OpsConfigInfoAt r \<Rightarrow> OpsConfigInfo_DeepCopyObject copyMeta (Some r)
     | OpsConfigInfoListAt r \<Rightarrow> OpsConfigInfoList_DeepCopyObject copyMeta copyListMeta (Some r))"

locale apimachinery =
  fixes copyMeta :: metaCopy and copyListMeta :: listMetaCopy
  assumes meta_copier: "deep_copier metaShape copyMeta"
    and list_meta_copier: "deep_copier listMetaShape copyListMeta"
begin

lemma changePod_copier: "deep_copier changePodShape (ChangePod_DeepCopyInto copyMeta)"
  unfolding changePodShape_def
  by (rule copier_eq [OF deep_copier_struct
        [where put = "\<lambda>x (m, s, t). x\<lparr>pmMeta := m, pmSpec := s, pmStatus := t\<rparr>",
         OF deep_copier_pair [OF meta_copier deep_copier_pair
           [OF changePodSpec.deep_copier_axioms changePodStatus.deep_copier_axioms]]]])
    (auto simp: ChangePod_DeepCopyInto_def copyStruct_def copyPair_def split: prod.splits)

lemma changeWorkload_copier: "deep_copier changeWorkloadShape (ChangeWorkload_DeepCopyInto copyMeta)"
  unfolding changeWorkloadShape_def
  by (rule copier_eq [OF deep_copier_struct
        [where put = "\<lambda>x (m, s, t). x\<lparr>wmMeta := m, wmSpec := s, wmStatus := t\<rparr>",
         OF deep_copier_pair [OF meta_copier deep_copier_pair
           [OF changeWorkloadSpec.deep_copier_axioms changeWorkloadStatus.deep_copier_axioms]]]])
    (auto simp: ChangeWorkload_DeepCopyInto_def copyStruct_def copyPair_def split: prod.splits)

lemma opsConfigInfo_copier: "deep_copier opsConfigInfoShape (OpsConfigInfo_DeepCopyInto copyMeta)"
  unfolding opsConfigInfoShape_def
  by (rule copier_eq [OF deep_copier_struct [where put = "\<lambda>x m. x\<lparr>omMeta := m\<rparr>", OF meta_copier]])
    (simp_all add: OpsConfigInfo_DeepCopyInto_def copyStruct_def)

lemma list_copier:
  assumes "array_type T" "deep_copier A into"
    and "\<And>src. c src = do {
      m \<leftarrow> copyListMeta (liMeta src);
      xs \<leftarrow> copyItems T into (liItems src);
      State_Monad.return (src\<lparr>liMeta := m, liItems := xs\<rparr>)
    }"
  shows "deep_copier (listShape T A) c"
  unfolding listShape_def
  by (rule copier_eq [OF deep_copier_struct
        [where put = "\<lambda>x (m, xs). x\<lparr>liMeta := m, liItems := xs\<rparr>",
         OF deep_copier_pair [OF list_meta_copier deep_copier_items [OF assms(1,2)]]]])
    (auto simp: assms(3) copyStruct_def copyPair_def split: prod.splits)

lemma changePodList_copier:
  "deep_copier (listShape changePodArrays changePodShape) (ChangePodList_DeepCopyInto copyMeta copyListMeta)"
  by (rule list_copier [OF changePodArrays.array_type_axioms changePod_copier]) (rule ChangePodList_DeepCopyInto_def)

lemma changeWorkloadList_copier:
  "deep_copier (listShape changeWorkloadArrays changeWorkloadShape) (ChangeWorkloadList_DeepCopyInto copyMeta copyListMeta)"
  by (rule list_copier [OF changeWorkloadArrays.array_type_axioms changeWorkload_copier]) (rule ChangeWorkloadList_DeepCopyInto_def)

lemma opsConfigInfoList_copier:
  "deep_copier (listShape opsConfigInfoArrays opsConfigInfoShape) (OpsConfigInfoList_DeepCopyInto copyMeta copyListMeta)"
  by (rule list_copier [OF opsConfigInfoArrays.array_type_axioms opsConfigInfo_copier]) (rule OpsConfigInfoList_DeepCopyInto_def)

text \<open>\<open>DeepCopyObject\<close> of a pointer of each type.\<close>

lemmas ref_copiers =
  deep_copier_ref [OF changePodArrays.array_type_axioms changePod_copier]
  deep_copier_ref [OF changePodLists.array_type_axioms changePodList_copier]
  deep_copier_ref [OF changeWorkloadArrays.array_type_axioms changeWorkload_copier]
  deep_copier_ref [OF changeWorkloadLists.array_type_axioms changeWorkloadList_copier]
  deep_copier_ref [OF opsConfigInfoArrays.array_type_axioms opsConfigInfo_copier]
  deep_copier_ref [OF opsConfigInfoLists.array_type_axioms opsConfigInfoList_copier]

end

lemma newCopy_Some: "\<exists>r' h'. run_state (newCopy T into (Some r)) h = (Some r', h')"
  by (simp add: newCopy_def goNew_def goAlloc_def load_def storeAt_def case_prod_beta)

lemma asObject_copied:
  assumes "deep_copier (refShape T A) (newCopy T into)" "valid (refShape T A) h (Some r)"
    and "run_state (asObject tag (newCopy T into (Some r))) h = (x, h')"
  obtains r' where "x = tag r'" "grows h h'" "valid (refShape T A) h' (Some r')"
    "view (refShape T A) h' (Some r') = view (refShape T A) h (Some r)"
    "foot (refShape T A) h' (Some r') \<inter> {..<hNext h} = {}"
proof -
  obtain r' where "run_state (newCopy T into (Some r)) h = (Some r', h')" "x = tag r'"
    using assms(3) newCopy_Some [of T into r h] by (auto simp: asObject_def)
  then show ?thesis
    using that deep_copier.copied [OF assms(1,2)] by blast
qed

lemmas DeepCopyObject_defs = DeepCopyObject_def
  ChangePod_DeepCopyObject_def ChangePod_DeepCopy_def ChangePodList_DeepCopyObject_def ChangePodList_DeepCopy_def
  ChangeWorkload_DeepCopyObject_def ChangeWorkload_DeepCopy_def
  ChangeWorkloadList_DeepCopyObject_def ChangeWorkloadList_DeepCopy_def
  OpsConfigInfo_DeepCopyObject_def OpsConfigInfo_DeepCopy_def
  OpsConfigInfoList_DeepCopyObject_def OpsConfigInfoList_DeepCopy_def

lemmas objectShape_defs = objectShape_def objectFoot_def objectView_def objectValid_def

lemma heap_shape_objects:
  assumes "apimachinery copyMeta copyListMeta"
  shows "heap_shape objectShape"
proof
  note sh = apimachinery.ref_copiers [OF assms, THEN deep_copier.axioms(1)]
  fix h x
  assume v: "valid objectShape h x"
  show "foot objectShape h x \<subseteq> {..<hNext h}"
    using v sh [THEN heap_shape.allocated, of h "Some r" for r]
    by (cases x) (simp_all add: objectShape_defs)
  fix h'
  assume a: "agree (foot objectShape h x) h h'"
  show "valid objectShape h' x \<and> view objectShape h' x = view objectShape h x \<and>
      foot objectShape h' x = foot objectShape h x"
  proof (cases x)
    case NilObject
    then show ?thesis using v by (simp add: objectShape_defs)
  next
    case (ChangePodAt r)
    then show ?thesis
      using v a heap_shape.frame [OF sh(1), of h "Some r" h'] by (simp add: objectShape_defs)
  next
    case (ChangePodListAt r)
    then show ?thesis
      using v a heap_shape.frame [OF sh(2), of h "Some r" h'] by (simp add: objectShape_defs)
  next
    case (ChangeWorkloadAt r)
    then show ?thesis
      using v a heap_shape.frame [OF sh(3), of h "Some r" h'] by (simp add: objectShape_defs)
  next
    case (ChangeWorkloadListAt r)
    then show ?thesis
      using v a heap_shape.frame [OF sh(4), of h "Some r" h'] by (simp add: objectShape_defs)
  next
    case (OpsConfigInfoAt r)
    then show ?thesis
      using v a heap_shape.frame [OF sh(5), of h "Some r" h'] by (simp add: objectShape_defs)
  next
    case (OpsConfigInfoListAt r)
    then show ?thesis
      using v a heap_shape.frame [OF sh(6), of h "Some r" h'] by (simp add: objectShape_defs)
  qed
qed

lemma deep_copier_objects:
  assumes "apimachinery copyMeta copyListMeta"
  shows "deep_copier objectShape (DeepCopyObject copyMeta copyListMeta)"
proof (intro deep_copier.intro deep_copier_axioms.intro heap_shape_objects [OF assms])
  note c = apimachinery.ref_copiers [OF assms]
  fix h h' x x'
  assume v: "valid objectShape h x" and r: "run_state (DeepCopyObject copyMeta copyListMeta x) h = (x', h')"
  show "grows h h' \<and> valid objectShape h' x' \<and> view objectShape h' x' = view objectShape h x \<and>
      foot objectShape h' x' \<inter> {..<hNext h} = {}"
  proof (cases x)
    case NilObject
    then show ?thesis using v by (simp add: objectShape_defs)
  next
    case (ChangePodAt r)
    then show ?thesis
      using v r by (auto simp: objectShape_defs DeepCopyObject_defs elim!: asObject_copied [OF c(1), rotated])
  next
    case (ChangePodListAt r)
    then show ?thesis
      using v r by (auto simp: objectShape_defs DeepCopyObject_defs elim!: asObject_copied [OF c(2), rotated])
  next
    case (ChangeWorkloadAt r)
    then show ?thesis
      using v r by (auto simp: objectShape_defs DeepCopyObject_defs elim!: asObject_copied [OF c(3), rotated])
  next
    case (ChangeWorkloadListAt r)
    then show ?thesis
      using v r by (auto simp: objectShape_defs DeepCopyObject_defs elim!: asObject_copied [OF c(4), rotated])
  next
    case (OpsConfigInfoAt r)
    then show ?thesis
      using v r by (auto simp: objectShape_defs DeepCopyObject_defs elim!: asObject_copied [OF c(5), rotated])
  next
    case (OpsConfigInfoListAt r)
    then show ?thesis
      using v r by (auto simp: objectShape_defs DeepCopyObject_defs elim!: asObject_copied [OF c(6), rotated])
  qed
qed

sublocale apimachinery \<subseteq> objects: deep_copier objectShape "DeepCopyObject copyMeta copyListMeta"
  by (rule deep_copier_objects [OF apimachinery_axioms])

subsection \<open>A copy of metadata\<close>

definition copyLabels :: "nat option \<Rightarrow> (heap, nat option) state" where
  "copyLabels src = (case src of
     None \<Rightarrow> State_Monad.return None
   | Some p \<Rightarrow> do {
       m \<leftarrow> State (\<lambda>h. (hCells h p, h));
       q \<leftarrow> goAlloc m;
       State_Monad.return (Some q)
     })"

definition sampleCopyMeta :: metaCopy where
  "sampleCopyMeta = copyStruct (\<lambda>m. (mmLabels m, mmOwners m)) (\<lambda>m (l, os). m\<lparr>mmLabels := l, mmOwners := os\<rparr>)
     (copyPair copyLabels (copySlice ownerReferences))"

definition sampleCopyListMeta :: listMetaCopy where
  "sampleCopyListMeta = copyStruct lmRemaining (\<lambda>m r. m\<lparr>lmRemaining := r\<rparr>) (newCopy int64s State_Monad.return)"

lemma deep_copier_labels: "deep_copier labelShape copyLabels"
  by unfold_locales
    (auto simp: labelShape_def copyLabels_def goAlloc_def grows_def agree_def split: option.splits cell.splits)

interpretation sample: apimachinery sampleCopyMeta sampleCopyListMeta
proof (rule apimachinery.intro)
  show "deep_copier metaShape sampleCopyMeta"
    unfolding metaShape_def sampleCopyMeta_def
    by (rule deep_copier_struct [OF deep_copier_pair
          [OF deep_copier_labels deep_copier_slice [OF ownerReferences.array_type_axioms]]]) auto
  show "deep_copier listMetaShape sampleCopyListMeta"
    unfolding listMetaShape_def sampleCopyListMeta_def
    by (rule deep_copier_struct [OF deep_copier_ref [OF int64s.array_type_axioms plain.deep_copier_axioms]]) auto
qed

end
