(* ===== verification/Callback_Memory.thy ===== *)
theory Callback_Memory
  imports Callback Copy_Types
begin

section \<open>The patch of a verdict, in memory\<close>

text \<open>
  \<open>CheckCallBackHandler\<close> keeps \<open>changePod.DeepCopy()\<close> as the base of its patch and then
  writes to \<open>changePod\<close>, through a slice that \<open>Spec\<close> and \<open>Status\<close> share. Here is that
  branch on the memory of \<open>Go_Heap\<close>, and that it is \<open>callbackPost\<close>, where values are copied.
\<close>

subsection \<open>The branch\<close>

text \<open>\<open>x.f = v\<close> on the ChangePod that \<open>r\<close> points to\<close>

definition modifyAt :: "'a arrayType \<Rightarrow> ref \<Rightarrow> ('a \<Rightarrow> 'a) \<Rightarrow> (heap, unit) state" where
  "modifyAt T r f = do { x \<leftarrow> load T r; storeAt T r (f x) }"

definition modifyElem :: "'a arrayType \<Rightarrow> slice \<Rightarrow> nat \<Rightarrow> ('a \<Rightarrow> 'a) \<Rightarrow> (heap, unit) state" where
  "modifyElem T s i f = do { x \<leftarrow> readAt T s i; writeAt T s i (f x) }"

text \<open>The loop; a nil slice has no index.\<close>

primrec writeVerdicts :: "opsCloudChangeCheckVerdict \<Rightarrow> ref \<Rightarrow> nat list \<Rightarrow> (heap, unit) state" where
  "writeVerdicts verdict changePod [] = State_Monad.return ()"
| "writeVerdicts verdict changePod (i # js) = do {
     cp \<leftarrow> load changePodArrays changePod;
     (case stPodResults (pmStatus cp) of
        None \<Rightarrow> State_Monad.return ()
      | Some results \<Rightarrow> do {
          modifyElem podSummaries results i (\<lambda>ps. ps\<lparr>psVerdict := cvVerdict verdict\<rparr>);
          modifyElem podSummaries results i (\<lambda>ps. ps\<lparr>psMessage := cvMsg verdict\<rparr>)
        });
     writeVerdicts verdict changePod js
   }"

definition finishInMemory :: "metaCopy \<Rightarrow> opsCloudChangeCheckVerdict \<Rightarrow> string \<Rightarrow> int \<Rightarrow> ref \<Rightarrow> (heap, ref option) state" where
  "finishInMemory copyMeta verdict now unix changePod = do {
     base \<leftarrow> ChangePod_DeepCopy copyMeta (Some changePod);
     modifyAt changePodArrays changePod (\<lambda>cp. cp\<lparr>pmStatus := (pmStatus cp)\<lparr>stStatus := PostFinish\<rparr>\<rparr>);
     modifyAt changePodArrays changePod (\<lambda>cp. cp\<lparr>pmStatus := (pmStatus cp)\<lparr>stPodResults := spPodInfos (pmSpec cp)\<rparr>\<rparr>);
     cp \<leftarrow> load changePodArrays changePod;
     writeVerdicts verdict changePod
       [0..<(case stPodResults (pmStatus cp) of None \<Rightarrow> 0 | Some results \<Rightarrow> slLen results)];
     modifyAt changePodArrays changePod (\<lambda>cp. cp\<lparr>pmStatus := (pmStatus cp)\<lparr>stUpdateTime := now\<rparr>\<rparr>);
     modifyAt changePodArrays changePod (\<lambda>cp. cp\<lparr>pmStatus := (pmStatus cp)\<lparr>stUpdateTimeUnix := unix\<rparr>\<rparr>);
     State_Monad.return base
   }"

text \<open>The ChangePod a pointer stands for.\<close>

definition changePodAt :: "heap \<Rightarrow> ref \<Rightarrow> changePod" where
  "changePodAt h r = snd (view changePodShape h (arrayAt changePodArrays h (refPtr r) ! refIdx r))"

definition callbackPostInMemory ::
  "'e env \<Rightarrow> metaCopy \<Rightarrow> heap \<Rightarrow> ref \<Rightarrow> opsCloudChangeCheckVerdict \<Rightarrow> ('e world, response list) prog" where
  "callbackPostInMemory env copyMeta h changePod verdict =
     (if changePodState (changePodAt h changePod) = PostSubmitted then
        bindM (GetNowTime env) (\<lambda>now.
        bindM (nowUnix env) (\<lambda>unix.
          (case run_state (finishInMemory copyMeta verdict now unix changePod) h of
             (None, h') \<Rightarrow> crash
           | (Some base, h') \<Rightarrow>
               bindM (attempt (patchChangePodStatus env (changePodAt h' base) (changePodAt h' changePod))) (\<lambda>r.
                 case r of
                   Inl err \<Rightarrow> ret [(500, CommonErr (GetCommonCallbackErr err))]
                 | Inr _ \<Rightarrow> ret []))))
      else ret [(200, CommonSuccess GetCommonCallbackSuccess)])"

subsection \<open>Writes\<close>

lemma modifyAt_run [simp]:
  "run_state (modifyAt T r f) h = ((), setArray T (refPtr r)
     ((arrayAt T h (refPtr r))[refIdx r := f (arrayAt T h (refPtr r) ! refIdx r)]) h)"
  by (simp add: modifyAt_def load_def storeAt_def)

lemma modifyElem_run [simp]:
  "run_state (modifyElem T s i f) h = ((), setArray T (slPtr s)
     ((arrayAt T h (slPtr s))[slOff s + i := f (arrayAt T h (slPtr s) ! (slOff s + i))]) h)"
  by (simp add: modifyElem_def readAt_def writeAt_def)

lemma setArray_twice [simp]: "setArray T a ys (setArray T a xs h) = setArray T a ys h"
  by (simp add: setArray_def)

lemma arrayAt_other [simp]: "b \<noteq> a \<Longrightarrow> arrayAt T (setArray U a xs h) b = arrayAt T h b"
  by (rule arrayAt_cong) simp

lemma setArray_same: "hCells h a = atPut T xs \<Longrightarrow> setArray T a xs h = h"
  by (simp add: setArray_def fun_upd_idem)

definition judgedFrom :: "opsCloudChangeCheckVerdict \<Rightarrow> nat \<Rightarrow> podSummary list \<Rightarrow> nat list \<Rightarrow> podSummary list" where
  "judgedFrom verdict off = foldl (\<lambda>ys i. ys[off + i := judged verdict (ys ! (off + i))])"

lemma judgedFrom_range:
  "off + n \<le> length xs \<Longrightarrow>
    judgedFrom verdict off xs [0..<n] = take off xs @ map (judged verdict) (take n (drop off xs)) @ drop (off + n) xs"
proof (induction n)
  case (Suc n)
  have "off + n < length xs" using Suc.prems by simp
  then have "drop (off + n) xs = xs ! (off + n) # drop (Suc (off + n)) xs"
    by (rule Cons_nth_drop_Suc [symmetric])
  moreover have "\<not> length xs - off \<le> n" using \<open>off + n < length xs\<close> by simp
  ultimately show ?case
    using Suc by (simp add: judgedFrom_def list_update_append nth_append take_Suc_conv_app_nth min_def)
qed (simp add: judgedFrom_def)

lemma writeVerdicts_run:
  "\<lbrakk> hCells h (slPtr s) = PodSummaries xs;
     stPodResults (pmStatus (arrayAt changePodArrays h (refPtr r) ! refIdx r)) = Some s; refPtr r \<noteq> slPtr s \<rbrakk>
   \<Longrightarrow> run_state (writeVerdicts verdict r js) h =
     ((), setArray podSummaries (slPtr s) (judgedFrom verdict (slOff s) xs js) h)"
proof (induction js arbitrary: h xs)
  case Nil
  then show ?case by (simp add: judgedFrom_def setArray_same podSummaries_def)
next
  case (Cons i js)
  let ?j = "slOff s + i"
  let ?ys = "xs[?j := judged verdict (xs ! ?j)]"
  have xs: "arrayAt podSummaries h (slPtr s) = xs"
    using Cons.prems(1) by (simp add: arrayAt_def podSummaries_def)
  have two: "xs[?j := (xs[?j := (xs ! ?j)\<lparr>psVerdict := cvVerdict verdict\<rparr>] ! ?j)\<lparr>psMessage := cvMsg verdict\<rparr>] = ?ys"
    by (cases "?j < length xs") (simp_all add: judged_def list_update_beyond)
  have "run_state (writeVerdicts verdict r js) (setArray podSummaries (slPtr s) ?ys h) =
      ((), setArray podSummaries (slPtr s) (judgedFrom verdict (slOff s) ?ys js) (setArray podSummaries (slPtr s) ?ys h))"
    using Cons.prems(2,3) by (intro Cons.IH) (simp_all add: podSummaries_def)
  then show ?case
    using Cons.prems(2) by (simp add: load_def xs two judgedFrom_def)
qed

text \<open>The loop over the results in a slice: what it leaves alone, and what the slice then holds.\<close>

lemma podSlice_valid:
  "valid podSliceShape h (Some s) \<longleftrightarrow>
    slPtr s < hNext h \<and> (\<exists>xs. hCells h (slPtr s) = PodSummaries xs \<and> slOff s + slLen s \<le> length xs)"
  "foot podSliceShape h (Some s) = {slPtr s}" "foot podSliceShape h None = {}"
  "view podSliceShape h None = None"
  "hCells h (slPtr s) = PodSummaries xs \<Longrightarrow>
    view podSliceShape h (Some s) = Some (take (slLen s) (drop (slOff s) xs))"
  by (auto simp: podSliceShape_def itemsShape_def typedSlice_def plainShape_def podSummaries_def elems_def
      arrayAt_def list_all_iff split: cell.splits)

lemma podSlice_foot: "foot podSliceShape h so = (case so of None \<Rightarrow> {} | Some s \<Rightarrow> {slPtr s})"
  by (cases so) (simp_all add: podSlice_valid)

lemma goList_map: "goList (map_option (map f) v) = map f (goList v)"
  by (simp add: goList_def split: option.split)

lemma writeVerdicts_slice:
  assumes v: "valid podSliceShape h so" and r: "refPtr r \<notin> foot podSliceShape h so"
    and so: "stPodResults (pmStatus (arrayAt changePodArrays h (refPtr r) ! refIdx r)) = so"
  obtains h' where
    "run_state (writeVerdicts verdict r [0..<(case so of None \<Rightarrow> 0 | Some s \<Rightarrow> slLen s)]) h = ((), h')"
    "view podSliceShape h' so = map_option (map (judged verdict)) (view podSliceShape h so)"
    "valid podSliceShape h' so" "hNext h' = hNext h" "\<And>a. a \<notin> foot podSliceShape h so \<Longrightarrow> hCells h' a = hCells h a"
proof (cases so)
  case None
  then show ?thesis using v by (intro that [of h]) (simp_all add: podSlice_valid)
next
  case (Some s)
  obtain xs where xs: "hCells h (slPtr s) = PodSummaries xs" "slOff s + slLen s \<le> length xs"
    using v by (auto simp: Some podSlice_valid)
  have run: "run_state (writeVerdicts verdict r [0..<slLen s]) h =
      ((), setArray podSummaries (slPtr s) (judgedFrom verdict (slOff s) xs [0..<slLen s]) h)"
    using r by (intro writeVerdicts_run [OF xs(1)]) (simp_all add: so Some podSlice_valid)
  show ?thesis
    using xs v by (intro that [OF run [folded option.case(2) [of 0 slLen s], folded Some]])
      (simp_all add: Some podSlice_valid judgedFrom_range podSummaries_def)
qed

lemma meta_cells:
  assumes "valid metaShape h m" "a \<in> foot metaShape h m"
  shows "hCells h a \<noteq> PodSummaries xs" "hCells h a \<noteq> ChangePods cs"
  using assms
  by (auto simp: metaShape_def structShape_def pairShape_def labelShape_def itemsShape_def typedSlice_def
      plainShape_def ownerReferences_def split: option.splits cell.splits)

lemma changePod_shape:
  "valid changePodShape h x \<longleftrightarrow> valid metaShape h (pmMeta x) \<and> valid podSliceShape h (spPodInfos (pmSpec x)) \<and>
     valid podSliceShape h (stPodResults (pmStatus x))"
  "view changePodShape h x = (pmType x, objectMeta.extend (view metaShape h (pmMeta x))
     \<lparr>cpSpec = view changePodSpecShape h (pmSpec x), cpStatus = view changePodStatusShape h (pmStatus x)\<rparr>)"
  by (simp_all add: changePodShape_def changePodSpecShape_def changePodStatusShape_def structShape_def pairShape_def)

lemma changePod_ref:
  "valid (refShape changePodArrays changePodShape) h (Some r) \<longleftrightarrow> refPtr r < hNext h \<and>
     (\<exists>cs. hCells h (refPtr r) = ChangePods cs \<and> refIdx r < length cs \<and> valid changePodShape h (cs ! refIdx r))"
  "hCells h (refPtr r) = ChangePods cs \<Longrightarrow> refIdx r < length cs \<Longrightarrow>
     view (refShape changePodArrays changePodShape) h (Some r) = Some (view changePodShape h (cs ! refIdx r)) \<and>
     changePodAt h r = snd (view changePodShape h (cs ! refIdx r))"
  "hCells h (refPtr r) = ChangePods cs \<Longrightarrow> refIdx r < length cs \<Longrightarrow>
     insert (refPtr r) (foot podSliceShape h (spPodInfos (pmSpec (cs ! refIdx r))))
       \<subseteq> foot (refShape changePodArrays changePodShape) h (Some r)"
  by (auto simp: refShape_def itemsShape_def typedSlice_def slicePart_def elems_def arrayAt_def changePodArrays_def
      list_all_iff changePodAt_def take_Suc_conv_app_nth Cons_nth_drop_Suc [symmetric] changePodShape_def
      changePodSpecShape_def structShape_def pairShape_def split: cell.splits)

lemma changePodAt_view:
  "valid (refShape changePodArrays changePodShape) h (Some r) \<Longrightarrow>
    Some (changePodAt h r) = map_option snd (view (refShape changePodArrays changePodShape) h (Some r))"
  using changePod_ref by fastforce

text \<open>The writes to the ChangePod, on their own.\<close>

definition finishedChangePod :: "opsCloudChangeCheckVerdict \<Rightarrow> string \<Rightarrow> int \<Rightarrow> changePod \<Rightarrow> changePod" where
  "finishedChangePod verdict now unix cp = cp
     \<lparr>cpSpec := (cpSpec cp)\<lparr>cpPodInfos := map (judged verdict) (cpPodInfos (cpSpec cp))\<rparr>,
      cpStatus := (cpStatus cp)\<lparr>cpStatusStatus := PostFinish,
        cpPodResults := map (judged verdict) (cpPodInfos (cpSpec cp)), cpUpdateTime := now, cpUpdateTimeUnix := unix\<rparr>\<rparr>"

text \<open>The struct after the writes, and the cells.\<close>

definition finishedMem :: "string \<Rightarrow> int \<Rightarrow> changePodMem \<Rightarrow> changePodMem" where
  "finishedMem now unix x = x\<lparr>pmStatus := (pmStatus x)\<lparr>stStatus := PostFinish,
     stPodResults := spPodInfos (pmSpec x), stUpdateTime := now, stUpdateTimeUnix := unix\<rparr>\<rparr>"

lemma finish_cells:
  assumes cs: "hCells h (refPtr r) = ChangePods cs" "refIdx r < length cs"
    and so: "spPodInfos (pmSpec (cs ! refIdx r)) = so" and vs: "valid podSliceShape h so"
    and copy: "run_state (ChangePod_DeepCopy copyMeta (Some r)) h0 = (base, h)"
  obtains h' where "run_state (finishInMemory copyMeta verdict now unix r) h0 = (base, h')"
    "hCells h' (refPtr r) = ChangePods (cs[refIdx r := finishedMem now unix (cs ! refIdx r)])"
    "view podSliceShape h' so = map_option (map (judged verdict)) (view podSliceShape h so)"
    "hNext h' = hNext h" "\<And>a. a \<notin> insert (refPtr r) (foot podSliceShape h so) \<Longrightarrow> hCells h' a = hCells h a"
proof -
  define x where "x = cs ! refIdx r"
  have rs: "refPtr r \<notin> foot podSliceShape h so"
    using vs cs(1) by (cases so) (auto simp: podSlice_valid)
  let ?x1 = "x\<lparr>pmStatus := (pmStatus x)\<lparr>stStatus := PostFinish, stPodResults := so\<rparr>\<rparr>"
  let ?h1 = "setArray changePodArrays (refPtr r) (cs[refIdx r := ?x1]) h"
  have same: "valid podSliceShape ?h1 so \<and> view podSliceShape ?h1 so = view podSliceShape h so \<and>
      foot podSliceShape ?h1 so = foot podSliceShape h so"
    by (rule podSlice.frame [OF vs]) (use rs in \<open>auto simp: agree_def intro!: setArray_sel(2)\<close>)
  obtain h2 where loop: "run_state (writeVerdicts verdict r [0..<(case so of None \<Rightarrow> 0 | Some s \<Rightarrow> slLen s)]) ?h1 = ((), h2)"
    and "view podSliceShape h2 so = map_option (map (judged verdict)) (view podSliceShape ?h1 so)"
      "valid podSliceShape h2 so" "hNext h2 = hNext ?h1" "\<And>a. a \<notin> foot podSliceShape ?h1 so \<Longrightarrow> hCells h2 a = hCells ?h1 a"
    by (rule writeVerdicts_slice [of ?h1 so r verdict]) (use same rs cs(2) in simp_all)
  then have h2: "view podSliceShape h2 so = map_option (map (judged verdict)) (view podSliceShape h so)"
      "valid podSliceShape h2 so" "hNext h2 = hNext h" "\<And>a. a \<notin> foot podSliceShape h so \<Longrightarrow> hCells h2 a = hCells ?h1 a"
    using same by simp_all
  let ?h3 = "setArray changePodArrays (refPtr r) (cs[refIdx r := finishedMem now unix x]) h2"
  have "arrayAt changePodArrays h (refPtr r) = cs" "arrayAt changePodArrays h2 (refPtr r) = cs[refIdx r := ?x1]"
    using cs(1) h2(4) [OF rs] by (simp_all add: arrayAt_def changePodArrays_def)
  then have "run_state (finishInMemory copyMeta verdict now unix r) h0 = (base, ?h3)"
    using cs(2) loop so
    by (simp add: finishInMemory_def copy load_def x_def [symmetric] finishedMem_def)
  moreover have "view podSliceShape ?h3 so = view podSliceShape h2 so"
    by (intro podSlice.frame [OF h2(2), THEN conjunct2, THEN conjunct1])
      (use rs in \<open>auto simp: agree_def podSlice_foot intro!: setArray_sel(2)\<close>)
  ultimately show ?thesis
    using h2 by (intro that [of ?h3]) (simp_all add: changePodArrays_def x_def)
qed

lemma finish_writes:
  assumes m: "heap_shape metaShape" and v: "valid (refShape changePodArrays changePodShape) h (Some r)"
    and copy: "run_state (ChangePod_DeepCopy copyMeta (Some r)) h0 = (base, h)"
  obtains h' where "run_state (finishInMemory copyMeta verdict now unix r) h0 = (base, h')"
    "changePodAt h' r = finishedChangePod verdict now unix (changePodAt h r)"
    "agree (- foot (refShape changePodArrays changePodShape) h (Some r)) h h'"
proof -
  obtain cs where cs: "hCells h (refPtr r) = ChangePods cs" "refIdx r < length cs"
    and vx: "valid changePodShape h (cs ! refIdx r)"
    using v changePod_ref(1) by blast
  define x where "x = cs ! refIdx r"
  define so where "so = spPodInfos (pmSpec x)"
  have vm: "valid metaShape h (pmMeta x)" and vs: "valid podSliceShape h so"
    using vx by (simp_all add: changePod_shape x_def so_def)
  obtain h' where run: "run_state (finishInMemory copyMeta verdict now unix r) h0 = (base, h')"
    and r': "hCells h' (refPtr r) = ChangePods (cs[refIdx r := finishedMem now unix x])"
    and slice: "view podSliceShape h' so = map_option (map (judged verdict)) (view podSliceShape h so)"
    and others: "hNext h' = hNext h" "\<And>a. a \<notin> insert (refPtr r) (foot podSliceShape h so) \<Longrightarrow> hCells h' a = hCells h a"
    by (rule finish_cells [OF cs so_def [unfolded x_def, symmetric] vs copy, of verdict now unix]) (simp add: x_def)
  have "foot metaShape h (pmMeta x) \<inter> insert (refPtr r) (foot podSliceShape h so) = {}"
    using meta_cells [OF vm] vs cs(1) by (cases so) (auto simp: podSlice_valid)
  then have "agree (foot metaShape h (pmMeta x)) h h'"
    using others unfolding agree_def by (metis disjoint_iff order_refl)
  then have "view metaShape h' (pmMeta x) = view metaShape h (pmMeta x)"
    using heap_shape.frame [OF m vm] by blast
  then have "changePodAt h' r = finishedChangePod verdict now unix (changePodAt h r)"
    using cs(2) slice
    by (simp add: changePod_ref(2) [OF cs] changePod_ref(2) [OF r'] x_def [symmetric] changePod_shape
        changePodSpecShape_def changePodStatusShape_def structShape_def so_def finishedMem_def finishedChangePod_def
        goList_map objectMeta.defs)
  moreover have "insert (refPtr r) (foot podSliceShape h so) \<subseteq> foot (refShape changePodArrays changePodShape) h (Some r)"
    using changePod_ref(3) [OF cs] by (simp add: x_def so_def)
  moreover have "agree (- insert (refPtr r) (foot podSliceShape h so)) h h'"
    using others by (simp add: agree_def)
  ultimately show ?thesis
    using that [OF run] agree_subset by blast
qed

text \<open>The base of the patch still is the ChangePod of before, and the ChangePod is the finished one.\<close>

lemma finishInMemory_run:
  assumes a: "apimachinery copyMeta copyListMeta" and v: "valid (refShape changePodArrays changePodShape) h (Some r)"
  obtains base h' where "run_state (finishInMemory copyMeta verdict now unix r) h = (Some base, h')"
    "changePodAt h' base = changePodAt h r"
    "changePodAt h' r = finishedChangePod verdict now unix (changePodAt h r)"
proof -
  let ?S = "refShape changePodArrays changePodShape"
  have copier: "deep_copier ?S (ChangePod_DeepCopy copyMeta)"
    using apimachinery.ref_copiers(1) [OF a] by (rule copier_eq) (simp add: ChangePod_DeepCopy_def)
  note shape = deep_copier.axioms(1) [OF copier]
  obtain base h1 where copy: "run_state (ChangePod_DeepCopy copyMeta (Some r)) h = (Some base, h1)"
    unfolding ChangePod_DeepCopy_def using newCopy_Some by blast
  have r1: "valid ?S h1 (Some r)" "view ?S h1 (Some r) = view ?S h (Some r)"
    using heap_shape.frame_grows [OF shape v] deep_copier.copied [OF copier v copy] by blast+
  obtain h' where run: "run_state (finishInMemory copyMeta verdict now unix r) h = (Some base, h')"
    and new: "changePodAt h' r = finishedChangePod verdict now unix (changePodAt h1 r)"
    and others: "agree (- foot ?S h1 (Some r)) h1 h'"
    using finish_writes [OF deep_copier.axioms(1) [OF apimachinery.meta_copier [OF a]] r1(1) copy] by blast
  have "valid ?S h' (Some base) \<and> view ?S h' (Some base) = view ?S h (Some r)"
    by (rule deep_copier.independent(1) [OF copier v copy others])
  then have "changePodAt h' base = changePodAt h r"
    using changePodAt_view [of h' base] changePodAt_view [OF v] by (metis option.inject)
  moreover have "changePodAt h1 r = changePodAt h r"
    using changePodAt_view [OF r1(1)] changePodAt_view [OF v] r1(2) by (metis option.inject)
  ultimately show ?thesis using that [OF run] new by simp
qed

end
