(* ===== verification/Memory_Properties.thy ===== *)
theory Memory_Properties
  imports Callback_Memory Samples
begin

section \<open>Deep copies and the memory of the callback\<close>

text \<open>What the deep copies promise, and what the verdict callback does with one, on a sample heap.\<close>

subsection \<open>A sample heap\<close>

definition podNamed :: "string \<Rightarrow> podSummary" where
  "podNamed n = zeroPodSummary\<lparr>psPod := n\<rparr>"

text \<open>
  A ChangePod whose \<open>PodInfos\<close> are the last two elements of an array of three, in a list of
  one item.
\<close>

definition memChangePod :: changePodMem where
  "memChangePod = zeroChangePodMem
     \<lparr>pmMeta := zeroMetaMem\<lparr>mmNamespace := ''ns'', mmName := ''cp'', mmLabels := Some 1\<rparr>,
      pmSpec := zeroChangePodSpecMem\<lparr>spPodInfos := Some \<lparr>slPtr = 0, slOff = 1, slLen = 2\<rparr>\<rparr>,
      pmStatus := zeroChangePodStatusMem\<lparr>stStatus := PostSubmitted\<rparr>\<rparr>"

definition memList :: listMem where
  "memList = zeroListMem\<lparr>liItems := Some \<lparr>slPtr = 2, slOff = 0, slLen = 1\<rparr>\<rparr>"

definition memHeap :: heap where
  "memHeap = \<lparr>hNext = 4, hCells = (\<lambda>a. LabelMap Map.empty)
     (0 := PodSummaries [podNamed ''a'', podNamed ''b'', podNamed ''c''],
      1 := LabelMap [''k'' \<mapsto> ''v''], 2 := ChangePods [memChangePod], 3 := ChangePodLists [memList])\<rparr>"

definition memPod :: ref where
  "memPod = \<lparr>refPtr = 2, refIdx = 0\<rparr>"

definition memListRef :: ref where
  "memListRef = \<lparr>refPtr = 3, refIdx = 0\<rparr>"

definition failVerdict :: opsCloudChangeCheckVerdict where
  "failVerdict = \<lparr>cvVerdict = ''FAIL'', cvMsg = ''latency'', cvNodeId = ''7''\<rparr>"

lemma memHeap_cells [simp]:
  "hNext memHeap = 4"
  "hCells memHeap 0 = PodSummaries [podNamed ''a'', podNamed ''b'', podNamed ''c'']"
  "hCells memHeap (Suc 0) = LabelMap [''k'' \<mapsto> ''v'']"
  "hCells memHeap 2 = ChangePods [memChangePod]"
  "hCells memHeap 3 = ChangePodLists [memList]"
  by (simp_all add: memHeap_def)

lemmas mem_zero_defs = zeroMetaMem_def zeroChangePodMem_def zeroChangePodStatusMem_def zeroChangePodSpecMem_def
  zeroListMem_def zeroTypeMeta_def

lemma memChangePod_valid: "valid changePodShape memHeap memChangePod"
  by (simp add: changePod_shape podSlice_valid memChangePod_def mem_zero_defs)
    (simp add: podSliceShape_def itemsShape_def metaShape_def structShape_def pairShape_def labelShape_def)

lemma memPod_valid: "valid (refShape changePodArrays changePodShape) memHeap (Some memPod)"
  by (simp add: changePod_ref memChangePod_valid memPod_def)

lemma memList_valid: "objectValid memHeap (ChangePodListAt memListRef)"
  by (simp add: objectValid_def refShape_def itemsShape_def slicePart_def memListRef_def typedSlice_def elems_def
      arrayAt_def changePodLists_def changePodArrays_def listShape_def structShape_def pairShape_def memList_def
      listMetaShape_def mem_zero_defs memChangePod_valid)

subsection \<open>Properties\<close>

text \<open>
  C12 (type). A deep copy of a well-typed v1alpha1 object or list (every pointer,
  slice and label map it reaches has its type and is in bounds) is well-typed in the memory after
  it and stands for the same value of the same type; every other well-typed object stays
  well-typed and keeps its value.
\<close>

theorem DeepCopyObject_well_typed:
  assumes "apimachinery copyMeta copyListMeta" "objectValid h x"
    and "run_state (DeepCopyObject copyMeta copyListMeta x) h = (y, h')"
  shows "objectValid h' y \<and> objectView h' y = objectView h x \<and>
    (\<forall>z. objectValid h z \<longrightarrow> objectValid h' z \<and> objectView h' z = objectView h z)"
proof -
  note copier = deep_copier_objects [OF assms(1)]
  have c: "grows h h' \<and> objectValid h' y \<and> objectView h' y = objectView h x"
    using deep_copier.copied [OF copier _ assms(3)] assms(2) by (simp add: objectShape_def)
  moreover have "objectValid h' z \<and> objectView h' z = objectView h z" if "objectValid h z" for z
    using heap_shape.frame_grows [OF deep_copier.axioms(1) [OF copier], of h z h'] that c
    by (simp add: objectShape_def)
  ultimately show ?thesis by blast
qed

theorem DeepCopyObject_well_typed_witness:
  "case run_state (DeepCopyObject sampleCopyMeta sampleCopyListMeta (ChangePodListAt memListRef)) memHeap of
     (y, h') \<Rightarrow> objectValid h' y \<and> objectView h' y = objectView memHeap (ChangePodListAt memListRef)"
  using DeepCopyObject_well_typed [OF sample.apimachinery_axioms memList_valid surjective_pairing]
  by (simp add: case_prod_beta)

text \<open>
  C13 (safety). A deep copy shares no memory with its original: however the
  cells that the original reaches are overwritten afterwards, the copy keeps its value, and
  however those of the copy are, the original does.
\<close>

theorem DeepCopyObject_independent:
  assumes "apimachinery copyMeta copyListMeta" "objectValid h x"
    and "run_state (DeepCopyObject copyMeta copyListMeta x) h = (y, h')"
  shows "(\<forall>h''. agree (- objectFoot h' x) h' h'' \<longrightarrow> objectView h'' y = objectView h x) \<and>
    (\<forall>h''. agree (- objectFoot h' y) h' h'' \<longrightarrow> objectView h'' x = objectView h x)"
  using deep_copier.independent [OF deep_copier_objects [OF assms(1)] _ assms(3)] assms(2)
  by (simp add: objectShape_def)

theorem DeepCopyObject_independent_witness:
  "case run_state (DeepCopyObject sampleCopyMeta sampleCopyListMeta (ChangePodListAt memListRef)) memHeap of
     (y, h') \<Rightarrow> objectView (setArray podSummaries 0 [] h') y = objectView memHeap (ChangePodListAt memListRef)"
proof -
  let ?x = "ChangePodListAt memListRef"
  obtain y h' where run: "run_state (DeepCopyObject sampleCopyMeta sampleCopyListMeta ?x) memHeap = (y, h')"
    by (cases "run_state (DeepCopyObject sampleCopyMeta sampleCopyListMeta ?x) memHeap")
  have v: "valid objectShape memHeap ?x" using memList_valid by (simp add: objectShape_def)
  have "foot objectShape h' ?x = foot objectShape memHeap ?x"
    using sample.objects.frame_grows [OF v] sample.objects.copied [OF v run] by blast
  also have "0 \<in> \<dots>"
    by (simp add: objectShape_def objectFoot_def refShape_def itemsShape_def slicePart_def memListRef_def elems_def
        arrayAt_def changePodLists_def changePodArrays_def listShape_def structShape_def pairShape_def memList_def
        mem_zero_defs changePodShape_def changePodSpecShape_def memChangePod_def podSliceShape_def)
  finally have "0 \<in> objectFoot h' ?x" by (simp add: objectShape_def)
  then have "agree (- objectFoot h' ?x) h' (setArray podSummaries 0 [] h')"
    unfolding agree_def by (metis ComplD order_refl setArray_sel(1,2))
  then show ?thesis
    using DeepCopyObject_independent [OF sample.apimachinery_axioms memList_valid run] run by simp
qed

text \<open>
  C11 (refinement). The Post branch of the handler, on memory where \<open>Spec\<close> and
  \<open>Status\<close> of the ChangePod share one array and the base of the patch is \<open>changePod.DeepCopy()\<close>, is
  the branch of the value model: for every well-typed ChangePod, nil slices included, the patch
  goes from the ChangePod as it was to the ChangePod with the verdict, whatever else the memory
  holds.
\<close>

theorem callbackPost_in_memory:
  assumes "apimachinery copyMeta copyListMeta" "valid (refShape changePodArrays changePodShape) h (Some r)"
  shows "callbackPostInMemory env copyMeta h r verdict = callbackPost env (changePodAt h r) verdict"
proof -
  let ?cp = "changePodAt h r"
  let ?patch = "\<lambda>base cp. bindM (attempt (patchChangePodStatus env base cp)) (\<lambda>r. case r of
      Inl err \<Rightarrow> ret [(500, CommonErr (GetCommonCallbackErr err))] | Inr _ \<Rightarrow> ret [])"
  have step: "(case run_state (finishInMemory copyMeta verdict now unix r) h of
      (None, h') \<Rightarrow> crash
    | (Some base, h') \<Rightarrow> ?patch (changePodAt h' base) (changePodAt h' r)) =
      ?patch ?cp (finishedChangePod verdict now unix ?cp)" for now unix
    by (rule finishInMemory_run [OF assms, of verdict now unix]) simp
  show ?thesis
    unfolding callbackPostInMemory_def step callbackPost_def Let_def
    by (simp add: finishedChangePod_def judged_def)
qed

theorem callbackPost_in_memory_witness:
  "callbackPostInMemory clusterEnv sampleCopyMeta memHeap memPod failVerdict =
      callbackPost clusterEnv (changePodAt memHeap memPod) failVerdict \<and>
    map psPod (cpPodInfos (cpSpec (changePodAt memHeap memPod))) = [''b'', ''c''] \<and>
    changePodState (changePodAt memHeap memPod) = PostSubmitted"
  using callbackPost_in_memory [OF sample.apimachinery_axioms memPod_valid]
  by (simp add: changePodAt_def memPod_def arrayAt_def changePodArrays_def changePod_shape changePodSpecShape_def
      changePodStatusShape_def structShape_def memChangePod_def mem_zero_defs podSlice_valid goList_def podNamed_def
      zeroPodSummary_def objectMeta.defs)

end
