(* ===== verification/Spec2Isabelle.thy ===== *)
theory Spec2Isabelle
  imports Process_Utils Utility_Properties Webhook_Properties ChangePod_Properties Workload_Properties
    Runtime_Properties Process_Properties Life_Run Deploy_Run Recover_Run Collision_Run Memory_Properties
begin

text \<open>
  \<^bold>\<open>The program.\<close> The operator (\<open>src/\<close>, Go, controller-runtime) guards the rollout of
  Kubernetes Deployments. A mutating webhook gives every version of a Deployment the hash of its
  pod template; the Deployment controller creates one ChangeWorkload per version; the pod
  controller marks pods that run as finished; the ChangeWorkload controller gathers finished pods
  into ChangePods (batches) and collects their verdicts; the ChangePod controller announces a
  batch to the control plane, waits for the verdict callback and closes the batch. A failed pod
  suspends the Deployment: the validating webhook then refuses its updates. Background goroutines
  expire what waits too long and roll broken Deployments back; an OpsConfigInfo object switches
  batching and blocking on and off while the operator runs.

  \<^bold>\<open>How the code is modelled.\<close> A function that calls anything is a \<open>prog\<close> (theory
  \<open>Prelude\<close>): a function from a state to an outcome (\<open>Ok\<close>, \<open>Err\<close> for a returned Go error,
  \<open>Panic\<close>, \<open>Hang\<close> for a call that never returns) and the next state. \<open>attempt\<close> is a call
  whose error is inspected, \<open>logged\<close> one whose error is only logged. The state is the
  configuration variables of the process and an external state of any type; the Kubernetes
  client, the clock, the HTTP transport and the marshalling of foreign types are the parameter
  \<open>env\<close> (theory \<open>Client\<close>). Structs are records with the fields the code uses, status values
  stay the strings of the API, machine integers are \<open>int\<close> with the wrap-around of 64 bits
  written out where arithmetic can overflow, label maps are optional maps because assigning into
  a nil map panics, and an array shared by two fields is updated in both. The rest of the
  development passes structs by value; the memory that Go has behind them is modelled on its own
  (\<open>Go_Heap\<close>: one address space of arrays and label maps, slices and pointers into it, in the
  \<open>State_Monad\<close>), and \<open>callbackPost_in_memory\<close> connects the two. Instants are in
  nanoseconds. A goroutine's endless loop is modelled by one turn of it;
  the rollback loop, which can return, also as a whole (\<open>partial_function\<close>).

  \<^item> \<open>Prelude\<close>: outcomes, the program combinators, \<open>preserves\<close>, \<open>triple\<close> and the locale
    \<open>evolution\<close> for reasoning about all ways a program can end.
  \<^item> \<open>Go_Std\<close>, \<open>Go_Crypto\<close>: what is used of the Go standard library (integers, strings,
    strconv, time, JSON; MD5, SHA-256, hex, base64).
  \<^item> \<open>Constants\<close>, \<open>Api_Types\<close>, \<open>Common_Utils\<close>: constants, the CRD and Kubernetes structs,
    \<open>controllers/utils/common_utils.go\<close>.
  \<^item> \<open>Config_State\<close>, \<open>Config\<close>: \<open>controllers/utils/config.go\<close> and
    \<open>opsconfiginfo_controller.go\<close>; reading a switch that is not ready polls for ever
    (\<open>partial_function\<close>).
  \<^item> \<open>Factories\<close>: \<open>controllers/resource\<close>, with the locale \<open>labelled_factory\<close> for IFactory.
  \<^item> \<open>Ops_Client\<close>: \<open>controllers/client/opscloud_client.go\<close>; the retry loop terminates by the
    measure \<open>MaxRetryCount + 1 - r\<close>; the locale \<open>request_counter\<close> counts requests.
  \<^item> \<open>Pod_Controller\<close>, \<open>Deployment_Controller\<close>, \<open>Change_Pod\<close>, \<open>Change_Workload\<close>: the
    reconcilers of the files of the same names, with event filters, watches and field indexers.
  \<^item> \<open>Webhook\<close>, \<open>Callback\<close>, \<open>Web_Server\<close>: \<open>deployment_webhook.go\<close>, \<open>controllers/callback\<close>
    and \<open>routers/router.go\<close> with its CORS middleware.
  \<^item> \<open>Runnables\<close>: the loops of \<open>src/runnable\<close>.
  \<^item> \<open>Process_Utils\<close>, \<open>Manager\<close>: \<open>env_cache.go\<close>, \<open>log.go\<close>, \<open>main.go\<close>, the
    \<open>SetupWithManager\<close> functions as data, and the \<open>init\<close> functions that register the types.
  \<^item> \<open>Go_Heap\<close>, \<open>Deep_Copy\<close>: the v1alpha1 structs as they lie in memory, and
    \<open>zz_generated.deepcopy.go\<close> on it; \<open>Callback_Memory\<close>: the branch of the verdict callback that
    depends on a deep copy and on an array that two fields share.

  \<^bold>\<open>Specification and refinement.\<close> \<open>Lifecycle\<close> is the abstract protocol: \<open>statusStep\<close> is the
  status machine of a ChangePod with a rank that decreases, \<open>podSteps\<close> and \<open>workloadTrans\<close>
  the transitions of the stored ChangePods and ChangeWorkloads. \<open>Store_Laws\<close> states what the
  operator relies on at the API server (locales \<open>object_reads\<close>, \<open>object_writes\<close>): reads return
  a version that was stored at some time, a write with a resource version succeeds only on the
  version it names, a patch merges into whatever is stored. \<open>Refinement\<close> lifts these laws
  through the combinators, the locales \<open>changePod_world\<close> and \<open>workload_world\<close> bundle them,
  and \<open>Operator\<close> shows that every step of the operator refines the protocol. \<open>Kube_Store\<close>
  is a reference API server with caches that may be stale (an informer catches up during
  sleeps); all locales are interpreted on it. \<open>Samples\<close>, \<open>Cluster_Runs\<close> hold the concrete
  clusters of the witnesses.

  \<^bold>\<open>Deep copies.\<close> A \<open>shape\<close> (theory \<open>Copy_Laws\<close>) says which cells a value reaches, when it is
  well-typed and which value of the rest of the development it stands for. The locale
  \<open>deep_copier\<close> is the contract of a copy: new cells only, same value, nothing else changed; its
  lemma \<open>independent\<close> is the separation of copy and original. \<open>Copy_Slices\<close> shows it for slices,
  loops over items and pointers, \<open>Copy_Types\<close> for each generated function, from the same contract
  of apimachinery's metadata copies (locale \<open>apimachinery\<close>).

  \<^bold>\<open>What is shown.\<close> This theory: refinement of the protocol and the invariants along every run
  of the operator. \<open>Progress\<close> and \<open>ChangePod_Properties\<close>: successful reconciles advance a
  ChangePod, which pods are picked, where an interrupted ChangePod is stuck, the callback.
  \<open>Life_Run\<close>: a ChangePod that is left alone runs from its creation to its end.
  \<open>Suspend_Run\<close>: a failed verdict reaches the ChangeWorkload, the Deployment and the webhook;
  \<open>Verdict_Sync\<close>: the lists, the status and the suspend label that the verdicts call for, and
  when nothing is written; \<open>Resume_Run\<close>: once all pods have passed, the suspension is lifted,
  unless the lists are the same as before. \<open>Rollout_Batch\<close> and \<open>Rollout_Run\<close>: while the blocking
  switch is on, a rollout of any number of batches, with any verdicts, makes its ChangeWorkload
  successful or suspends it, as the verdicts say (\<open>Config_Kept\<close>: nothing in it writes the
  configuration); \<open>Recover_Run\<close>: a suspended rollout succeeds when its failed pods are replaced;
  \<open>Collision_Run\<close>: a rollout from which a ChangePod was deleted gets no further ones; \<open>Deploy_Run\<close>: all controllers together lead from a Deployment with a new version to that end.
  \<open>Workload_Properties\<close>: when ChangePods are created, how verdicts are collected and judged,
  which ChangeWorkloads are deleted. \<open>Webhook_Properties\<close>: mutator, validator and suspension
  together. \<open>Runtime_Properties\<close>: pods, Deployments, timeouts, rollback, web handlers.
  \<open>Process_Properties\<close>: every new version wakes the controller that has to act (locale
  \<open>event_source\<close>), and what the restart loop of \<open>main\<close> can do (locale \<open>manager_runtime\<close>).
  \<open>Utility_Properties\<close>: the helper functions, the configuration and the retry loop.
  \<open>Memory_Properties\<close>: deep copies are well-typed and independent, and the verdict callback in
  memory computes what its value model computes.

  \<^bold>\<open>Interleaving.\<close> The laws allow the rest of the cluster, and the other goroutines, to change the
  store between any two calls of one handler within the relation \<open>rely\<close>, so the refinement
  theorems hold for concurrent reconciles. Theorems about the reference cluster run one program
  alone, except during sleeps.

  \<^bold>\<open>Not modelled.\<close> Log output; the events that the injected recorders could write, which nothing
  uses; the Go memory model (the configuration accessors lock a mutex of their own and so do not
  synchronise; they are modelled as atomic reads); capacities of slices, as nothing appends to a
  slice it shares; the fields of \<open>metav1.ObjectMeta\<close> that no code reads; the position of the reader
  behind the body of an HTTP request, which belongs to the transport: a transport that refuses a
  request whose body it has read before is one of those that \<open>httpDo\<close> ranges over.
  \<open>DeploymentStatusPauseRun\<close> is modelled although \<open>main\<close> does not start it, so the step
  relation has one step more than the program.
\<close>

subsection \<open>Refinement and invariants\<close>

text \<open>
  C1 (refinement). Along every run of the operator - any interleaving of reconciles, background
  loops, web requests and restarts, with whatever the rest of the cluster is allowed to do in
  between - the stored ChangePods and the versions of them ever seen move only by transitions of
  the abstract life cycle \<open>podSteps\<close>: creation, deletion, a change that keeps the status, a step
  of the status machine, or a verdict patched in over whatever is stored.
\<close>

theorem operator_refines_changePods:
  assumes "changePod_world env rely good stored known"
    and "(operatorStep env)\<^sup>*\<^sup>* w t" "good (wExt w)"
  shows "good (wExt t) \<and>
    (view_step podSteps)\<^sup>*\<^sup>* (stored (wExt w), known (wExt w)) (stored (wExt t), known (wExt t))"
  by (rule changePod_world.operator_path_refines [OF assms])

theorem operator_refines_changePods_witness:
  "(let w = worldOf (sampleCluster PreWait []); t = snd (ChangePod_Reconcile clusterEnv sampleKey w)
    in (view_step podSteps)\<^sup>*\<^sup>*
         (shelfStored (clChangePods (wExt w)), shelfKnown (clChangePods (wExt w)))
         (shelfStored (clChangePods (wExt t)), shelfKnown (clChangePods (wExt t))))"
  unfolding Let_def
  using operator_refines_changePods [OF clusterPods.changePod_world_axioms
      r_into_rtranclp [where r = "operatorStep clusterEnv", OF operatorStep.changePod [OF prod.collapse [symmetric]]],
      of "worldOf (sampleCluster PreWait [])" sampleKey]
  by (simp add: worldOf_def)

text \<open>
  C2 (invariant). Along every run of the operator every stored ChangePod is stored under its own
  key, and every version that is stored or was ever seen has one of the eleven statuses; while it
  is submitted it carries the deadline the timeout loop measures it by; and once it is closed
  (\<open>ExecuteDone\<close>) it carries the ending it came from as its message, which is what the
  ChangeWorkload controller judges it by.
\<close>

theorem changePods_invariant:
  assumes "changePod_world env rely good stored known"
    and "(operatorStep env)\<^sup>*\<^sup>* w t" "good (wExt w)"
    and "podViewInv (stored (wExt w), known (wExt w))"
  shows "podViewInv (stored (wExt t), known (wExt t))"
  using changePod_world.operator_path_refines [OF assms(1-3)] assms(4) by (blast intro: podSteps_inv)

theorem changePods_invariant_witness:
  "podViewInv (let e = wExt (snd (ChangePod_Reconcile clusterEnv sampleKey (worldOf (sampleCluster PreWait []))))
     in (shelfStored (clChangePods e), shelfKnown (clChangePods e)))"
  unfolding Let_def
  by (rule changePods_invariant [OF clusterPods.changePod_world_axioms
        r_into_rtranclp [where r = "operatorStep clusterEnv", OF operatorStep.changePod [OF prod.collapse [symmetric]]]])
    (simp_all add: worldOf_def samplePods_inv changePod_status_defs)

text \<open>
  C3 (invariant). Along every run of the operator the ChangeWorkloads move only by
  \<open>workloadTrans\<close>, and every one that is stored or was ever seen has no preparing pods, is initial,
  running, successful or suspended, is suspended whenever a pod failed its check, and names every
  pod at most once in each of its two verdict lists.
\<close>

theorem changeWorkloads_invariant:
  assumes "workload_world env rely good stored known"
    and "(operatorStep env)\<^sup>*\<^sup>* w t" "good (wExt w)"
    and "workloadViewInv (stored (wExt w), known (wExt w))"
  shows "(view_step workloadTrans)\<^sup>*\<^sup>* (stored (wExt w), known (wExt w)) (stored (wExt t), known (wExt t)) \<and>
    workloadViewInv (stored (wExt t), known (wExt t))"
  using workload_world.operator_path_refines [OF assms(1-3)] assms(4) by (blast intro: workloadSteps_inv)

theorem changeWorkloads_invariant_witness:
  "workloadViewInv (let e = wExt (snd (ChangeWorkload_Reconcile clusterEnv sampleKey (worldOf (sampleCluster PreWait []))))
     in (shelfStored (clWorkloads e), shelfKnown (clWorkloads e)))"
  unfolding Let_def
  by (rule conjunct2 [OF changeWorkloads_invariant [OF clusterWorkloads.workload_world_axioms
        r_into_rtranclp [where r = "operatorStep clusterEnv", OF operatorStep.changeWorkload [OF prod.collapse [symmetric]]]]])
    (simp_all add: worldOf_def sampleWorkloads_inv)

text \<open>
  C22 (safety). On every reachable state the loop that lets a ChangeWorkload run into its timeout does
  nothing to any ChangeWorkload it may list: the list of preparing pods it waits for is written
  nowhere, so the status \<open>TimeOutPreThreshold\<close> is never given.
\<close>

theorem workload_timeout_never_fires:
  assumes "workload_world env rely good stored known"
    and "(operatorStep env)\<^sup>*\<^sup>* w t" "good (wExt w)"
    and "workloadViewInv (stored (wExt w), known (wExt w))"
    and "cw \<in> known (wExt t)"
  shows "expireWorkload env cw v = (Ok (), v)"
proof -
  have "workloadViewInv (stored (wExt t), known (wExt t))"
    using workload_world.operator_path_refines [OF assms(1-3)] assms(4) by (blast intro: workloadSteps_inv)
  then have "cwDefensePreparingPods (cwStatus cw) = []"
    using assms(5) by (auto simp: workloadViewInv_def workloadInv_def)
  then show ?thesis
    by (simp add: expireWorkload_def prog_simps)
qed

theorem workload_timeout_never_fires_witness:
  "expireWorkload clusterEnv (sampleWorkload Running) (worldOf emptyCluster) = (Ok (), worldOf emptyCluster)"
  by (rule workload_timeout_never_fires [OF clusterWorkloads.workload_world_axioms rtranclp.rtrancl_refl,
        of "worldOf (sampleCluster PreWait [])"])
    (simp_all add: worldOf_def sampleWorkloads_inv)

end
